(* ===== verification/Prelude.thy ===== *)
theory Prelude
  imports Main "HOL-Library.Multiset"
begin

text \<open>
  Shared vocabulary of the development: time and durations, the integer ranges of the
  database columns, SQL-style list operations, the error values of the store, and the
  statement/transaction monad in which the store operations are written.

  A store operation is a function from the database state and a schedule of connection
  faults to a result, a new database state and the rest of the schedule. Every SQL statement
  consumes one entry of the schedule, so a theorem about an operation covers every way in
  which its statements can fail, be lost in transit or succeed.
\<close>

named_theorems dbop_simps \<open>evaluation of store operations on a given fault schedule\<close>
named_theorems frame_intro \<open>parts of the state an operation leaves alone\<close>
named_theorems error_intro \<open>the errors an operation may return\<close>
named_theorems success_simps \<open>when an operation succeeds on a healthy connection\<close>
named_theorems runs_simps \<open>successful runs of store operations, statement by statement\<close>

section \<open>Time\<close>

text \<open>Timestamps and durations are integers counting nanoseconds (Go's \<open>time.Duration\<close>).\<close>

type_synonym time = int
type_synonym duration = int

abbreviation millisecond :: duration where "millisecond \<equiv> 1000000"
abbreviation second :: duration where "second \<equiv> 1000 * millisecond"
abbreviation minute :: duration where "minute \<equiv> 60 * second"

text \<open>Go's integer division truncates towards zero.\<close>

definition go_quot :: "int \<Rightarrow> int \<Rightarrow> int" where
  "go_quot a b = sgn a * sgn b * (\<bar>a\<bar> div \<bar>b\<bar>)"

definition milliseconds :: "duration \<Rightarrow> int" where
  "milliseconds d = go_quot d millisecond"

lemma milliseconds_nonneg: "0 \<le> d \<Longrightarrow> milliseconds d = d div millisecond"
  by (cases "d = 0") (auto simp: milliseconds_def go_quot_def)

lemma milliseconds_mono: "0 \<le> a \<Longrightarrow> a \<le> b \<Longrightarrow> milliseconds a \<le> milliseconds b"
  by (simp add: milliseconds_nonneg zdiv_mono1)

section \<open>Column ranges\<close>

definition max_bigint :: int where "max_bigint = 9223372036854775807"
definition max_int4 :: int where "max_int4 = 2147483647"

section \<open>SQL-style list operations\<close>

text \<open>\<open>order by\<close> is a stable sort, \<open>limit\<close> a prefix, \<open>select distinct\<close> keeps one of each.\<close>

definition order_by :: "('a \<Rightarrow> 'k::linorder) \<Rightarrow> 'a list \<Rightarrow> 'a list" where
  "order_by k xs = sort_key k xs"

definition limit_rows :: "int \<Rightarrow> 'a list \<Rightarrow> 'a list" where
  "limit_rows n xs = take (nat n) xs"

definition update_where :: "('a \<Rightarrow> bool) \<Rightarrow> ('a \<Rightarrow> 'a) \<Rightarrow> 'a list \<Rightarrow> 'a list" where
  "update_where P f xs = map (\<lambda>x. if P x then f x else x) xs"

definition count_where :: "('a \<Rightarrow> bool) \<Rightarrow> 'a list \<Rightarrow> int" where
  "count_where P xs = int (length (filter P xs))"

lemma set_update_where: "set (update_where P f xs) = (\<lambda>x. if P x then f x else x) ` set xs"
  by (simp add: update_where_def)

lemma update_where_Nil [simp]: "update_where P f [] = []"
  by (simp add: update_where_def)

lemma update_where_Cons [simp]:
  "update_where P f (x # xs) = (if P x then f x else x) # update_where P f xs"
  by (simp add: update_where_def)

lemma update_where_id: "(\<And>x. x \<in> set xs \<Longrightarrow> P x \<Longrightarrow> f x = x) \<Longrightarrow> update_where P f xs = xs"
  by (induction xs) auto

lemma map_update_where:
  "(\<And>x. x \<in> set xs \<Longrightarrow> P x \<Longrightarrow> g (f x) = g x) \<Longrightarrow> map g (update_where P f xs) = map g xs"
  by (induction xs) auto

lemma length_update_where [simp]: "length (update_where P f xs) = length xs"
  by (simp add: update_where_def)

lemma count_where_nonneg [simp]: "0 \<le> count_where P xs"
  by (simp add: count_where_def)

lemma count_where_Nil [simp]: "count_where P [] = 0"
  by (simp add: count_where_def)

lemma count_where_Cons [simp]:
  "count_where P (x # xs) = (if P x then 1 else 0) + count_where P xs"
  by (simp add: count_where_def)

lemma count_where_append [simp]: "count_where P (xs @ ys) = count_where P xs + count_where P ys"
  by (simp add: count_where_def)

lemma count_where_mono:
  "(\<And>x. x \<in> set xs \<Longrightarrow> P x \<Longrightarrow> Q x) \<Longrightarrow> count_where P xs \<le> count_where Q xs"
  by (induction xs) (auto simp: le_diff_eq)

lemma count_where_update_le:
  "(\<And>x. x \<in> set xs \<Longrightarrow> Q x \<Longrightarrow> P (f x) \<Longrightarrow> P x) \<Longrightarrow>
   count_where P (update_where Q f xs) \<le> count_where P xs"
  by (induction xs) auto

lemma count_where_update_less:
  assumes "x \<in> set xs" "Q x" "P x" "\<not> P (f x)"
    and "\<And>y. y \<in> set xs \<Longrightarrow> Q y \<Longrightarrow> P (f y) \<Longrightarrow> P y"
  shows "count_where P (update_where Q f xs) < count_where P xs"
  using assms
proof (induction xs)
  case Nil
  then show ?case by simp
next
  case (Cons y ys)
  have le: "count_where P (update_where Q f ys) \<le> count_where P ys"
    by (rule count_where_update_le) (use Cons.prems in auto)
  show ?case
  proof (cases "x = y")
    case True
    with Cons.prems le show ?thesis by auto
  next
    case False
    with Cons.prems have "count_where P (update_where Q f ys) < count_where P ys"
      by (intro Cons.IH) auto
    with Cons.prems show ?thesis by auto
  qed
qed

lemma count_where_mset: "mset xs = mset ys \<Longrightarrow> count_where P xs = count_where P ys"
  unfolding count_where_def by (metis mset_filter size_mset)

lemma set_order_by [simp]: "set (order_by k xs) = set xs"
  by (simp add: order_by_def)

lemma order_by_hd_min:
  assumes "order_by k xs = y # ys" "x \<in> set xs"
  shows "k y \<le> k x"
proof -
  from assms(1) have "sorted (map k (y # ys))"
    by (metis order_by_def sorted_sort_key)
  moreover from assms have "x \<in> set (y # ys)"
    by (metis set_order_by)
  ultimately show ?thesis by auto
qed

lemma list_ex_eq: "list_ex (\<lambda>x. f x = a) xs \<longleftrightarrow> a \<in> f ` set xs"
  by (induction xs) auto

lemma set_limit_rows: "set (limit_rows n xs) \<subseteq> set xs"
  by (simp add: limit_rows_def set_take_subset)

section \<open>Errors of the store\<close>

text \<open>
  The sentinel errors of \<open>internal/lease/types.go\<close> and \<open>internal/store/postgres/rc1.go\<close>,
  the structured \<open>GoneError\<close>, the driver's \<open>pgx.ErrNoRows\<close>, and two classes of raw driver
  errors: a lost connection and an error raised by the server for the statement itself (a
  constraint violation or a value out of range).
\<close>

datatype store_error =
    ErrNotFound
  | ErrNotHolder
  | ErrUnavailable
  | GoneError (gone_Reason: string) (gone_SuccessorID: string) (gone_ExecutionID: string)
  | ErrInvalidInput
  | ErrPrecedence
  | ErrForbidden
  | ErrSessionRevoked
  | ErrReplay
  | ErrBudget
  | ErrNoRows
  | ErrConn
  | ErrSQL

definition wrapStore :: "store_error \<Rightarrow> store_error" where
  "wrapStore err =
     (case err of
        ErrNotFound \<Rightarrow> err | ErrNotHolder \<Rightarrow> err | GoneError _ _ _ \<Rightarrow> err
      | ErrInvalidInput \<Rightarrow> err | ErrPrecedence \<Rightarrow> err | ErrForbidden \<Rightarrow> err
      | _ \<Rightarrow> ErrUnavailable)"

lemma wrapStore_idem [simp]: "wrapStore (wrapStore e) = wrapStore e"
  by (cases e) (simp_all add: wrapStore_def)

section \<open>Statements and transactions\<close>

text \<open>
  What happens to one statement sent to the database: it runs, it fails before taking effect,
  or it takes effect and the reply is lost.
\<close>

datatype fault = Fine | Fail | LostAck

type_synonym 'a res = "store_error + 'a"
type_synonym ('s, 'a) dbop = "'s \<Rightarrow> fault list \<Rightarrow> 'a res \<times> 's \<times> fault list"

definition ret :: "'a \<Rightarrow> ('s, 'a) dbop" where
  "ret a s fs = (Inr a, s, fs)"

definition throw :: "store_error \<Rightarrow> ('s, 'a) dbop" where
  "throw e s fs = (Inl e, s, fs)"

definition andThen :: "('s, 'a) dbop \<Rightarrow> ('a \<Rightarrow> ('s, 'b) dbop) \<Rightarrow> ('s, 'b) dbop" where
  "andThen m k s fs =
     (case m s fs of
        (Inl e, s', fs') \<Rightarrow> (Inl e, s', fs')
      | (Inr a, s', fs') \<Rightarrow> k a s' fs')"

definition attempt :: "('s, 'a) dbop \<Rightarrow> ('a res \<Rightarrow> ('s, 'b) dbop) \<Rightarrow> ('s, 'b) dbop" where
  "attempt m k s fs = (case m s fs of (r, s', fs') \<Rightarrow> k r s' fs')"

definition wrapping :: "('s, 'a) dbop \<Rightarrow> ('s, 'a) dbop" where
  "wrapping m s fs =
     (case m s fs of
        (Inl e, s', fs') \<Rightarrow> (Inl (wrapStore e), s', fs')
      | (Inr a, s', fs') \<Rightarrow> (Inr a, s', fs'))"

definition run_stmt :: "('s \<Rightarrow> store_error + 'a \<times> 's) \<Rightarrow> 's \<Rightarrow> 'a res \<times> 's" where
  "run_stmt f s = (case f s of Inl e \<Rightarrow> (Inl e, s) | Inr (a, s') \<Rightarrow> (Inr a, s'))"

definition stmt :: "('s \<Rightarrow> store_error + 'a \<times> 's) \<Rightarrow> ('s, 'a) dbop" where
  "stmt f s fs =
     (case fs of
        [] \<Rightarrow> (fst (run_stmt f s), snd (run_stmt f s), [])
      | Fine # r \<Rightarrow> (fst (run_stmt f s), snd (run_stmt f s), r)
      | Fail # r \<Rightarrow> (Inl ErrConn, s, r)
      | LostAck # r \<Rightarrow> (Inl ErrConn, snd (run_stmt f s), r))"

definition query :: "('s \<Rightarrow> 'a) \<Rightarrow> ('s, 'a) dbop" where
  "query f = stmt (\<lambda>s. Inr (f s, s))"

definition query_row :: "('s \<Rightarrow> 'a option) \<Rightarrow> ('s, 'a) dbop" where
  "query_row f = stmt (\<lambda>s. case f s of None \<Rightarrow> Inl ErrNoRows | Some a \<Rightarrow> Inr (a, s))"

definition modify :: "('s \<Rightarrow> 's) \<Rightarrow> ('s, unit) dbop" where
  "modify f = stmt (\<lambda>s. Inr ((), f s))"

text \<open>
  \<open>pool.Begin\<close>, the body, and \<open>tx.Commit\<close> or the deferred \<open>tx.Rollback\<close>. A commit whose
  acknowledgement is lost has taken effect although the caller sees an error. Every error that
  leaves a transaction has gone through \<open>wrapStore\<close>; the errors the source returns unwrapped
  from inside a transaction are the ones \<open>wrapStore\<close> leaves alone.
\<close>

definition commit :: "'s \<Rightarrow> 'a \<Rightarrow> ('s, 'a) dbop" where
  "commit s0 a s fs =
     (case fs of
        [] \<Rightarrow> (Inr a, s, [])
      | Fine # r \<Rightarrow> (Inr a, s, r)
      | Fail # r \<Rightarrow> (Inl ErrConn, s0, r)
      | LostAck # r \<Rightarrow> (Inl ErrConn, s, r))"

definition transact :: "('s, 'a) dbop \<Rightarrow> ('s, 'a) dbop" where
  "transact body = wrapping (\<lambda>s fs.
     (case query (\<lambda>_. ()) s fs of
        (Inl e, s1, fs1) \<Rightarrow> (Inl e, s1, fs1)
      | (Inr _, s1, fs1) \<Rightarrow>
          (case body s1 fs1 of
             (Inl e, s2, fs2) \<Rightarrow> (Inl e, s, fs2)
           | (Inr a, s2, fs2) \<Rightarrow> commit s a s2 fs2)))"

subsection \<open>Evaluation on a fault-free schedule\<close>

lemma ret_eval [dbop_simps]: "ret a s fs = (Inr a, s, fs)"
  by (simp add: ret_def)

lemma throw_eval [dbop_simps]: "throw e s fs = (Inl e, s, fs)"
  by (simp add: throw_def)

lemma stmt_eval [dbop_simps]: "stmt f s [] = (fst (run_stmt f s), snd (run_stmt f s), [])"
  by (simp add: stmt_def)

lemma query_eval [dbop_simps]: "query f s [] = (Inr (f s), s, [])"
  by (simp add: query_def stmt_eval run_stmt_def)

lemma query_row_eval [dbop_simps]:
  "query_row f s [] = (case f s of None \<Rightarrow> Inl ErrNoRows | Some a \<Rightarrow> Inr a, s, [])"
  by (simp add: query_row_def stmt_eval run_stmt_def split: option.split)

lemma modify_eval [dbop_simps]: "modify f s [] = (Inr (), f s, [])"
  by (simp add: modify_def stmt_eval run_stmt_def)

lemma andThen_eval [dbop_simps]:
  "andThen m k s fs = (case m s fs of (Inl e, s', fs') \<Rightarrow> (Inl e, s', fs') | (Inr a, s', fs') \<Rightarrow> k a s' fs')"
  by (simp add: andThen_def)

lemma attempt_eval [dbop_simps]:
  "attempt m k s fs = (case m s fs of (r, s', fs') \<Rightarrow> k r s' fs')"
  by (simp add: attempt_def)

lemma wrapping_eval [dbop_simps]:
  "wrapping m s fs = (case m s fs of (r, s', fs') \<Rightarrow> (map_sum wrapStore id r, s', fs'))"
  by (auto simp: wrapping_def split: sum.split prod.split)

lemma transact_eval [dbop_simps]:
  "transact body s [] =
     (case body s [] of
        (Inl e, s', fs') \<Rightarrow> (Inl (wrapStore e), s, fs')
      | (Inr a, s', fs') \<Rightarrow>
          (case commit s a s' fs' of (r, s'', fs'') \<Rightarrow> (map_sum wrapStore id r, s'', fs'')))"
  by (cases "body s []"; cases "fst (body s [])")
    (simp_all add: transact_def wrapping_eval query_eval)

lemma commit_eval [dbop_simps]: "commit s0 a s [] = (Inr a, s, [])"
  by (simp add: commit_def)

subsection \<open>Successful runs\<close>

text \<open>\<open>runs m s a s'\<close>: on some fault schedule, \<open>m\<close> started in \<open>s\<close> returns \<open>a\<close> and leaves \<open>s'\<close>.\<close>

definition runs :: "('s, 'a) dbop \<Rightarrow> 's \<Rightarrow> 'a \<Rightarrow> 's \<Rightarrow> bool" where
  "runs m s a s' \<longleftrightarrow> (\<exists>fs fs'. m s fs = (Inr a, s', fs'))"

definition fails :: "('s, 'a) dbop \<Rightarrow> 's \<Rightarrow> store_error \<Rightarrow> 's \<Rightarrow> bool" where
  "fails m s e s' \<longleftrightarrow> (\<exists>fs fs'. m s fs = (Inl e, s', fs'))"

text \<open>\<open>ends m s s'\<close>: the state may be \<open>s'\<close> when \<open>m\<close> is over, whether it succeeded or not.\<close>

definition ends :: "('s, 'a) dbop \<Rightarrow> 's \<Rightarrow> 's \<Rightarrow> bool" where
  "ends m s s' \<longleftrightarrow> (\<exists>fs. fst (snd (m s fs)) = s')"

lemma ends_iff: "ends m s s' \<longleftrightarrow> (\<exists>a. runs m s a s') \<or> (\<exists>e. fails m s e s')"
proof
  assume "ends m s s'"
  then obtain fs where fs: "fst (snd (m s fs)) = s'" by (auto simp: ends_def)
  obtain r t u where "m s fs = (r, t, u)" by (cases "m s fs") auto
  with fs show "(\<exists>a. runs m s a s') \<or> (\<exists>e. fails m s e s')"
    by (cases r) (auto simp: runs_def fails_def)
next
  assume "(\<exists>a. runs m s a s') \<or> (\<exists>e. fails m s e s')"
  then obtain r fs fs' where "m s fs = (r, s', fs')" by (auto simp: runs_def fails_def)
  then have "fst (snd (m s fs)) = s'" by simp
  then show "ends m s s'" unfolding ends_def by blast
qed

lemma endsI: "m s fs = (r, s', fs') \<Longrightarrow> ends m s s'"
  unfolding ends_def by (rule exI [of _ fs]) simp

lemma runs_ends: "runs m s a s' \<Longrightarrow> ends m s s'"
  by (auto simp: ends_iff)

lemma ends_fails: "fails m s e s' \<Longrightarrow> ends m s s'"
  by (auto simp: ends_iff)

lemma runsI: "m s fs = (Inr a, s', fs') \<Longrightarrow> runs m s a s'"
  by (auto simp: runs_def)

lemma runs_ret [simp]: "runs (ret a) s b s' \<longleftrightarrow> b = a \<and> s' = s"
  by (auto simp: runs_def ret_def)

lemma runs_throw [simp]: "\<not> runs (throw e) s a s'"
  by (auto simp: runs_def throw_def)

lemma fails_ret [simp]: "\<not> fails (ret a) s e s'"
  by (auto simp: fails_def ret_def)

lemma fails_throw [simp]: "fails (throw e) s e' s' \<longleftrightarrow> e' = e \<and> s' = s"
  by (auto simp: fails_def throw_def)

lemma stmt_cases:
  "stmt f s fs = (r, s', fs') \<Longrightarrow>
     (r, s') = run_stmt f s \<or> (r, s') = (Inl ErrConn, s) \<or> (r, s') = (Inl ErrConn, snd (run_stmt f s))"
  by (auto simp: stmt_def split: list.splits fault.splits)

lemma runs_stmt [simp]: "runs (stmt f) s a s' \<longleftrightarrow> f s = Inr (a, s')"
proof
  assume "runs (stmt f) s a s'"
  then obtain fs fs' where "stmt f s fs = (Inr a, s', fs')" by (auto simp: runs_def)
  from stmt_cases [OF this] show "f s = Inr (a, s')"
    by (auto simp: run_stmt_def split: sum.splits)
next
  assume "f s = Inr (a, s')"
  then have "stmt f s [] = (Inr a, s', [])" by (simp add: stmt_def run_stmt_def)
  then show "runs (stmt f) s a s'" by (rule runsI)
qed

lemma runs_query [simp]: "runs (query f) s a s' \<longleftrightarrow> a = f s \<and> s' = s"
  by (auto simp: query_def)

lemma runs_query_row [simp]: "runs (query_row f) s a s' \<longleftrightarrow> f s = Some a \<and> s' = s"
  by (auto simp: query_row_def split: option.splits)

lemma runs_modify [simp]: "runs (modify f) s a s' \<longleftrightarrow> s' = f s"
  by (auto simp: modify_def)

lemma runs_andThenE:
  assumes "runs (andThen m k) s b s''"
  obtains a s' where "runs m s a s'" "runs (k a) s' b s''"
proof -
  from assms obtain fs fs'' where eq: "andThen m k s fs = (Inr b, s'', fs'')"
    by (auto simp: runs_def)
  obtain r s' fs' where m: "m s fs = (r, s', fs')" by (cases "m s fs") auto
  show thesis
  proof (cases r)
    case (Inl e)
    with eq m show thesis by (simp add: andThen_def)
  next
    case (Inr a)
    with eq m have "k a s' fs' = (Inr b, s'', fs'')" by (simp add: andThen_def)
    moreover from m Inr have "runs m s a s'" by (auto simp: runs_def)
    ultimately show thesis by (intro that) (auto simp: runs_def)
  qed
qed

lemma runs_attemptE:
  assumes "runs (attempt m k) s b s''"
  obtains (ok) a s' where "runs m s a s'" "runs (k (Inr a)) s' b s''"
    | (err) e s' where "fails m s e s'" "runs (k (Inl e)) s' b s''"
proof -
  from assms obtain fs fs'' where eq: "attempt m k s fs = (Inr b, s'', fs'')"
    by (auto simp: runs_def)
  obtain r s' fs' where m: "m s fs = (r, s', fs')" by (cases "m s fs") auto
  with eq have k: "k r s' fs' = (Inr b, s'', fs'')" by (simp add: attempt_def)
  show thesis
  proof (cases r)
    case (Inl e)
    with m k show thesis by (intro err) (auto simp: runs_def fails_def)
  next
    case (Inr a)
    with m k show thesis by (intro ok) (auto simp: runs_def)
  qed
qed

lemma wrapping_eq: "wrapping m s fs = (map_sum wrapStore id (fst (m s fs)), snd (m s fs))"
  by (cases "m s fs") (auto simp: wrapping_def split: sum.split)

lemma map_sum_eq_Inr: "map_sum f id r = Inr a \<longleftrightarrow> r = Inr a"
  by (cases r) auto

lemma map_sum_eq_Inl: "map_sum f id r = Inl e \<longleftrightarrow> (\<exists>e'. r = Inl e' \<and> e = f e')"
  by (cases r) auto

lemma wrapping_ok: "wrapping m s fs = (Inr a, s', fs') \<longleftrightarrow> m s fs = (Inr a, s', fs')"
  by (cases "m s fs") (auto simp: wrapping_eq map_sum_eq_Inr)

lemma wrapping_err:
  "wrapping m s fs = (Inl e, s', fs') \<longleftrightarrow> (\<exists>e'. m s fs = (Inl e', s', fs') \<and> e = wrapStore e')"
  by (cases "m s fs") (auto simp: wrapping_eq map_sum_eq_Inl)

lemma runs_wrapping [simp]: "runs (wrapping m) s a s' \<longleftrightarrow> runs m s a s'"
  by (simp add: runs_def wrapping_ok)

lemma fails_wrapping: "fails (wrapping m) s e s' \<Longrightarrow> \<exists>e'. fails m s e' s' \<and> e = wrapStore e'"
  by (auto simp: fails_def wrapping_err)

lemma fails_query_row:
  "fails (query_row f) s e s' \<Longrightarrow> s' = s \<and> (e = ErrConn \<or> e = ErrNoRows \<and> f s = None)"
proof -
  assume "fails (query_row f) s e s'"
  then obtain fs fs' where "query_row f s fs = (Inl e, s', fs')" by (auto simp: fails_def)
  from stmt_cases [OF this [unfolded query_row_def]] show ?thesis
    by (auto simp: run_stmt_def split: option.splits)
qed

text \<open>A run through a first statement, as an equation: the simplifier walks an operation down.\<close>

lemma runs_andThen_stmt [runs_simps]:
  "runs (andThen (stmt f) k) s b t \<longleftrightarrow> (\<exists>a s'. f s = Inr (a, s') \<and> runs (k a) s' b t)"
proof
  assume "runs (andThen (stmt f) k) s b t"
  then show "\<exists>a s'. f s = Inr (a, s') \<and> runs (k a) s' b t" by (auto elim!: runs_andThenE)
next
  assume "\<exists>a s'. f s = Inr (a, s') \<and> runs (k a) s' b t"
  then obtain a s' fs fs' where "f s = Inr (a, s')" "k a s' fs = (Inr b, t, fs')"
    by (auto simp: runs_def)
  then have "andThen (stmt f) k s (Fine # fs) = (Inr b, t, fs')"
    by (simp add: andThen_def stmt_def run_stmt_def)
  then show "runs (andThen (stmt f) k) s b t" by (rule runsI)
qed

lemma runs_andThen_query [runs_simps]: "runs (andThen (query f) k) s b t \<longleftrightarrow> runs (k (f s)) s b t"
  by (simp add: query_def runs_andThen_stmt)

lemma runs_andThen_query_row [runs_simps]:
  "runs (andThen (query_row f) k) s b t \<longleftrightarrow> (\<exists>a. f s = Some a \<and> runs (k a) s b t)"
  by (auto simp: query_row_def runs_andThen_stmt split: option.splits)

lemma runs_andThen_modify [runs_simps]:
  "runs (andThen (modify f) k) s b t \<longleftrightarrow> runs (k ()) (f s) b t"
  by (simp add: modify_def runs_andThen_stmt)

lemma runs_andThen_ret [runs_simps]: "runs (andThen (ret a) k) s b t \<longleftrightarrow> runs (k a) s b t"
  by (simp add: runs_def andThen_def ret_def)

lemma runs_andThen_throw [runs_simps]: "\<not> runs (andThen (throw e) k) s b t"
  by (simp add: runs_def andThen_def throw_def)

lemma runs_andThen_assoc [runs_simps]:
  "runs (andThen (andThen m k) h) s b t \<longleftrightarrow> runs (andThen m (\<lambda>a. andThen (k a) h)) s b t"
proof -
  have "andThen (andThen m k) h = andThen m (\<lambda>a. andThen (k a) h)"
    by (auto simp: andThen_def fun_eq_iff split: prod.split sum.split)
  then show ?thesis by simp
qed

text \<open>After an attempt, the continuation saw the result or a lost connection.\<close>

lemma runs_attempt_query_row:
  assumes "runs (attempt (query_row f) k) s b t"
  obtains (row) a where "f s = Some a" "runs (k (Inr a)) s b t"
    | (none) "f s = None" "runs (k (Inl ErrNoRows)) s b t"
    | (lost) "runs (k (Inl ErrConn)) s b t"
  using assms
proof (cases rule: runs_attemptE)
  case (ok a s')
  then show thesis by (intro row) auto
next
  case (err e s')
  then show thesis using fails_query_row [OF err(1)] none lost by auto
qed

subsection \<open>End states\<close>

lemma ends_ret [simp]: "ends (ret a) s s' \<longleftrightarrow> s' = s"
  by (auto simp: ends_iff)

lemma ends_throw [simp]: "ends (throw e) s s' \<longleftrightarrow> s' = s"
  by (auto simp: ends_iff)

lemma ends_stmtE:
  assumes "ends (stmt f) s s'"
  obtains "s' = s" | a where "f s = Inr (a, s')"
proof -
  from assms obtain fs where fs: "fst (snd (stmt f s fs)) = s'" by (auto simp: ends_def)
  obtain r t u where st: "stmt f s fs = (r, t, u)" by (cases "stmt f s fs") auto
  from stmt_cases [OF st] fs st show thesis
    by (auto simp: run_stmt_def intro: that split: sum.splits)
qed

lemma ends_query [simp]: "ends (query f) s s' \<longleftrightarrow> s' = s"
proof
  show "ends (query f) s s' \<Longrightarrow> s' = s"
    unfolding query_def by (elim ends_stmtE) auto
qed (auto intro: runs_ends [of _ _ "f s"])

lemma query_state: "query f s fs = (r, s', fs') \<Longrightarrow> s' = s"
  by (drule endsI) simp

lemma ends_query_row: "ends (query_row f) s s' \<Longrightarrow> s' = s"
  unfolding query_row_def by (elim ends_stmtE) (auto split: option.splits)

lemma ends_modify: "ends (modify f) s s' \<Longrightarrow> s' = s \<or> s' = f s"
  unfolding modify_def by (elim ends_stmtE) auto

lemma ends_wrapping [simp]: "ends (wrapping m) s s' \<longleftrightarrow> ends m s s'"
  by (simp add: ends_def wrapping_eq)

lemma ends_andThenE:
  assumes "ends (andThen m k) s s''"
  obtains "\<exists>e. fails m s e s''" | a s' where "runs m s a s'" "ends (k a) s' s''"
proof -
  from assms obtain fs where fs: "fst (snd (andThen m k s fs)) = s''" by (auto simp: ends_def)
  obtain r s' fs' where m: "m s fs = (r, s', fs')" by (cases "m s fs") auto
  show thesis
  proof (cases r)
    case (Inl e)
    with m fs have "fails m s e s''" by (auto simp: andThen_def fails_def)
    then show thesis by (blast intro: that)
  next
    case (Inr a)
    with m fs have "runs m s a s'" "ends (k a) s' s''"
      by (auto simp: andThen_def runs_def ends_def)
    then show thesis by (rule that)
  qed
qed

lemma ends_attemptE:
  assumes "ends (attempt m k) s s''"
  obtains r s' where "ends m s s'" "ends (k r) s' s''"
proof -
  from assms obtain fs where fs: "fst (snd (attempt m k s fs)) = s''" by (auto simp: ends_def)
  obtain r s' fs' where m: "m s fs = (r, s', fs')" by (cases "m s fs") auto
  with fs have "ends m s s'" "ends (k r) s' s''"
    by (auto simp: attempt_def ends_def intro: exI [of _ fs] exI [of _ fs'])
  then show thesis by (rule that)
qed

text \<open>
  Atomicity: a transaction ends in the state it started in, or in a state its body reached
  successfully.
\<close>

lemma transact_cases:
  assumes "transact body s fs = (r, s', fs')"
  obtains (failed) e where "r = Inl e" "s' = s"
    | (lost) e a where "r = Inl e" "runs body s a s'"
    | (committed) a where "r = Inr a" "runs body s a s'"
proof -
  obtain q t us where q: "query (\<lambda>_. ()) s fs = (q, t, us)" by (cases "query (\<lambda>_. ()) s fs") auto
  from query_state [OF q] have [simp]: "t = s" .
  show thesis
  proof (cases q)
    case (Inl e)
    with assms q show thesis by (auto simp: transact_def wrapping_eq intro: failed)
  next
    case (Inr u)
    obtain r2 s2 us2 where b: "body s us = (r2, s2, us2)" by (cases "body s us") auto
    show thesis
    proof (cases r2)
      case (Inl e)
      with assms q Inr b show thesis by (auto simp: transact_def wrapping_eq intro: failed)
    next
      case (Inr a)
      with b have r: "runs body s a s2" by (auto simp: runs_def)
      have "(r, s', fs') = (map_sum wrapStore id (fst (commit s a s2 us2)), snd (commit s a s2 us2))"
        using assms q \<open>q = Inr u\<close> b Inr by (simp add: transact_def wrapping_eq)
      then consider "\<exists>e. r = Inl e" "s' = s" | "\<exists>e. r = Inl e" "s' = s2" | "r = Inr a" "s' = s2"
        by (auto simp: commit_def split: list.splits fault.splits)
      then show thesis
      proof cases
        case 1
        then show thesis using failed by auto
      next
        case 2
        with r show thesis using lost by auto
      next
        case 3
        with r show thesis using committed by auto
      qed
    qed
  qed
qed

lemma ends_transact:
  assumes "ends (transact body) s s'"
  shows "s' = s \<or> (\<exists>a. runs body s a s')"
proof -
  from assms obtain r fs fs' where "transact body s fs = (r, s', fs')"
    unfolding ends_def by (metis prod.collapse)
  then show ?thesis by (cases rule: transact_cases) auto
qed

lemma fails_transact:
  "fails (transact body) s e s' \<Longrightarrow> s' = s \<or> (\<exists>a. runs body s a s')"
  using ends_transact [of body s s'] by (auto simp: ends_iff)

lemma runs_transact: "runs (transact body) s a s' \<Longrightarrow> runs body s a s'"
  unfolding runs_def [of "transact body"] by (auto elim: transact_cases)

subsection \<open>Frames\<close>

text \<open>\<open>keeps v m\<close>: however \<open>m\<close> ends, the part \<open>v\<close> of the state is what it was.\<close>

definition keeps :: "('s \<Rightarrow> 'v) \<Rightarrow> ('s, 'a) dbop \<Rightarrow> bool" where
  "keeps v m \<longleftrightarrow> (\<forall>s s'. ends m s s' \<longrightarrow> v s' = v s)"

lemma keepsD: "keeps v m \<Longrightarrow> ends m s s' \<Longrightarrow> v s' = v s"
  by (simp add: keeps_def)

lemma keeps_ret [frame_intro]: "keeps v (ret a)"
  by (simp add: keeps_def)

lemma keeps_throw [frame_intro]: "keeps v (throw e)"
  by (simp add: keeps_def)

lemma keeps_stmt [frame_intro]:
  "(\<And>s a s'. f s = Inr (a, s') \<Longrightarrow> v s' = v s) \<Longrightarrow> keeps v (stmt f)"
  unfolding keeps_def by (metis ends_stmtE)

lemma keeps_query [frame_intro]: "keeps v (query f)"
  by (simp add: keeps_def)

lemma keeps_query_row [frame_intro]: "keeps v (query_row f)"
  by (auto simp: keeps_def dest: ends_query_row)

lemma keeps_modify [frame_intro]: "(\<And>s. v (f s) = v s) \<Longrightarrow> keeps v (modify f)"
  by (auto simp: keeps_def dest!: ends_modify)

lemma keeps_andThen [frame_intro]:
  "keeps v m \<Longrightarrow> (\<And>a. keeps v (k a)) \<Longrightarrow> keeps v (andThen m k)"
  unfolding keeps_def by (metis ends_andThenE ends_fails runs_ends)

lemma keeps_attempt [frame_intro]:
  "keeps v m \<Longrightarrow> (\<And>a. keeps v (k a)) \<Longrightarrow> keeps v (attempt m k)"
  unfolding keeps_def by (metis ends_attemptE)

lemma keeps_wrapping [frame_intro]: "keeps v m \<Longrightarrow> keeps v (wrapping m)"
  by (simp add: keeps_def)

lemma keeps_transact [frame_intro]: "keeps v m \<Longrightarrow> keeps v (transact m)"
  unfolding keeps_def by (metis ends_transact runs_ends)

lemma keeps_if [frame_intro]: "(b \<Longrightarrow> keeps v m) \<Longrightarrow> (\<not> b \<Longrightarrow> keeps v n) \<Longrightarrow> keeps v (if b then m else n)"
  by simp

lemma keeps_sum [frame_intro]:
  "(\<And>e. keeps v (f e)) \<Longrightarrow> (\<And>a. keeps v (g a)) \<Longrightarrow> keeps v (case r of Inl e \<Rightarrow> f e | Inr a \<Rightarrow> g a)"
  by (cases r) simp_all

lemma keeps_prod [frame_intro]: "(\<And>a b. keeps v (f a b)) \<Longrightarrow> keeps v (case p of (a, b) \<Rightarrow> f a b)"
  by (cases p) simp

lemma keeps_option [frame_intro]:
  "keeps v m \<Longrightarrow> (\<And>a. keeps v (g a)) \<Longrightarrow> keeps v (case r of None \<Rightarrow> m | Some a \<Rightarrow> g a)"
  by (cases r) simp_all

lemma keeps_list [frame_intro]:
  "keeps v m \<Longrightarrow> (\<And>x xs. keeps v (g x xs)) \<Longrightarrow> keeps v (case r of [] \<Rightarrow> m | x # xs \<Rightarrow> g x xs)"
  by (cases r) simp_all

lemma keeps_let [frame_intro]: "(\<And>x. keeps v (f x)) \<Longrightarrow> keeps v (let x = a in f x)"
  by simp

subsection \<open>Errors\<close>

text \<open>\<open>raises E m\<close>: whatever goes wrong, the error of \<open>m\<close> is one of \<open>E\<close>.\<close>

definition raises :: "store_error set \<Rightarrow> ('s, 'a) dbop \<Rightarrow> bool" where
  "raises E m \<longleftrightarrow> (\<forall>s fs. case fst (m s fs) of Inl e \<Rightarrow> e \<in> E | Inr _ \<Rightarrow> True)"

lemma raisesD: "raises E m \<Longrightarrow> m s fs = (Inl e, s', fs') \<Longrightarrow> e \<in> E"
  unfolding raises_def by (metis fst_conv old.sum.simps(5))

lemma raisesI: "(\<And>s fs e s' fs'. m s fs = (Inl e, s', fs') \<Longrightarrow> e \<in> E) \<Longrightarrow> raises E m"
  unfolding raises_def by (metis (no_types, lifting) old.sum.exhaust old.sum.simps(5,6) prod.collapse)

lemma raises_ret [error_intro]: "raises E (ret a)"
  by (simp add: raises_def ret_def)

lemma raises_throw [error_intro]: "e \<in> E \<Longrightarrow> raises E (throw e)"
  by (simp add: raises_def throw_def)

lemma raises_stmt [error_intro]:
  "ErrConn \<in> E \<Longrightarrow> (\<And>s e. f s = Inl e \<Longrightarrow> e \<in> E) \<Longrightarrow> raises E (stmt f)"
  by (rule raisesI, drule stmt_cases) (auto simp: run_stmt_def split: sum.splits)

lemma raises_query [error_intro]: "ErrConn \<in> E \<Longrightarrow> raises E (query f)"
  unfolding query_def by (rule raises_stmt) auto

lemma raises_query_row [error_intro]: "ErrConn \<in> E \<Longrightarrow> ErrNoRows \<in> E \<Longrightarrow> raises E (query_row f)"
  unfolding query_row_def by (rule raises_stmt) (auto split: option.splits)

lemma raises_modify [error_intro]: "ErrConn \<in> E \<Longrightarrow> raises E (modify f)"
  unfolding modify_def by (rule raises_stmt) auto

lemma raises_andThen [error_intro]:
  "raises E m \<Longrightarrow> (\<And>a. raises E (k a)) \<Longrightarrow> raises E (andThen m k)"
  by (rule raisesI) (auto simp: andThen_def split: prod.splits sum.splits dest: raisesD)

lemma raises_attempt:
  "raises E' m \<Longrightarrow> (\<And>a. raises E (k (Inr a))) \<Longrightarrow> (\<And>e. e \<in> E' \<Longrightarrow> raises E (k (Inl e))) \<Longrightarrow>
   raises E (attempt m k)"
proof (rule raisesI)
  fix s fs e s' fs'
  assume m: "raises E' m" and k: "\<And>a. raises E (k (Inr a))" "\<And>e. e \<in> E' \<Longrightarrow> raises E (k (Inl e))"
    and run: "attempt m k s fs = (Inl e, s', fs')"
  obtain r s1 fs1 where m1: "m s fs = (r, s1, fs1)" by (cases "m s fs") auto
  with run have "k r s1 fs1 = (Inl e, s', fs')" by (simp add: attempt_def)
  moreover have "raises E (k r)" using m1 raisesD [OF m] k by (cases r) auto
  ultimately show "e \<in> E" by (rule raisesD [rotated])
qed

lemma raises_wrapping: "raises E' m \<Longrightarrow> wrapStore ` E' \<subseteq> E \<Longrightarrow> raises E (wrapping m)"
  by (rule raisesI) (auto simp: wrapping_err dest: raisesD)

lemma raises_transact:
  fixes body :: "('s, 'a) dbop"
  assumes body: "raises E' body" and E: "wrapStore ` insert ErrConn E' \<subseteq> E"
  shows "raises E (transact body)"
proof -
  have q: "e = ErrConn" if "query (\<lambda>_. ()) s fs = (Inl e, s', fs')" for s s' :: 's and fs fs' e
    using raisesD [OF raises_query [of "{ErrConn}" "\<lambda>_. ()"] that] by simp
  have inner: "raises (insert ErrConn E') (\<lambda>s fs. case query (\<lambda>_. ()) s fs of
        (Inl e, s1, fs1) \<Rightarrow> (Inl e, s1, fs1)
      | (Inr _, s1, fs1) \<Rightarrow>
          (case body s1 fs1 of
             (Inl e, s2, fs2) \<Rightarrow> (Inl e, s, fs2)
           | (Inr a, s2, fs2) \<Rightarrow> commit s a s2 fs2))"
    by (rule raisesI)
      (auto simp: commit_def split: prod.splits sum.splits list.splits fault.splits
        dest: raisesD [OF body] q)
  show ?thesis unfolding transact_def by (rule raises_wrapping [OF inner E])
qed

lemma raises_if [error_intro]: "(b \<Longrightarrow> raises E m) \<Longrightarrow> (\<not> b \<Longrightarrow> raises E n) \<Longrightarrow> raises E (if b then m else n)"
  by simp

lemma raises_option [error_intro]:
  "raises E m \<Longrightarrow> (\<And>a. raises E (g a)) \<Longrightarrow> raises E (case r of None \<Rightarrow> m | Some a \<Rightarrow> g a)"
  by (cases r) simp_all

lemma raises_list [error_intro]:
  "raises E m \<Longrightarrow> (\<And>x xs. raises E (g x xs)) \<Longrightarrow> raises E (case r of [] \<Rightarrow> m | x # xs \<Rightarrow> g x xs)"
  by (cases r) simp_all

lemma raises_let [error_intro]: "(\<And>x. raises E (f x)) \<Longrightarrow> raises E (let x = a in f x)"
  by simp

subsection \<open>Success without faults\<close>

definition succeeds :: "('s, 'a) dbop \<Rightarrow> 's \<Rightarrow> bool" where
  "succeeds m s \<longleftrightarrow> (\<exists>a s'. m s [] = (Inr a, s', []))"

lemma succeeds_ret [success_simps]: "succeeds (ret a) s"
  by (simp add: succeeds_def ret_def)

lemma succeeds_throw [success_simps]: "\<not> succeeds (throw e) s"
  by (simp add: succeeds_def throw_def)

lemma succeeds_stmt [success_simps]:
  "succeeds (andThen (stmt f) k) s \<longleftrightarrow> (\<exists>a s'. f s = Inr (a, s') \<and> succeeds (k a) s')"
  by (auto simp: succeeds_def andThen_def stmt_def run_stmt_def split: sum.splits)

lemma succeeds_query [success_simps]: "succeeds (andThen (query f) k) s \<longleftrightarrow> succeeds (k (f s)) s"
  by (simp add: query_def succeeds_stmt)

lemma succeeds_query_row [success_simps]:
  "succeeds (andThen (query_row f) k) s \<longleftrightarrow> (\<exists>a. f s = Some a \<and> succeeds (k a) s)"
  by (auto simp: query_row_def succeeds_stmt split: option.splits)

lemma succeeds_modify [success_simps]: "succeeds (andThen (modify f) k) s \<longleftrightarrow> succeeds (k ()) (f s)"
  by (simp add: modify_def succeeds_stmt)

lemma succeeds_attempt_row [success_simps]:
  "succeeds (attempt (query_row f) k) s \<longleftrightarrow>
     (case f s of Some a \<Rightarrow> succeeds (k (Inr a)) s | None \<Rightarrow> succeeds (k (Inl ErrNoRows)) s)"
  by (auto simp: succeeds_def attempt_def query_row_eval split: option.splits)

lemma succeeds_transact: "succeeds body s \<Longrightarrow> succeeds (transact body) s"
  by (auto simp: succeeds_def transact_eval commit_eval)

section \<open>Reachability and invariants\<close>

text \<open>
  A transition system whose steps happen at non-decreasing times: \<open>reach t s\<close> when the system
  can be in state \<open>s\<close> after steps whose times are at most \<open>t\<close>.
\<close>

inductive timed_reach :: "'s \<Rightarrow> (time \<Rightarrow> 's \<Rightarrow> 's \<Rightarrow> bool) \<Rightarrow> time \<Rightarrow> 's \<Rightarrow> bool"
  for init :: 's and step :: "time \<Rightarrow> 's \<Rightarrow> 's \<Rightarrow> bool" where
  start: "timed_reach init step t init"
| later: "timed_reach init step t s \<Longrightarrow> t \<le> t' \<Longrightarrow> step t' s s' \<Longrightarrow> timed_reach init step t' s'"

locale timed_invariant =
  fixes init :: 's and step :: "time \<Rightarrow> 's \<Rightarrow> 's \<Rightarrow> bool" and inv :: "time \<Rightarrow> 's \<Rightarrow> bool"
  assumes inv_start: "inv t init"
    and inv_wait: "inv t s \<Longrightarrow> t \<le> t' \<Longrightarrow> inv t' s"
    and inv_step: "inv t s \<Longrightarrow> step t s s' \<Longrightarrow> inv t s'"
begin

lemma reach_inv: "timed_reach init step t s \<Longrightarrow> inv t s"
proof (induction rule: timed_reach.induct)
  case (start t)
  show ?case by (rule inv_start)
next
  case (later t s t' s')
  then show ?case by (blast intro: inv_wait inv_step)
qed

end

text \<open>
  A forward simulation of a concrete system, under its invariant, by an abstract one: the
  abstraction of a reachable state is reachable.
\<close>

locale timed_simulation = timed_invariant init step inv
  for init :: 's and step :: "time \<Rightarrow> 's \<Rightarrow> 's \<Rightarrow> bool" and inv :: "time \<Rightarrow> 's \<Rightarrow> bool" +
  fixes abs :: "'s \<Rightarrow> 'a" and ainit :: 'a and astep :: "time \<Rightarrow> 'a \<Rightarrow> 'a \<Rightarrow> bool"
  assumes abs_init: "abs init = ainit"
    and abs_step: "inv t s \<Longrightarrow> step t s s' \<Longrightarrow> astep t (abs s) (abs s')"
begin

lemma reach_abs: "timed_reach init step t s \<Longrightarrow> timed_reach ainit astep t (abs s)"
proof (induction rule: timed_reach.induct)
  case (start t)
  show ?case unfolding abs_init by (rule timed_reach.start)
next
  case (later t s t' s')
  then have "inv t' s" by (blast intro: inv_wait reach_inv)
  with later show ?case by (blast intro: timed_reach.later abs_step)
qed

end

end
