(* ===== verification/Lease.thy ===== *)
theory Lease
  imports Prelude
begin

text \<open>
  The lease data model: \<open>internal/lease/types.go\<close> (executions, requests, results and the
  names of their states), \<open>internal/lease/precedence.go\<close> (who may preempt whom) and
  \<open>internal/id/id.go\<close> (identifiers). Strings are byte lists.
\<close>

section \<open>States, statuses and modes\<close>

datatype exec_state =
  StateActive | StateReleased | StateExpired | StateRevoked | StateHandedOff | StateQueued

fun state_name :: "exec_state \<Rightarrow> string" where
  "state_name StateActive = ''ACTIVE''"
| "state_name StateReleased = ''RELEASED''"
| "state_name StateExpired = ''EXPIRED''"
| "state_name StateRevoked = ''REVOKED''"
| "state_name StateHandedOff = ''HANDED_OFF''"
| "state_name StateQueued = ''QUEUED''"

datatype acquire_status =
  StatusGranted | StatusAlreadyHeld | StatusBusy | StatusQueued | StatusDenied

definition ReasonExpired :: string where "ReasonExpired = ''EXPIRED''"
definition ReasonRevoked :: string where "ReasonRevoked = ''REVOKED''"
definition ReasonHandedOff :: string where "ReasonHandedOff = ''HANDED_OFF''"
definition ReasonReleased :: string where "ReasonReleased = ''RELEASED''"
definition ModePreempt :: string where "ModePreempt = ''preempt''"
definition ModeCooperative :: string where "ModeCooperative = ''cooperative''"

lemmas reason_defs = ReasonExpired_def ReasonRevoked_def ReasonHandedOff_def ReasonReleased_def
lemmas mode_defs = ModePreempt_def ModeCooperative_def

section \<open>Records\<close>

record principal =
  p_Type :: string
  p_ID :: string

text \<open>
  A row of the table \<open>executions\<close> as \<open>scanExecution\<close> reads it: a null \<open>end_reason\<close> or
  \<open>successor_id\<close> is the empty string.
\<close>

record execution =
  e_ID :: string
  e_MerchantID :: string
  e_DomainKey :: string
  e_CustomerID :: string
  e_Principal :: principal
  e_SessionID :: string
  e_Resource :: string
  e_Action :: string
  e_RuleName :: string
  e_Fence :: int
  e_State :: exec_state
  e_GrantedAt :: time
  e_ExpiresAt :: time
  e_MaxLifetimeAt :: time
  e_RenewCount :: int
  e_EndedAt :: "time option"
  e_EndReason :: string
  e_SuccessorID :: string
  e_QueuePosition :: int
  e_OpsUsed :: int
  e_MaxOps :: int

definition IsActive :: "execution \<Rightarrow> time \<Rightarrow> bool" where
  "IsActive e now \<longleftrightarrow> e_State e = StateActive \<and> e_ExpiresAt e > now"

record acquire_request =
  q_MerchantID :: string
  q_DomainKey :: string
  q_CustomerID :: string
  q_Principal :: principal
  q_SessionID :: string
  q_Resource :: string
  q_Action :: string
  q_RuleName :: string
  q_MaxActive :: int
  q_TTL :: duration
  q_MaxLifetime :: duration
  q_Precedence :: "string list"
  q_MaxWaiters :: int
  q_MaxOps :: int
  q_RequestID :: string

record queue_info =
  qi_WaiterID :: string
  qi_Position :: int
  qi_ActiveExecutionID :: string
  qi_ExpiresAt :: time

record busy_info =
  b_ActiveExecutionID :: string
  b_Holder :: principal
  b_ExpiresAt :: time
  b_CanPreempt :: bool

record acquire_result =
  r_Status :: acquire_status
  r_Execution :: "execution option"
  r_Busy :: "busy_info option"
  r_Queue :: "queue_info option"
  r_Reason :: string

record handoff_request =
  h_MerchantID :: string
  h_ExecutionID :: string
  h_SessionID :: string
  h_To :: principal
  h_Mode :: string
  h_TTL :: duration
  h_Precedence :: "string list"
  h_RequestID :: string

record handoff_result =
  hr_Predecessor :: execution
  hr_Successor :: execution
  hr_Mode :: string

definition DefaultRuleName :: string where
  "DefaultRuleName = ''purchase-per-event''"

section \<open>Precedence\<close>

text \<open>The loop returns \<open>len(order) - i\<close> at the first match, the length of the rest of the list.\<close>

fun rank_loop :: "string \<Rightarrow> string list \<Rightarrow> int" where
  "rank_loop p [] = 0"
| "rank_loop p (t # ts) = (if t = p then int (length (t # ts)) else rank_loop p ts)"

definition Rank :: "string \<Rightarrow> string list \<Rightarrow> int" where
  "Rank principalType order =
     rank_loop principalType (if order = [] then [''browser'', ''agent''] else order)"

definition CanPreemptRanked :: "principal \<Rightarrow> principal \<Rightarrow> string list \<Rightarrow> bool" where
  "CanPreemptRanked caller holder order \<longleftrightarrow>
     Rank (p_Type caller) order > Rank (p_Type holder) order"

definition CanPreempt :: "principal \<Rightarrow> principal \<Rightarrow> bool" where
  "CanPreempt caller holder = CanPreemptRanked caller holder []"

definition SamePrincipal :: "principal \<Rightarrow> principal \<Rightarrow> bool" where
  "SamePrincipal a b \<longleftrightarrow> p_Type a = p_Type b \<and> p_ID a = p_ID b"

lemma SamePrincipal_iff [simp]: "SamePrincipal a b \<longleftrightarrow> a = b"
  by (auto simp: SamePrincipal_def intro: principal.equality)

lemma rank_loop_bounds: "0 \<le> rank_loop p ts \<and> rank_loop p ts \<le> int (length ts)"
  by (induction ts) auto

lemma rank_loop_pos: "0 < rank_loop p ts \<longleftrightarrow> p \<in> set ts"
  by (induction ts) auto

lemma rank_loop_before:
  "p \<notin> set xs \<Longrightarrow> rank_loop p (xs @ p # ys) = 1 + int (length ys)"
  by (induction xs) auto

text \<open>
  Preemption is a strict order on the ranked types: the earlier a type stands in the
  precedence list, the more it outranks, and an unlisted type outranks nobody.
\<close>

lemma CanPreemptRanked_irrefl: "\<not> CanPreemptRanked a a order"
  by (simp add: CanPreemptRanked_def)

lemma CanPreemptRanked_asym: "CanPreemptRanked a b order \<Longrightarrow> \<not> CanPreemptRanked b a order"
  by (simp add: CanPreemptRanked_def)

lemma CanPreemptRanked_trans:
  "CanPreemptRanked a b order \<Longrightarrow> CanPreemptRanked b c order \<Longrightarrow> CanPreemptRanked a c order"
  by (simp add: CanPreemptRanked_def)

lemma CanPreemptRanked_listed:
  assumes "order = xs @ p_Type a # ys" "p_Type a \<notin> set xs"
  shows "CanPreemptRanked a b order \<longleftrightarrow> p_Type b \<notin> set (xs @ [p_Type a])"
proof -
  have a: "rank_loop (p_Type a) order = 1 + int (length ys)"
    using assms rank_loop_before by simp
  have b: "rank_loop t (us @ zs) \<le> int (length zs)" if "t \<notin> set us" for t us zs
    using that by (induction us) (auto simp: rank_loop_bounds)
  have c: "int (length zs) < rank_loop t (us @ zs)" if "t \<in> set us" for t us zs
    using that by (induction us) auto
  from assms have ne: "order \<noteq> []" by simp
  show ?thesis
  proof (cases "p_Type b \<in> set (xs @ [p_Type a])")
    case True
    with c [of "p_Type b" "xs @ [p_Type a]" ys] a assms ne show ?thesis
      by (simp add: CanPreemptRanked_def Rank_def)
  next
    case False
    with b [of "p_Type b" "xs @ [p_Type a]" ys] a assms ne show ?thesis
      by (simp add: CanPreemptRanked_def Rank_def)
  qed
qed

section \<open>Identifiers\<close>

definition hex_digit :: "nat \<Rightarrow> char" where
  "hex_digit n = (''0123456789abcdef'') ! n"

definition hex_byte :: "char \<Rightarrow> string" where
  "hex_byte c = [hex_digit (of_char c div 16), hex_digit (of_char c mod 16)]"

text \<open>\<open>id.New\<close> on the twelve bytes that \<open>rand.Read\<close> produced.\<close>

definition id_New :: "string \<Rightarrow> string \<Rightarrow> string" where
  "id_New prefix rnd = prefix @ ''_'' @ concat (map hex_byte rnd)"

definition id_Execution :: "string \<Rightarrow> string" where "id_Execution = id_New ''exe''"
definition id_Session :: "string \<Rightarrow> string" where "id_Session = id_New ''ses''"
definition id_Request :: "string \<Rightarrow> string" where "id_Request = id_New ''req''"
definition id_Key :: "string \<Rightarrow> string" where "id_Key = id_New ''kid''"

lemmas id_defs = id_Execution_def id_Session_def id_Request_def id_Key_def

lemma hex_digit_inj: "a < 16 \<Longrightarrow> b < 16 \<Longrightarrow> hex_digit a = hex_digit b \<Longrightarrow> a = b"
proof -
  assume ab: "a < 16" "b < 16" and eq: "hex_digit a = hex_digit b"
  have "distinct ''0123456789abcdef''" by simp
  with ab eq show "a = b"
    unfolding hex_digit_def by (subst (asm) nth_eq_iff_index_eq) auto
qed

lemma hex_byte_inj: "hex_byte c = hex_byte d \<Longrightarrow> c = d"
proof -
  assume h: "hex_byte c = hex_byte d"
  have lt: "(of_char x :: nat) div 16 < 16" "(of_char x :: nat) mod 16 < 16" for x
    using nat_of_char_less_256 [of x] by (simp_all add: div_less_iff_less_mult)
  from h have "(of_char c :: nat) div 16 = of_char d div 16" "(of_char c :: nat) mod 16 = of_char d mod 16"
    using hex_digit_inj [OF lt(1) lt(1)] hex_digit_inj [OF lt(2) lt(2)] by (simp_all add: hex_byte_def)
  then have "(of_char c :: nat) = of_char d" by (metis div_mult_mod_eq)
  then show "c = d" by simp
qed

lemma concat_hex_inj: "concat (map hex_byte xs) = concat (map hex_byte ys) \<Longrightarrow> xs = ys"
proof (induction xs arbitrary: ys)
  case Nil
  then show ?case by (cases ys) (auto simp: hex_byte_def)
next
  case (Cons x xs)
  then obtain y zs where ys: "ys = y # zs" by (cases ys) (auto simp: hex_byte_def)
  with Cons.prems have "hex_byte x = hex_byte y" "concat (map hex_byte xs) = concat (map hex_byte zs)"
    by (simp_all add: hex_byte_def [of x] hex_byte_def [of y])
  with Cons.IH ys show ?case by (auto dest: hex_byte_inj)
qed

text \<open>Identifiers are as distinct as the random bytes they are made of.\<close>

lemma id_New_inj: "id_New p a = id_New p b \<longleftrightarrow> a = b"
  by (auto simp: id_New_def dest: concat_hex_inj)

end
