(* ===== verification/GoStrings.thy ===== *)
theory GoStrings
  imports Prelude
begin

text \<open>
  The parts of Go's \<open>strings\<close>, \<open>unicode\<close> and \<open>unicode/utf8\<close> packages that the gateway
  calls, on strings as byte lists. Decoding follows \<open>utf8.DecodeRuneInString\<close>: an invalid byte
  is one rune \<open>U+FFFD\<close> of width one. Case mapping covers ASCII, Latin-1, Greek, Cyrillic,
  the fullwidth letters and the two letters outside ASCII whose lower case is in ASCII
  (\<open>U+0130\<close> and the Kelvin sign); letters of other scripts are left as they are.
\<close>

section \<open>UTF-8\<close>

type_synonym rune = nat

abbreviation byte :: "char \<Rightarrow> nat" where "byte c \<equiv> of_char c"
abbreviation RuneError :: rune where "RuneError \<equiv> 65533"

definition in_range :: "nat \<Rightarrow> nat \<Rightarrow> char \<Rightarrow> bool" where
  "in_range lo hi c \<longleftrightarrow> lo \<le> byte c \<and> byte c \<le> hi"

definition cont_bits :: "char \<Rightarrow> nat" where
  "cont_bits c = byte c mod 64"

definition decode2 :: "nat \<Rightarrow> string \<Rightarrow> rune \<times> nat" where
  "decode2 b0 cs =
     (case cs of
        c1 # _ \<Rightarrow> if in_range 128 191 c1 then ((b0 mod 32) * 64 + cont_bits c1, 2) else (RuneError, 1)
      | [] \<Rightarrow> (RuneError, 1))"

definition decode3 :: "nat \<Rightarrow> nat \<Rightarrow> nat \<Rightarrow> string \<Rightarrow> rune \<times> nat" where
  "decode3 lo hi b0 cs =
     (case cs of
        c1 # c2 # _ \<Rightarrow>
          if in_range lo hi c1 \<and> in_range 128 191 c2
          then ((b0 mod 16) * 4096 + cont_bits c1 * 64 + cont_bits c2, 3) else (RuneError, 1)
      | _ \<Rightarrow> (RuneError, 1))"

definition decode4 :: "nat \<Rightarrow> nat \<Rightarrow> nat \<Rightarrow> string \<Rightarrow> rune \<times> nat" where
  "decode4 lo hi b0 cs =
     (case cs of
        c1 # c2 # c3 # _ \<Rightarrow>
          if in_range lo hi c1 \<and> in_range 128 191 c2 \<and> in_range 128 191 c3
          then ((b0 mod 8) * 262144 + cont_bits c1 * 4096 + cont_bits c2 * 64 + cont_bits c3, 4)
          else (RuneError, 1)
      | _ \<Rightarrow> (RuneError, 1))"

fun decode_rune :: "string \<Rightarrow> rune \<times> nat" where
  "decode_rune [] = (RuneError, 0)"
| "decode_rune (c # cs) =
     (let b = byte c in
      if b < 128 then (b, 1)
      else if 194 \<le> b \<and> b \<le> 223 then decode2 b cs
      else if b = 224 then decode3 160 191 b cs
      else if b = 237 then decode3 128 159 b cs
      else if 225 \<le> b \<and> b \<le> 239 then decode3 128 191 b cs
      else if b = 240 then decode4 144 191 b cs
      else if b = 244 then decode4 128 143 b cs
      else if 241 \<le> b \<and> b \<le> 243 then decode4 128 191 b cs
      else (RuneError, 1))"

text \<open>A string as a sequence of runes, each with the bytes it was read from.\<close>

function utf8_chunks :: "string \<Rightarrow> (rune \<times> string) list" where
  "utf8_chunks [] = []"
| "utf8_chunks (c # cs) =
     (let (r, n) = decode_rune (c # cs)
      in (r, take n (c # cs)) # utf8_chunks (drop (n - 1) cs))"
  by pat_completeness auto
termination
  by (relation "measure length") auto

definition runes :: "string \<Rightarrow> rune list" where
  "runes s = map fst (utf8_chunks s)"

definition encode_rune :: "rune \<Rightarrow> string" where
  "encode_rune r0 =
     (let r = (if 55296 \<le> r0 \<and> r0 \<le> 57343 \<or> r0 > 1114111 then RuneError else r0) in
      if r < 128 then [char_of r]
      else if r < 2048 then [char_of (192 + r div 64), char_of (128 + r mod 64)]
      else if r < 65536 then
        [char_of (224 + r div 4096), char_of (128 + r div 64 mod 64), char_of (128 + r mod 64)]
      else [char_of (240 + r div 262144), char_of (128 + r div 4096 mod 64),
            char_of (128 + r div 64 mod 64), char_of (128 + r mod 64)])"

definition encode_runes :: "rune list \<Rightarrow> string" where
  "encode_runes rs = concat (map encode_rune rs)"

definition ascii :: "string \<Rightarrow> bool" where
  "ascii s = list_all (\<lambda>c. byte c < 128) s"

lemma ascii_simps [simp]:
  "ascii []" "ascii (c # cs) \<longleftrightarrow> byte c < 128 \<and> ascii cs" "ascii (xs @ ys) \<longleftrightarrow> ascii xs \<and> ascii ys"
  by (auto simp: ascii_def)

lemma utf8_chunks_ascii: "ascii s \<Longrightarrow> utf8_chunks s = map (\<lambda>c. (byte c, [c])) s"
  by (induction s) (auto simp: Let_def)

lemma utf8_chunks_ascii_append:
  "ascii s \<Longrightarrow> utf8_chunks (s @ t) = map (\<lambda>c. (byte c, [c])) s @ utf8_chunks t"
  by (induction s) (auto simp: Let_def)

lemma runes_ascii: "ascii s \<Longrightarrow> runes s = map of_char s"
  by (simp add: runes_def utf8_chunks_ascii)

lemma runes_ascii_append: "ascii s \<Longrightarrow> runes (s @ t) = map of_char s @ runes t"
  by (simp add: runes_def utf8_chunks_ascii_append)

lemma decode2_width: "1 \<le> snd (decode2 b cs) \<and> snd (decode2 b cs) \<le> Suc (length cs)"
  by (auto simp: decode2_def split: list.splits)

lemma decode3_width: "1 \<le> snd (decode3 lo hi b cs) \<and> snd (decode3 lo hi b cs) \<le> Suc (length cs)"
  by (auto simp: decode3_def split: list.splits)

lemma decode4_width: "1 \<le> snd (decode4 lo hi b cs) \<and> snd (decode4 lo hi b cs) \<le> Suc (length cs)"
  by (auto simp: decode4_def split: list.splits)

lemma decode_rune_width: "n = snd (decode_rune (c # cs)) \<Longrightarrow> 1 \<le> n \<and> n \<le> Suc (length cs)"
  using decode2_width decode3_width decode4_width by (simp add: Let_def)

lemma concat_utf8_chunks: "concat (map snd (utf8_chunks s)) = s"
proof (induction s rule: utf8_chunks.induct)
  case 1
  then show ?case by simp
next
  case (2 c cs)
  obtain r n where d: "decode_rune (c # cs) = (r, n)" by fastforce
  with decode_rune_width [of n c cs] obtain k where n: "n = Suc k" by (cases n) auto
  from 2 [OF d [symmetric] refl] n d show ?case by simp
qed

lemma encode_ascii_runes: "\<forall>r \<in> set rs. r < 128 \<Longrightarrow> encode_runes rs = map char_of rs"
  by (induction rs) (auto simp: encode_runes_def encode_rune_def)

section \<open>Character classes\<close>

definition IsSpace :: "rune \<Rightarrow> bool" where
  "IsSpace r \<longleftrightarrow> 9 \<le> r \<and> r \<le> 13 \<or> r = 32 \<or> r = 133 \<or> r = 160 \<or> r = 5760
     \<or> 8192 \<le> r \<and> r \<le> 8202 \<or> r = 8232 \<or> r = 8233 \<or> r = 8239 \<or> r = 8287 \<or> r = 12288"

definition IsControl :: "rune \<Rightarrow> bool" where
  "IsControl r \<longleftrightarrow> r < 32 \<or> 127 \<le> r \<and> r < 160"

definition lower_rune :: "rune \<Rightarrow> rune" where
  "lower_rune r =
     (if 65 \<le> r \<and> r \<le> 90 then r + 32
      else if r = 304 then 105
      else if r = 8490 then 107
      else if 192 \<le> r \<and> r \<le> 222 \<and> r \<noteq> 215 then r + 32
      else if 913 \<le> r \<and> r \<le> 939 \<and> r \<noteq> 930 then r + 32
      else if 1040 \<le> r \<and> r \<le> 1071 then r + 32
      else if 1024 \<le> r \<and> r \<le> 1039 then r + 80
      else if 65313 \<le> r \<and> r \<le> 65338 then r + 32
      else r)"

text \<open>Simple case folding adds the long s, which folds with s.\<close>

definition fold_rune :: "rune \<Rightarrow> rune" where
  "fold_rune r = (if r = 304 then 304 else if r = 383 then 115 else lower_rune r)"

section \<open>The strings package\<close>

definition TrimSpace :: "string \<Rightarrow> string" where
  "TrimSpace s =
     concat (map snd (rev (dropWhile (IsSpace \<circ> fst) (rev (dropWhile (IsSpace \<circ> fst) (utf8_chunks s))))))"

definition ToLower :: "string \<Rightarrow> string" where
  "ToLower s = encode_runes (map lower_rune (runes s))"

definition EqualFold :: "string \<Rightarrow> string \<Rightarrow> bool" where
  "EqualFold s t \<longleftrightarrow> map fold_rune (runes s) = map fold_rune (runes t)"

definition HasPrefix :: "string \<Rightarrow> string \<Rightarrow> bool" where
  "HasPrefix s p \<longleftrightarrow> take (length p) s = p"

definition HasSuffix :: "string \<Rightarrow> string \<Rightarrow> bool" where
  "HasSuffix s p \<longleftrightarrow> length p \<le> length s \<and> drop (length s - length p) s = p"

definition TrimPrefix :: "string \<Rightarrow> string \<Rightarrow> string" where
  "TrimPrefix s p = (if HasPrefix s p then drop (length p) s else s)"

definition TrimSuffix :: "string \<Rightarrow> string \<Rightarrow> string" where
  "TrimSuffix s p = (if HasSuffix s p then take (length s - length p) s else s)"

fun Contains :: "string \<Rightarrow> string \<Rightarrow> bool" where
  "Contains [] sub \<longleftrightarrow> sub = []"
| "Contains (c # cs) sub \<longleftrightarrow> HasPrefix (c # cs) sub \<or> Contains cs sub"

definition ContainsAny :: "string \<Rightarrow> string \<Rightarrow> bool" where
  "ContainsAny s chars = list_ex (\<lambda>c. c \<in> set chars) s"

text \<open>\<open>strings.LastIndex\<close> for a one-byte separator.\<close>

fun LastIndexByte :: "string \<Rightarrow> char \<Rightarrow> nat option" where
  "LastIndexByte [] c = None"
| "LastIndexByte (x # xs) c =
     (case LastIndexByte xs c of
        Some i \<Rightarrow> Some (Suc i)
      | None \<Rightarrow> if x = c then Some 0 else None)"

text \<open>\<open>strings.Split\<close> and \<open>strings.Join\<close> for a one-byte separator.\<close>

fun SplitByte :: "string \<Rightarrow> char \<Rightarrow> string list" where
  "SplitByte [] c = [[]]"
| "SplitByte (x # xs) c =
     (if x = c then [] # SplitByte xs c
      else (case SplitByte xs c of
              w # ws \<Rightarrow> (x # w) # ws
            | [] \<Rightarrow> [[x]]))"

fun JoinByte :: "string list \<Rightarrow> char \<Rightarrow> string" where
  "JoinByte [] c = []"
| "JoinByte [w] c = w"
| "JoinByte (w # ws) c = w @ c # JoinByte ws c"

lemma SplitByte_nonempty [simp]: "SplitByte s c \<noteq> []"
  by (cases s) (auto split: list.splits)

lemma JoinByte_Cons: "ws \<noteq> [] \<Longrightarrow> JoinByte (w # ws) c = w @ c # JoinByte ws c"
  by (cases ws) auto

lemma Join_Split: "JoinByte (SplitByte s c) c = s"
proof (induction s)
  case (Cons x xs)
  obtain w ws where "SplitByte xs c = w # ws" by (cases "SplitByte xs c") auto
  with Cons show ?case by (cases ws) auto
qed simp

lemma SplitByte_append:
  assumes "c \<notin> set w"
  shows "SplitByte (w @ c # s) c = w # SplitByte s c"
  using assms by (induction w) (auto split: list.splits)

lemma SplitByte_free: "c \<notin> set w \<Longrightarrow> SplitByte w c = [w]"
  by (induction w) auto

lemma Split_Join:
  assumes "ws \<noteq> []" "\<forall>w \<in> set ws. c \<notin> set w"
  shows "SplitByte (JoinByte ws c) c = ws"
  using assms
proof (induction ws)
  case (Cons w ws)
  show ?case
  proof (cases "ws = []")
    case True
    with Cons.prems show ?thesis by (simp add: SplitByte_free)
  next
    case False
    with Cons show ?thesis by (simp add: JoinByte_Cons SplitByte_append)
  qed
qed simp

lemma HasPrefix_append [simp]: "HasPrefix (p @ s) p"
  by (simp add: HasPrefix_def)

lemma HasPrefix_iff: "HasPrefix s p \<longleftrightarrow> (\<exists>t. s = p @ t)"
  by (metis HasPrefix_def HasPrefix_append append_take_drop_id)

lemma TrimPrefix_append [simp]: "TrimPrefix (p @ s) p = s"
  by (simp add: TrimPrefix_def)

lemma HasSuffix_iff: "HasSuffix s p \<longleftrightarrow> (\<exists>t. s = t @ p)"
proof
  assume "HasSuffix s p"
  then have "s = take (length s - length p) s @ p" unfolding HasSuffix_def
    by (metis append_take_drop_id)
  then show "\<exists>t. s = t @ p" by blast
qed (auto simp: HasSuffix_def)

lemma Contains_iff: "Contains s sub \<longleftrightarrow> (\<exists>a b. s = a @ sub @ b)"
proof (induction s)
  case Nil
  then show ?case by auto
next
  case (Cons c cs)
  show ?case
  proof
    assume "Contains (c # cs) sub"
    then consider "HasPrefix (c # cs) sub" | "Contains cs sub" by auto
    then show "\<exists>a b. c # cs = a @ sub @ b"
    proof cases
      case 1
      then show ?thesis by (auto simp: HasPrefix_iff intro: exI [of _ "[]"])
    next
      case 2
      with Cons obtain a b where "cs = a @ sub @ b" by auto
      then have "c # cs = (c # a) @ sub @ b" by simp
      then show ?thesis by blast
    qed
  next
    assume "\<exists>a b. c # cs = a @ sub @ b"
    then obtain a b where ab: "c # cs = a @ sub @ b" by auto
    show "Contains (c # cs) sub"
    proof (cases a)
      case Nil
      with ab have "HasPrefix (c # cs) sub" by (auto simp: HasPrefix_iff)
      then show ?thesis by simp
    next
      case (Cons x xs)
      with ab Cons.IH show ?thesis by auto
    qed
  qed
qed

lemma LastIndexByte_None: "LastIndexByte s c = None \<longleftrightarrow> c \<notin> set s"
  by (induction s) (auto split: option.splits)

lemma LastIndexByte_Some:
  "LastIndexByte s c = Some i \<Longrightarrow> i < length s \<and> s ! i = c \<and> c \<notin> set (drop (Suc i) s)"
proof (induction s arbitrary: i)
  case (Cons x xs)
  show ?case
  proof (cases "LastIndexByte xs c")
    case None
    with Cons.prems show ?thesis by (auto simp: LastIndexByte_None split: if_splits)
  next
    case (Some j)
    with Cons show ?thesis by auto
  qed
qed simp

lemma LastIndexByte_append: "c \<notin> set t \<Longrightarrow> LastIndexByte (s @ c # t) c = Some (length s)"
proof (induction s)
  case Nil
  then have "LastIndexByte t c = None" by (simp add: LastIndexByte_None)
  then show ?case by simp
qed simp

text \<open>\<open>ToLower\<close> on ASCII is the byte-wise map.\<close>

definition lower_byte :: "char \<Rightarrow> char" where
  "lower_byte c = (if 65 \<le> byte c \<and> byte c \<le> 90 then char_of (byte c + 32) else c)"

lemma lower_rune_ascii: "r < 128 \<Longrightarrow> lower_rune r = (if 65 \<le> r \<and> r \<le> 90 then r + 32 else r)"
  by (simp add: lower_rune_def)

lemma ToLower_ascii: "ascii s \<Longrightarrow> ToLower s = map lower_byte s"
proof -
  assume a: "ascii s"
  then have "\<forall>r \<in> set (map lower_rune (map byte s)). r < 128"
    by (auto simp: ascii_def list_all_iff lower_rune_ascii)
  then have "ToLower s = map char_of (map lower_rune (map byte s))"
    using a by (simp add: ToLower_def runes_ascii encode_ascii_runes)
  also have "\<dots> = map lower_byte s"
    using a by (auto simp: ascii_def list_all_iff lower_rune_ascii lower_byte_def)
  finally show ?thesis .
qed

section \<open>Trimming\<close>

lemma decode2_prefix:
  "snd (decode2 b (cs @ v)) \<le> Suc (length cs) \<Longrightarrow> decode2 b cs = decode2 b (cs @ v)"
  by (cases cs) (auto simp: decode2_def split: list.splits if_splits)

lemma decode3_prefix:
  "snd (decode3 lo hi b (cs @ v)) \<le> Suc (length cs) \<Longrightarrow> decode3 lo hi b cs = decode3 lo hi b (cs @ v)"
  by (cases cs; cases "tl cs") (auto simp: decode3_def split: list.splits if_splits)

lemma decode4_prefix:
  "snd (decode4 lo hi b (cs @ v)) \<le> Suc (length cs) \<Longrightarrow> decode4 lo hi b cs = decode4 lo hi b (cs @ v)"
  by (cases cs; cases "tl cs"; cases "tl (tl cs)") (auto simp: decode4_def split: list.splits if_splits)

lemma decode_rune_prefix:
  "u \<noteq> [] \<Longrightarrow> snd (decode_rune (u @ v)) \<le> length u \<Longrightarrow> decode_rune u = decode_rune (u @ v)"
  by (cases u) (auto simp: Let_def intro: decode2_prefix decode3_prefix decode4_prefix)

lemma utf8_chunks_unfold:
  "s \<noteq> [] \<Longrightarrow> utf8_chunks s =
     (fst (decode_rune s), take (snd (decode_rune s)) s) # utf8_chunks (drop (snd (decode_rune s)) s)"
proof (cases s)
  case (Cons c cs)
  obtain r n where d: "decode_rune (c # cs) = (r, n)" by fastforce
  with decode_rune_width [of n c cs] obtain k where "n = Suc k" by (cases n) auto
  with d Cons show ?thesis by simp
qed simp

lemma utf8_chunks_suffix: "utf8_chunks s = xs @ ys \<Longrightarrow> utf8_chunks (concat (map snd ys)) = ys"
proof (induction xs arbitrary: s)
  case Nil
  then show ?case using concat_utf8_chunks [of s] by simp
next
  case (Cons x xs)
  then have "s \<noteq> []" by auto
  with Cons show ?case by (auto simp: utf8_chunks_unfold)
qed

lemma utf8_chunks_prefix: "utf8_chunks s = xs @ ys \<Longrightarrow> utf8_chunks (concat (map snd xs)) = xs"
proof (induction xs arbitrary: s)
  case Nil
  then show ?case by simp
next
  case (Cons x xs)
  then have ne: "s \<noteq> []" by auto
  define r n where "r = fst (decode_rune s)" and "n = snd (decode_rune s)"
  from ne decode_rune_width [of n "hd s" "tl s"] have n: "1 \<le> n" "n \<le> length s"
    by (cases s; simp add: n_def)+
  from Cons.prems ne have x: "x = (r, take n s)" and rest: "utf8_chunks (drop n s) = xs @ ys"
    by (auto simp: utf8_chunks_unfold r_def n_def)
  let ?t = "take n s @ concat (map snd xs)"
  have s: "s = ?t @ concat (map snd ys)"
    using concat_utf8_chunks [of "drop n s"] rest by (metis append.assoc append_take_drop_id concat_append map_append)
  have ne': "?t \<noteq> []" using n ne by auto
  have "decode_rune ?t = decode_rune s"
    using decode_rune_prefix [OF ne', of "concat (map snd ys)"] s n by (simp add: n_def)
  then have "utf8_chunks ?t = (r, take n ?t) # utf8_chunks (drop n ?t)"
    using utf8_chunks_unfold [OF ne'] by (simp add: r_def n_def)
  with n have "utf8_chunks ?t = (r, take n s) # utf8_chunks (concat (map snd xs))"
    by simp
  with Cons.IH [OF rest] x show ?case by simp
qed

definition trim_chunks :: "(rune \<times> string) list \<Rightarrow> (rune \<times> string) list" where
  "trim_chunks cs = rev (dropWhile (IsSpace \<circ> fst) (rev (dropWhile (IsSpace \<circ> fst) cs)))"

lemma trim_chunks_split: "\<exists>a b. cs = a @ trim_chunks cs @ b"
proof -
  let ?d = "dropWhile (IsSpace \<circ> fst) cs"
  have "cs = takeWhile (IsSpace \<circ> fst) cs @ ?d" by simp
  moreover have "?d = trim_chunks cs @ rev (takeWhile (IsSpace \<circ> fst) (rev ?d))"
    unfolding trim_chunks_def by (metis rev_append rev_rev_ident takeWhile_dropWhile_id)
  ultimately show ?thesis by metis
qed

lemma trim_chunks_idem: "trim_chunks (trim_chunks cs) = trim_chunks cs"
proof -
  let ?P = "IsSpace \<circ> fst"
  let ?d = "dropWhile ?P cs"
  let ?z = "trim_chunks cs"
  have z: "?z = rev (dropWhile ?P (rev ?d))" by (simp add: trim_chunks_def)
  have "?z \<noteq> [] \<Longrightarrow> \<not> ?P (hd ?z)"
  proof -
    assume ne: "?z \<noteq> []"
    have "?d = ?z @ rev (takeWhile ?P (rev ?d))"
      unfolding z by (metis rev_append rev_rev_ident takeWhile_dropWhile_id)
    with ne have "hd ?d = hd ?z" "?d \<noteq> []" by (metis hd_append2, force)
    then show ?thesis by (metis hd_dropWhile)
  qed
  then have 1: "dropWhile ?P ?z = ?z" by (cases ?z) auto
  have "rev ?z = dropWhile ?P (rev ?d)" by (simp add: z)
  then have 2: "dropWhile ?P (rev ?z) = rev ?z" by (simp add: dropWhile_idem)
  show ?thesis
    using 1 2 by (simp add: trim_chunks_def [of ?z])
qed

lemma TrimSpace_chunks: "TrimSpace s = concat (map snd (trim_chunks (utf8_chunks s)))"
  by (simp add: TrimSpace_def trim_chunks_def)

lemma utf8_chunks_TrimSpace: "utf8_chunks (TrimSpace s) = trim_chunks (utf8_chunks s)"
proof -
  obtain a b where ab: "utf8_chunks s = a @ trim_chunks (utf8_chunks s) @ b"
    using trim_chunks_split by blast
  then have "utf8_chunks (concat (map snd (trim_chunks (utf8_chunks s) @ b))) = trim_chunks (utf8_chunks s) @ b"
    by (rule utf8_chunks_suffix)
  from utf8_chunks_prefix [OF this] show ?thesis by (simp add: TrimSpace_chunks)
qed

lemma TrimSpace_idem [simp]: "TrimSpace (TrimSpace s) = TrimSpace s"
  by (simp add: TrimSpace_chunks [of "TrimSpace s"] utf8_chunks_TrimSpace trim_chunks_idem)
    (simp add: TrimSpace_chunks)

lemma TrimSpace_ascii:
  assumes "ascii s"
  shows "TrimSpace s =
    rev (dropWhile (\<lambda>c. IsSpace (byte c)) (rev (dropWhile (\<lambda>c. IsSpace (byte c)) s)))"
proof -
  have c: "concat (map (\<lambda>c. [c]) xs) = xs" for xs :: string by (induction xs) auto
  have "TrimSpace s = concat (map snd (map (\<lambda>c. (byte c, [c]))
      (rev (dropWhile (\<lambda>c. IsSpace (byte c)) (rev (dropWhile (\<lambda>c. IsSpace (byte c)) s))))))"
    using assms by (simp add: TrimSpace_def utf8_chunks_ascii dropWhile_map comp_def rev_map)
  then show ?thesis by (simp add: comp_def c)
qed

lemma TrimSpace_Nil [simp]: "TrimSpace [] = []"
  by (simp add: TrimSpace_def)

end
