(* ===== verification/Ops.thy ===== *)
theory Ops
  imports GoStrings "HOL-Library.Word"
begin

text \<open>
  Runtime operator state: \<open>internal/ops/controls.go\<close> (mode, kill switch, queue and lease
  overrides) and \<open>internal/ops/ramp.go\<close> (progressive enforcement: a stable hash bucket per
  customer and a scope filter).
\<close>

unbundle bit_operations_syntax

section \<open>Ramp scope\<close>

record ramp_scope =
  sc_Events :: "string list"
  sc_Routes :: "string list"
  sc_Pools :: "string list"
  sc_Cohorts :: "string list"
  sc_Environments :: "string list"
  sc_Policies :: "string list"

definition emptyScope :: ramp_scope where
  "emptyScope = \<lparr>sc_Events = [], sc_Routes = [], sc_Pools = [], sc_Cohorts = [],
     sc_Environments = [], sc_Policies = []\<rparr>"

record ramp_input =
  ri_CustomerID :: string
  ri_Resource :: string
  ri_Action :: string
  ri_RuleName :: string
  ri_EventID :: string
  ri_Path :: string
  ri_Pool :: string
  ri_Cohort :: string
  ri_Env :: string

definition scopeEmpty :: "ramp_scope \<Rightarrow> bool" where
  "scopeEmpty s \<longleftrightarrow>
     length (sc_Events s) + length (sc_Routes s) + length (sc_Pools s) + length (sc_Cohorts s)
       + length (sc_Environments s) + length (sc_Policies s) = 0"

definition matchOne :: "string \<Rightarrow> string \<Rightarrow> bool" where
  "matchOne want got =
     (if got = '''' then False
      else if EqualFold want got then True
      else if HasSuffix want ''*'' then
        HasPrefix (ToLower got) (ToLower (TrimSuffix want ''*''))
      else Contains (ToLower got) (ToLower want))"

fun matchAny :: "string list \<Rightarrow> string list \<Rightarrow> bool" where
  "matchAny [] vals = False"
| "matchAny (w # ws) vals =
     (let want = TrimSpace w in
      if want = '''' then matchAny ws vals
      else if list_ex (matchOne want) vals then True
      else matchAny ws vals)"

definition scopeMatch :: "ramp_scope \<Rightarrow> ramp_input \<Rightarrow> bool" where
  "scopeMatch s inp =
     (if scopeEmpty s then True
      else if sc_Events s \<noteq> [] \<and> \<not> matchAny (sc_Events s) [ri_EventID inp, ri_Resource inp] then False
      else if sc_Routes s \<noteq> [] \<and> \<not> matchAny (sc_Routes s) [ri_Action inp, ri_Path inp] then False
      else if sc_Pools s \<noteq> [] \<and> \<not> matchAny (sc_Pools s) [ri_Pool inp, ri_Resource inp] then False
      else if sc_Cohorts s \<noteq> [] \<and> \<not> matchAny (sc_Cohorts s) [ri_Cohort inp, ri_CustomerID inp] then False
      else if sc_Environments s \<noteq> [] \<and> \<not> matchAny (sc_Environments s) [ri_Env inp] then False
      else if sc_Policies s \<noteq> [] \<and> \<not> matchAny (sc_Policies s) [ri_RuleName inp] then False
      else True)"

section \<open>Buckets\<close>

text \<open>FNV-1a over 64 bits, as \<open>hash/fnv\<close> computes it.\<close>

definition fnv64a_step :: "64 word \<Rightarrow> char \<Rightarrow> 64 word" where
  "fnv64a_step h c = (h XOR of_nat (byte c)) * 1099511628211"

definition fnv64a :: "string \<Rightarrow> 64 word" where
  "fnv64a s = foldl fnv64a_step 14695981039346656037 s"

definition Bucket :: "string \<Rightarrow> string \<Rightarrow> int" where
  "Bucket customerID salt = uint (fnv64a (salt @ [CHR 0x00] @ customerID) mod 100)"

definition ClampPercent :: "int \<Rightarrow> int" where
  "ClampPercent n = (if n < 0 then 0 else if n > 100 then 100 else n)"

definition InRamp :: "string \<Rightarrow> int \<Rightarrow> string \<Rightarrow> bool" where
  "InRamp customerID percent salt =
     (if percent \<le> 0 then False
      else if percent \<ge> 100 then True
      else Bucket customerID salt < percent)"

text \<open>\<open>strconv.Atoi\<close>: an optional sign, at least one digit, and the range of a 64-bit int.\<close>

definition is_digit :: "char \<Rightarrow> bool" where
  "is_digit c \<longleftrightarrow> 48 \<le> byte c \<and> byte c \<le> 57"

definition digits_value :: "string \<Rightarrow> int" where
  "digits_value s = foldl (\<lambda>n c. 10 * n + (int (byte c) - 48)) 0 s"

definition Atoi :: "string \<Rightarrow> int option" where
  "Atoi s =
     (let neg = (s \<noteq> [] \<and> hd s = CHR ''-'');
          ds = (if s \<noteq> [] \<and> (hd s = CHR ''-'' \<or> hd s = CHR ''+'') then tl s else s)
      in if ds = [] \<or> \<not> list_all is_digit ds then None
         else let n = (if neg then - digits_value ds else digits_value ds)
              in if - (2 ^ 63) \<le> n \<and> n < 2 ^ 63 then Some n else None)"

definition ParsePercent :: "string \<Rightarrow> int option" where
  "ParsePercent s = map_option ClampPercent (Atoi (TrimSpace s))"

section \<open>Controls\<close>

definition ModeEnforce :: string where "ModeEnforce = ''enforce''"
definition ModeDryRun :: string where "ModeDryRun = ''dry-run''"

record controls =
  c_Mode :: string
  c_Enforcement :: bool
  c_EnforcePercent :: int
  c_RampSalt :: string
  c_Scope :: ramp_scope
  c_QueueEnabled :: bool
  c_MaxWaiters :: int
  c_LeaseTTLSeconds :: int
  c_FailClosed :: bool
  c_DisabledActions :: "string list"
  c_UpdatedBy :: string

definition DefaultControls :: controls where
  "DefaultControls =
     \<lparr>c_Mode = ModeEnforce, c_Enforcement = True, c_EnforcePercent = 100, c_RampSalt = '''',
      c_Scope = emptyScope, c_QueueEnabled = True, c_MaxWaiters = 0, c_LeaseTTLSeconds = 0,
      c_FailClosed = True, c_DisabledActions = [], c_UpdatedBy = ''''\<rparr>"

text \<open>
  \<open>lower\<close> folds only ASCII letters. The loop \<open>for i := range a\<close> of \<open>stringsEqual\<close> visits the
  indices at which a rune of \<open>a\<close> starts, and compares the bytes there.
\<close>

definition lower :: "char \<Rightarrow> char" where
  "lower b = (if 65 \<le> byte b \<and> byte b \<le> 90 then char_of (byte b + 32) else b)"

definition rune_starts :: "string \<Rightarrow> nat list" where
  "rune_starts s = (let ls = map (length \<circ> snd) (utf8_chunks s)
     in map (\<lambda>i. sum_list (take i ls)) [0..<length ls])"

definition stringsEqual :: "string \<Rightarrow> string \<Rightarrow> bool" where
  "stringsEqual a b =
     (if length a \<noteq> length b then False
      else list_all (\<lambda>i. lower (a ! i) = lower (b ! i)) (rune_starts a))"

definition FromEnv :: "string \<Rightarrow> bool \<Rightarrow> bool \<Rightarrow> int \<Rightarrow> controls" where
  "FromEnv mode enforcement queue percent =
     (let c = DefaultControls;
          c = (if stringsEqual mode ModeDryRun
               then c\<lparr>c_Mode := ModeDryRun, c_EnforcePercent := 0\<rparr> else c);
          c = (if percent \<ge> 0 then c\<lparr>c_EnforcePercent := ClampPercent percent\<rparr> else c)
      in c\<lparr>c_Enforcement := enforcement, c_QueueEnabled := queue\<rparr>)"

definition EffectivePercent :: "controls \<Rightarrow> int" where
  "EffectivePercent c =
     (if \<not> c_Enforcement c \<or> stringsEqual (c_Mode c) ModeDryRun then 0
      else ClampPercent (c_EnforcePercent c))"

definition DryRun :: "controls \<Rightarrow> bool" where
  "DryRun c \<longleftrightarrow> stringsEqual (c_Mode c) ModeDryRun \<or> EffectivePercent c = 0"

definition PassThrough :: "controls \<Rightarrow> bool" where
  "PassThrough c = (\<not> c_Enforcement c)"

definition ShouldEnforce :: "controls \<Rightarrow> ramp_input \<Rightarrow> bool" where
  "ShouldEnforce c inp =
     (let p = EffectivePercent c in
      if p \<le> 0 then False
      else if \<not> scopeMatch (c_Scope c) inp then False
      else InRamp (ri_CustomerID inp) p (c_RampSalt c))"

definition EffectiveWaiters :: "controls \<Rightarrow> int \<Rightarrow> int" where
  "EffectiveWaiters c policyWaiters =
     (if \<not> c_QueueEnabled c then 0
      else if c_MaxWaiters c > 0 then c_MaxWaiters c
      else policyWaiters)"

definition ActionDisabled :: "controls \<Rightarrow> string \<Rightarrow> bool" where
  "ActionDisabled c action = list_ex (\<lambda>a. stringsEqual a action) (c_DisabledActions c)"

definition trim_nonempty :: "string list \<Rightarrow> string list" where
  "trim_nonempty acts = filter (\<lambda>a. a \<noteq> '''') (map TrimSpace acts)"

definition Normalize :: "controls \<Rightarrow> controls" where
  "Normalize c =
     (let c = (if c_Mode c \<noteq> ModeDryRun then c\<lparr>c_Mode := ModeEnforce\<rparr> else c);
          c = c\<lparr>c_EnforcePercent := ClampPercent (c_EnforcePercent c)\<rparr>;
          c = (if c_Mode c = ModeDryRun then c\<lparr>c_EnforcePercent := 0\<rparr> else c)
      in c\<lparr>c_DisabledActions := trim_nonempty (c_DisabledActions c)\<rparr>)"

definition JoinActions :: "string list \<Rightarrow> string" where
  "JoinActions acts = JoinByte acts (CHR '','')"

definition SplitActions :: "string \<Rightarrow> string list" where
  "SplitActions raw = (if raw = '''' then [] else trim_nonempty (SplitByte raw (CHR '','')))"

section \<open>Lemmas\<close>

lemma ClampPercent_bounds: "0 \<le> ClampPercent n \<and> ClampPercent n \<le> 100"
  by (simp add: ClampPercent_def)

lemma ClampPercent_id: "0 \<le> n \<Longrightarrow> n \<le> 100 \<Longrightarrow> ClampPercent n = n"
  by (simp add: ClampPercent_def)

lemma Bucket_bounds: "0 \<le> Bucket c s \<and> Bucket c s < 100"
proof -
  have "uint (w mod 100) < 100" for w :: "64 word"
    by (simp add: uint_mod)
  then show ?thesis by (simp add: Bucket_def)
qed

lemma InRamp_clamp: "InRamp c (ClampPercent p) s = InRamp c p s"
  by (auto simp: InRamp_def ClampPercent_def)

lemma InRamp_iff: "InRamp c p s \<longleftrightarrow> Bucket c s < p"
  using Bucket_bounds [of c s] by (auto simp: InRamp_def)

lemma EffectivePercent_bounds: "0 \<le> EffectivePercent c \<and> EffectivePercent c \<le> 100"
  using ClampPercent_bounds by (simp add: EffectivePercent_def)

lemma stringsEqual_refl [simp]: "stringsEqual a a"
  by (simp add: stringsEqual_def list_all_iff)

lemma rune_starts_ascii: "ascii s \<Longrightarrow> rune_starts s = [0..<length s]"
proof -
  assume "ascii s"
  then have "map (length \<circ> snd) (utf8_chunks s) = replicate (length s) 1"
    by (simp add: utf8_chunks_ascii comp_def map_replicate_const)
  then show ?thesis
    by (auto simp: rune_starts_def take_replicate sum_list_replicate intro: map_idI)
qed

lemma stringsEqual_ascii: "ascii a \<Longrightarrow> stringsEqual a b \<longleftrightarrow> map lower a = map lower b"
proof -
  assume "ascii a"
  then have "stringsEqual a b \<longleftrightarrow> length a = length b \<and> (\<forall>i < length a. lower (a ! i) = lower (b ! i))"
    by (auto simp: stringsEqual_def rune_starts_ascii list_all_iff)
  moreover have "map lower a = map lower b \<longleftrightarrow> length a = length b \<and> (\<forall>i < length a. lower (a ! i) = lower (b ! i))"
    by (subst list_eq_iff_nth_eq) auto
  ultimately show ?thesis by simp
qed

lemma ShouldEnforce_iff:
  "ShouldEnforce c inp \<longleftrightarrow>
     c_Enforcement c \<and> \<not> stringsEqual (c_Mode c) ModeDryRun
     \<and> scopeMatch (c_Scope c) inp
     \<and> Bucket (ri_CustomerID inp) (c_RampSalt c) < ClampPercent (c_EnforcePercent c)"
  using Bucket_bounds [of "ri_CustomerID inp" "c_RampSalt c"]
  by (auto simp: ShouldEnforce_def EffectivePercent_def InRamp_iff Let_def)

end
