(* ===== verification/Schema.thy ===== *)
theory Schema
  imports Lease Ops
begin

text \<open>
  The database state: one field per table of
  \<open>internal/store/postgres/migrations\<close>, with the row types the store reads and writes
  (\<open>waiters.go\<close>, \<open>seed.go\<close>, \<open>policy.go\<close>, \<open>ops.go\<close>, \<open>store.go\<close>), and the statements
  that several operations share. A table is a list of rows in the order a scan meets them, or a
  map from its primary key. A row of \<open>runtime_controls\<close> is kept as the controls and the text of
  its column \<open>disabled_actions\<close>. Columns that are written and never read (\<open>updated_at\<close> of
  \<open>domains\<close> and of \<open>runtime_controls\<close>) are left out.
\<close>

section \<open>Rows\<close>

record waiter =
  w_ID :: string
  w_MerchantID :: string
  w_DomainKey :: string
  w_CustomerID :: string
  w_Principal :: principal
  w_SessionID :: string
  w_Resource :: string
  w_Action :: string
  w_RuleName :: string
  w_MaxActive :: int
  w_LeaseTTL :: duration
  w_MaxLifetime :: duration
  w_CreatedAt :: time
  w_ExpiresAt :: time
  w_Position :: int

record session_row =
  s_ID :: string
  s_MerchantID :: string
  s_CustomerID :: string
  s_Anchors :: "(string \<times> string) list"
  s_PrincipalType :: string
  s_PrincipalID :: string
  s_ExpiresAt :: time
  s_RevokedAt :: "time option"
  s_Version :: int

record merchant_row =
  m_Name :: string
  m_IDPHMACSecret :: "string option"

record signing_key =
  k_KID :: string
  k_MerchantID :: string
  k_Public :: string
  k_Private :: string
  k_CreatedAt :: time
  k_RetiredAt :: "time option"

record policy_row =
  pr_MerchantID :: string
  pr_Version :: int
  pr_YAML :: string
  pr_Active :: bool

record budget_row =
  bu_MerchantID :: string
  bu_MaxOps :: int
  bu_OpsUsed :: int

record dry_hold =
  dh_ID :: string
  dh_MerchantID :: string
  dh_DomainKey :: string
  dh_CustomerID :: string
  dh_PrincipalID :: string
  dh_Resource :: string
  dh_Action :: string
  dh_RuleName :: string
  dh_Kind :: string
  dh_ExpiresAt :: time

record dry_event =
  de_Would :: string
  de_Reason :: string
  de_CustomerID :: string
  de_PrincipalID :: string
  de_Resource :: string
  de_Action :: string
  de_RuleName :: string
  de_RequestID :: string
  de_Enforced :: bool
  de_Error :: string

record dry_event_row =
  der_MerchantID :: string
  der_At :: time
  der_Event :: dry_event

text \<open>JSON values, for the \<open>attrs\<close> column of the audit table.\<close>

datatype json = JNull | JBool bool | JNum int | JStr string | JArr "json list" | JObj "(string \<times> json) list"

record audit_row =
  ar_typ :: string
  ar_customerID :: string
  ar_principalType :: string
  ar_principalID :: string
  ar_domainKey :: string
  ar_executionID :: string
  ar_ruleName :: string
  ar_reason :: string
  ar_requestID :: string
  ar_fence :: "int option"
  ar_attrs :: "(string \<times> json) list"

definition auditRow0 :: audit_row where
  "auditRow0 = \<lparr>ar_typ = '''', ar_customerID = '''', ar_principalType = '''', ar_principalID = '''',
     ar_domainKey = '''', ar_executionID = '''', ar_ruleName = '''', ar_reason = '''',
     ar_requestID = '''', ar_fence = None, ar_attrs = []\<rparr>"

text \<open>A stored audit event; the nullable text columns hold \<open>nullIfEmpty\<close> of what was given.\<close>

record audit_event =
  a_MerchantID :: string
  a_At :: time
  a_Type :: string
  a_CustomerID :: "string option"
  a_PrincipalType :: "string option"
  a_PrincipalID :: "string option"
  a_DomainKey :: "string option"
  a_ExecutionID :: "string option"
  a_Fence :: "int option"
  a_RuleName :: "string option"
  a_Reason :: "string option"
  a_RequestID :: "string option"
  a_Attrs :: "(string \<times> json) list"

section \<open>The database\<close>

record db =
  domains :: "string \<times> string \<rightharpoonup> int"
  executions :: "execution list"
  waiters :: "waiter list"
  sessions :: "session_row list"
  audits :: "audit_event list"
  merchants :: "string \<rightharpoonup> merchant_row"
  signing_keys :: "signing_key list"
  policies :: "policy_row list"
  runtime_controls :: "string \<rightharpoonup> controls \<times> string"
  dry_holds :: "dry_hold list"
  dry_events :: "dry_event_row list"
  budgets :: "string \<rightharpoonup> budget_row"
  replay_keys :: "string \<times> string \<rightharpoonup> string \<times> time"

definition empty_db :: db where
  "empty_db = \<lparr>domains = Map.empty, executions = [], waiters = [], sessions = [], audits = [],
     merchants = Map.empty, signing_keys = [], policies = [], runtime_controls = Map.empty,
     dry_holds = [], dry_events = [], budgets = Map.empty, replay_keys = Map.empty\<rparr>"

type_synonym 'a db_op = "(db, 'a) dbop"

section \<open>Shared statements\<close>

text \<open>\<open>interval(d)\<close> renders a duration in whole milliseconds; this is the span it denotes.\<close>

definition interval :: "duration \<Rightarrow> duration" where
  "interval d = milliseconds d * millisecond"

lemma interval_le: "0 \<le> d \<Longrightarrow> interval d \<le> d \<and> 0 \<le> interval d"
  by (simp add: interval_def milliseconds_nonneg)

lemma interval_mono: "0 \<le> a \<Longrightarrow> a \<le> b \<Longrightarrow> interval a \<le> interval b"
  by (simp add: interval_def milliseconds_mono)

lemma interval_pos: "millisecond \<le> d \<Longrightarrow> 0 < interval d"
proof -
  assume d: "millisecond \<le> d"
  then have "millisecond div millisecond \<le> d div millisecond" by (intro zdiv_mono1) auto
  with d show ?thesis by (simp add: interval_def milliseconds_nonneg)
qed

definition nullIfEmpty :: "string \<Rightarrow> string option" where
  "nullIfEmpty s = (if s = '''' then None else Some s)"

definition coalesce :: "string option \<Rightarrow> string" where
  "coalesce v = (case v of None \<Rightarrow> '''' | Some s \<Rightarrow> s)"

lemma coalesce_nullIfEmpty [simp]: "coalesce (nullIfEmpty s) = s"
  by (simp add: coalesce_def nullIfEmpty_def)

definition audit_of :: "time \<Rightarrow> string \<Rightarrow> audit_row \<Rightarrow> audit_event" where
  "audit_of now merchantID a =
     \<lparr>a_MerchantID = merchantID, a_At = now, a_Type = ar_typ a,
      a_CustomerID = nullIfEmpty (ar_customerID a),
      a_PrincipalType = nullIfEmpty (ar_principalType a),
      a_PrincipalID = nullIfEmpty (ar_principalID a),
      a_DomainKey = nullIfEmpty (ar_domainKey a),
      a_ExecutionID = nullIfEmpty (ar_executionID a),
      a_Fence = ar_fence a,
      a_RuleName = nullIfEmpty (ar_ruleName a),
      a_Reason = nullIfEmpty (ar_reason a),
      a_RequestID = nullIfEmpty (ar_requestID a),
      a_Attrs = ar_attrs a\<rparr>"

definition insertAudit :: "time \<Rightarrow> string \<Rightarrow> audit_row \<Rightarrow> unit db_op" where
  "insertAudit now merchantID a = modify (\<lambda>d. d\<lparr>audits := audits d @ [audit_of now merchantID a]\<rparr>)"

text \<open>\<open>update domains set fence = fence + 1 ... returning fence\<close>.\<close>

definition bumpFence :: "string \<Rightarrow> string \<Rightarrow> int db_op" where
  "bumpFence merchantID domainKey = stmt (\<lambda>d.
     (case domains d (merchantID, domainKey) of
        None \<Rightarrow> Inl ErrNoRows
      | Some f \<Rightarrow>
          if f + 1 > max_bigint then Inl ErrSQL
          else Inr (f + 1, d\<lparr>domains := (domains d)((merchantID, domainKey) \<mapsto> f + 1)\<rparr>)))"

text \<open>\<open>insert into executions\<close>, whose primary key is the execution id.\<close>

definition insertExecution :: "execution \<Rightarrow> unit db_op" where
  "insertExecution e = stmt (\<lambda>d.
     if list_ex (\<lambda>x. e_ID x = e_ID e) (executions d) then Inl ErrSQL
     else Inr ((), d\<lparr>executions := executions d @ [e]\<rparr>))"

text \<open>
  \<open>update executions set ... where ... returning ...\<close>: the first matching row as updated, or
  no rows. \<open>renew_count\<close> is a 32-bit column.
\<close>

definition updateExecution :: "(execution \<Rightarrow> bool) \<Rightarrow> (execution \<Rightarrow> execution) \<Rightarrow> execution db_op" where
  "updateExecution P f = stmt (\<lambda>d.
     (case find P (executions d) of
        None \<Rightarrow> Inl ErrNoRows
      | Some e \<Rightarrow>
          if list_ex (\<lambda>x. P x \<and> e_RenewCount (f x) > max_int4) (executions d) then Inl ErrSQL
          else Inr (f e, d\<lparr>executions := update_where P f (executions d)\<rparr>)))"

definition liveIn :: "string \<Rightarrow> string \<Rightarrow> time \<Rightarrow> execution \<Rightarrow> bool" where
  "liveIn merchantID domainKey now e \<longleftrightarrow>
     e_MerchantID e = merchantID \<and> e_DomainKey e = domainKey
     \<and> e_State e = StateActive \<and> e_ExpiresAt e > now"

lemma runs_bumpFence:
  "runs (bumpFence m k) d f d' \<longleftrightarrow>
     (\<exists>f0. domains d (m, k) = Some f0 \<and> f = f0 + 1 \<and> f \<le> max_bigint
        \<and> d' = d\<lparr>domains := (domains d)((m, k) \<mapsto> f)\<rparr>)"
  by (auto simp: bumpFence_def split: option.splits if_splits)

lemma runs_insertExecution:
  "runs (insertExecution e) d u d' \<longleftrightarrow>
     (\<forall>x \<in> set (executions d). e_ID x \<noteq> e_ID e) \<and> d' = d\<lparr>executions := executions d @ [e]\<rparr>"
  by (auto simp: insertExecution_def list_ex_iff split: if_splits)

lemma runs_updateExecution:
  "runs (updateExecution P f) d e' d' \<Longrightarrow>
     \<exists>e. find P (executions d) = Some e \<and> e' = f e
        \<and> d' = d\<lparr>executions := update_where P f (executions d)\<rparr>"
  by (auto simp: updateExecution_def split: option.splits if_splits)

lemma runs_andThen_bumpFence [runs_simps]:
  "runs (andThen (bumpFence m k) h) d b t \<longleftrightarrow>
     (\<exists>f. domains d (m, k) = Some f \<and> f + 1 \<le> max_bigint
        \<and> runs (h (f + 1)) (d\<lparr>domains := (domains d)((m, k) \<mapsto> f + 1)\<rparr>) b t)"
  unfolding bumpFence_def runs_simps by (auto split: option.splits if_splits)

lemma runs_andThen_insertExecution [runs_simps]:
  "runs (andThen (insertExecution e) h) d b t \<longleftrightarrow>
     e_ID e \<notin> e_ID ` set (executions d)
     \<and> runs (h ()) (d\<lparr>executions := executions d @ [e]\<rparr>) b t"
proof -
  have "list_ex (\<lambda>x. e_ID x = e_ID e) (executions d) \<longleftrightarrow> e_ID e \<in> e_ID ` set (executions d)"
    by (rule list_ex_eq)
  then show ?thesis unfolding insertExecution_def runs_simps by (simp split: if_splits)
qed

lemma runs_andThen_updateExecution [runs_simps]:
  "runs (andThen (updateExecution P f) h) d b t \<longleftrightarrow>
     (\<exists>e. find P (executions d) = Some e
        \<and> \<not> list_ex (\<lambda>x. P x \<and> e_RenewCount (f x) > max_int4) (executions d)
        \<and> runs (h (f e)) (d\<lparr>executions := update_where P f (executions d)\<rparr>) b t)"
  unfolding updateExecution_def runs_simps by (auto split: option.splits if_splits)

lemma runs_andThen_insertAudit [runs_simps]:
  "runs (andThen (insertAudit now m a) h) d b t \<longleftrightarrow>
     runs (h ()) (d\<lparr>audits := audits d @ [audit_of now m a]\<rparr>) b t"
  by (simp add: insertAudit_def runs_simps)

lemma runs_insertAudit [simp]:
  "runs (insertAudit now m a) d u d' \<longleftrightarrow> d' = d\<lparr>audits := audits d @ [audit_of now m a]\<rparr>"
  by (simp add: insertAudit_def)

end
