(* ===== verification/Store.thy ===== *)
theory Store
  imports Schema
begin

text \<open>
  The lease operations of the Postgres store: \<open>acquire.go\<close>, \<open>waiters.go\<close>, \<open>mutate.go\<close> and
  \<open>handoff.go\<close> of \<open>internal/store/postgres\<close>, and the session lookup of \<open>seed.go\<close>. Each
  operation is translated statement by statement. \<open>now\<close> is the value of Postgres' \<open>now()\<close> in
  the transaction (its start time), \<open>rnd\<close> the bytes drawn for a new identifier. A transaction
  locks the domain row first, so two transactions of one domain run one after the other; the
  model runs each transaction as one step.
\<close>

section \<open>Reads\<close>

definition Session :: "string \<Rightarrow> session_row db_op" where
  "Session sessionID =
     attempt (query_row (\<lambda>d. find (\<lambda>s. s_ID s = sessionID) (sessions d))) (\<lambda>r.
       case r of
         Inr sess \<Rightarrow> ret sess
       | Inl err \<Rightarrow> if err = ErrNoRows then throw err else throw (wrapStore err))"

definition lockDomain :: "string \<Rightarrow> string \<Rightarrow> unit db_op" where
  "lockDomain merchantID domainKey =
     query_row (\<lambda>d. map_option (\<lambda>_. ()) (domains d (merchantID, domainKey)))"

definition loadActiveForUpdate :: "time \<Rightarrow> string \<Rightarrow> string \<Rightarrow> execution db_op" where
  "loadActiveForUpdate now merchantID executionID =
     attempt (query_row (\<lambda>d. find (\<lambda>e. e_MerchantID e = merchantID \<and> e_ID e = executionID) (executions d))) (\<lambda>r.
       case r of
         Inl err \<Rightarrow> if err = ErrNoRows then throw ErrNotFound else throw err
       | Inr e \<Rightarrow>
           if e_State e \<noteq> StateActive
           then throw (GoneError (state_name (e_State e)) (e_SuccessorID e) (e_ID e))
           else andThen
             (query_row (\<lambda>d. map_option (\<lambda>x. e_ExpiresAt x > now) (find (\<lambda>x. e_ID x = e_ID e) (executions d))))
             (\<lambda>live. if \<not> live then throw (GoneError ReasonExpired '''' (e_ID e)) else ret e))"

definition holderMatches :: "execution \<Rightarrow> string \<Rightarrow> unit db_op" where
  "holderMatches e sessionID =
     (if e_SessionID e = sessionID then ret ()
      else attempt (Session sessionID) (\<lambda>r.
        case r of
          Inl err \<Rightarrow> if err = ErrNoRows then throw ErrNotHolder else throw err
        | Inr caller \<Rightarrow>
            if s_MerchantID caller \<noteq> e_MerchantID e \<or> s_CustomerID caller \<noteq> e_CustomerID e
            then throw ErrNotHolder
            else if s_PrincipalType caller \<noteq> p_Type (e_Principal e)
                    \<or> s_PrincipalID caller \<noteq> p_ID (e_Principal e)
            then throw ErrNotHolder
            else ret ()))"

definition lookupDomainKey :: "string \<Rightarrow> string \<Rightarrow> string db_op" where
  "lookupDomainKey merchantID executionID =
     attempt (query_row (\<lambda>d. map_option e_DomainKey
         (find (\<lambda>e. e_MerchantID e = merchantID \<and> e_ID e = executionID) (executions d)))) (\<lambda>r.
       case r of
         Inr domainKey \<Rightarrow> ret domainKey
       | Inl err \<Rightarrow>
           if err \<noteq> ErrNoRows then throw (wrapStore err)
           else attempt (query_row (\<lambda>d. map_option w_DomainKey
               (find (\<lambda>w. w_MerchantID w = merchantID \<and> w_ID w = executionID) (waiters d)))) (\<lambda>r2.
             case r2 of
               Inr domainKey \<Rightarrow> ret domainKey
             | Inl err2 \<Rightarrow> if err2 = ErrNoRows then throw ErrNotFound else throw (wrapStore err2)))"

section \<open>Waiters\<close>

definition waiterPosition :: "time \<Rightarrow> string \<Rightarrow> string \<Rightarrow> time \<Rightarrow> int db_op" where
  "waiterPosition now merchantID domainKey createdAt = query (\<lambda>d.
     count_where (\<lambda>w. w_MerchantID w = merchantID \<and> w_DomainKey w = domainKey
       \<and> w_ExpiresAt w > now \<and> w_CreatedAt w \<le> createdAt) (waiters d))"

definition loadWaiterByPrincipal :: "time \<Rightarrow> string \<Rightarrow> string \<Rightarrow> principal \<Rightarrow> waiter db_op" where
  "loadWaiterByPrincipal now merchantID domainKey p = query_row (\<lambda>d.
     find (\<lambda>w. w_MerchantID w = merchantID \<and> w_DomainKey w = domainKey
       \<and> w_Principal w = p \<and> w_ExpiresAt w > now) (waiters d))"

definition waiterAsExecution :: "waiter \<Rightarrow> execution" where
  "waiterAsExecution w =
     \<lparr>e_ID = w_ID w, e_MerchantID = w_MerchantID w, e_DomainKey = w_DomainKey w,
      e_CustomerID = w_CustomerID w, e_Principal = w_Principal w, e_SessionID = w_SessionID w,
      e_Resource = w_Resource w, e_Action = w_Action w, e_RuleName = w_RuleName w,
      e_Fence = 0, e_State = StateQueued, e_GrantedAt = w_CreatedAt w,
      e_ExpiresAt = w_ExpiresAt w, e_MaxLifetimeAt = w_ExpiresAt w, e_RenewCount = 0,
      e_EndedAt = None, e_EndReason = '''', e_SuccessorID = '''',
      e_QueuePosition = w_Position w, e_OpsUsed = 0, e_MaxOps = 0\<rparr>"

definition queuedResult :: "waiter \<Rightarrow> execution \<Rightarrow> acquire_result" where
  "queuedResult w holder =
     \<lparr>r_Status = StatusQueued,
      r_Execution = Some (waiterAsExecution w),
      r_Busy = Some \<lparr>b_ActiveExecutionID = e_ID holder, b_Holder = e_Principal holder,
                     b_ExpiresAt = e_ExpiresAt holder, b_CanPreempt = False\<rparr>,
      r_Queue = Some \<lparr>qi_WaiterID = w_ID w, qi_Position = w_Position w,
                      qi_ActiveExecutionID = e_ID holder, qi_ExpiresAt = w_ExpiresAt w\<rparr>,
      r_Reason = ''''\<rparr>"

definition busyResult :: "time \<Rightarrow> acquire_request \<Rightarrow> execution \<Rightarrow> acquire_result db_op" where
  "busyResult now req holder =
     andThen (insertAudit now (q_MerchantID req) (auditRow0\<lparr>
         ar_typ := ''EXECUTION_BUSY'', ar_customerID := q_CustomerID req,
         ar_principalType := p_Type (q_Principal req), ar_principalID := p_ID (q_Principal req),
         ar_domainKey := q_DomainKey req, ar_executionID := e_ID holder,
         ar_ruleName := q_RuleName req, ar_reason := ''max_active'',
         ar_requestID := q_RequestID req, ar_fence := Some (e_Fence holder)\<rparr>)) (\<lambda>_.
     ret \<lparr>r_Status = StatusBusy, r_Execution = None,
          r_Busy = Some \<lparr>b_ActiveExecutionID = e_ID holder, b_Holder = e_Principal holder,
                         b_ExpiresAt = e_ExpiresAt holder,
                         b_CanPreempt = CanPreemptRanked (q_Principal req) (e_Principal holder) (q_Precedence req)\<rparr>,
          r_Queue = None, r_Reason = ''''\<rparr>)"

text \<open>
  \<open>insert into waiters\<close>: a primary key and the unique index \<open>waiters_domain_principal\<close>;
  \<open>max_active\<close> is a 32-bit column and the durations are kept in milliseconds.
\<close>

definition insertWaiter :: "waiter \<Rightarrow> unit db_op" where
  "insertWaiter w = stmt (\<lambda>d.
     if list_ex (\<lambda>x. w_ID x = w_ID w) (waiters d)
        \<or> list_ex (\<lambda>x. w_MerchantID x = w_MerchantID w \<and> w_DomainKey x = w_DomainKey w
                        \<and> w_Principal x = w_Principal w) (waiters d)
        \<or> w_MaxActive w > max_int4
     then Inl ErrSQL
     else Inr ((), d\<lparr>waiters := waiters d @ [w\<lparr>w_LeaseTTL := interval (w_LeaseTTL w),
                                                 w_MaxLifetime := interval (w_MaxLifetime w)\<rparr>]\<rparr>))"

definition newWaiter :: "time \<Rightarrow> string \<Rightarrow> acquire_request \<Rightarrow> waiter" where
  "newWaiter now rnd req =
     \<lparr>w_ID = id_Execution rnd, w_MerchantID = q_MerchantID req, w_DomainKey = q_DomainKey req,
      w_CustomerID = q_CustomerID req, w_Principal = q_Principal req,
      w_SessionID = q_SessionID req, w_Resource = q_Resource req, w_Action = q_Action req,
      w_RuleName = q_RuleName req, w_MaxActive = q_MaxActive req, w_LeaseTTL = q_TTL req,
      w_MaxLifetime = q_MaxLifetime req, w_CreatedAt = now,
      w_ExpiresAt = now + interval (q_MaxLifetime req), w_Position = 0\<rparr>"

definition enqueueWaiter :: "time \<Rightarrow> string \<Rightarrow> acquire_request \<Rightarrow> execution \<Rightarrow> acquire_result db_op" where
  "enqueueWaiter now rnd req holder =
     attempt (loadWaiterByPrincipal now (q_MerchantID req) (q_DomainKey req) (q_Principal req)) (\<lambda>r.
       case r of
         Inr existing \<Rightarrow>
           andThen (waiterPosition now (q_MerchantID req) (q_DomainKey req) (w_CreatedAt existing)) (\<lambda>pos.
           ret (queuedResult (existing\<lparr>w_Position := pos\<rparr>) holder))
       | Inl err \<Rightarrow>
           if err \<noteq> ErrNoRows then throw err
           else
             andThen (query (\<lambda>d. count_where (\<lambda>w. w_MerchantID w = q_MerchantID req
                 \<and> w_DomainKey w = q_DomainKey req \<and> w_ExpiresAt w > now) (waiters d))) (\<lambda>n.
             if n \<ge> q_MaxWaiters req then busyResult now req holder
             else
               let w = newWaiter now rnd req in
               andThen (insertWaiter w) (\<lambda>_.
               andThen (waiterPosition now (q_MerchantID req) (q_DomainKey req) (w_CreatedAt w)) (\<lambda>pos.
               andThen (insertAudit now (q_MerchantID req) (auditRow0\<lparr>
                   ar_typ := ''EXECUTION_QUEUED'', ar_customerID := q_CustomerID req,
                   ar_principalType := p_Type (q_Principal req), ar_principalID := p_ID (q_Principal req),
                   ar_domainKey := q_DomainKey req, ar_executionID := w_ID w,
                   ar_ruleName := q_RuleName req, ar_reason := ''queued'',
                   ar_requestID := q_RequestID req, ar_fence := Some (e_Fence holder)\<rparr>)) (\<lambda>_.
               ret (queuedResult (w\<lparr>w_Position := pos\<rparr>) holder))))))"

definition getWaiter :: "time \<Rightarrow> string \<Rightarrow> string \<Rightarrow> execution db_op" where
  "getWaiter now merchantID waiterID =
     attempt (query_row (\<lambda>d. find (\<lambda>w. w_MerchantID w = merchantID \<and> w_ID w = waiterID
                                      \<and> w_ExpiresAt w > now) (waiters d))) (\<lambda>r.
       case r of
         Inl err \<Rightarrow> if err = ErrNoRows then throw ErrNotFound else throw (wrapStore err)
       | Inr w \<Rightarrow>
           wrapping (andThen (waiterPosition now merchantID (w_DomainKey w) (w_CreatedAt w)) (\<lambda>pos.
             ret (waiterAsExecution (w\<lparr>w_Position := pos\<rparr>)))))"

definition Get :: "time \<Rightarrow> string \<Rightarrow> string \<Rightarrow> execution db_op" where
  "Get now merchantID executionID =
     attempt (query_row (\<lambda>d. find (\<lambda>e. e_MerchantID e = merchantID \<and> e_ID e = executionID) (executions d))) (\<lambda>r.
       case r of
         Inr e \<Rightarrow> ret e
       | Inl err \<Rightarrow> if err = ErrNoRows then getWaiter now merchantID executionID else throw (wrapStore err))"

text \<open>
  Promotion: drop the expired waiters of the domain, and if the oldest live waiter finds a free
  slot, turn it into an execution under its own identifier.
\<close>

definition promotedExecution :: "time \<Rightarrow> waiter \<Rightarrow> int \<Rightarrow> execution" where
  "promotedExecution now w fence =
     (let ttl = (if w_LeaseTTL w \<le> 0 then 60 * second else w_LeaseTTL w);
          life = (if w_MaxLifetime w \<le> 0 then 15 * minute else w_MaxLifetime w)
      in \<lparr>e_ID = w_ID w, e_MerchantID = w_MerchantID w, e_DomainKey = w_DomainKey w,
          e_CustomerID = w_CustomerID w, e_Principal = w_Principal w, e_SessionID = w_SessionID w,
          e_Resource = w_Resource w, e_Action = w_Action w, e_RuleName = w_RuleName w,
          e_Fence = fence, e_State = StateActive, e_GrantedAt = now,
          e_ExpiresAt = now + interval ttl, e_MaxLifetimeAt = now + interval life,
          e_RenewCount = 0, e_EndedAt = None, e_EndReason = '''', e_SuccessorID = '''',
          e_QueuePosition = 0, e_OpsUsed = 0, e_MaxOps = 0\<rparr>)"

definition promoteLocked :: "time \<Rightarrow> string \<Rightarrow> string \<Rightarrow> string \<Rightarrow> unit db_op" where
  "promoteLocked now merchantID domainKey requestID =
     andThen (modify (\<lambda>d. d\<lparr>waiters := filter (\<lambda>w. \<not> (w_MerchantID w = merchantID
         \<and> w_DomainKey w = domainKey \<and> w_ExpiresAt w \<le> now)) (waiters d)\<rparr>)) (\<lambda>_.
     andThen (query (\<lambda>d. count_where (liveIn merchantID domainKey now) (executions d))) (\<lambda>active.
     attempt (query_row (\<lambda>d. case order_by w_CreatedAt (filter (\<lambda>w. w_MerchantID w = merchantID
         \<and> w_DomainKey w = domainKey \<and> w_ExpiresAt w > now) (waiters d)) of
           [] \<Rightarrow> None | w # _ \<Rightarrow> Some w)) (\<lambda>r.
       case r of
         Inl err \<Rightarrow> if err = ErrNoRows then ret () else throw err
       | Inr w \<Rightarrow>
           if active \<ge> (if w_MaxActive w < 1 then 1 else w_MaxActive w) then ret ()
           else
             andThen (bumpFence merchantID domainKey) (\<lambda>fence.
             andThen (insertExecution (promotedExecution now w fence)) (\<lambda>_.
             andThen (modify (\<lambda>d. d\<lparr>waiters := filter (\<lambda>x. w_ID x \<noteq> w_ID w) (waiters d)\<rparr>)) (\<lambda>_.
             insertAudit now merchantID (auditRow0\<lparr>
               ar_typ := ''EXECUTION_GRANTED'', ar_customerID := w_CustomerID w,
               ar_principalType := p_Type (w_Principal w), ar_principalID := p_ID (w_Principal w),
               ar_domainKey := domainKey, ar_executionID := w_ID w, ar_ruleName := w_RuleName w,
               ar_reason := ''promoted'', ar_requestID := requestID, ar_fence := Some fence\<rparr>)))))))"

section \<open>Acquire\<close>

definition resumeHeld :: "time \<Rightarrow> acquire_request \<Rightarrow> execution \<Rightarrow> acquire_result db_op" where
  "resumeHeld now req existing =
     andThen (updateExecution (\<lambda>e. e_ID e = e_ID existing \<and> e_State e = StateActive)
        (\<lambda>e. e\<lparr>e_ExpiresAt := min (now + interval (q_TTL req)) (e_MaxLifetimeAt e),
               e_SessionID := q_SessionID req, e_RenewCount := e_RenewCount e + 1\<rparr>)) (\<lambda>row.
     let a = auditRow0\<lparr>ar_customerID := q_CustomerID req,
           ar_principalType := p_Type (q_Principal req), ar_principalID := p_ID (q_Principal req),
           ar_domainKey := q_DomainKey req, ar_executionID := e_ID existing,
           ar_ruleName := q_RuleName req, ar_requestID := q_RequestID req,
           ar_fence := Some (e_Fence existing)\<rparr> in
     andThen (insertAudit now (q_MerchantID req) (a\<lparr>ar_typ := ''EXECUTION_REQUESTED'', ar_reason := ''already_held''\<rparr>)) (\<lambda>_.
     andThen (insertAudit now (q_MerchantID req) (a\<lparr>ar_typ := ''EXECUTION_RENEWED'', ar_reason := ''resume''\<rparr>)) (\<lambda>_.
     ret \<lparr>r_Status = StatusAlreadyHeld,
          r_Execution = Some (existing\<lparr>e_ExpiresAt := e_ExpiresAt row, e_RenewCount := e_RenewCount row,
                                       e_SessionID := e_SessionID row\<rparr>),
          r_Busy = None, r_Queue = None, r_Reason = ''''\<rparr>)))"

definition grantedExecution :: "time \<Rightarrow> string \<Rightarrow> acquire_request \<Rightarrow> int \<Rightarrow> execution" where
  "grantedExecution now rnd req fence =
     \<lparr>e_ID = id_Execution rnd, e_MerchantID = q_MerchantID req, e_DomainKey = q_DomainKey req,
      e_CustomerID = q_CustomerID req, e_Principal = q_Principal req,
      e_SessionID = q_SessionID req, e_Resource = q_Resource req, e_Action = q_Action req,
      e_RuleName = q_RuleName req, e_Fence = fence, e_State = StateActive, e_GrantedAt = now,
      e_ExpiresAt = now + interval (q_TTL req), e_MaxLifetimeAt = now + interval (q_MaxLifetime req),
      e_RenewCount = 0, e_EndedAt = None, e_EndReason = '''', e_SuccessorID = '''',
      e_QueuePosition = 0, e_OpsUsed = 0, e_MaxOps = 0\<rparr>"

definition grantNew :: "time \<Rightarrow> string \<Rightarrow> acquire_request \<Rightarrow> acquire_result db_op" where
  "grantNew now rnd req =
     andThen (bumpFence (q_MerchantID req) (q_DomainKey req)) (\<lambda>fence.
     let exe = grantedExecution now rnd req fence in
     andThen (insertExecution exe) (\<lambda>_.
     andThen (insertAudit now (q_MerchantID req) (auditRow0\<lparr>
         ar_typ := ''EXECUTION_GRANTED'', ar_customerID := q_CustomerID req,
         ar_principalType := p_Type (q_Principal req), ar_principalID := p_ID (q_Principal req),
         ar_domainKey := q_DomainKey req, ar_executionID := e_ID exe, ar_ruleName := q_RuleName req,
         ar_reason := ''granted'', ar_requestID := q_RequestID req, ar_fence := Some fence\<rparr>)) (\<lambda>_.
     ret \<lparr>r_Status = StatusGranted, r_Execution = Some exe, r_Busy = None, r_Queue = None,
          r_Reason = ''''\<rparr>)))"

definition insertDomain :: "string \<Rightarrow> string \<Rightarrow> unit db_op" where
  "insertDomain merchantID domainKey = modify (\<lambda>d.
     (case domains d (merchantID, domainKey) of
        Some _ \<Rightarrow> d
      | None \<Rightarrow> d\<lparr>domains := (domains d)((merchantID, domainKey) \<mapsto> 0)\<rparr>))"

definition acquireBody :: "time \<Rightarrow> string \<Rightarrow> acquire_request \<Rightarrow> acquire_result db_op" where
  "acquireBody now rnd req =
     andThen (insertDomain (q_MerchantID req) (q_DomainKey req)) (\<lambda>_.
     andThen (lockDomain (q_MerchantID req) (q_DomainKey req)) (\<lambda>_.
     andThen (query (\<lambda>d. filter (liveIn (q_MerchantID req) (q_DomainKey req) now) (executions d))) (\<lambda>actives.
     (case find (\<lambda>a. p_Type (e_Principal a) = p_Type (q_Principal req)
                     \<and> p_ID (e_Principal a) = p_ID (q_Principal req)) actives of
        Some a \<Rightarrow> resumeHeld now req a
      | None \<Rightarrow>
          (case actives of
             holder # _ \<Rightarrow>
               if int (length actives) \<ge> q_MaxActive req then
                 if q_MaxWaiters req > 0 then enqueueWaiter now rnd req holder
                 else busyResult now req holder
               else grantNew now rnd req
           | [] \<Rightarrow> grantNew now rnd req)))))"

definition acquireDefaults :: "acquire_request \<Rightarrow> acquire_request" where
  "acquireDefaults req =
     req\<lparr>q_MaxActive := (if q_MaxActive req < 1 then 1 else q_MaxActive req),
         q_TTL := (if q_TTL req \<le> 0 then 60 * second else q_TTL req),
         q_MaxLifetime := (if q_MaxLifetime req \<le> 0 then 15 * minute else q_MaxLifetime req)\<rparr>"

definition Acquire :: "time \<Rightarrow> string \<Rightarrow> acquire_request \<Rightarrow> acquire_result db_op" where
  "Acquire now rnd req =
     (if q_MerchantID req = '''' \<or> q_DomainKey req = '''' \<or> q_CustomerID req = ''''
         \<or> p_ID (q_Principal req) = '''' then throw ErrInvalidInput
      else transact (acquireBody now rnd (acquireDefaults req)))"

section \<open>Renew\<close>

definition renewBody :: "time \<Rightarrow> string \<Rightarrow> string \<Rightarrow> string \<Rightarrow> string \<Rightarrow> string \<Rightarrow> duration \<Rightarrow> execution db_op" where
  "renewBody now domainKey merchantID executionID sessionID requestID ttl =
     andThen (lockDomain merchantID domainKey) (\<lambda>_.
     andThen (loadActiveForUpdate now merchantID executionID) (\<lambda>e.
     andThen (holderMatches e sessionID) (\<lambda>_.
     andThen (updateExecution (\<lambda>x. e_ID x = e_ID e)
        (\<lambda>x. x\<lparr>e_ExpiresAt := min (now + interval ttl) (e_MaxLifetimeAt x),
               e_RenewCount := e_RenewCount x + 1, e_SessionID := sessionID\<rparr>)) (\<lambda>row.
     andThen (insertAudit now merchantID (auditRow0\<lparr>
         ar_typ := ''EXECUTION_RENEWED'', ar_customerID := e_CustomerID e,
         ar_principalType := p_Type (e_Principal e), ar_principalID := p_ID (e_Principal e),
         ar_domainKey := e_DomainKey e, ar_executionID := e_ID e, ar_ruleName := e_RuleName e,
         ar_reason := ''heartbeat'', ar_requestID := requestID, ar_fence := Some (e_Fence e)\<rparr>)) (\<lambda>_.
     ret (e\<lparr>e_ExpiresAt := e_ExpiresAt row, e_RenewCount := e_RenewCount row,
            e_SessionID := e_SessionID row\<rparr>))))))"

definition Renew :: "time \<Rightarrow> string \<Rightarrow> string \<Rightarrow> string \<Rightarrow> string \<Rightarrow> duration \<Rightarrow> execution db_op" where
  "Renew now merchantID executionID sessionID requestID ttl =
     andThen (lookupDomainKey merchantID executionID) (\<lambda>domainKey.
     transact (renewBody now domainKey merchantID executionID sessionID requestID ttl))"

section \<open>Release, revoke, dequeue\<close>

definition endBody :: "time \<Rightarrow> string \<Rightarrow> string \<Rightarrow> string \<Rightarrow> string \<Rightarrow> string \<Rightarrow> exec_state \<Rightarrow> string \<Rightarrow> bool \<Rightarrow> execution db_op" where
  "endBody now domainKey merchantID executionID sessionID requestID newState reason mustHolder =
     andThen (lockDomain merchantID domainKey) (\<lambda>_.
     andThen (loadActiveForUpdate now merchantID executionID) (\<lambda>e.
     andThen (if mustHolder then holderMatches e sessionID else ret ()) (\<lambda>_.
     andThen (updateExecution (\<lambda>x. e_ID x = e_ID e)
        (\<lambda>x. x\<lparr>e_State := newState, e_EndedAt := Some now, e_EndReason := reason\<rparr>)) (\<lambda>row.
     andThen (insertAudit now merchantID (auditRow0\<lparr>
         ar_typ := (if newState = StateRevoked then ''EXECUTION_REVOKED'' else ''EXECUTION_RELEASED''),
         ar_customerID := e_CustomerID e,
         ar_principalType := p_Type (e_Principal e), ar_principalID := p_ID (e_Principal e),
         ar_domainKey := e_DomainKey e, ar_executionID := e_ID e, ar_ruleName := e_RuleName e,
         ar_reason := reason, ar_requestID := requestID, ar_fence := Some (e_Fence e)\<rparr>)) (\<lambda>_.
     andThen (promoteLocked now merchantID domainKey requestID) (\<lambda>_.
     ret (e\<lparr>e_State := newState, e_EndedAt := e_EndedAt row, e_EndReason := reason\<rparr>)))))))"

definition endExecution :: "time \<Rightarrow> string \<Rightarrow> string \<Rightarrow> string \<Rightarrow> string \<Rightarrow> exec_state \<Rightarrow> string \<Rightarrow> bool \<Rightarrow> execution db_op" where
  "endExecution now merchantID executionID sessionID requestID newState reason mustHolder =
     andThen (lookupDomainKey merchantID executionID) (\<lambda>domainKey.
     transact (endBody now domainKey merchantID executionID sessionID requestID newState reason mustHolder))"

definition dequeueBody :: "time \<Rightarrow> time \<Rightarrow> string \<Rightarrow> string \<Rightarrow> string \<Rightarrow> string \<Rightarrow> string \<Rightarrow> execution db_op" where
  "dequeueBody now goNow domainKey merchantID waiterID sessionID requestID =
     andThen (lockDomain merchantID domainKey) (\<lambda>_.
     attempt (query_row (\<lambda>d. find (\<lambda>w. w_MerchantID w = merchantID \<and> w_ID w = waiterID) (waiters d))) (\<lambda>r.
       case r of
         Inl err \<Rightarrow> if err = ErrNoRows then throw ErrNotFound else throw err
       | Inr w \<Rightarrow>
           let e = waiterAsExecution w in
           andThen (holderMatches e sessionID) (\<lambda>_.
           andThen (modify (\<lambda>d. d\<lparr>waiters := filter (\<lambda>x. w_ID x \<noteq> waiterID) (waiters d)\<rparr>)) (\<lambda>_.
           andThen (insertAudit now merchantID (auditRow0\<lparr>
               ar_typ := ''EXECUTION_DEQUEUED'', ar_customerID := w_CustomerID w,
               ar_principalType := p_Type (w_Principal w), ar_principalID := p_ID (w_Principal w),
               ar_domainKey := domainKey, ar_executionID := waiterID, ar_ruleName := w_RuleName w,
               ar_reason := ''left_queue'', ar_requestID := requestID\<rparr>)) (\<lambda>_.
           ret (e\<lparr>e_State := StateReleased, e_EndReason := ReasonReleased, e_EndedAt := Some goNow\<rparr>))))))"

definition dequeue :: "time \<Rightarrow> time \<Rightarrow> string \<Rightarrow> string \<Rightarrow> string \<Rightarrow> string \<Rightarrow> execution db_op" where
  "dequeue now goNow merchantID waiterID sessionID requestID =
     andThen (lookupDomainKey merchantID waiterID) (\<lambda>domainKey.
     transact (dequeueBody now goNow domainKey merchantID waiterID sessionID requestID))"

text \<open>\<open>now0\<close> is the time of the first read, \<open>now\<close> that of the transaction after it.\<close>

definition Release :: "time \<Rightarrow> time \<Rightarrow> time \<Rightarrow> string \<Rightarrow> string \<Rightarrow> string \<Rightarrow> string \<Rightarrow> execution db_op" where
  "Release now0 now goNow merchantID executionID sessionID requestID =
     andThen (Get now0 merchantID executionID) (\<lambda>e.
     if e_State e = StateQueued then dequeue now goNow merchantID executionID sessionID requestID
     else endExecution now merchantID executionID sessionID requestID StateReleased ReasonReleased True)"

definition Revoke :: "time \<Rightarrow> time \<Rightarrow> string \<Rightarrow> string \<Rightarrow> string \<Rightarrow> string \<Rightarrow> string \<Rightarrow> execution db_op" where
  "Revoke now0 now merchantID executionID sessionID requestID reason0 =
     (let reason = (if reason0 = '''' then ReasonRevoked else reason0) in
      if sessionID = '''' then
        endExecution now merchantID executionID '''' requestID StateRevoked reason False
      else
        andThen (Get now0 merchantID executionID) (\<lambda>e.
        attempt (Session sessionID) (\<lambda>r.
          case r of
            Inl err \<Rightarrow> if err = ErrNoRows then throw ErrNotHolder else throw err
          | Inr sess \<Rightarrow>
              if s_CustomerID sess \<noteq> e_CustomerID e then throw ErrNotFound
              else
                attempt (holderMatches e sessionID) (\<lambda>hm.
                  case hm of
                    Inr _ \<Rightarrow> endExecution now merchantID executionID '''' requestID StateRevoked reason False
                  | Inl err \<Rightarrow>
                      if \<not> CanPreempt \<lparr>p_Type = s_PrincipalType sess, p_ID = s_PrincipalID sess\<rparr> (e_Principal e)
                      then (if err = ErrNotHolder then throw ErrPrecedence else throw err)
                      else endExecution now merchantID executionID '''' requestID StateRevoked reason False))))"

section \<open>Expiry\<close>

fun expireDues :: "time \<Rightarrow> string \<Rightarrow> string \<Rightarrow> execution list \<Rightarrow> unit db_op" where
  "expireDues now merchantID domainKey [] = ret ()"
| "expireDues now merchantID domainKey (due # rest) =
     andThen (modify (\<lambda>d. d\<lparr>executions := update_where (\<lambda>e. e_ID e = e_ID due \<and> e_State e = StateActive)
         (\<lambda>e. e\<lparr>e_State := StateExpired, e_EndedAt := Some now, e_EndReason := ''EXPIRED''\<rparr>) (executions d)\<rparr>)) (\<lambda>_.
     andThen (insertAudit now merchantID (auditRow0\<lparr>
         ar_typ := ''EXECUTION_EXPIRED'', ar_customerID := e_CustomerID due,
         ar_principalType := p_Type (e_Principal due), ar_principalID := p_ID (e_Principal due),
         ar_domainKey := domainKey, ar_executionID := e_ID due, ar_ruleName := e_RuleName due,
         ar_reason := ''expired'', ar_fence := Some (e_Fence due)\<rparr>)) (\<lambda>_.
     expireDues now merchantID domainKey rest))"

definition expireAndPromoteBody :: "time \<Rightarrow> string \<Rightarrow> string \<Rightarrow> int db_op" where
  "expireAndPromoteBody now merchantID domainKey =
     andThen (lockDomain merchantID domainKey) (\<lambda>_.
     andThen (query (\<lambda>d. filter (\<lambda>e. e_MerchantID e = merchantID \<and> e_DomainKey e = domainKey
         \<and> e_State e = StateActive \<and> e_ExpiresAt e \<le> now) (executions d))) (\<lambda>dues.
     andThen (expireDues now merchantID domainKey dues) (\<lambda>_.
     andThen (promoteLocked now merchantID domainKey '''') (\<lambda>_.
     ret (int (length dues))))))"

definition expireAndPromoteDomain :: "time \<Rightarrow> string \<Rightarrow> string \<Rightarrow> int db_op" where
  "expireAndPromoteDomain now merchantID domainKey =
     transact (expireAndPromoteBody now merchantID domainKey)"

text \<open>
  The loop of \<open>ExpireDue\<close>: one transaction per domain, each with its own start time; an error
  stops the loop and the count so far is returned with it.
\<close>

fun expireDomains :: "(nat \<Rightarrow> time) \<Rightarrow> nat \<Rightarrow> (string \<times> string) list \<Rightarrow> int \<Rightarrow> (int \<times> store_error option) db_op" where
  "expireDomains clk i [] n = ret (n, None)"
| "expireDomains clk i ((merchantID, domainKey) # ps) n =
     attempt (expireAndPromoteDomain (clk i) merchantID domainKey) (\<lambda>r.
       case r of
         Inl err \<Rightarrow> ret (n, Some err)
       | Inr k \<Rightarrow> expireDomains clk (Suc i) ps (n + k))"

definition ExpireDue :: "(nat \<Rightarrow> time) \<Rightarrow> int \<Rightarrow> (int \<times> store_error option) db_op" where
  "ExpireDue clk limit0 =
     (let limit = (if limit0 < 1 then 100 else limit0) in
      attempt (query (\<lambda>d. limit_rows limit (remdups (map (\<lambda>e. (e_MerchantID e, e_DomainKey e))
          (filter (\<lambda>e. e_State e = StateActive \<and> e_ExpiresAt e \<le> clk 0) (executions d)))))) (\<lambda>r.
        case r of
          Inl err \<Rightarrow> ret (0, Some (wrapStore err))
        | Inr ps \<Rightarrow> expireDomains clk 1 ps 0))"

definition promoteDue :: "time \<Rightarrow> string \<Rightarrow> string \<Rightarrow> unit db_op" where
  "promoteDue now merchantID domainKey =
     transact (andThen (lockDomain merchantID domainKey) (\<lambda>_.
       promoteLocked now merchantID domainKey ''''))"

fun expireWaiterList :: "time \<Rightarrow> waiter list \<Rightarrow> unit db_op" where
  "expireWaiterList now [] = ret ()"
| "expireWaiterList now (w # rest) =
     andThen (modify (\<lambda>d. d\<lparr>waiters := filter (\<lambda>x. w_ID x \<noteq> w_ID w) (waiters d)\<rparr>)) (\<lambda>_.
     andThen (insertAudit now (w_MerchantID w) (auditRow0\<lparr>
         ar_typ := ''EXECUTION_QUEUE_EXPIRED'', ar_customerID := w_CustomerID w,
         ar_principalType := p_Type (w_Principal w), ar_principalID := p_ID (w_Principal w),
         ar_domainKey := w_DomainKey w, ar_executionID := w_ID w, ar_ruleName := w_RuleName w,
         ar_reason := ''expired''\<rparr>)) (\<lambda>_.
     expireWaiterList now rest))"

definition ExpireWaiters :: "time \<Rightarrow> int \<Rightarrow> int db_op" where
  "ExpireWaiters now limit0 =
     (let limit = (if limit0 < 1 then 100 else limit0) in
      transact (
        andThen (query (\<lambda>d. limit_rows limit (filter (\<lambda>w. w_ExpiresAt w \<le> now) (waiters d)))) (\<lambda>expired.
        andThen (expireWaiterList now expired) (\<lambda>_.
        ret (int (length expired))))))"

section \<open>Handoff\<close>

text \<open>The \<open>switch mode\<close>: the mode and the target principal, or the error it returns.\<close>

definition handoffTarget :: "handoff_request \<Rightarrow> principal \<Rightarrow> execution \<Rightarrow> bool \<Rightarrow> store_error + string \<times> principal" where
  "handoffTarget req callerP old isHolder =
     (let to = h_To req in
      if h_Mode req = ModeCooperative then
        if \<not> isHolder then Inl ErrNotHolder
        else if p_Type to = '''' \<or> p_ID to = '''' then Inl ErrInvalidInput
        else Inr (ModeCooperative, to)
      else if h_Mode req = ModePreempt \<or> h_Mode req = '''' then
        if isHolder then
          if p_Type to = '''' \<or> p_ID to = '''' then Inl ErrInvalidInput
          else Inr (ModeCooperative, to)
        else if CanPreemptRanked callerP (e_Principal old) (h_Precedence req) then
          let to = (if p_Type to = '''' then callerP else to) in
          if \<not> SamePrincipal to callerP then Inl ErrPrecedence
          else Inr (ModePreempt, to)
        else Inl ErrPrecedence
      else Inl ErrInvalidInput)"

definition successor :: "time \<Rightarrow> string \<Rightarrow> string \<Rightarrow> principal \<Rightarrow> duration \<Rightarrow> execution \<Rightarrow> int \<Rightarrow> execution" where
  "successor now succID succSession to ttl old fence =
     \<lparr>e_ID = succID, e_MerchantID = e_MerchantID old, e_DomainKey = e_DomainKey old,
      e_CustomerID = e_CustomerID old, e_Principal = to, e_SessionID = succSession,
      e_Resource = e_Resource old, e_Action = e_Action old, e_RuleName = e_RuleName old,
      e_Fence = fence, e_State = StateActive, e_GrantedAt = now,
      e_ExpiresAt = min (now + interval ttl) (e_MaxLifetimeAt old),
      e_MaxLifetimeAt = e_MaxLifetimeAt old, e_RenewCount = 0, e_EndedAt = None,
      e_EndReason = '''', e_SuccessorID = '''', e_QueuePosition = 0, e_OpsUsed = 0, e_MaxOps = 0\<rparr>"

text \<open>The part of \<open>Handoff\<close> after its checks: the successor is inserted before the holder ends.\<close>

definition handoffSwap :: "time \<Rightarrow> string \<Rightarrow> string \<Rightarrow> handoff_request \<Rightarrow> execution \<Rightarrow> string \<Rightarrow> principal \<Rightarrow> handoff_result db_op" where
  "handoffSwap now rndExe rndSes req old mode to =
     andThen (bumpFence (e_MerchantID old) (e_DomainKey old)) (\<lambda>fence.
     let succSession = (if mode = ModeCooperative then id_Session rndSes else h_SessionID req);
         succ = successor now (id_Execution rndExe) succSession to (h_TTL req) old fence in
     andThen (insertExecution succ) (\<lambda>_.
     andThen (updateExecution (\<lambda>x. e_ID x = e_ID old)
        (\<lambda>x. x\<lparr>e_State := StateHandedOff, e_EndedAt := Some now,
               e_EndReason := ReasonHandedOff, e_SuccessorID := e_ID succ\<rparr>)) (\<lambda>row.
     andThen (insertAudit now (h_MerchantID req) (auditRow0\<lparr>
         ar_typ := ''EXECUTION_HANDED_OFF'', ar_customerID := e_CustomerID old,
         ar_principalType := p_Type (e_Principal old), ar_principalID := p_ID (e_Principal old),
         ar_domainKey := e_DomainKey old, ar_executionID := e_ID old, ar_ruleName := e_RuleName old,
         ar_reason := mode, ar_requestID := h_RequestID req, ar_fence := Some (e_Fence old)\<rparr>)) (\<lambda>_.
     andThen (insertAudit now (h_MerchantID req) (auditRow0\<lparr>
         ar_typ := ''EXECUTION_GRANTED'', ar_customerID := e_CustomerID succ,
         ar_principalType := p_Type (e_Principal succ), ar_principalID := p_ID (e_Principal succ),
         ar_domainKey := e_DomainKey succ, ar_executionID := e_ID succ, ar_ruleName := e_RuleName succ,
         ar_reason := ''handoff'', ar_requestID := h_RequestID req, ar_fence := Some fence\<rparr>)) (\<lambda>_.
     ret \<lparr>hr_Predecessor = old\<lparr>e_State := StateHandedOff, e_EndReason := ReasonHandedOff,
             e_SuccessorID := e_ID succ, e_EndedAt := e_EndedAt row\<rparr>,
          hr_Successor = succ, hr_Mode = mode\<rparr>)))))"

definition handoffBody :: "time \<Rightarrow> string \<Rightarrow> string \<Rightarrow> string \<Rightarrow> session_row \<Rightarrow> handoff_request \<Rightarrow> handoff_result db_op" where
  "handoffBody now rndExe rndSes domainKey caller req =
     (let callerP = \<lparr>p_Type = s_PrincipalType caller, p_ID = s_PrincipalID caller\<rparr> in
      andThen (lockDomain (h_MerchantID req) domainKey) (\<lambda>_.
      andThen (loadActiveForUpdate now (h_MerchantID req) (h_ExecutionID req)) (\<lambda>old.
      if e_CustomerID old \<noteq> s_CustomerID caller then throw ErrNotFound
      else attempt (holderMatches old (h_SessionID req)) (\<lambda>hm.
        case handoffTarget req callerP old (case hm of Inr _ \<Rightarrow> True | Inl _ \<Rightarrow> False) of
          Inl err \<Rightarrow> throw err
        | Inr (mode, to) \<Rightarrow>
            if SamePrincipal to (e_Principal old) then throw ErrInvalidInput
            else handoffSwap now rndExe rndSes req old mode to))))"

definition Handoff :: "time \<Rightarrow> string \<Rightarrow> string \<Rightarrow> handoff_request \<Rightarrow> handoff_result db_op" where
  "Handoff now rndExe rndSes req0 =
     (if h_MerchantID req0 = '''' \<or> h_ExecutionID req0 = '''' \<or> h_SessionID req0 = ''''
      then throw ErrInvalidInput
      else
        let req = req0\<lparr>h_TTL := (if h_TTL req0 \<le> 0 then 60 * second else h_TTL req0)\<rparr> in
        attempt (Session (h_SessionID req)) (\<lambda>r.
          case r of
            Inl err \<Rightarrow> if err = ErrNoRows then throw ErrNotHolder else throw err
          | Inr caller \<Rightarrow>
              andThen (lookupDomainKey (h_MerchantID req) (h_ExecutionID req)) (\<lambda>domainKey.
              transact (handoffBody now rndExe rndSes domainKey caller req))))"

section \<open>Listings\<close>

definition ListWaiters :: "time \<Rightarrow> string \<Rightarrow> string \<Rightarrow> int \<Rightarrow> execution list db_op" where
  "ListWaiters now merchantID customerID limit0 =
     (let limit = (if limit0 < 1 then 50 else limit0) in
      wrapping (query (\<lambda>d. map waiterAsExecution (limit_rows limit (order_by w_CreatedAt
        (filter (\<lambda>w. w_MerchantID w = merchantID \<and> w_ExpiresAt w > now
           \<and> (customerID = '''' \<or> w_CustomerID w = customerID)) (waiters d)))))))"

definition CountWaiters :: "time \<Rightarrow> string \<Rightarrow> int db_op" where
  "CountWaiters now merchantID =
     wrapping (query (\<lambda>d. count_where (\<lambda>w. w_MerchantID w = merchantID \<and> w_ExpiresAt w > now) (waiters d)))"

definition ListActive :: "time \<Rightarrow> string \<Rightarrow> string \<Rightarrow> int \<Rightarrow> execution list db_op" where
  "ListActive now merchantID customerID limit0 =
     (let limit = (if limit0 < 1 then 50 else limit0) in
      wrapping (query (\<lambda>d. limit_rows limit (order_by (\<lambda>e. - e_GrantedAt e)
        (filter (\<lambda>e. e_MerchantID e = merchantID \<and> e_State e = StateActive \<and> e_ExpiresAt e > now
           \<and> (customerID = '''' \<or> e_CustomerID e = customerID)) (executions d))))))"

definition CountAudit :: "string \<Rightarrow> string \<Rightarrow> int db_op" where
  "CountAudit merchantID typ =
     wrapping (query (\<lambda>d. count_where (\<lambda>a. a_MerchantID a = merchantID \<and> a_Type a = typ) (audits d)))"

end
