(* ===== verification/Lease_Steps.thy ===== *)
theory Lease_Steps
  imports Store
begin

text \<open>
  The effects a store transaction may have on the lease tables, as a step relation, and what
  any sequence of such effects keeps: execution identifiers and the fences of a domain are
  unique, a fence never exceeds its domain's counter, an ended execution never changes, no
  domain has more live executions than its capacity, and every grant and every end is in the
  audit log. \<open>Store_Inv\<close> shows that every transaction of the store is made of these steps.
\<close>

declare split_paired_All [simp del] split_paired_Ex [simp del]

section \<open>Vocabulary\<close>

type_synonym domain = "string \<times> string"

definition dom_of :: "execution \<Rightarrow> domain" where
  "dom_of e = (e_MerchantID e, e_DomainKey e)"

definition live :: "domain \<Rightarrow> time \<Rightarrow> execution \<Rightarrow> bool" where
  "live k t e \<longleftrightarrow> dom_of e = k \<and> IsActive e t"

definition waiter_dom :: "waiter \<Rightarrow> domain" where
  "waiter_dom w = (w_MerchantID w, w_DomainKey w)"

definition waiter_cap :: "waiter \<Rightarrow> int" where
  "waiter_cap w = (if w_MaxActive w < 1 then 1 else w_MaxActive w)"

text \<open>What never changes about an execution once it has been granted.\<close>

definition identity :: "execution \<Rightarrow> string \<times> domain \<times> string \<times> principal \<times> int \<times> time \<times> time" where
  "identity e = (e_ID e, dom_of e, e_CustomerID e, e_Principal e, e_Fence e, e_GrantedAt e, e_MaxLifetimeAt e)"

definition logs :: "string \<Rightarrow> time \<Rightarrow> execution \<Rightarrow> audit_event \<Rightarrow> bool" where
  "logs typ now e a \<longleftrightarrow>
     a_Type a = typ \<and> a_At a = now \<and> a_MerchantID a = e_MerchantID e
     \<and> a_ExecutionID a = nullIfEmpty (e_ID e) \<and> a_Fence a = Some (e_Fence e)
     \<and> a_CustomerID a = nullIfEmpty (e_CustomerID e)
     \<and> a_PrincipalID a = nullIfEmpty (p_ID (e_Principal e))"

definition end_types :: "string set" where
  "end_types = {''EXECUTION_RELEASED'', ''EXECUTION_REVOKED'', ''EXECUTION_EXPIRED'', ''EXECUTION_HANDED_OFF''}"

definition extended :: "time \<Rightarrow> duration \<Rightarrow> string \<Rightarrow> execution \<Rightarrow> execution" where
  "extended now ttl sid x = x\<lparr>e_ExpiresAt := min (now + interval ttl) (e_MaxLifetimeAt x),
     e_SessionID := sid, e_RenewCount := e_RenewCount x + 1\<rparr>"

definition ended :: "exec_state \<Rightarrow> time \<Rightarrow> string \<Rightarrow> string \<Rightarrow> execution \<Rightarrow> execution" where
  "ended st now reason succ x = x\<lparr>e_State := st, e_EndedAt := Some now, e_EndReason := reason,
     e_SuccessorID := succ\<rparr>"

lemma extended_fun: "extended now ttl sid = (\<lambda>x. x\<lparr>e_ExpiresAt := min (now + interval ttl) (e_MaxLifetimeAt x),
     e_SessionID := sid, e_RenewCount := e_RenewCount x + 1\<rparr>)"
  by (simp add: extended_def fun_eq_iff)

lemma ended_fun: "ended st now reason succ = (\<lambda>x. x\<lparr>e_State := st, e_EndedAt := Some now, e_EndReason := reason,
     e_SuccessorID := succ\<rparr>)"
  by (simp add: ended_def fun_eq_iff)

lemma liveIn_live: "liveIn m k t = live (m, k) t"
  by (auto simp: liveIn_def live_def dom_of_def IsActive_def fun_eq_iff)

lemma live_later: "live k t' e \<Longrightarrow> t \<le> t' \<Longrightarrow> live k t e"
  by (auto simp: live_def IsActive_def)

lemma extended_simps [simp]:
  "identity (extended now ttl sid x) = identity x" "dom_of (extended now ttl sid x) = dom_of x"
  "e_ID (extended now ttl sid x) = e_ID x" "e_Fence (extended now ttl sid x) = e_Fence x"
  "e_State (extended now ttl sid x) = e_State x" "e_EndedAt (extended now ttl sid x) = e_EndedAt x"
  by (simp_all add: extended_def identity_def dom_of_def)

lemma ended_simps [simp]:
  "identity (ended st now r su x) = identity x" "dom_of (ended st now r su x) = dom_of x"
  "e_ID (ended st now r su x) = e_ID x" "e_Fence (ended st now r su x) = e_Fence x"
  "e_State (ended st now r su x) = st" "e_EndedAt (ended st now r su x) = Some now"
  by (simp_all add: ended_def identity_def dom_of_def)

section \<open>Steps\<close>

text \<open>
  \<open>upd i f rows\<close> is \<open>update executions set ... where execution_id = i\<close>. The parameter
  \<open>cap\<close> bounds the \<open>max_active\<close> under which a domain is ever requested.
\<close>

abbreviation upd :: "string \<Rightarrow> (execution \<Rightarrow> execution) \<Rightarrow> execution list \<Rightarrow> execution list" where
  "upd i f \<equiv> update_where (\<lambda>x. e_ID x = i) f"

definition fresh_in :: "execution \<Rightarrow> domain \<Rightarrow> int \<Rightarrow> time \<Rightarrow> db \<Rightarrow> bool" where
  "fresh_in e k f now d \<longleftrightarrow>
     dom_of e = k \<and> e_Fence e = f \<and> e_State e = StateActive \<and> e_EndedAt e = None
     \<and> e_GrantedAt e = now \<and> e_ID e \<notin> e_ID ` set (executions d)"

inductive lease_step :: "(domain \<Rightarrow> nat) \<Rightarrow> time \<Rightarrow> db \<Rightarrow> db \<Rightarrow> bool"
  for cap :: "domain \<Rightarrow> nat" and now :: time where
  other:
    "\<lbrakk>domains d' = domains d; mset (executions d') = mset (executions d);
      mset (waiters d') \<subseteq># mset (waiters d); audits d' = audits d @ evs\<rbrakk>
     \<Longrightarrow> lease_step cap now d d'"
| enqueue:
    "\<lbrakk>waiter_cap w \<le> int (cap (waiter_dom w));
      domains d' = domains d; executions d' = executions d;
      waiters d' = waiters d @ [w]; audits d' = audits d @ evs\<rbrakk>
     \<Longrightarrow> lease_step cap now d d'"
| open_domain:
    "\<lbrakk>domains d k = None; domains d' = (domains d)(k \<mapsto> 0); executions d' = executions d;
      waiters d' = waiters d; audits d' = audits d\<rbrakk>
     \<Longrightarrow> lease_step cap now d d'"
| grant:
    "\<lbrakk>domains d k = Some f; fresh_in e k (f + 1) now d;
      count_where (live k now) (executions d) < int (cap k);
      logs ''EXECUTION_GRANTED'' now e a;
      domains d' = (domains d)(k \<mapsto> f + 1); executions d' = executions d @ [e];
      mset (waiters d') \<subseteq># mset (waiters d); audits d' = audits d @ [a]\<rbrakk>
     \<Longrightarrow> lease_step cap now d d'"
| extend:
    "\<lbrakk>e \<in> set (executions d); live (dom_of e) now e; domains d' = domains d;
      executions d' = upd (e_ID e) (extended now ttl sid) (executions d);
      waiters d' = waiters d; audits d' = audits d @ evs\<rbrakk>
     \<Longrightarrow> lease_step cap now d d'"
| finish:
    "\<lbrakk>e \<in> set (executions d); e_State e = StateActive; st \<noteq> StateActive;
      ty \<in> end_types; logs ty now e a; domains d' = domains d;
      executions d' = upd (e_ID e) (ended st now reason (e_SuccessorID e)) (executions d);
      waiters d' = waiters d; audits d' = audits d @ [a]\<rbrakk>
     \<Longrightarrow> lease_step cap now d d'"
| handover:
    "\<lbrakk>e \<in> set (executions d); live k now e; domains d k = Some f; fresh_in s k (f + 1) now d;
      e_CustomerID s = e_CustomerID e; e_MaxLifetimeAt s = e_MaxLifetimeAt e;
      e_Principal s \<noteq> e_Principal e; e_ExpiresAt s \<le> e_MaxLifetimeAt s;
      logs ''EXECUTION_HANDED_OFF'' now e a; logs ''EXECUTION_GRANTED'' now s b;
      domains d' = (domains d)(k \<mapsto> f + 1);
      executions d' = upd (e_ID e) (ended StateHandedOff now ReasonHandedOff (e_ID s)) (executions d) @ [s];
      waiters d' = waiters d; audits d' = audits d @ [a, b]\<rbrakk>
     \<Longrightarrow> lease_step cap now d d'"

section \<open>Well-formed rows\<close>

definition row_key :: "execution \<Rightarrow> domain \<times> int" where
  "row_key e = (dom_of e, e_Fence e)"

definition row_ok :: "(domain \<rightharpoonup> int) \<Rightarrow> execution \<Rightarrow> bool" where
  "row_ok doms e \<longleftrightarrow>
     (\<exists>f. doms (dom_of e) = Some f \<and> 1 \<le> e_Fence e \<and> e_Fence e \<le> f)
     \<and> (e_EndedAt e = None \<longleftrightarrow> e_State e = StateActive)"

definition rows_ok :: "db \<Rightarrow> bool" where
  "rows_ok d \<longleftrightarrow>
     distinct (map e_ID (executions d)) \<and> distinct (map row_key (executions d))
     \<and> (\<forall>e \<in> set (executions d). row_ok (domains d) e)
     \<and> (\<forall>k f. domains d k = Some f \<longrightarrow> 0 \<le> f)"

definition within_cap :: "(domain \<Rightarrow> nat) \<Rightarrow> time \<Rightarrow> db \<Rightarrow> bool" where
  "within_cap cap t d \<longleftrightarrow>
     (\<forall>k. count_where (live k t) (executions d) \<le> int (cap k))
     \<and> (\<forall>w \<in> set (waiters d). waiter_cap w \<le> int (cap (waiter_dom w)))"

lemma upd_map:
  "(\<And>x. g (f x) = g x) \<Longrightarrow> map g (upd i f xs) = map g xs"
  by (simp add: map_update_where)

lemma fence_nonneg: "rows_ok d \<Longrightarrow> domains d k = Some f \<Longrightarrow> 0 \<le> f"
  unfolding rows_ok_def by blast

lemma same_id: "rows_ok d \<Longrightarrow> x \<in> set (executions d) \<Longrightarrow> y \<in> set (executions d) \<Longrightarrow> e_ID x = e_ID y \<Longrightarrow> x = y"
  by (auto simp: rows_ok_def distinct_map inj_on_def)

lemma same_fence:
  "rows_ok d \<Longrightarrow> x \<in> set (executions d) \<Longrightarrow> y \<in> set (executions d) \<Longrightarrow> row_key x = row_key y \<Longrightarrow> x = y"
  unfolding rows_ok_def distinct_map by (meson inj_onD)

lemma find_id:
  "rows_ok d \<Longrightarrow> e \<in> set (executions d) \<Longrightarrow> find (\<lambda>x. e_ID x = e_ID e) (executions d) = Some e"
proof -
  assume ok: "rows_ok d" and e: "e \<in> set (executions d)"
  then obtain x where x: "find (\<lambda>x. e_ID x = e_ID e) (executions d) = Some x"
    by (cases "find (\<lambda>x. e_ID x = e_ID e) (executions d)") (auto simp: find_None_iff)
  then have "x \<in> set (executions d)" "e_ID x = e_ID e" by (auto simp: find_Some_iff)
  with ok e x show ?thesis by (metis same_id)
qed

lemma rows_ok_mset:
  assumes "rows_ok d" "domains d' = domains d" "mset (executions d') = mset (executions d)"
  shows "rows_ok d'"
proof -
  have "mset (map e_ID (executions d')) = mset (map e_ID (executions d))"
       "mset (map row_key (executions d')) = mset (map row_key (executions d))"
    using assms(3) by (simp_all add: mset_map)
  then have "distinct (map e_ID (executions d')) = distinct (map e_ID (executions d))"
            "distinct (map row_key (executions d')) = distinct (map row_key (executions d))"
    by (metis mset_eq_imp_distinct_iff)+
  with assms mset_eq_setD [OF assms(3)] show ?thesis by (simp add: rows_ok_def)
qed

lemma rows_ok_upd:
  assumes "rows_ok d" "domains d' = domains d" "executions d' = upd i f (executions d)"
    and "\<And>x. identity (f x) = identity x"
    and "\<And>x. x \<in> set (executions d) \<Longrightarrow> e_ID x = i \<Longrightarrow> (e_EndedAt (f x) = None \<longleftrightarrow> e_State (f x) = StateActive)"
  shows "rows_ok d'"
proof -
  have id: "e_ID (f x) = e_ID x" "row_key (f x) = row_key x" "dom_of (f x) = dom_of x" "e_Fence (f x) = e_Fence x" for x
    using assms(4) [of x] by (auto simp: identity_def row_key_def)
  have "row_ok (domains d) (f x)" if "x \<in> set (executions d)" "e_ID x = i" for x
    using that assms(1,5) id by (auto simp: rows_ok_def row_ok_def)
  with assms(1) show ?thesis
    using upd_map [of e_ID f i "executions d", OF id(1)] upd_map [of row_key f i "executions d", OF id(2)]
    by (auto simp: rows_ok_def assms(2,3) set_update_where)
qed

lemma row_ok_bump:
  "row_ok doms e \<Longrightarrow> doms k = Some f \<Longrightarrow> row_ok (doms(k \<mapsto> f + 1)) e"
  by (fastforce simp: row_ok_def)

lemma rows_ok_append:
  assumes ok: "rows_ok d" and k: "domains d k = Some f" and e: "fresh_in e k (f + 1) now d"
    and d': "domains d' = (domains d)(k \<mapsto> f + 1)" "executions d' = executions d @ [e]"
  shows "rows_ok d'"
proof -
  have "e_Fence x < e_Fence e" if "x \<in> set (executions d)" "dom_of x = dom_of e" for x
    using that ok k e by (fastforce simp: rows_ok_def row_ok_def fresh_in_def)
  then have "row_key e \<notin> row_key ` set (executions d)" by (fastforce simp: row_key_def)
  moreover have "row_ok (domains d') x" if "x \<in> set (executions d)" for x
    using that ok k d' by (auto simp: rows_ok_def intro: row_ok_bump)
  moreover have f: "0 \<le> f" using fence_nonneg [OF ok k] .
  then have "row_ok (domains d') e" using e d' by (auto simp: row_ok_def fresh_in_def)
  moreover have "0 \<le> g" if "domains d' j = Some g" for j g
    using that d' f fence_nonneg [OF ok, of j g] by (auto split: if_splits)
  ultimately show ?thesis using ok e d' by (auto simp: rows_ok_def fresh_in_def)
qed

lemma fresh_in_upd:
  "(\<And>x. e_ID (f x) = e_ID x) \<Longrightarrow> executions d' = upd i f (executions d) \<Longrightarrow>
   fresh_in s k g now d' \<longleftrightarrow> fresh_in s k g now d"
proof -
  assume "\<And>x. e_ID (f x) = e_ID x" "executions d' = upd i f (executions d)"
  then have "e_ID ` set (executions d') = e_ID ` set (executions d)"
    by (metis list.set_map upd_map)
  then show ?thesis by (simp add: fresh_in_def)
qed

theorem lease_step_rows_ok: "lease_step cap now d d' \<Longrightarrow> rows_ok d \<Longrightarrow> rows_ok d'"
proof (induction rule: lease_step.induct)
  case (other d' d evs)
  then show ?case by (blast intro: rows_ok_mset)
next
  case (enqueue w d' d evs)
  then show ?case by (simp add: rows_ok_def)
next
  case (open_domain d k d')
  then show ?case by (fastforce simp: rows_ok_def row_ok_def)
next
  case (grant d k f e a d')
  then show ?case by (blast intro: rows_ok_append)
next
  case (extend e d d' ttl sid evs)
  then have "e_EndedAt x = None \<longleftrightarrow> e_State x = StateActive" if "x \<in> set (executions d)" for x
    using that by (auto simp: rows_ok_def row_ok_def)
  with extend show ?case by (intro rows_ok_upd [of d d' "e_ID e" "extended now ttl sid"]) auto
next
  case (finish e d st ty a d' reason)
  then show ?case by (intro rows_ok_upd [of d d' "e_ID e" "ended st now reason (e_SuccessorID e)"]) auto
next
  case (handover e d k f s a b d')
  let ?m = "d\<lparr>executions := upd (e_ID e) (ended StateHandedOff now ReasonHandedOff (e_ID s)) (executions d)\<rparr>"
  have "rows_ok ?m" using handover by (intro rows_ok_upd [of d ?m "e_ID e" "ended StateHandedOff now ReasonHandedOff (e_ID s)"]) auto
  moreover have "fresh_in s k (f + 1) now ?m"
    using handover by (subst fresh_in_upd [of "ended StateHandedOff now ReasonHandedOff (e_ID s)" _ "e_ID e" d]) auto
  ultimately show ?case using handover by (intro rows_ok_append [of ?m k f s now d']) auto
qed

section \<open>Capacity\<close>

lemma within_cap_later: "within_cap cap t d \<Longrightarrow> t \<le> t' \<Longrightarrow> within_cap cap t' d"
proof -
  assume d: "within_cap cap t d" and "t \<le> t'"
  then have "count_where (live k t') (executions d) \<le> count_where (live k t) (executions d)" for k
    by (intro count_where_mono) (auto intro: live_later)
  with d show ?thesis unfolding within_cap_def by (meson order_trans)
qed

lemma within_cap_count: "within_cap cap t d \<Longrightarrow> count_where (live k t) (executions d) \<le> int (cap k)"
  by (simp add: within_cap_def)

lemma count_upd_le:
  assumes ok: "rows_ok d" and e: "e \<in> set (executions d)"
    and f: "live k t (f e) \<Longrightarrow> live k t e"
  shows "count_where (live k t) (upd (e_ID e) f (executions d)) \<le> count_where (live k t) (executions d)"
  using assms by (intro count_where_update_le) (metis same_id)

lemma count_upd_less:
  assumes ok: "rows_ok d" and e: "e \<in> set (executions d)" "live k t e" "\<not> live k t (f e)"
  shows "count_where (live k t) (upd (e_ID e) f (executions d)) < count_where (live k t) (executions d)"
  using assms by (intro count_where_update_less [of e]) (auto dest: same_id [OF ok])

lemma ended_not_live: "st \<noteq> StateActive \<Longrightarrow> \<not> live k t (ended st now r su x)"
  by (simp add: live_def IsActive_def)

lemma extended_live:
  "live (dom_of x) now x \<Longrightarrow> live k now (extended now ttl sid x) \<Longrightarrow> live k now x"
  by (simp add: live_def IsActive_def)

lemma waiters_cap_subset:
  "within_cap cap t d \<Longrightarrow> mset (waiters d') \<subseteq># mset (waiters d) \<Longrightarrow> w \<in> set (waiters d') \<Longrightarrow>
   waiter_cap w \<le> int (cap (waiter_dom w))"
  unfolding within_cap_def by (metis mset_subset_eqD set_mset_mset)

lemma within_capI:
  assumes "within_cap cap t d" "mset (waiters d') \<subseteq># mset (waiters d)"
    and "\<And>k. count_where (live k t) (executions d') \<le> int (cap k)"
  shows "within_cap cap t d'"
  using assms waiters_cap_subset [OF assms(1,2)] by (simp add: within_cap_def)

theorem lease_step_within_cap:
  "lease_step cap now d d' \<Longrightarrow> rows_ok d \<Longrightarrow> within_cap cap now d \<Longrightarrow> within_cap cap now d'"
proof (induction rule: lease_step.induct)
  case (other d' d evs)
  then have "count_where (live k now) (executions d') \<le> int (cap k)" for k
    using count_where_mset [of "executions d'" "executions d"] by (simp add: within_cap_def)
  with other show ?case by (blast intro: within_capI)
next
  case (enqueue w d' d evs)
  then show ?case by (auto simp: within_cap_def)
next
  case (open_domain d k d')
  then show ?case by (simp add: within_cap_def)
next
  case (grant d k f e a d')
  then have "count_where (live j now) (executions d') \<le> int (cap j)" for j
    by (cases "j = k") (auto simp: within_cap_def live_def fresh_in_def)
  with grant show ?case by (blast intro: within_capI)
next
  case (extend e d d' ttl sid evs)
  have "count_where (live j now) (executions d') \<le> int (cap j)" for j
    using count_upd_le [of d e j now "extended now ttl sid", OF \<open>rows_ok d\<close> extend.hyps(1)]
      extended_live [OF extend.hyps(2)] within_cap_count [OF \<open>within_cap cap now d\<close>, of j] extend.hyps(4)
    by simp
  with extend show ?case by (metis subset_mset.order_refl within_capI)
next
  case (finish e d st ty a d' reason)
  have "count_where (live j now) (executions d') \<le> int (cap j)" for j
    using count_upd_le [of d e j now "ended st now reason (e_SuccessorID e)", OF \<open>rows_ok d\<close> finish.hyps(1)]
      ended_not_live [OF finish.hyps(3)] within_cap_count [OF \<open>within_cap cap now d\<close>, of j] finish.hyps(7)
    by simp
  with finish show ?case by (metis subset_mset.order_refl within_capI)
next
  case (handover e d k f s a b d')
  let ?f = "ended StateHandedOff now ReasonHandedOff (e_ID s)"
  have "count_where (live j now) (executions d') \<le> int (cap j)" for j
  proof (cases "j = k")
    case True
    then have "count_where (live j now) (upd (e_ID e) ?f (executions d)) < count_where (live j now) (executions d)"
      using handover by (intro count_upd_less) (auto simp: ended_not_live)
    moreover have "count_where (live j now) (executions d) \<le> int (cap j)"
      using handover by (simp add: within_cap_def)
    ultimately show ?thesis using handover by auto
  next
    case False
    then have "\<not> live j now s" using handover by (auto simp: live_def fresh_in_def)
    moreover have "count_where (live j now) (upd (e_ID e) ?f (executions d)) \<le> int (cap j)"
      using count_upd_le [of d e j now ?f, OF \<open>rows_ok d\<close> handover.hyps(1)]
        within_cap_count [OF \<open>within_cap cap now d\<close>, of j] by (simp add: ended_not_live)
    ultimately show ?thesis using handover by auto
  qed
  with handover show ?case by (metis subset_mset.order_refl within_capI)
qed

section \<open>History\<close>

text \<open>
  What one state keeps of an earlier one: no execution disappears or changes its identity, an
  ended one does not change at all, fence counters do not decrease, and an execution granted in
  between has a fence above the counter its domain had before.
\<close>

definition evolves :: "db \<Rightarrow> db \<Rightarrow> bool" where
  "evolves d d' \<longleftrightarrow>
     (\<forall>e \<in> set (executions d). \<exists>e' \<in> set (executions d').
        identity e' = identity e \<and> (e_State e \<noteq> StateActive \<longrightarrow> e' = e))
     \<and> (\<forall>k f. domains d k = Some f \<longrightarrow> (\<exists>f' \<ge> f. domains d' k = Some f'))
     \<and> (\<forall>e' \<in> set (executions d'). e_ID e' \<notin> e_ID ` set (executions d) \<longrightarrow>
          (\<forall>f. domains d (dom_of e') = Some f \<longrightarrow> f < e_Fence e'))"

text \<open>
  Every execution granted in between has an \<open>EXECUTION_GRANTED\<close> event, every execution
  ended in between an event of an ending type, and no event was removed.
\<close>

definition logged :: "db \<Rightarrow> db \<Rightarrow> bool" where
  "logged d d' \<longleftrightarrow> (\<exists>evs. audits d' = audits d @ evs
     \<and> (\<forall>e' \<in> set (executions d'). e_ID e' \<notin> e_ID ` set (executions d) \<longrightarrow>
          (\<exists>a \<in> set evs. \<exists>t. logs ''EXECUTION_GRANTED'' t e' a))
     \<and> (\<forall>e' \<in> set (executions d'). e_State e' \<noteq> StateActive \<longrightarrow> e' \<notin> set (executions d) \<longrightarrow>
          (\<exists>a \<in> set evs. \<exists>t. \<exists>ty \<in> end_types. logs ty t e' a)))"

lemma logs_identity: "identity e = identity e' \<Longrightarrow> logs ty t e a \<Longrightarrow> logs ty t e' a"
  by (simp add: logs_def identity_def dom_of_def)

lemma identity_id: "identity e = identity e' \<Longrightarrow> e_ID e = e_ID e'"
  by (simp add: identity_def)

lemma evolves_refl: "evolves d d"
  by (auto simp: evolves_def)

lemma evolves_row:
  assumes "evolves d d'" "rows_ok d'" "e \<in> set (executions d)" "e' \<in> set (executions d')" "e_ID e' = e_ID e"
  shows "identity e' = identity e" "e_State e \<noteq> StateActive \<Longrightarrow> e' = e"
proof -
  from assms(1,3) obtain x where x: "x \<in> set (executions d')" "identity x = identity e"
      "e_State e \<noteq> StateActive \<longrightarrow> x = e"
    unfolding evolves_def by blast
  then have "x = e'" using assms same_id [OF assms(2) x(1) assms(4)] by (simp add: identity_def)
  with x show "identity e' = identity e" "e_State e \<noteq> StateActive \<Longrightarrow> e' = e" by auto
qed

lemma evolves_trans:
  assumes 1: "evolves d d'" and 2: "evolves d' d''" and ok: "rows_ok d''"
  shows "evolves d d''"
  unfolding evolves_def
proof (intro conjI ballI allI impI)
  fix e assume "e \<in> set (executions d)"
  with 1 obtain x where "x \<in> set (executions d')" "identity x = identity e" "e_State e \<noteq> StateActive \<longrightarrow> x = e"
    unfolding evolves_def by blast
  with 2 show "\<exists>e' \<in> set (executions d''). identity e' = identity e \<and> (e_State e \<noteq> StateActive \<longrightarrow> e' = e)"
    unfolding evolves_def by metis
next
  fix k f assume "domains d k = Some f"
  with 1 obtain f' where "f \<le> f'" "domains d' k = Some f'" unfolding evolves_def by blast
  with 2 show "\<exists>f' \<ge> f. domains d'' k = Some f'" unfolding evolves_def by (meson order_trans)
next
  fix e f
  assume e: "e \<in> set (executions d'')" "e_ID e \<notin> e_ID ` set (executions d)"
    and f: "domains d (dom_of e) = Some f"
  from 1 f obtain f' where f': "f \<le> f'" "domains d' (dom_of e) = Some f'" unfolding evolves_def by blast
  show "f < e_Fence e"
  proof (cases "e_ID e \<in> e_ID ` set (executions d')")
    case True
    then obtain x where x: "x \<in> set (executions d')" "e_ID x = e_ID e" by auto
    with evolves_row(1) [OF 2 ok x(1) e(1)] have "identity e = identity x" by simp
    then have "dom_of x = dom_of e" "e_Fence x = e_Fence e" by (simp_all add: identity_def)
    with 1 x e f show ?thesis unfolding evolves_def by metis
  next
    case False
    with 2 e f' show ?thesis unfolding evolves_def by fastforce
  qed
qed

lemma upd_mem:
  assumes "rows_ok d" "e \<in> set (executions d)"
  shows "x \<in> set (upd (e_ID e) f (executions d)) \<longleftrightarrow>
           x = f e \<or> x \<in> set (executions d) \<and> e_ID x \<noteq> e_ID e"
proof
  assume "x \<in> set (upd (e_ID e) f (executions d))"
  then obtain y where "y \<in> set (executions d)" "x = (if e_ID y = e_ID e then f y else y)"
    by (auto simp: set_update_where)
  then show "x = f e \<or> x \<in> set (executions d) \<and> e_ID x \<noteq> e_ID e"
    using same_id [OF assms(1) _ assms(2), of y] by (auto split: if_splits)
next
  assume "x = f e \<or> x \<in> set (executions d) \<and> e_ID x \<noteq> e_ID e"
  then show "x \<in> set (upd (e_ID e) f (executions d))"
    using assms(2) by (fastforce simp: set_update_where)
qed

lemma evolvesI:
  assumes "\<And>e. e \<in> set (executions d) \<Longrightarrow>
      \<exists>e' \<in> set (executions d'). identity e' = identity e \<and> (e_State e \<noteq> StateActive \<longrightarrow> e' = e)"
    and "\<And>k f. domains d k = Some f \<Longrightarrow> \<exists>f' \<ge> f. domains d' k = Some f'"
    and "\<And>e' f. e' \<in> set (executions d') \<Longrightarrow> e_ID e' \<notin> e_ID ` set (executions d) \<Longrightarrow>
      domains d (dom_of e') = Some f \<Longrightarrow> f < e_Fence e'"
  shows "evolves d d'"
  using assms unfolding evolves_def by blast

lemma evolves_upd:
  assumes ok: "rows_ok d" and e: "e \<in> set (executions d)" "e_State e = StateActive"
    and f: "\<And>x. identity (f x) = identity x"
    and d': "executions d' = upd (e_ID e) f (executions d) @ es"
      "\<And>k f. domains d k = Some f \<Longrightarrow> \<exists>f' \<ge> f. domains d' k = Some f'"
      "\<And>s f. s \<in> set es \<Longrightarrow> domains d (dom_of s) = Some f \<Longrightarrow> f < e_Fence s"
  shows "evolves d d'"
proof (rule evolvesI)
  fix x assume x: "x \<in> set (executions d)"
  show "\<exists>x' \<in> set (executions d'). identity x' = identity x \<and> (e_State x \<noteq> StateActive \<longrightarrow> x' = x)"
  proof (cases "e_ID x = e_ID e")
    case True
    then have "x = e" using same_id [OF ok x e(1)] by simp
    then show ?thesis using e f d'(1) upd_mem [OF ok e(1), of "f e" f] by auto
  next
    case False
    then show ?thesis using x d'(1) upd_mem [OF ok e(1), of x f] by auto
  qed
next
  fix x g assume x: "x \<in> set (executions d')" "e_ID x \<notin> e_ID ` set (executions d)"
    "domains d (dom_of x) = Some g"
  have "e_ID (f e) = e_ID e" using f by (metis identity_id)
  with x d'(1) upd_mem [OF ok e(1), of x f] e(1) have "x \<in> set es" by auto
  with d'(3) x(3) show "g < e_Fence x" by blast
qed (rule d'(2))

theorem lease_step_evolves: "lease_step cap now d d' \<Longrightarrow> rows_ok d \<Longrightarrow> evolves d d'"
proof (induction rule: lease_step.induct)
  case (other d' d evs)
  then show ?case using mset_eq_setD [of "executions d'" "executions d"] by (auto simp: evolves_def)
next
  case (enqueue w d' d evs)
  then show ?case by (auto simp: evolves_def)
next
  case (open_domain d k d')
  then show ?case by (auto simp: evolves_def)
next
  case (grant d k f e a d')
  then show ?case by (auto simp: evolves_def fresh_in_def)
next
  case (extend e d d' ttl sid evs)
  then show ?case
    by (intro evolves_upd [of d e "extended now ttl sid" _ "[]"]) (auto simp: live_def IsActive_def)
next
  case (finish e d st ty a d' reason)
  then show ?case
    by (intro evolves_upd [of d e "ended st now reason (e_SuccessorID e)" _ "[]"]) auto
next
  case (handover e d k f s a b d')
  then show ?case
    by (intro evolves_upd [of d e "ended StateHandedOff now ReasonHandedOff (e_ID s)" _ "[s]"])
      (auto simp: live_def IsActive_def fresh_in_def)
qed

lemma loggedI:
  assumes "audits d' = audits d @ evs"
    and "\<And>e'. e' \<in> set (executions d') \<Longrightarrow> e_ID e' \<notin> e_ID ` set (executions d) \<Longrightarrow>
      \<exists>a \<in> set evs. \<exists>t. logs ''EXECUTION_GRANTED'' t e' a"
    and "\<And>e'. e' \<in> set (executions d') \<Longrightarrow> e_State e' \<noteq> StateActive \<Longrightarrow> e' \<notin> set (executions d) \<Longrightarrow>
      \<exists>a \<in> set evs. \<exists>t. \<exists>ty \<in> end_types. logs ty t e' a"
  shows "logged d d'"
  using assms unfolding logged_def by blast

lemma logged_trans:
  assumes 1: "logged d d'" and 2: "logged d' d''" and ev: "evolves d' d''" and ok: "rows_ok d''"
  shows "logged d d''"
proof -
  from 1 obtain evs where evs: "audits d' = audits d @ evs"
    "\<And>e'. e' \<in> set (executions d') \<Longrightarrow> e_ID e' \<notin> e_ID ` set (executions d) \<Longrightarrow>
      \<exists>a \<in> set evs. \<exists>t. logs ''EXECUTION_GRANTED'' t e' a"
    "\<And>e'. e' \<in> set (executions d') \<Longrightarrow> e_State e' \<noteq> StateActive \<Longrightarrow> e' \<notin> set (executions d) \<Longrightarrow>
      \<exists>a \<in> set evs. \<exists>t. \<exists>ty \<in> end_types. logs ty t e' a"
    unfolding logged_def by blast
  from 2 obtain fvs where fvs: "audits d'' = audits d' @ fvs"
    "\<And>e'. e' \<in> set (executions d'') \<Longrightarrow> e_ID e' \<notin> e_ID ` set (executions d') \<Longrightarrow>
      \<exists>a \<in> set fvs. \<exists>t. logs ''EXECUTION_GRANTED'' t e' a"
    "\<And>e'. e' \<in> set (executions d'') \<Longrightarrow> e_State e' \<noteq> StateActive \<Longrightarrow> e' \<notin> set (executions d') \<Longrightarrow>
      \<exists>a \<in> set fvs. \<exists>t. \<exists>ty \<in> end_types. logs ty t e' a"
    unfolding logged_def by blast
  show ?thesis
  proof (rule loggedI)
    show "audits d'' = audits d @ (evs @ fvs)" using evs(1) fvs(1) by simp
  next
    fix e assume e: "e \<in> set (executions d'')" "e_ID e \<notin> e_ID ` set (executions d)"
    show "\<exists>a \<in> set (evs @ fvs). \<exists>t. logs ''EXECUTION_GRANTED'' t e a"
    proof (cases "e_ID e \<in> e_ID ` set (executions d')")
      case True
      then obtain x where x: "x \<in> set (executions d')" "e_ID e = e_ID x" by auto
      have "identity x = identity e" using evolves_row(1) [OF ev ok x(1) e(1) x(2)] by simp
      moreover from x e obtain a t where "a \<in> set evs" "logs ''EXECUTION_GRANTED'' t x a"
        using evs(2) [of x] by auto
      ultimately show ?thesis by (auto dest: logs_identity)
    next
      case False
      with fvs(2) [OF e(1)] show ?thesis by auto
    qed
  next
    fix e assume e: "e \<in> set (executions d'')" "e_State e \<noteq> StateActive" "e \<notin> set (executions d)"
    then show "\<exists>a \<in> set (evs @ fvs). \<exists>t. \<exists>ty \<in> end_types. logs ty t e a"
      using evs(3) [of e] fvs(3) [of e] by (cases "e \<in> set (executions d')") (simp_all, blast+)
  qed
qed

theorem lease_step_logged: "lease_step cap now d d' \<Longrightarrow> rows_ok d \<Longrightarrow> logged d d'"
proof (induction rule: lease_step.induct)
  case (other d' d evs)
  then show ?case
    using mset_eq_setD [of "executions d'" "executions d"] by (intro loggedI [of d' d evs]) auto
next
  case (enqueue w d' d evs)
  then show ?case by (intro loggedI [of d' d evs]) auto
next
  case (open_domain d k d')
  then show ?case by (intro loggedI [of d' d "[]"]) auto
next
  case (grant d k f e a d')
  then show ?case by (intro loggedI [of d' d "[a]"]) (auto simp: fresh_in_def)
next
  case (extend e d d' ttl sid evs)
  then show ?case
    using upd_mem [OF \<open>rows_ok d\<close> extend.hyps(1)]
    by (intro loggedI [of d' d evs]) (auto simp: live_def IsActive_def)
next
  case (finish e d st ty a d' reason)
  have log: "logs ty now (ended st now reason (e_SuccessorID e) e) a"
    by (rule logs_identity [OF _ finish.hyps(5)]) simp
  have mem: "x = ended st now reason (e_SuccessorID e) e \<or> x \<in> set (executions d) \<and> e_ID x \<noteq> e_ID e"
    if "x \<in> set (executions d')" for x
    using that upd_mem [OF \<open>rows_ok d\<close> finish.hyps(1)] finish.hyps(7) by simp
  show ?case
  proof (rule loggedI [of d' d "[a]"])
    show "\<exists>b \<in> set [a]. \<exists>t. logs ''EXECUTION_GRANTED'' t x b"
      if "x \<in> set (executions d')" "e_ID x \<notin> e_ID ` set (executions d)" for x
      using that mem [OF that(1)] finish.hyps(1) by auto
    show "\<exists>b \<in> set [a]. \<exists>t. \<exists>ty \<in> end_types. logs ty t x b"
      if "x \<in> set (executions d')" "x \<notin> set (executions d)" for x
      using that mem [OF that(1)] log finish.hyps(4) by auto
  qed (use finish.hyps in simp)
next
  case (handover e d k f s a b d')
  let ?x = "ended StateHandedOff now ReasonHandedOff (e_ID s) e"
  have log: "logs ''EXECUTION_HANDED_OFF'' now ?x a"
    by (rule logs_identity [OF _ handover.hyps(9)]) simp
  have mem: "x = s \<or> x = ?x \<or> x \<in> set (executions d) \<and> e_ID x \<noteq> e_ID e"
    if "x \<in> set (executions d')" for x
    using that upd_mem [OF \<open>rows_ok d\<close> handover.hyps(1)] handover.hyps(12) by auto
  show ?case
  proof (rule loggedI [of d' d "[a, b]"])
    show "\<exists>c \<in> set [a, b]. \<exists>t. logs ''EXECUTION_GRANTED'' t x c"
      if "x \<in> set (executions d')" "e_ID x \<notin> e_ID ` set (executions d)" for x
      using that mem [OF that(1)] handover.hyps(1,10) by auto
    show "\<exists>c \<in> set [a, b]. \<exists>t. \<exists>ty \<in> end_types. logs ty t x c"
      if "x \<in> set (executions d')" "e_State x \<noteq> StateActive" "x \<notin> set (executions d)" for x
      using that mem [OF that(1)] log handover.hyps(4) by (auto simp: end_types_def fresh_in_def)
  qed (use handover.hyps in simp)
qed

section \<open>Sequences of steps\<close>

abbreviation lease_steps :: "(domain \<Rightarrow> nat) \<Rightarrow> time \<Rightarrow> db \<Rightarrow> db \<Rightarrow> bool" where
  "lease_steps cap now \<equiv> (lease_step cap now)\<^sup>*\<^sup>*"

lemma lease_steps_rows_ok: "lease_steps cap now d d' \<Longrightarrow> rows_ok d \<Longrightarrow> rows_ok d'"
  by (induction rule: rtranclp_induct) (auto dest: lease_step_rows_ok)

lemma lease_steps_within_cap:
  "lease_steps cap now d d' \<Longrightarrow> rows_ok d \<Longrightarrow> within_cap cap now d \<Longrightarrow> within_cap cap now d'"
  by (induction rule: rtranclp_induct) (auto dest: lease_step_within_cap lease_steps_rows_ok)

lemma lease_steps_evolves: "lease_steps cap now d d' \<Longrightarrow> rows_ok d \<Longrightarrow> evolves d d'"
proof (induction rule: rtranclp_induct)
  case base
  show ?case by (rule evolves_refl)
next
  case (step y z)
  then have y: "rows_ok y" by (blast intro: lease_steps_rows_ok)
  with step show ?case by (blast intro: evolves_trans lease_step_evolves lease_step_rows_ok)
qed

lemma lease_steps_logged: "lease_steps cap now d d' \<Longrightarrow> rows_ok d \<Longrightarrow> logged d d'"
proof (induction rule: rtranclp_induct)
  case base
  show ?case by (rule loggedI [of d d "[]"]) auto
next
  case (step y z)
  then have y: "rows_ok y" by (blast intro: lease_steps_rows_ok)
  with step show ?case
    by (blast intro: logged_trans lease_step_logged lease_step_evolves lease_step_rows_ok)
qed

end
