(* ===== verification/Store_Inv.thy ===== *)
theory Store_Inv
  imports Lease_Steps
begin

text \<open>
  The transactions of the store as sequences of lease steps. For each transaction body a
  characterisation of its successful runs, then that the state it leaves is reached by
  \<open>lease_steps\<close>.
\<close>

section \<open>Reads\<close>

lemma runs_lockDomain: "runs (lockDomain m k) d u d' \<Longrightarrow> d' = d \<and> (\<exists>f. domains d (m, k) = Some f)"
  by (auto simp: lockDomain_def)

lemma runs_Session: "runs (Session sid) d s d' \<Longrightarrow> d' = d \<and> s \<in> set (sessions d) \<and> s_ID s = sid"
  unfolding Session_def
  by (elim runs_attemptE) (auto simp: find_Some_iff split: if_splits dest: fails_query_row)

lemma runs_loadActiveForUpdate:
  assumes "runs (loadActiveForUpdate now m i) d e d'" "rows_ok d"
  shows "d' = d \<and> e \<in> set (executions d) \<and> e_MerchantID e = m \<and> e_ID e = i \<and> live (dom_of e) now e"
  using assms unfolding loadActiveForUpdate_def
  by (elim runs_attemptE)
    (auto simp: find_Some_iff find_id live_def IsActive_def split: if_splits elim!: runs_andThenE)

text \<open>A session that may act for an execution: its own, or one of the same customer and principal.\<close>

definition owns :: "db \<Rightarrow> string \<Rightarrow> execution \<Rightarrow> bool" where
  "owns d sid e \<longleftrightarrow> e_SessionID e = sid \<or>
     (\<exists>s \<in> set (sessions d). s_ID s = sid \<and> s_MerchantID s = e_MerchantID e
        \<and> s_CustomerID s = e_CustomerID e
        \<and> e_Principal e = \<lparr>p_Type = s_PrincipalType s, p_ID = s_PrincipalID s\<rparr>)"

lemma runs_holderMatches: "runs (holderMatches e sid) d u d' \<Longrightarrow> d' = d \<and> owns d sid e"
  unfolding holderMatches_def
  by (auto simp: owns_def split: if_splits elim!: runs_attemptE dest!: runs_Session)

lemma ends_Session: "ends (Session sid) d d' \<Longrightarrow> d' = d"
  unfolding Session_def
  by (elim ends_attemptE) (auto dest!: ends_query_row split: sum.splits if_splits)

lemma ends_holderMatches: "ends (holderMatches e sid) d d' \<Longrightarrow> d' = d"
  unfolding holderMatches_def
  by (auto split: if_splits sum.splits elim!: ends_attemptE dest!: ends_Session)

section \<open>Promotion\<close>

definition reaped :: "time \<Rightarrow> string \<Rightarrow> string \<Rightarrow> db \<Rightarrow> db" where
  "reaped now m k d = d\<lparr>waiters := filter (\<lambda>w. \<not> (w_MerchantID w = m \<and> w_DomainKey w = k
     \<and> w_ExpiresAt w \<le> now)) (waiters d)\<rparr>"

definition first_in_line :: "time \<Rightarrow> string \<Rightarrow> string \<Rightarrow> db \<Rightarrow> waiter \<Rightarrow> bool" where
  "first_in_line now m k d w \<longleftrightarrow>
     w \<in> set (waiters d) \<and> waiter_dom w = (m, k) \<and> w_ExpiresAt w > now
     \<and> (\<forall>x \<in> set (waiters d). waiter_dom x = (m, k) \<longrightarrow> w_ExpiresAt x > now \<longrightarrow> w_CreatedAt w \<le> w_CreatedAt x)"

definition promoted_audit :: "time \<Rightarrow> string \<Rightarrow> string \<Rightarrow> string \<Rightarrow> waiter \<Rightarrow> int \<Rightarrow> audit_event" where
  "promoted_audit now m k req w fence = audit_of now m (auditRow0\<lparr>
     ar_typ := ''EXECUTION_GRANTED'', ar_customerID := w_CustomerID w,
     ar_principalType := p_Type (w_Principal w), ar_principalID := p_ID (w_Principal w),
     ar_domainKey := k, ar_executionID := w_ID w, ar_ruleName := w_RuleName w,
     ar_reason := ''promoted'', ar_requestID := req, ar_fence := Some fence\<rparr>)"

definition promoted :: "time \<Rightarrow> string \<Rightarrow> string \<Rightarrow> string \<Rightarrow> waiter \<Rightarrow> int \<Rightarrow> db \<Rightarrow> db" where
  "promoted now m k req w f d = d\<lparr>
     domains := (domains d)((m, k) \<mapsto> f + 1),
     executions := executions d @ [promotedExecution now w (f + 1)],
     waiters := filter (\<lambda>x. w_ID x \<noteq> w_ID w) (waiters d),
     audits := audits d @ [promoted_audit now m k req w (f + 1)]\<rparr>"

lemma order_by_head:
  assumes "order_by w_CreatedAt (filter (\<lambda>w. w_MerchantID w = m \<and> w_DomainKey w = k \<and> now < w_ExpiresAt w) ws) = w # rest"
    and "ws = waiters d"
  shows "first_in_line now m k d w"
proof -
  have "set (w # rest) = set (filter (\<lambda>w. w_MerchantID w = m \<and> w_DomainKey w = k \<and> now < w_ExpiresAt w) ws)"
    using assms(1) by (metis set_order_by)
  then have "w \<in> set (filter (\<lambda>w. w_MerchantID w = m \<and> w_DomainKey w = k \<and> now < w_ExpiresAt w) ws)" by auto
  with order_by_hd_min [OF assms(1)] assms(2) show ?thesis
    by (auto simp: first_in_line_def waiter_dom_def)
qed

lemma runs_promoteLocked:
  assumes "runs (promoteLocked now m k req) d u d'"
  obtains (none) "d' = reaped now m k d"
        "(\<forall>w \<in> set (waiters d). waiter_dom w = (m, k) \<longrightarrow> w_ExpiresAt w \<le> now)
         \<or> (\<exists>w. first_in_line now m k (reaped now m k d) w
              \<and> waiter_cap w \<le> count_where (live (m, k) now) (executions d))"
    | (one) w f where "first_in_line now m k (reaped now m k d) w"
        "count_where (live (m, k) now) (executions d) < waiter_cap w"
        "domains d (m, k) = Some f"
        "w_ID w \<notin> e_ID ` set (executions d)"
        "d' = promoted now m k req w f (reaped now m k d)"
proof -
  define d1 where "d1 = reaped now m k d"
  have d1: "executions d1 = executions d" "domains d1 = domains d"
    by (simp_all add: d1_def reaped_def)
  note assms [unfolded promoteLocked_def runs_simps, folded reaped_def d1_def]
  then show thesis
  proof (cases rule: runs_attempt_query_row)
    case (row w)
    then obtain rest where "order_by w_CreatedAt (filter (\<lambda>w. w_MerchantID w = m \<and> w_DomainKey w = k
           \<and> now < w_ExpiresAt w) (waiters d1)) = w # rest"
      by (auto split: list.splits)
    then have first: "first_in_line now m k d1 w" by (rule order_by_head) simp
    show thesis
    proof (cases "count_where (live (m, k) now) (executions d1) < waiter_cap w")
      case False
      with row have "d' = d1" by (simp add: waiter_cap_def liveIn_live split: if_splits)
      with False first d1 show thesis unfolding d1_def by (intro none) auto
    next
      case True
      with row obtain f where "domains d1 (m, k) = Some f" "w_ID w \<notin> e_ID ` set (executions d1)"
          "d' = promoted now m k req w f d1"
        by (auto simp: waiter_cap_def liveIn_live runs_simps promoted_def promoted_audit_def
            promotedExecution_def Let_def split: if_splits)
      with first True d1 show thesis unfolding d1_def by (intro one) simp_all
    qed
  next
    case none
    then have "order_by w_CreatedAt (filter (\<lambda>w. w_MerchantID w = m \<and> w_DomainKey w = k
           \<and> now < w_ExpiresAt w) (waiters d1)) = []"
      by (auto split: list.splits)
    then have "filter (\<lambda>w. w_MerchantID w = m \<and> w_DomainKey w = k \<and> now < w_ExpiresAt w) (waiters d1) = []"
      by (metis set_empty set_order_by)
    then have "\<forall>w \<in> set (waiters d). waiter_dom w = (m, k) \<longrightarrow> w_ExpiresAt w \<le> now"
      by (auto simp: d1_def reaped_def waiter_dom_def filter_empty_conv)
    with none show thesis using that(1) by (simp add: d1_def)
  next
    case lost
    then show thesis by simp
  qed
qed

lemma mset_filter_le [simp]: "mset (filter P xs) \<subseteq># mset xs"
  by (simp add: mset_filter)

lemma step_other:
  "domains d' = domains d \<Longrightarrow> executions d' = executions d \<Longrightarrow> mset (waiters d') \<subseteq># mset (waiters d) \<Longrightarrow>
   audits d' = audits d @ evs \<Longrightarrow> lease_step cap now d d'"
  by (rule lease_step.other) simp_all

lemma reaped_simps [simp]:
  "domains (reaped now m k d) = domains d" "executions (reaped now m k d) = executions d"
  "audits (reaped now m k d) = audits d" "mset (waiters (reaped now m k d)) \<subseteq># mset (waiters d)"
  by (simp_all add: reaped_def)

lemma promotedExecution_simps [simp]:
  "dom_of (promotedExecution now w f) = waiter_dom w" "e_ID (promotedExecution now w f) = w_ID w"
  "e_Fence (promotedExecution now w f) = f" "e_State (promotedExecution now w f) = StateActive"
  "e_EndedAt (promotedExecution now w f) = None" "e_GrantedAt (promotedExecution now w f) = now"
  "e_MerchantID (promotedExecution now w f) = w_MerchantID w"
  "e_CustomerID (promotedExecution now w f) = w_CustomerID w"
  "e_Principal (promotedExecution now w f) = w_Principal w"
  by (simp_all add: promotedExecution_def dom_of_def waiter_dom_def Let_def)

lemma promoteLocked_steps:
  assumes run: "runs (promoteLocked now m k req) d u d'" and cap: "within_cap cap now d"
  shows "lease_steps cap now d d'"
proof -
  have reap: "lease_step cap now d (reaped now m k d)" by (rule step_other [of _ _ "[]"]) simp_all
  from run show ?thesis
  proof (cases rule: runs_promoteLocked)
    case none
    with reap show ?thesis by auto
  next
    case (one w f)
    let ?d = "reaped now m k d"
    from one(1) have w: "w \<in> set (waiters ?d)" "waiter_dom w = (m, k)"
      by (simp_all add: first_in_line_def)
    then have "waiter_cap w \<le> int (cap (m, k))"
      using waiters_cap_subset [OF cap, of ?d w] by simp
    with one w have "lease_step cap now ?d d'"
      by (intro lease_step.grant [where k = "(m, k)" and f = f and e = "promotedExecution now w (f + 1)"
            and a = "promoted_audit now m k req w (f + 1)"])
        (auto simp: promoted_def fresh_in_def logs_def promoted_audit_def audit_of_def auditRow0_def waiter_dom_def)
    with reap show ?thesis by (meson converse_rtranclp_into_rtranclp r_into_rtranclp)
  qed
qed

section \<open>Acquire\<close>

definition opened :: "string \<Rightarrow> string \<Rightarrow> db \<Rightarrow> db" where
  "opened m k d = (case domains d (m, k) of Some _ \<Rightarrow> d
     | None \<Rightarrow> d\<lparr>domains := (domains d)((m, k) \<mapsto> 0)\<rparr>)"

lemma opened_simps [simp]:
  "executions (opened m k d) = executions d" "waiters (opened m k d) = waiters d"
  "audits (opened m k d) = audits d" "sessions (opened m k d) = sessions d"
  by (simp_all add: opened_def split: option.split)

lemma opened_domain: "domains (opened m k d) (m, k) = Some (case domains d (m, k) of None \<Rightarrow> 0 | Some f \<Rightarrow> f)"
  by (simp add: opened_def split: option.split)

lemma opened_steps: "lease_steps cap now d (opened m k d)"
proof (cases "domains d (m, k)")
  case None
  then have "lease_step cap now d (opened m k d)"
    by (intro lease_step.open_domain [where k = "(m, k)"]) (simp_all add: opened_def)
  then show ?thesis by auto
qed (simp add: opened_def)

lemma runs_acquireBody:
  assumes "runs (acquireBody now rnd req) d r d'"
    and "actives = filter (live (q_MerchantID req, q_DomainKey req) now) (executions d)"
  obtains (held) a where "a \<in> set actives" "e_Principal a = q_Principal req"
        "runs (resumeHeld now req a) (opened (q_MerchantID req) (q_DomainKey req) d) r d'"
    | (full) h rest where "actives = h # rest" "q_Principal req \<notin> e_Principal ` set actives"
        "q_MaxActive req \<le> int (length actives)"
        "runs (if q_MaxWaiters req > 0 then enqueueWaiter now rnd req h else busyResult now req h)
           (opened (q_MerchantID req) (q_DomainKey req) d) r d'"
    | (free) "actives = [] \<or> int (length actives) < q_MaxActive req"
        "q_Principal req \<notin> e_Principal ` set actives"
        "runs (grantNew now rnd req) (opened (q_MerchantID req) (q_DomainKey req) d) r d'"
proof -
  have same: "(p_Type (e_Principal a) = p_Type (q_Principal req) \<and> p_ID (e_Principal a) = p_ID (q_Principal req))
      \<longleftrightarrow> e_Principal a = q_Principal req" for a
    by (auto intro: principal.equality)
  note run = assms(1) [unfolded acquireBody_def insertDomain_def lockDomain_def runs_simps,
      folded opened_def, simplified opened_simps liveIn_live same, folded assms(2)]
  show thesis
  proof (cases "find (\<lambda>a. e_Principal a = q_Principal req) actives")
    case (Some a)
    then have "a \<in> set actives" "e_Principal a = q_Principal req" by (auto simp: find_Some_iff)
    with run Some show thesis by (intro held) auto
  next
    case None
    then have out: "q_Principal req \<notin> e_Principal ` set actives" by (auto simp: find_None_iff)
    show thesis
    proof (cases "actives = [] \<or> int (length actives) < q_MaxActive req")
      case True
      with run None have "runs (grantNew now rnd req) (opened (q_MerchantID req) (q_DomainKey req) d) r d'"
        by (auto split: list.splits if_splits)
      with True out show thesis by (rule free)
    next
      case False
      then obtain h rest where h: "actives = h # rest" by (cases actives) auto
      with run None False show thesis by (intro full [OF h out]) (auto split: if_splits)
    qed
  qed
qed

lemma upd_active:
  "rows_ok d \<Longrightarrow> e \<in> set (executions d) \<Longrightarrow> e_State e = StateActive \<Longrightarrow>
   update_where (\<lambda>x. e_ID x = e_ID e \<and> e_State x = StateActive) f (executions d) = upd (e_ID e) f (executions d)"
  unfolding update_where_def by (rule map_cong) (auto dest: same_id)

lemma find_active:
  assumes ok: "rows_ok d" and e: "e \<in> set (executions d)" "e_State e = StateActive"
  shows "find (\<lambda>x. e_ID x = e_ID e \<and> e_State x = StateActive) (executions d) = Some e"
proof -
  have "find (\<lambda>x. e_ID x = e_ID e \<and> e_State x = StateActive) xs = find (\<lambda>x. e_ID x = e_ID e) xs"
    if "set xs \<subseteq> set (executions d)" for xs
    using that e by (induction xs) (auto dest: same_id [OF ok])
  with find_id [OF ok e(1)] show ?thesis by simp
qed

lemma runs_resumeHeld:
  assumes run: "runs (resumeHeld now req a) d r d'" and ok: "rows_ok d"
    and a: "a \<in> set (executions d)" "e_State a = StateActive"
  shows "(\<exists>evs. d' = d\<lparr>executions := upd (e_ID a) (extended now (q_TTL req) (q_SessionID req)) (executions d),
                          audits := audits d @ evs\<rparr>)
     \<and> r_Status r = StatusAlreadyHeld
     \<and> r_Execution r = Some (extended now (q_TTL req) (q_SessionID req) a)"
  using run unfolding resumeHeld_def runs_simps upd_active [OF ok a] find_active [OF ok a] Let_def
  by (auto simp: extended_fun)

definition granted_audit :: "time \<Rightarrow> acquire_request \<Rightarrow> execution \<Rightarrow> audit_event" where
  "granted_audit now req e = audit_of now (q_MerchantID req) (auditRow0\<lparr>
     ar_typ := ''EXECUTION_GRANTED'', ar_customerID := q_CustomerID req,
     ar_principalType := p_Type (q_Principal req), ar_principalID := p_ID (q_Principal req),
     ar_domainKey := q_DomainKey req, ar_executionID := e_ID e, ar_ruleName := q_RuleName req,
     ar_reason := ''granted'', ar_requestID := q_RequestID req, ar_fence := Some (e_Fence e)\<rparr>)"

lemma runs_grantNew:
  assumes "runs (grantNew now rnd req) d r d'"
  obtains f e where "domains d (q_MerchantID req, q_DomainKey req) = Some f"
    "e = grantedExecution now rnd req (f + 1)" "e_ID e \<notin> e_ID ` set (executions d)"
    "d' = d\<lparr>domains := (domains d)((q_MerchantID req, q_DomainKey req) \<mapsto> f + 1),
            executions := executions d @ [e], audits := audits d @ [granted_audit now req e]\<rparr>"
    "r = \<lparr>r_Status = StatusGranted, r_Execution = Some e, r_Busy = None, r_Queue = None, r_Reason = ''''\<rparr>"
  using assms unfolding grantNew_def runs_simps Let_def
  by (auto simp: granted_audit_def grantedExecution_def)

lemma runs_busyResult:
  assumes "runs (busyResult now req h) d r d'"
  shows "(\<exists>a. d' = d\<lparr>audits := audits d @ [a]\<rparr>) \<and> r_Status r = StatusBusy \<and> r_Execution r = None"
  using assms unfolding busyResult_def runs_simps by auto

lemma runs_insertWaiter [runs_simps]:
  "runs (andThen (insertWaiter w) h) d b t \<longleftrightarrow>
     w_ID w \<notin> w_ID ` set (waiters d)
     \<and> (\<forall>x \<in> set (waiters d). waiter_dom x = waiter_dom w \<longrightarrow> w_Principal x \<noteq> w_Principal w)
     \<and> w_MaxActive w \<le> max_int4
     \<and> runs (h ()) (d\<lparr>waiters := waiters d @ [w\<lparr>w_LeaseTTL := interval (w_LeaseTTL w),
                                               w_MaxLifetime := interval (w_MaxLifetime w)\<rparr>]\<rparr>) b t"
proof -
  have "list_ex (\<lambda>x. w_ID x = w_ID w) (waiters d) \<longleftrightarrow> w_ID w \<in> w_ID ` set (waiters d)"
    by (rule list_ex_eq)
  then show ?thesis
    unfolding insertWaiter_def runs_simps by (auto simp: list_ex_iff waiter_dom_def)
qed

definition stored_waiter :: "time \<Rightarrow> string \<Rightarrow> acquire_request \<Rightarrow> waiter" where
  "stored_waiter now rnd req = (newWaiter now rnd req)\<lparr>w_LeaseTTL := interval (q_TTL req),
     w_MaxLifetime := interval (q_MaxLifetime req)\<rparr>"

lemma stored_waiter_simps [simp]:
  "waiter_dom (stored_waiter now rnd req) = (q_MerchantID req, q_DomainKey req)"
  "waiter_cap (stored_waiter now rnd req) = (if q_MaxActive req < 1 then 1 else q_MaxActive req)"
  by (simp_all add: stored_waiter_def newWaiter_def waiter_dom_def waiter_cap_def)

abbreviation line :: "time \<Rightarrow> acquire_request \<Rightarrow> db \<Rightarrow> int" where
  "line now req d \<equiv> count_where (\<lambda>w. w_MerchantID w = q_MerchantID req
     \<and> w_DomainKey w = q_DomainKey req \<and> w_ExpiresAt w > now) (waiters d)"

definition waits :: "time \<Rightarrow> acquire_request \<Rightarrow> db \<Rightarrow> bool" where
  "waits now req d \<longleftrightarrow> list_ex (\<lambda>w. w_MerchantID w = q_MerchantID req \<and> w_DomainKey w = q_DomainKey req
     \<and> w_Principal w = q_Principal req \<and> w_ExpiresAt w > now) (waiters d)"

lemma runs_enqueueWaiter:
  assumes "runs (enqueueWaiter now rnd req h) d r d'"
  obtains (already) w where "d' = d" "r_Status r = StatusQueued" "r_Execution r = Some (waiterAsExecution w)"
      "w_Principal w = q_Principal req" "waits now req d"
    | (busy) a where "d' = d\<lparr>audits := audits d @ [a]\<rparr>" "r_Status r = StatusBusy" "r_Execution r = None"
        "q_MaxWaiters req \<le> line now req d" "\<not> waits now req d"
    | (queued) a w where "d' = d\<lparr>waiters := waiters d @ [stored_waiter now rnd req], audits := audits d @ [a]\<rparr>"
        "r_Status r = StatusQueued" "line now req d < q_MaxWaiters req" "\<not> waits now req d"
        "r_Execution r = Some (waiterAsExecution w)" "w_ID w = id_Execution rnd"
        "w_Principal w = q_Principal req"
  using assms [unfolded enqueueWaiter_def loadWaiterByPrincipal_def]
proof (cases rule: runs_attempt_query_row)
  case (row w)
  then have w: "w_Principal w = q_Principal req" and "w \<in> set (waiters d)" "w_MerchantID w = q_MerchantID req"
    "w_DomainKey w = q_DomainKey req" "w_ExpiresAt w > now"
    by (auto simp: find_Some_iff)
  then have "waits now req d" by (auto simp: waits_def list_ex_iff)
  with row w show thesis
    by (intro already [of "w\<lparr>w_Position := r\<rparr>" for r])
      (auto simp: waiterPosition_def runs_simps queuedResult_def)
next
  case none
  then have new: "\<not> waits now req d" by (auto simp: waits_def list_ex_iff find_None_iff)
  show thesis
  proof (cases "q_MaxWaiters req \<le> line now req d")
    case True
    with none have "runs (busyResult now req h) d r d'" by (simp add: runs_simps)
    with True new show thesis by (auto dest!: runs_busyResult intro: busy)
  next
    case False
    with none new show thesis
      by (auto simp: runs_simps waiterPosition_def newWaiter_def stored_waiter_def queuedResult_def Let_def
          intro!: queued)
  qed
next
  case lost
  then show thesis by simp
qed

lemma upd_cong:
  assumes "rows_ok d" "e \<in> set (executions d)" "f e = g e"
  shows "upd (e_ID e) f (executions d) = upd (e_ID e) g (executions d)"
  unfolding update_where_def
  by (rule map_cong) (use assms in \<open>auto dest: same_id [OF assms(1) _ assms(2)]\<close>)

lemma grantNew_steps:
  assumes run: "runs (grantNew now rnd req) d r d'"
    and room: "count_where (live (q_MerchantID req, q_DomainKey req) now) (executions d)
                 < int (cap (q_MerchantID req, q_DomainKey req))"
  shows "lease_step cap now d d'"
  using run
proof (cases rule: runs_grantNew)
  case (1 f e)
  then show ?thesis using room
    by (intro lease_step.grant [where k = "(q_MerchantID req, q_DomainKey req)" and f = f and e = e
          and a = "granted_audit now req e"])
      (auto simp: fresh_in_def logs_def granted_audit_def audit_of_def auditRow0_def
        grantedExecution_def dom_of_def)
qed

lemma enqueueWaiter_steps:
  assumes run: "runs (enqueueWaiter now rnd req h) d r d'"
    and cap: "1 \<le> q_MaxActive req" "q_MaxActive req \<le> int (cap (q_MerchantID req, q_DomainKey req))"
  shows "lease_step cap now d d'"
  using run
proof (cases rule: runs_enqueueWaiter)
  case (already w)
  then show ?thesis by (intro step_other [of _ _ "[]"]) simp_all
next
  case (busy a)
  then show ?thesis by (intro step_other [of _ _ "[a]"]) simp_all
next
  case (queued a w)
  with cap show ?thesis
    by (intro lease_step.enqueue [where w = "stored_waiter now rnd req" and evs = "[a]"]) simp_all
qed

lemma busyResult_steps: "runs (busyResult now req h) d r d' \<Longrightarrow> lease_step cap now d d'"
  by (auto dest!: runs_busyResult intro!: step_other)

lemma length_filter_count: "int (length (filter P xs)) = count_where P xs"
  by (simp add: count_where_def)

lemma acquireBody_steps:
  assumes run: "runs (acquireBody now rnd req) d r d'" and ok: "rows_ok d"
    and cap: "1 \<le> q_MaxActive req" "q_MaxActive req \<le> int (cap (q_MerchantID req, q_DomainKey req))"
  shows "lease_steps cap now d d'"
proof -
  let ?k = "(q_MerchantID req, q_DomainKey req)"
  let ?d = "opened (q_MerchantID req) (q_DomainKey req) d"
  have op: "lease_steps cap now d ?d" by (rule opened_steps)
  have ok': "rows_ok ?d" by (rule lease_steps_rows_ok [OF op ok])
  from run refl have "lease_step cap now ?d d'"
  proof (cases rule: runs_acquireBody)
    case (held a)
    then have a: "a \<in> set (executions ?d)" "live (dom_of a) now a" "e_State a = StateActive"
      by (auto simp: live_def IsActive_def)
    with runs_resumeHeld [OF held(3) ok' a(1,3)] show ?thesis
      by (auto intro: lease_step.extend [OF a(1,2)])
  next
    case (full h rest)
    then show ?thesis using cap by (auto intro: enqueueWaiter_steps busyResult_steps split: if_splits)
  next
    case free
    then have "count_where (live ?k now) (executions ?d) < int (cap ?k)"
      using cap by (auto simp: length_filter_count) (auto simp: count_where_def)
    with free show ?thesis by (blast intro: grantNew_steps)
  qed
  with op show ?thesis by (rule rtranclp.rtrancl_into_rtrancl)
qed

section \<open>Renew, end, expire\<close>

lemma runs_andThen_lock: "runs (andThen (lockDomain m k) h) d b t \<Longrightarrow> runs (h ()) d b t"
  by (auto simp: lockDomain_def runs_simps)

lemma runs_andThen_load:
  assumes "runs (andThen (loadActiveForUpdate now m i) h) d b t" "rows_ok d"
  obtains e where "e \<in> set (executions d)" "e_MerchantID e = m" "e_ID e = i" "live (dom_of e) now e"
    "runs (h e) d b t"
  using assms by (elim runs_andThenE) (auto dest!: runs_loadActiveForUpdate)

lemma runs_andThen_holder:
  "runs (andThen (holderMatches e sid) h) d b t \<Longrightarrow> owns d sid e \<and> runs (h ()) d b t"
  by (elim runs_andThenE) (auto dest!: runs_holderMatches)

lemma runs_attempt_holder:
  assumes "runs (attempt (holderMatches e sid) h) d b t"
  obtains x where "x = Inr () \<longrightarrow> owns d sid e" "runs (h x) d b t"
  using assms
proof (cases rule: runs_attemptE)
  case (ok a s')
  with runs_holderMatches [OF ok(1)] show thesis by (intro that [of "Inr a"]) simp_all
next
  case (err x s')
  then have "s' = d" by (blast intro: ends_holderMatches ends_fails)
  with err show thesis by (intro that [of "Inl x"]) simp_all
qed

lemma runs_andThen_update_id:
  "runs (andThen (updateExecution (\<lambda>x. e_ID x = e_ID e) f) h) d b t \<Longrightarrow> rows_ok d \<Longrightarrow> e \<in> set (executions d) \<Longrightarrow>
   runs (h (f e)) (d\<lparr>executions := upd (e_ID e) f (executions d)\<rparr>) b t"
  by (auto simp: runs_simps find_id)

lemma renewed_fun:
  "(\<lambda>x. x\<lparr>e_ExpiresAt := min (now + interval ttl) (e_MaxLifetimeAt x),
     e_RenewCount := e_RenewCount x + 1, e_SessionID := sid\<rparr>) = extended now ttl sid"
  by (simp add: extended_def fun_eq_iff)

lemma runs_renewBody:
  assumes run: "runs (renewBody now dk m i sid req ttl) d r d'" and ok: "rows_ok d"
  obtains e a where "e \<in> set (executions d)" "e_MerchantID e = m" "e_ID e = i" "live (dom_of e) now e"
    "owns d sid e" "r = extended now ttl sid e"
    "d' = d\<lparr>executions := upd i (extended now ttl sid) (executions d), audits := audits d @ [a]\<rparr>"
  using runs_andThen_lock [OF run [unfolded renewBody_def]] ok
proof (cases rule: runs_andThen_load)
  case (1 e)
  note own = runs_andThen_holder [OF 1(5)]
  have "r = extended now ttl sid e"
    and "\<exists>a. d' = d\<lparr>executions := upd i (extended now ttl sid) (executions d), audits := audits d @ [a]\<rparr>"
    using runs_andThen_update_id [OF conjunct2 [OF own, unfolded renewed_fun] ok 1(1)] 1(3)
    unfolding runs_simps by (auto simp: extended_def)
  with 1 own that show thesis by blast
qed

lemma renewBody_steps:
  assumes run: "runs (renewBody now dk m i sid req ttl) d r d'" and ok: "rows_ok d"
  shows "lease_step cap now d d'"
  using run ok
proof (cases rule: runs_renewBody)
  case (1 e a)
  then show ?thesis by (intro lease_step.extend [of e d now d' ttl sid "[a]"]) auto
qed

definition end_audit :: "time \<Rightarrow> string \<Rightarrow> string \<Rightarrow> string \<Rightarrow> string \<Rightarrow> execution \<Rightarrow> audit_event" where
  "end_audit now m req ty reason e = audit_of now m (auditRow0\<lparr>
     ar_typ := ty, ar_customerID := e_CustomerID e,
     ar_principalType := p_Type (e_Principal e), ar_principalID := p_ID (e_Principal e),
     ar_domainKey := e_DomainKey e, ar_executionID := e_ID e, ar_ruleName := e_RuleName e,
     ar_reason := reason, ar_requestID := req, ar_fence := Some (e_Fence e)\<rparr>)"

lemma logs_end_audit: "e_MerchantID e = m \<Longrightarrow> logs ty now e (end_audit now m req ty reason e)"
  by (simp add: logs_def end_audit_def audit_of_def auditRow0_def)

definition end_type :: "exec_state \<Rightarrow> string" where
  "end_type st = (if st = StateRevoked then ''EXECUTION_REVOKED'' else ''EXECUTION_RELEASED'')"

definition ended_db :: "time \<Rightarrow> string \<Rightarrow> string \<Rightarrow> exec_state \<Rightarrow> string \<Rightarrow> execution \<Rightarrow> db \<Rightarrow> db" where
  "ended_db now m req st reason e d = d\<lparr>
     executions := upd (e_ID e) (ended st now reason (e_SuccessorID e)) (executions d),
     audits := audits d @ [end_audit now m req (end_type st) reason e]\<rparr>"

lemma runs_endBody:
  assumes run: "runs (endBody now dk m i sid req st reason mh) d r d'" and ok: "rows_ok d"
  obtains e where "e \<in> set (executions d)" "e_MerchantID e = m" "e_ID e = i" "live (dom_of e) now e"
    "mh \<Longrightarrow> owns d sid e" "r = ended st now reason (e_SuccessorID e) e"
    "runs (promoteLocked now m dk req) (ended_db now m req st reason e d) () d'"
  using runs_andThen_lock [OF run [unfolded endBody_def]] ok
proof (cases rule: runs_andThen_load)
  case (1 e)
  let ?h = "\<lambda>_. andThen (updateExecution (\<lambda>x. e_ID x = e_ID e)
        (\<lambda>x. x\<lparr>e_State := st, e_EndedAt := Some now, e_EndReason := reason\<rparr>)) (\<lambda>row.
     andThen (insertAudit now m (auditRow0\<lparr>
         ar_typ := (if st = StateRevoked then ''EXECUTION_REVOKED'' else ''EXECUTION_RELEASED''),
         ar_customerID := e_CustomerID e,
         ar_principalType := p_Type (e_Principal e), ar_principalID := p_ID (e_Principal e),
         ar_domainKey := e_DomainKey e, ar_executionID := e_ID e, ar_ruleName := e_RuleName e,
         ar_reason := reason, ar_requestID := req, ar_fence := Some (e_Fence e)\<rparr>)) (\<lambda>_.
     andThen (promoteLocked now m dk req) (\<lambda>_.
     ret (e\<lparr>e_State := st, e_EndedAt := e_EndedAt row, e_EndReason := reason\<rparr>))))"
  from 1(5) have "runs (?h ()) d r d'" and own: "mh \<Longrightarrow> owns d sid e"
    by (auto simp: runs_simps split: if_splits dest!: runs_andThen_holder)
  have same: "upd (e_ID e) (\<lambda>x. x\<lparr>e_State := st, e_EndedAt := Some now, e_EndReason := reason\<rparr>) (executions d)
      = upd (e_ID e) (ended st now reason (e_SuccessorID e)) (executions d)"
    by (rule upd_cong [OF ok 1(1)]) (simp add: ended_def)
  from runs_andThen_update_id [OF \<open>runs (?h ()) d r d'\<close> ok 1(1)]
  have "runs (promoteLocked now m dk req) (ended_db now m req st reason e d) () d'"
    and "r = ended st now reason (e_SuccessorID e) e"
    unfolding runs_simps same
    by (auto elim!: runs_andThenE simp: ended_db_def ended_def end_audit_def end_type_def)
  with 1 own that show thesis by blast
qed

lemma ended_db_step:
  assumes "e \<in> set (executions d)" "e_State e = StateActive" "e_MerchantID e = m" "st \<noteq> StateActive"
  shows "lease_step cap now d (ended_db now m req st reason e d)"
  using assms
  by (intro lease_step.finish [of e d st "end_type st" now "end_audit now m req (end_type st) reason e" _ reason]
      logs_end_audit) (auto simp: ended_db_def end_type_def end_types_def)

lemma endBody_steps:
  assumes run: "runs (endBody now dk m i sid req st reason mh) d r d'" and ok: "rows_ok d"
    and cap: "within_cap cap now d" and st: "st \<noteq> StateActive"
  shows "lease_steps cap now d d'"
  using run ok
proof (cases rule: runs_endBody)
  case (1 e)
  then have step: "lease_step cap now d (ended_db now m req st reason e d)"
    using st by (intro ended_db_step) (auto simp: live_def IsActive_def)
  with ok cap 1 have "lease_steps cap now (ended_db now m req st reason e d) d'"
    by (blast intro: promoteLocked_steps lease_step_within_cap)
  with step show ?thesis by (rule converse_rtranclp_into_rtranclp)
qed

definition expire_audit :: "time \<Rightarrow> string \<Rightarrow> string \<Rightarrow> execution \<Rightarrow> audit_event" where
  "expire_audit now m k e = audit_of now m (auditRow0\<lparr>
     ar_typ := ''EXECUTION_EXPIRED'', ar_customerID := e_CustomerID e,
     ar_principalType := p_Type (e_Principal e), ar_principalID := p_ID (e_Principal e),
     ar_domainKey := k, ar_executionID := e_ID e, ar_ruleName := e_RuleName e,
     ar_reason := ''expired'', ar_fence := Some (e_Fence e)\<rparr>)"

definition expired_db :: "time \<Rightarrow> string \<Rightarrow> string \<Rightarrow> execution \<Rightarrow> db \<Rightarrow> db" where
  "expired_db now m k e d = d\<lparr>
     executions := upd (e_ID e) (ended StateExpired now ReasonExpired (e_SuccessorID e)) (executions d),
     audits := audits d @ [expire_audit now m k e]\<rparr>"

lemma expired_db_step:
  assumes "e \<in> set (executions d)" "e_State e = StateActive" "e_MerchantID e = m"
  shows "lease_step cap now d (expired_db now m k e d)"
  using assms
  by (intro lease_step.finish [of e d StateExpired "''EXECUTION_EXPIRED''" now "expire_audit now m k e" _ ReasonExpired])
    (auto simp: expired_db_def end_types_def logs_def expire_audit_def audit_of_def auditRow0_def)

lemma runs_expireDues_Cons:
  assumes run: "runs (expireDues now m k (e # es)) d u d'" and ok: "rows_ok d"
    and e: "e \<in> set (executions d)" "e_State e = StateActive"
  shows "runs (expireDues now m k es) (expired_db now m k e d) u d'"
proof -
  have same: "upd (e_ID e) (\<lambda>x. x\<lparr>e_State := StateExpired, e_EndedAt := Some now, e_EndReason := ''EXPIRED''\<rparr>) (executions d)
      = upd (e_ID e) (ended StateExpired now ReasonExpired (e_SuccessorID e)) (executions d)"
    by (rule upd_cong [OF ok e(1)]) (simp add: ended_def ReasonExpired_def)
  from run show ?thesis
    unfolding expireDues.simps runs_simps upd_active [OF ok e] same
    by (simp add: expired_db_def expire_audit_def)
qed

lemma expireDues_steps:
  assumes "runs (expireDues now m k es) d u d'" "rows_ok d" "distinct (map e_ID es)"
    and "\<And>e. e \<in> set es \<Longrightarrow> e \<in> set (executions d) \<and> e_State e = StateActive \<and> e_MerchantID e = m"
  shows "lease_steps cap now d d'"
  using assms
proof (induction es arbitrary: d)
  case Nil
  then show ?case by simp
next
  case (Cons e es)
  let ?d = "expired_db now m k e d"
  from Cons.prems(4) [of e] have e: "e \<in> set (executions d)" "e_State e = StateActive" "e_MerchantID e = m"
    by auto
  then have step: "lease_step cap now d ?d" by (rule expired_db_step)
  have "lease_steps cap now ?d d'"
  proof (rule Cons.IH)
    show "runs (expireDues now m k es) ?d u d'"
      by (rule runs_expireDues_Cons [OF Cons.prems(1,2) e(1,2)])
    show "rows_ok ?d" using step Cons.prems(2) by (rule lease_step_rows_ok)
    show "distinct (map e_ID es)" using Cons.prems(3) by simp
  next
    fix x assume x: "x \<in> set es"
    with Cons.prems(3) have "e_ID x \<noteq> e_ID e" by (force simp: image_iff)
    with Cons.prems(4) [of x] x upd_mem [OF Cons.prems(2) e(1)]
    show "x \<in> set (executions ?d) \<and> e_State x = StateActive \<and> e_MerchantID x = m"
      by (simp add: expired_db_def)
  qed
  with step show ?case by (rule converse_rtranclp_into_rtranclp)
qed

lemma runs_expireAndPromoteBody:
  assumes "runs (expireAndPromoteBody now m k) d n d'"
    and "dues = filter (\<lambda>e. dom_of e = (m, k) \<and> e_State e = StateActive \<and> e_ExpiresAt e \<le> now) (executions d)"
  obtains d1 where "runs (expireDues now m k dues) d () d1" "runs (promoteLocked now m k '''') d1 () d'"
    "n = int (length dues)"
proof -
  have "filter (\<lambda>e. e_MerchantID e = m \<and> e_DomainKey e = k \<and> e_State e = StateActive \<and> e_ExpiresAt e \<le> now)
      (executions d) = dues"
    unfolding assms(2) by (rule filter_cong) (auto simp: dom_of_def)
  with runs_andThen_lock [OF assms(1) [unfolded expireAndPromoteBody_def]] show thesis
    unfolding runs_simps by (auto elim!: runs_andThenE intro: that)
qed

lemma expireAndPromoteBody_steps:
  assumes run: "runs (expireAndPromoteBody now m k) d n d'" and ok: "rows_ok d" and cap: "within_cap cap now d"
  shows "lease_steps cap now d d'"
  using run refl
proof (cases rule: runs_expireAndPromoteBody)
  case (1 d1)
  have steps: "lease_steps cap now d d1"
    using 1(1) ok by (rule expireDues_steps) (use ok in \<open>auto simp: rows_ok_def dom_of_def distinct_map inj_on_def\<close>)
  with ok cap have "within_cap cap now d1" by (blast intro: lease_steps_within_cap)
  with 1(2) have "lease_steps cap now d1 d'" by (rule promoteLocked_steps)
  with steps show ?thesis by (rule rtranclp_trans)
qed

section \<open>Leaving the queue\<close>

lemma runs_dequeueBody:
  assumes "runs (dequeueBody now goNow dk m i sid req) d r d'"
  obtains w a where "w \<in> set (waiters d)" "w_MerchantID w = m" "w_ID w = i" "owns d sid (waiterAsExecution w)"
    "d' = d\<lparr>waiters := filter (\<lambda>x. w_ID x \<noteq> i) (waiters d), audits := audits d @ [a]\<rparr>"
  using runs_andThen_lock [OF assms [unfolded dequeueBody_def]]
proof (cases rule: runs_attempt_query_row)
  case (row w)
  then have "w \<in> set (waiters d)" "w_MerchantID w = m" "w_ID w = i" by (auto simp: find_Some_iff)
  with row(2) show thesis
    by (auto simp: Let_def runs_simps dest!: runs_andThen_holder intro!: that)
qed simp_all

lemma dequeueBody_steps: "runs (dequeueBody now goNow dk m i sid req) d r d' \<Longrightarrow> lease_step cap now d d'"
  by (erule runs_dequeueBody) (auto intro!: step_other)

lemma expireWaiterList_steps: "runs (expireWaiterList now ws) d u d' \<Longrightarrow> lease_steps cap now d d'"
proof (induction ws arbitrary: d)
  case Nil
  then show ?case by simp
next
  case (Cons w ws)
  let ?a = "audit_of now (w_MerchantID w) (auditRow0\<lparr>
         ar_typ := ''EXECUTION_QUEUE_EXPIRED'', ar_customerID := w_CustomerID w,
         ar_principalType := p_Type (w_Principal w), ar_principalID := p_ID (w_Principal w),
         ar_domainKey := w_DomainKey w, ar_executionID := w_ID w, ar_ruleName := w_RuleName w,
         ar_reason := ''expired''\<rparr>)"
  let ?d = "d\<lparr>waiters := filter (\<lambda>x. w_ID x \<noteq> w_ID w) (waiters d), audits := audits d @ [?a]\<rparr>"
  have "lease_step cap now d ?d" by (rule step_other [of _ _ "[?a]"]) simp_all
  moreover from Cons.prems have "runs (expireWaiterList now ws) ?d u d'" by (simp add: runs_simps)
  ultimately show ?case using Cons.IH by (meson converse_rtranclp_into_rtranclp)
qed

section \<open>Handoff\<close>

definition handoff_audit :: "time \<Rightarrow> handoff_request \<Rightarrow> string \<Rightarrow> execution \<Rightarrow> audit_event" where
  "handoff_audit now req mode old = audit_of now (h_MerchantID req) (auditRow0\<lparr>
     ar_typ := ''EXECUTION_HANDED_OFF'', ar_customerID := e_CustomerID old,
     ar_principalType := p_Type (e_Principal old), ar_principalID := p_ID (e_Principal old),
     ar_domainKey := e_DomainKey old, ar_executionID := e_ID old, ar_ruleName := e_RuleName old,
     ar_reason := mode, ar_requestID := h_RequestID req, ar_fence := Some (e_Fence old)\<rparr>)"

definition succession_audit :: "time \<Rightarrow> handoff_request \<Rightarrow> execution \<Rightarrow> audit_event" where
  "succession_audit now req succ = audit_of now (h_MerchantID req) (auditRow0\<lparr>
     ar_typ := ''EXECUTION_GRANTED'', ar_customerID := e_CustomerID succ,
     ar_principalType := p_Type (e_Principal succ), ar_principalID := p_ID (e_Principal succ),
     ar_domainKey := e_DomainKey succ, ar_executionID := e_ID succ, ar_ruleName := e_RuleName succ,
     ar_reason := ''handoff'', ar_requestID := h_RequestID req, ar_fence := Some (e_Fence succ)\<rparr>)"

definition handed_db :: "time \<Rightarrow> handoff_request \<Rightarrow> string \<Rightarrow> execution \<Rightarrow> execution \<Rightarrow> int \<Rightarrow> db \<Rightarrow> db" where
  "handed_db now req mode old succ f d = d\<lparr>
     domains := (domains d)(dom_of old \<mapsto> f + 1),
     executions := upd (e_ID old) (ended StateHandedOff now ReasonHandedOff (e_ID succ)) (executions d) @ [succ],
     audits := audits d @ [handoff_audit now req mode old, succession_audit now req succ]\<rparr>"

lemma find_appended:
  "rows_ok d \<Longrightarrow> e \<in> set (executions d) \<Longrightarrow> find (\<lambda>x. e_ID x = e_ID e) (executions d @ ys) = Some e"
proof -
  have "find P xs = Some x \<Longrightarrow> find P (xs @ ys) = Some x" for P and xs :: "execution list" and x
    by (induction xs) auto
  then show "rows_ok d \<Longrightarrow> e \<in> set (executions d) \<Longrightarrow> ?thesis" by (blast intro: find_id)
qed

lemma update_where_append: "update_where P f (xs @ ys) = update_where P f xs @ update_where P f ys"
  by (simp add: update_where_def)

lemma successor_simps [simp]:
  "dom_of (successor now i sid to ttl old f) = dom_of old" "e_ID (successor now i sid to ttl old f) = i"
  "e_Fence (successor now i sid to ttl old f) = f" "e_State (successor now i sid to ttl old f) = StateActive"
  "e_EndedAt (successor now i sid to ttl old f) = None" "e_GrantedAt (successor now i sid to ttl old f) = now"
  "e_CustomerID (successor now i sid to ttl old f) = e_CustomerID old"
  "e_Principal (successor now i sid to ttl old f) = to"
  "e_MerchantID (successor now i sid to ttl old f) = e_MerchantID old"
  "e_MaxLifetimeAt (successor now i sid to ttl old f) = e_MaxLifetimeAt old"
  "e_SessionID (successor now i sid to ttl old f) = sid"
  "e_ExpiresAt (successor now i sid to ttl old f) = min (now + interval ttl) (e_MaxLifetimeAt old)"
  by (simp_all add: successor_def dom_of_def)

definition heir :: "time \<Rightarrow> string \<Rightarrow> string \<Rightarrow> handoff_request \<Rightarrow> execution \<Rightarrow> string \<Rightarrow> principal \<Rightarrow> int \<Rightarrow> execution" where
  "heir now rndE rndS req old mode to f = successor now (id_Execution rndE)
     (if mode = ModeCooperative then id_Session rndS else h_SessionID req) to (h_TTL req) old f"

lemma runs_handoffSwap:
  assumes run: "runs (handoffSwap now rndE rndS req old mode to) d r d'" and ok: "rows_ok d"
    and old: "old \<in> set (executions d)"
  obtains f succ where "domains d (dom_of old) = Some f" "succ = heir now rndE rndS req old mode to (f + 1)"
    "e_ID succ \<notin> e_ID ` set (executions d)" "d' = handed_db now req mode old succ f d"
    "r = \<lparr>hr_Predecessor = ended StateHandedOff now ReasonHandedOff (e_ID succ) old,
          hr_Successor = succ, hr_Mode = mode\<rparr>"
proof -
  define h where "h = heir now rndE rndS req old mode to"
  have h: "successor now (id_Execution rndE) (if mode = ModeCooperative then id_Session rndS else h_SessionID req)
      to (h_TTL req) old = h"
    by (simp add: h_def heir_def fun_eq_iff)
  have hs: "e_Fence (h n) = n" for n by (simp add: h_def heir_def)
  from run show thesis
    unfolding handoffSwap_def runs_simps Let_def h runs_ret
    apply (elim exE conjE)
    apply (rule that [unfolded dom_of_def, folded h_def, OF _ refl], assumption, simp)
    using old by (auto simp: find_appended [OF ok old] update_where_append handed_db_def dom_of_def
        ended_fun handoff_audit_def succession_audit_def hs)
qed

lemma runs_handoffBody:
  assumes run: "runs (handoffBody now rndE rndS dk caller req) d r d'" and ok: "rows_ok d"
  obtains old hm mode to f succ where
    "old \<in> set (executions d)" "e_MerchantID old = h_MerchantID req" "e_ID old = h_ExecutionID req"
    "live (dom_of old) now old" "e_CustomerID old = s_CustomerID caller"
    "hm \<Longrightarrow> owns d (h_SessionID req) old"
    "handoffTarget req \<lparr>p_Type = s_PrincipalType caller, p_ID = s_PrincipalID caller\<rparr> old hm = Inr (mode, to)"
    "to \<noteq> e_Principal old" "domains d (dom_of old) = Some f"
    "succ = heir now rndE rndS req old mode to (f + 1)"
    "e_ID succ \<notin> e_ID ` set (executions d)" "d' = handed_db now req mode old succ f d"
    "r = \<lparr>hr_Predecessor = ended StateHandedOff now ReasonHandedOff (e_ID succ) old, hr_Successor = succ, hr_Mode = mode\<rparr>"
  using runs_andThen_lock [OF run [unfolded handoffBody_def Let_def]] ok
proof (cases rule: runs_andThen_load)
  case (1 old)
  let ?caller = "\<lparr>p_Type = s_PrincipalType caller, p_ID = s_PrincipalID caller\<rparr>"
  from 1(5) have cust: "e_CustomerID old = s_CustomerID caller" by (auto split: if_splits)
  then have "\<not> e_CustomerID old \<noteq> s_CustomerID caller" by simp
  from 1(5) [unfolded if_not_P [OF this]] show thesis
  proof (cases rule: runs_attempt_holder)
    case (1 x)
    define hm where "hm = (case x of Inr _ \<Rightarrow> True | Inl _ \<Rightarrow> False)"
    from 1(1) have hm: "hm \<Longrightarrow> owns d (h_SessionID req) old" by (auto simp: hm_def split: sum.splits)
    from 1(2) obtain mode to where target: "handoffTarget req ?caller old hm = Inr (mode, to)"
      and diff: "to \<noteq> e_Principal old" and swap: "runs (handoffSwap now rndE rndS req old mode to) d r d'"
      unfolding hm_def [symmetric] by (auto split: sum.splits if_splits)
    from swap ok \<open>old \<in> set (executions d)\<close> show thesis
    proof (cases rule: runs_handoffSwap)
      case (1 f succ)
      show thesis by (rule that [OF \<open>old \<in> set (executions d)\<close> _ _ _ cust hm target diff 1(1,2,3,4,5)])
          (use \<open>e_MerchantID old = h_MerchantID req\<close> \<open>e_ID old = h_ExecutionID req\<close> \<open>live (dom_of old) now old\<close> in auto)
    qed
  qed
qed

lemma handoffBody_steps:
  assumes run: "runs (handoffBody now rndE rndS dk caller req) d r d'" and ok: "rows_ok d"
  shows "lease_step cap now d d'"
  using run ok
proof (cases rule: runs_handoffBody)
  case (1 old hm mode to f succ)
  then show ?thesis
    by (intro lease_step.handover [where k = "dom_of old" and f = f and e = old and s = succ
          and a = "handoff_audit now req mode old" and b = "succession_audit now req succ"])
      (auto simp: handed_db_def fresh_in_def heir_def logs_def handoff_audit_def succession_audit_def
        audit_of_def auditRow0_def)
qed

end
