(* ===== verification/Store_Ops.thy ===== *)
theory Store_Ops
  imports Store
begin

text \<open>
  The rest of the Postgres store: merchants, signing keys and sessions (\<open>seed.go\<close>), session
  revocation, operation budgets and replay keys (\<open>rc1.go\<close>), runtime controls, emergency actions
  and the dry run (\<open>ops.go\<close>), and the audit log (\<open>audit.go\<close>). A JSON object is the list of its
  members. The source marshals \<open>c.Scope\<close> to JSON and back; the model stores it as it is.
\<close>

section \<open>Audit log\<close>

record AdminAudit =
  aa_Actor :: string
  aa_Role :: string
  aa_IP :: string
  aa_Auth :: string
  aa_Before :: string
  aa_After :: string
  aa_RequestID :: string

definition WriteActorAudit :: "time \<Rightarrow> string \<Rightarrow> string \<Rightarrow> string \<Rightarrow> string \<Rightarrow> string \<Rightarrow> string \<Rightarrow> (string \<times> json) list \<Rightarrow> unit db_op" where
  "WriteActorAudit now merchantID ty role actor reason requestID attrs =
     (if merchantID = '''' \<or> ty = '''' then throw ErrInvalidInput
      else wrapping (insertAudit now merchantID (auditRow0\<lparr>ar_typ := ty, ar_principalType := role,
        ar_principalID := actor, ar_reason := reason, ar_requestID := requestID, ar_attrs := attrs\<rparr>)))"

definition WriteAudit :: "time \<Rightarrow> string \<Rightarrow> string \<Rightarrow> string \<Rightarrow> string \<Rightarrow> (string \<times> json) list \<Rightarrow> unit db_op" where
  "WriteAudit now merchantID ty reason requestID attrs =
     WriteActorAudit now merchantID ty '''' '''' reason requestID attrs"

text \<open>\<open>attrs[k] = v\<close>.\<close>

definition set_attr :: "string \<Rightarrow> json \<Rightarrow> (string \<times> json) list \<Rightarrow> (string \<times> json) list" where
  "set_attr k v attrs = filter (\<lambda>p. fst p \<noteq> k) attrs @ [(k, v)]"

definition writeAdminAction :: "time \<Rightarrow> string \<Rightarrow> string \<Rightarrow> string \<Rightarrow> string \<Rightarrow> AdminAudit \<Rightarrow> (string \<times> json) list \<Rightarrow> unit db_op" where
  "writeAdminAction now merchantID ty reason requestID audit attrs0 =
     (let attrs = attrs0;
          attrs = (if aa_Actor audit \<noteq> '''' then set_attr ''actor'' (JStr (aa_Actor audit)) attrs else attrs);
          attrs = (if aa_Role audit \<noteq> '''' then set_attr ''role'' (JStr (aa_Role audit)) attrs else attrs);
          attrs = (if aa_Auth audit \<noteq> '''' then set_attr ''auth'' (JStr (aa_Auth audit)) attrs else attrs);
          attrs = (if aa_IP audit \<noteq> '''' then set_attr ''ip'' (JStr (aa_IP audit)) attrs else attrs);
          requestID = (if requestID = '''' then aa_RequestID audit else requestID)
      in WriteActorAudit now merchantID ty (aa_Role audit) (aa_Actor audit) reason requestID attrs)"

text \<open>The order of insertion is the order of \<open>seq\<close>; \<open>rev\<close> makes a stable sort put the latest first.\<close>

definition LastAudit :: "string \<Rightarrow> string \<Rightarrow> audit_event db_op" where
  "LastAudit merchantID ty =
     attempt (query_row (\<lambda>d. case order_by (\<lambda>a. - a_At a) (rev (filter (\<lambda>a. a_MerchantID a = merchantID
         \<and> a_Type a = ty) (audits d))) of [] \<Rightarrow> None | a # _ \<Rightarrow> Some a)) (\<lambda>r.
       case r of
         Inr ev \<Rightarrow> ret ev
       | Inl err \<Rightarrow> if err = ErrNoRows then throw ErrNotFound else throw (wrapStore err))"

text \<open>\<open>since\<close> is \<open>None\<close> for Go's zero time.\<close>

definition ExportAudit :: "time \<Rightarrow> string \<Rightarrow> time option \<Rightarrow> int \<Rightarrow> audit_event list db_op" where
  "ExportAudit goNow merchantID since0 limit0 =
     (let limit = (if limit0 < 1 then 1000 else limit0);
          since = (case since0 of None \<Rightarrow> goNow - 24 * 60 * minute | Some t \<Rightarrow> t)
      in wrapping (query (\<lambda>d. limit_rows limit (filter (\<lambda>a. a_MerchantID a = merchantID \<and> a_At a \<ge> since) (audits d)))))"

definition SearchAudit :: "string \<Rightarrow> string \<Rightarrow> string \<Rightarrow> int \<Rightarrow> audit_event list db_op" where
  "SearchAudit merchantID customerID ty limit0 =
     (let limit = (if limit0 < 1 then 50 else limit0) in
      wrapping (query (\<lambda>d. limit_rows limit (order_by (\<lambda>a. - a_At a) (rev (filter (\<lambda>a. a_MerchantID a = merchantID
        \<and> (customerID = '''' \<or> a_CustomerID a = Some customerID)
        \<and> (ty = '''' \<or> a_Type a = ty)) (audits d)))))))"

text \<open>\<open>rfc3339\<close> formats the retention bound for the purge event.\<close>

definition PurgeAudit :: "(time \<Rightarrow> string) \<Rightarrow> time \<Rightarrow> string \<Rightarrow> time \<Rightarrow> int db_op" where
  "PurgeAudit rfc3339 now merchantID olderThan =
     (let old = (\<lambda>a. a_MerchantID a = merchantID \<and> a_At a < olderThan \<and> a_Type a \<noteq> ''AUDIT_PURGED'') in
      transact (
        andThen (stmt (\<lambda>d. Inr (count_where old (audits d), d\<lparr>audits := filter (\<lambda>a. \<not> old a) (audits d)\<rparr>))) (\<lambda>n.
        andThen (if n > 0 then insertAudit now merchantID (auditRow0\<lparr>ar_typ := ''AUDIT_PURGED'',
            ar_reason := ''retention'',
            ar_attrs := [(''purged'', JNum n), (''older_than'', JStr (rfc3339 olderThan))]\<rparr>) else ret ()) (\<lambda>_.
        ret n))))"

record UsageFigures =
  u_ActiveExecutions :: int
  u_Executions30d :: int
  u_ResourcesProtected :: int
  u_PeakConcurrentToday :: int
  u_QueueDepth :: int

text \<open>\<open>tz\<close> is the offset of the database session's time zone.\<close>

definition UsageFiguresOp :: "duration \<Rightarrow> time \<Rightarrow> string \<Rightarrow> UsageFigures db_op" where
  "UsageFiguresOp tz now merchantID = wrapping (query (\<lambda>d.
     let mine = filter (\<lambda>e. e_MerchantID e = merchantID) (executions d);
         day = (\<lambda>t. (t + tz) div (24 * 60 * minute));
         today = filter (\<lambda>e. day (e_GrantedAt e) = day now) mine;
         minutes = map (\<lambda>e. (e_GrantedAt e + tz) div minute) today
     in \<lparr>u_ActiveExecutions = count_where (\<lambda>e. e_State e = StateActive \<and> e_ExpiresAt e > now) mine,
         u_Executions30d = count_where (\<lambda>e. e_GrantedAt e > now - 30 * 24 * 60 * minute) mine,
         u_ResourcesProtected = int (length (remdups (map e_Resource mine))),
         u_PeakConcurrentToday = foldr (\<lambda>k n. max (count_where (\<lambda>x. x = k) minutes) n) minutes 0,
         u_QueueDepth = count_where (\<lambda>w. w_MerchantID w = merchantID \<and> w_ExpiresAt w > now) (waiters d)\<rparr>))"

section \<open>Merchants, keys and sessions\<close>

record Merchant =
  mr_ID :: string
  mr_Name :: string
  mr_IDPHMACSecret :: string

text \<open>A Go string is never SQL null, so \<open>excluded.idp_hmac_secret\<close> always wins the \<open>coalesce\<close>.\<close>

definition EnsureMerchant :: "string \<Rightarrow> string \<Rightarrow> string \<Rightarrow> unit db_op" where
  "EnsureMerchant merchantID name hmacSecret =
     wrapping (modify (\<lambda>d. d\<lparr>merchants := (merchants d)(merchantID \<mapsto>
       \<lparr>m_Name = name, m_IDPHMACSecret = Some hmacSecret\<rparr>)\<rparr>))"

definition MerchantOp :: "string \<Rightarrow> Merchant db_op" where
  "MerchantOp merchantID =
     attempt (query_row (\<lambda>d. map_option (\<lambda>m. \<lparr>mr_ID = merchantID, mr_Name = m_Name m,
         mr_IDPHMACSecret = coalesce (m_IDPHMACSecret m)\<rparr>) (merchants d merchantID))) (\<lambda>r.
       case r of
         Inr m \<Rightarrow> ret m
       | Inl err \<Rightarrow> if err = ErrNoRows then throw err else throw (wrapStore err))"

definition activeKeys :: "string \<Rightarrow> db \<Rightarrow> signing_key list" where
  "activeKeys merchantID d = order_by (\<lambda>k. - k_CreatedAt k)
     (filter (\<lambda>k. k_MerchantID k = merchantID \<and> k_RetiredAt k = None) (signing_keys d))"

text \<open>\<open>keys\<close> is the pair \<open>ed25519.GenerateKey\<close> draws; \<open>kid\<close> is a primary key and \<open>merchant_id\<close> a
  foreign key.\<close>

definition EnsureSigningKey :: "time \<Rightarrow> string \<Rightarrow> string \<times> string \<Rightarrow> string \<Rightarrow> signing_key db_op" where
  "EnsureSigningKey now rnd keys merchantID =
     attempt (query_row (\<lambda>d. case activeKeys merchantID d of [] \<Rightarrow> None | k # _ \<Rightarrow> Some k)) (\<lambda>r.
       case r of
         Inr k \<Rightarrow> ret k
       | Inl err \<Rightarrow>
           if err \<noteq> ErrNoRows then throw (wrapStore err)
           else
             let k = \<lparr>k_KID = id_Key rnd, k_MerchantID = merchantID, k_Public = fst keys,
                      k_Private = snd keys, k_CreatedAt = now, k_RetiredAt = None\<rparr> in
             andThen (wrapping (stmt (\<lambda>d.
               if list_ex (\<lambda>x. k_KID x = k_KID k) (signing_keys d) \<or> merchants d merchantID = None then Inl ErrSQL
               else Inr ((), d\<lparr>signing_keys := signing_keys d @ [k]\<rparr>)))) (\<lambda>_.
             ret k))"

definition ActiveSigningKeys :: "string \<Rightarrow> signing_key list db_op" where
  "ActiveSigningKeys merchantID = wrapping (query (activeKeys merchantID))"

definition InsertSession :: "session_row \<Rightarrow> unit db_op" where
  "InsertSession sess = wrapping (stmt (\<lambda>d.
     if list_ex (\<lambda>x. s_ID x = s_ID sess) (sessions d) then Inl ErrSQL
     else Inr ((), d\<lparr>sessions := sessions d @ [sess\<lparr>s_RevokedAt := None, s_Version := 1\<rparr>]\<rparr>)))"

section \<open>Session revocation, budgets, replay keys\<close>

definition RevokeSession :: "time \<Rightarrow> string \<Rightarrow> string \<Rightarrow> unit db_op" where
  "RevokeSession now merchantID sessionID =
     (let hit = (\<lambda>s. s_ID s = sessionID \<and> s_MerchantID s = merchantID \<and> s_RevokedAt s = None) in
      andThen (wrapping (stmt (\<lambda>d. Inr (count_where hit (sessions d),
         d\<lparr>sessions := update_where hit (\<lambda>s. s\<lparr>s_RevokedAt := Some now, s_Version := s_Version s + 1\<rparr>) (sessions d)\<rparr>)))) (\<lambda>n.
      if n = 0 then throw ErrNotFound else ret ()))"

definition LiveSession :: "time \<Rightarrow> string \<Rightarrow> string \<Rightarrow> session_row db_op" where
  "LiveSession goNow merchantID sessionID =
     andThen (Session sessionID) (\<lambda>sess.
     if s_MerchantID sess \<noteq> merchantID then throw ErrForbidden
     else if s_RevokedAt sess \<noteq> None then throw ErrSessionRevoked
     else if \<not> s_ExpiresAt sess > goNow then throw ErrSessionRevoked
     else ret sess)"

definition EnsureBudget :: "string \<Rightarrow> string \<Rightarrow> int \<Rightarrow> unit db_op" where
  "EnsureBudget merchantID executionID maxOps = wrapping (stmt (\<lambda>d.
     if maxOps > max_int4 then Inl ErrSQL
     else Inr ((), d\<lparr>budgets := (budgets d)(executionID \<mapsto>
       (case budgets d executionID of
          None \<Rightarrow> \<lparr>bu_MerchantID = merchantID, bu_MaxOps = maxOps, bu_OpsUsed = 0\<rparr>
        | Some b \<Rightarrow> b\<lparr>bu_MaxOps := (if maxOps > bu_MaxOps b then maxOps else bu_MaxOps b)\<rparr>))\<rparr>)))"

definition ConsumeOp :: "string \<Rightarrow> string \<Rightarrow> (int \<times> int) db_op" where
  "ConsumeOp merchantID executionID =
     attempt (stmt (\<lambda>d.
       (case budgets d executionID of
          None \<Rightarrow> Inr ((1, 0), d\<lparr>budgets := (budgets d)(executionID \<mapsto>
            \<lparr>bu_MerchantID = merchantID, bu_MaxOps = 0, bu_OpsUsed = 1\<rparr>)\<rparr>)
        | Some b \<Rightarrow>
            if \<not> (bu_MaxOps b = 0 \<or> bu_OpsUsed b < bu_MaxOps b) then Inl ErrNoRows
            else if bu_OpsUsed b + 1 > max_int4 then Inl ErrSQL
            else Inr ((bu_OpsUsed b + 1, bu_MaxOps b), d\<lparr>budgets := (budgets d)(executionID \<mapsto>
              b\<lparr>bu_OpsUsed := bu_OpsUsed b + 1\<rparr>)\<rparr>)))) (\<lambda>r.
       case r of
         Inr um \<Rightarrow> ret um
       | Inl err \<Rightarrow> if err = ErrNoRows then throw ErrBudget else throw (wrapStore err))"

text \<open>Two statements, each in a transaction of its own.\<close>

definition ClaimReplay :: "time \<Rightarrow> time \<Rightarrow> string \<Rightarrow> string \<Rightarrow> string \<Rightarrow> duration \<Rightarrow> unit db_op" where
  "ClaimReplay now1 now2 merchantID key kind window0 =
     (if key = '''' then ret ()
      else
        let window = (if window0 \<le> 0 then 10 * minute else window0) in
        andThen (wrapping (modify (\<lambda>d. d\<lparr>replay_keys := (\<lambda>k. case replay_keys d k of
             None \<Rightarrow> None | Some (knd, t) \<Rightarrow> if t < now1 then None else Some (knd, t))\<rparr>))) (\<lambda>_.
        andThen (wrapping (stmt (\<lambda>d. case replay_keys d (merchantID, key) of
             Some _ \<Rightarrow> Inr (0::int, d)
           | None \<Rightarrow> Inr (1, d\<lparr>replay_keys := (replay_keys d)((merchantID, key) \<mapsto> (kind, now2 + interval window))\<rparr>)))) (\<lambda>n.
        if n = 0 then throw ErrReplay else ret ())))"

section \<open>Runtime controls\<close>

definition GetControls :: "string \<Rightarrow> (controls \<times> bool) db_op" where
  "GetControls merchantID =
     attempt (query_row (\<lambda>d. runtime_controls d merchantID)) (\<lambda>r.
       case r of
         Inl err \<Rightarrow> if err = ErrNoRows then ret (DefaultControls, False) else throw (wrapStore err)
       | Inr (c, disabled) \<Rightarrow> ret (Normalize (c\<lparr>c_DisabledActions := SplitActions disabled\<rparr>), True))"

definition scope_json :: "ramp_scope \<Rightarrow> json" where
  "scope_json s = (let f = (\<lambda>n xs. if xs = [] then [] else [(n, JArr (map JStr xs))]) in
     JObj (f ''events'' (sc_Events s) @ f ''routes'' (sc_Routes s) @ f ''pools'' (sc_Pools s)
       @ f ''cohorts'' (sc_Cohorts s) @ f ''environments'' (sc_Environments s) @ f ''policies'' (sc_Policies s)))"

definition control_attrs :: "controls \<Rightarrow> (string \<times> json) list" where
  "control_attrs c =
     [(''enforcement'', JBool (c_Enforcement c)), (''enforce_percent'', JNum (c_EnforcePercent c)),
      (''effective_percent'', JNum (EffectivePercent c)), (''ramp_salt'', JStr (c_RampSalt c)),
      (''scope'', scope_json (c_Scope c)), (''queue_enabled'', JBool (c_QueueEnabled c)),
      (''max_waiters'', JNum (c_MaxWaiters c)), (''lease_ttl_seconds'', JNum (c_LeaseTTLSeconds c)),
      (''fail_closed'', JBool (c_FailClosed c)),
      (''disabled_actions'', if c_DisabledActions c = [] then JNull else JArr (map JStr (c_DisabledActions c))),
      (''updated_by'', JStr (c_UpdatedBy c))]"

definition int4_ok :: "int \<Rightarrow> bool" where
  "int4_ok n \<longleftrightarrow> - max_int4 - 1 \<le> n \<and> n \<le> max_int4"

definition PutControls :: "time \<Rightarrow> string \<Rightarrow> string \<Rightarrow> controls \<Rightarrow> AdminAudit \<Rightarrow> controls db_op" where
  "PutControls now rnd merchantID c0 audit =
     (let c = Normalize c0 in
      andThen (wrapping (stmt (\<lambda>d.
        if \<not> int4_ok (c_MaxWaiters c) \<or> \<not> int4_ok (c_LeaseTTLSeconds c) then Inl ErrSQL
        else Inr ((), d\<lparr>runtime_controls := (runtime_controls d)(merchantID \<mapsto>
           (c\<lparr>c_DisabledActions := []\<rparr>, JoinActions (c_DisabledActions c)))\<rparr>)))) (\<lambda>_.
      andThen (writeAdminAction now merchantID ''CONTROL_CHANGED'' (c_Mode c) (id_Request rnd) audit (control_attrs c)) (\<lambda>_.
      ret c)))"

section \<open>Emergency actions\<close>

text \<open>The count is returned with an error when only the audit event could not be written.\<close>

definition DrainWaiters :: "time \<Rightarrow> string \<Rightarrow> string \<Rightarrow> AdminAudit \<Rightarrow> (int \<times> store_error option) db_op" where
  "DrainWaiters now merchantID requestID audit =
     attempt (stmt (\<lambda>d. Inr (count_where (\<lambda>w. w_MerchantID w = merchantID) (waiters d),
         d\<lparr>waiters := filter (\<lambda>w. w_MerchantID w \<noteq> merchantID) (waiters d)\<rparr>))) (\<lambda>r.
       case r of
         Inl err \<Rightarrow> ret (0, Some (wrapStore err))
       | Inr n \<Rightarrow>
           attempt (writeAdminAction now merchantID ''EMERGENCY_DRAIN'' ''waiters'' requestID audit
               [(''count'', JNum n)]) (\<lambda>w.
             ret (n, case w of Inl err \<Rightarrow> Some err | Inr _ \<Rightarrow> None)))"

fun revokeEach :: "(nat \<Rightarrow> time) \<Rightarrow> nat \<Rightarrow> string \<Rightarrow> string \<Rightarrow> string \<Rightarrow> execution list \<Rightarrow> int \<Rightarrow> int db_op" where
  "revokeEach clk i merchantID requestID reason [] n = ret n"
| "revokeEach clk i merchantID requestID reason (e # es) n =
     attempt (Revoke (clk i) (clk i) merchantID (e_ID e) '''' requestID reason) (\<lambda>r.
       revokeEach clk (Suc i) merchantID requestID reason es (case r of Inr _ \<Rightarrow> n + 1 | Inl _ \<Rightarrow> n))"

definition RevokeActive :: "(nat \<Rightarrow> time) \<Rightarrow> string \<Rightarrow> string \<Rightarrow> string \<Rightarrow> AdminAudit \<Rightarrow> (int \<times> store_error option) db_op" where
  "RevokeActive clk merchantID requestID reason0 audit =
     (let reason = (if reason0 = '''' then ''emergency'' else reason0) in
      attempt (ListActive (clk 0) merchantID '''' 10000) (\<lambda>r.
        case r of
          Inl err \<Rightarrow> ret (0, Some err)
        | Inr execs \<Rightarrow>
            andThen (revokeEach clk 1 merchantID requestID reason execs 0) (\<lambda>n.
            attempt (writeAdminAction (clk (Suc (length execs))) merchantID ''EMERGENCY_REVOKE'' reason requestID audit
                [(''count'', JNum n)]) (\<lambda>w.
              ret (n, case w of Inl err \<Rightarrow> Some err | Inr _ \<Rightarrow> None)))))"

section \<open>Dry run\<close>

text \<open>\<open>insert into dry_run_events\<close>; the optional columns read back as the strings that were given.\<close>

definition insertDryEvent :: "time \<Rightarrow> string \<Rightarrow> dry_event \<Rightarrow> unit db_op" where
  "insertDryEvent now merchantID ev = modify (\<lambda>d. d\<lparr>dry_events := dry_events d @
     [\<lparr>der_MerchantID = merchantID, der_At = now, der_Event = ev\<rparr>]\<rparr>)"

definition commitDry :: "time \<Rightarrow> string \<Rightarrow> dry_event \<Rightarrow> dry_event db_op" where
  "commitDry now merchantID ev = andThen (insertDryEvent now merchantID ev) (\<lambda>_. ret ev)"

definition RecordDecision :: "time \<Rightarrow> string \<Rightarrow> dry_event \<Rightarrow> unit db_op" where
  "RecordDecision now merchantID ev = wrapping (insertDryEvent now merchantID ev)"

definition expiredHoldEvent :: "time \<Rightarrow> string \<Rightarrow> dry_hold \<Rightarrow> dry_event_row" where
  "expiredHoldEvent now requestID h =
     \<lparr>der_MerchantID = dh_MerchantID h, der_At = now,
      der_Event = \<lparr>de_Would = ''EXPIRE'', de_Reason = ''stale_queued_execution'',
        de_CustomerID = dh_CustomerID h, de_PrincipalID = dh_PrincipalID h, de_Resource = dh_Resource h,
        de_Action = dh_Action h, de_RuleName = dh_RuleName h, de_RequestID = requestID,
        de_Enforced = False, de_Error = ''''\<rparr>\<rparr>"

text \<open>The \<open>switch\<close> of \<open>ShadowDecide\<close>: what would happen, why, and the hold it leaves.\<close>

definition shadowVerdict :: "int \<Rightarrow> int \<Rightarrow> int \<Rightarrow> int \<Rightarrow> string \<times> string \<times> string" where
  "shadowVerdict active queued maxActive maxWaiters =
     (if active < maxActive then (''ALLOW'', ''would_acquire'', ''ACTIVE'')
      else if maxWaiters > 0 \<and> queued < maxWaiters then (''QUEUE'', ''active_execution_already_exists'', ''QUEUED'')
      else (''REJECT'', ''queue_capacity_exceeded'', ''''))"

definition insertHold :: "dry_hold \<Rightarrow> unit db_op" where
  "insertHold h = stmt (\<lambda>d.
     if list_ex (\<lambda>x. dh_ID x = dh_ID h) (dry_holds d) then Inl ErrSQL
     else Inr ((), d\<lparr>dry_holds := dry_holds d @ [h]\<rparr>))"

definition ShadowDecide ::
  "time \<Rightarrow> string \<Rightarrow> string \<Rightarrow> string \<Rightarrow> string \<Rightarrow> string \<Rightarrow> string \<Rightarrow> string \<Rightarrow> string \<Rightarrow> int \<Rightarrow> int \<Rightarrow> duration \<Rightarrow> string \<Rightarrow> dry_event db_op" where
  "ShadowDecide now rnd merchantID domainKey customerID principalID resource action ruleName maxActive0 maxWaiters ttl0 requestID =
     (let maxActive = (if maxActive0 < 1 then 1 else maxActive0);
          ttl = (if ttl0 \<le> 0 then minute else ttl0);
          ev0 = \<lparr>de_Would = '''', de_Reason = '''', de_CustomerID = customerID, de_PrincipalID = principalID,
                 de_Resource = resource, de_Action = action, de_RuleName = ruleName, de_RequestID = requestID,
                 de_Enforced = False, de_Error = ''''\<rparr>
      in transact (
        andThen (modify (\<lambda>d. d\<lparr>dry_events := dry_events d @ map (expiredHoldEvent now requestID)
            (filter (\<lambda>h. dh_MerchantID h = merchantID \<and> dh_Kind h = ''QUEUED'' \<and> dh_ExpiresAt h \<le> now) (dry_holds d))\<rparr>)) (\<lambda>_.
        andThen (modify (\<lambda>d. d\<lparr>dry_holds := filter (\<lambda>h. \<not> (dh_MerchantID h = merchantID \<and> dh_ExpiresAt h \<le> now)) (dry_holds d)\<rparr>)) (\<lambda>_.
        attempt (query_row (\<lambda>d. find (\<lambda>h. dh_MerchantID h = merchantID \<and> dh_DomainKey h = domainKey
            \<and> dh_PrincipalID h = principalID \<and> dh_ExpiresAt h > now) (dry_holds d))) (\<lambda>r.
          case r of
            Inr _ \<Rightarrow> commitDry now merchantID (ev0\<lparr>de_Would := ''ALLOW'', de_Reason := ''already_held''\<rparr>)
          | Inl err \<Rightarrow>
              if err \<noteq> ErrNoRows then throw err
              else
                andThen (query (\<lambda>d. let hs = filter (\<lambda>h. dh_MerchantID h = merchantID \<and> dh_DomainKey h = domainKey
                      \<and> dh_ExpiresAt h > now) (dry_holds d) in
                    (count_where (\<lambda>h. dh_Kind h = ''ACTIVE'') hs, count_where (\<lambda>h. dh_Kind h = ''QUEUED'') hs))) (\<lambda>(active, queued).
                case shadowVerdict active queued maxActive maxWaiters of (would, reason, holdKind) \<Rightarrow>
                  andThen (if holdKind \<noteq> '''' then insertHold \<lparr>dh_ID = id_Execution rnd, dh_MerchantID = merchantID,
                      dh_DomainKey = domainKey, dh_CustomerID = customerID, dh_PrincipalID = principalID,
                      dh_Resource = resource, dh_Action = action, dh_RuleName = ruleName, dh_Kind = holdKind,
                      dh_ExpiresAt = now + interval ttl\<rparr> else ret ()) (\<lambda>_.
                  commitDry now merchantID (ev0\<lparr>de_Would := would, de_Reason := reason\<rparr>))))))))"

text \<open>The two quotients are kept as pairs of their operands, \<open>(0, 1)\<close> for the zero value.\<close>

record recent_row =
  rr_at :: time
  rr_event :: dry_event
  rr_kind :: string

record DryRunReport =
  rp_WindowHours :: int
  rp_Observed :: int
  rp_Evaluated :: int
  rp_Enforced :: int
  rp_NotEnforced :: int
  rp_Customers :: int
  rp_Executions :: int
  rp_WouldAllow :: int
  rp_WouldQueue :: int
  rp_WouldReject :: int
  rp_WouldExpire :: int
  rp_ActualAllow :: int
  rp_ActualQueue :: int
  rp_ActualReject :: int
  rp_Allowed :: int
  rp_Queued :: int
  rp_Rejected :: int
  rp_Affected :: int
  rp_Absorbed :: int
  rp_AbsorbedWould :: int
  rp_OriginLoadReduction :: "int \<times> int"
  rp_EAF :: "int \<times> int"
  rp_Errors :: int
  rp_PolicyViolations :: int
  rp_Recent :: "recent_row list"

definition dryCounts :: "int \<Rightarrow> dry_event list \<Rightarrow> DryRunReport" where
  "dryCounts windowHours evs =
     (let n = (\<lambda>P. count_where P evs);
          distinct_customers = (\<lambda>P. int (length (remdups (map de_CustomerID (filter P evs)))));
          observed = n (\<lambda>_. True);
          wa = n (\<lambda>e. \<not> de_Enforced e \<and> de_Would e = ''ALLOW'');
          wq = n (\<lambda>e. \<not> de_Enforced e \<and> de_Would e = ''QUEUE'');
          wr = n (\<lambda>e. \<not> de_Enforced e \<and> de_Would e = ''REJECT'');
          aa = n (\<lambda>e. de_Enforced e \<and> de_Would e = ''ALLOW'');
          aq = n (\<lambda>e. de_Enforced e \<and> de_Would e = ''QUEUE'');
          ar = n (\<lambda>e. de_Enforced e \<and> de_Would e = ''REJECT'');
          absorbed = wq + wr + aq + ar
      in \<lparr>rp_WindowHours = windowHours, rp_Observed = observed, rp_Evaluated = observed,
          rp_Enforced = n de_Enforced, rp_NotEnforced = n (\<lambda>e. \<not> de_Enforced e),
          rp_Customers = distinct_customers (\<lambda>_. True), rp_Executions = wa + aa,
          rp_WouldAllow = wa, rp_WouldQueue = wq, rp_WouldReject = wr,
          rp_WouldExpire = n (\<lambda>e. de_Would e = ''EXPIRE''),
          rp_ActualAllow = aa, rp_ActualQueue = aq, rp_ActualReject = ar,
          rp_Allowed = wa + aa, rp_Queued = wq + aq, rp_Rejected = wr + ar,
          rp_Affected = distinct_customers (\<lambda>e. de_Would e \<in> {''QUEUE'', ''REJECT'', ''EXPIRE''}),
          rp_Absorbed = absorbed, rp_AbsorbedWould = wq + wr,
          rp_OriginLoadReduction = (if observed > 0 then (absorbed, observed) else (0, 1)),
          rp_EAF = (if wa + aa > 0 then (observed, wa + aa) else (0, 1)),
          rp_Errors = n (\<lambda>e. de_Would e \<in> {''DENIED'', ''ERROR''} \<or> de_Error e \<noteq> ''''),
          rp_PolicyViolations = n (\<lambda>e. de_Would e = ''DENIED''), rp_Recent = []\<rparr>)"

definition DryRunReportOp :: "time \<Rightarrow> time \<Rightarrow> string \<Rightarrow> duration \<Rightarrow> int \<Rightarrow> DryRunReport db_op" where
  "DryRunReportOp now1 now2 merchantID window0 recentLimit0 =
     (let window = (if window0 \<le> 0 then 24 * 60 * minute else window0);
          recentLimit = (if recentLimit0 < 1 then 20 else recentLimit0);
          inWindow = (\<lambda>now e. der_MerchantID e = merchantID \<and> der_At e > now - interval window)
      in andThen (wrapping (query (\<lambda>d. dryCounts (go_quot window (60 * minute))
             (map der_Event (filter (inWindow now1) (dry_events d)))))) (\<lambda>rep.
         andThen (wrapping (query (\<lambda>d. limit_rows recentLimit (order_by (\<lambda>e. - der_At e)
             (filter (inWindow now2) (dry_events d)))))) (\<lambda>rows.
         ret (rep\<lparr>rp_Recent := map (\<lambda>e. \<lparr>rr_at = der_At e, rr_event = der_Event e,
            rr_kind = (if de_Enforced (der_Event e) then ''enforced'' else ''hypothetical'')\<rparr>) rows\<rparr>))))"

end
