(* ===== verification/Resource.thy ===== *)
theory Resource
  imports GoStrings
begin

text \<open>
  \<open>internal/resource/canonical.go\<close> and \<open>corpus.go\<close>: the fold that maps an inbound resource string
  onto one identifier, and the catalogue of registered identifiers. NFKC normalisation
  (\<open>golang.org/x/text/unicode/norm\<close>) is the parameter \<open>nfkc\<close>; what the theorems use of it is
  \<open>nfkc_law\<close>: a string of ASCII characters and of the dashes that have no compatibility mapping is
  its own normal form.
\<close>

section \<open>Percent decoding\<close>

text \<open>\<open>url.PathUnescape\<close>: an error when a percent sign is not followed by two hexadecimal digits.\<close>

definition ishex :: "char \<Rightarrow> bool" where
  "ishex c \<longleftrightarrow> in_range 48 57 c \<or> in_range 97 102 c \<or> in_range 65 70 c"

definition unhex :: "char \<Rightarrow> nat" where
  "unhex c = (if in_range 48 57 c then byte c - 48 else if in_range 97 102 c then byte c - 87
     else if in_range 65 70 c then byte c - 55 else 0)"

fun PathUnescape :: "string \<Rightarrow> string option" where
  "PathUnescape [] = Some []"
| "PathUnescape (c # cs) =
     (if c = CHR ''%'' then
        (case cs of
           a # b # rest \<Rightarrow>
             if ishex a \<and> ishex b then map_option ((#) (char_of (unhex a * 16 + unhex b))) (PathUnescape rest)
             else None
         | _ \<Rightarrow> None)
      else map_option ((#) c) (PathUnescape cs))"

lemma PathUnescape_free: "CHR ''%'' \<notin> set s \<Longrightarrow> PathUnescape s = Some s"
  by (induction s rule: PathUnescape.induct) (auto split: list.splits)

section \<open>Trimming to letters and digits\<close>

text \<open>\<open>utf8.DecodeLastRuneInString\<close>: it looks back at most four bytes for the start of a rune.\<close>

definition RuneStart :: "char \<Rightarrow> bool" where
  "RuneStart c \<longleftrightarrow> \<not> in_range 128 191 c"

definition last_start :: "string \<Rightarrow> nat" where
  "last_start s = (let n = length s in
     case find (\<lambda>k. k \<le> n \<and> RuneStart (s ! (n - k))) [2, 3, 4] of
       Some k \<Rightarrow> n - k
     | None \<Rightarrow> n - 5)"

definition decode_last_rune :: "string \<Rightarrow> rune \<times> nat" where
  "decode_last_rune s =
     (if s = [] then (RuneError, 0)
      else if byte (last s) < 128 then (byte (last s), 1)
      else let start = last_start s; (r, size) = decode_rune (drop start s)
           in if start + size \<noteq> length s then (RuneError, 1) else (r, size))"

definition isAlnum :: "rune \<Rightarrow> bool" where
  "isAlnum r \<longleftrightarrow> 97 \<le> r \<and> r \<le> 122 \<or> 48 \<le> r \<and> r \<le> 57 \<or> 65 \<le> r \<and> r \<le> 90"

function trim_start :: "string \<Rightarrow> string" where
  "trim_start [] = []"
| "trim_start (c # cs) =
     (let (r, n) = decode_rune (c # cs) in if isAlnum r then c # cs else trim_start (drop (n - 1) cs))"
  by pat_completeness auto
termination
  by (relation "measure length") auto

function trim_end :: "string \<Rightarrow> string" where
  "trim_end [] = []"
| "trim_end (c # cs) =
     (let s = c # cs; (r, n) = decode_last_rune s in if isAlnum r then s else trim_end (take (length s - n) s))"
  by pat_completeness auto

lemma decode2_high:
  assumes "decode2 b cs = (r, n)" "2 \<le> b mod 32"
  shows "128 \<le> r \<and> 1 \<le> n \<and> n \<le> Suc (length cs) \<and> (\<forall>x \<in> set (take (n - 1) cs). 128 \<le> byte x)"
  using assms by (auto simp: decode2_def in_range_def split: list.splits if_splits)

lemma cont_bits_from: "in_range lo hi c \<Longrightarrow> 128 + k \<le> lo \<Longrightarrow> hi \<le> 191 \<Longrightarrow> k \<le> cont_bits c"
proof -
  assume "in_range lo hi c" "128 + k \<le> lo" "hi \<le> 191"
  then have "128 + k \<le> byte c" "byte c \<le> 191" by (auto simp: in_range_def)
  moreover from this have "byte c mod 64 = byte c - 128" by (intro mod_nat_eqI) auto
  ultimately have "k \<le> byte c mod 64" by simp
  then show ?thesis by (simp add: cont_bits_def)
qed

lemma decode3_high:
  assumes "decode3 lo hi b cs = (r, n)" "128 \<le> lo" "1 \<le> b mod 16 \<or> 160 \<le> lo \<and> hi \<le> 191"
  shows "128 \<le> r \<and> 1 \<le> n \<and> n \<le> Suc (length cs) \<and> (\<forall>x \<in> set (take (n - 1) cs). 128 \<le> byte x)"
proof (cases "(r, n) = (RuneError, 1)")
  case False
  with assms(1) obtain c1 c2 rest where cs: "cs = c1 # c2 # rest" and c: "in_range lo hi c1" "in_range 128 191 c2"
    and r: "r = b mod 16 * 4096 + cont_bits c1 * 64 + cont_bits c2" "n = 3"
    by (auto simp: decode3_def split: list.splits if_splits)
  have "1 \<le> b mod 16 \<or> 32 \<le> cont_bits c1" using assms(3) cont_bits_from [OF c(1), of 32] by auto
  then have "128 \<le> r" using r(1) by auto
  with c cs r(2) assms(2) show ?thesis by (auto simp: in_range_def)
qed auto

lemma decode4_high:
  assumes "decode4 lo hi b cs = (r, n)" "128 \<le> lo" "1 \<le> b mod 8 \<or> 144 \<le> lo \<and> hi \<le> 191"
  shows "128 \<le> r \<and> 1 \<le> n \<and> n \<le> Suc (length cs) \<and> (\<forall>x \<in> set (take (n - 1) cs). 128 \<le> byte x)"
proof (cases "(r, n) = (RuneError, 1)")
  case False
  with assms(1) obtain c1 c2 c3 rest where cs: "cs = c1 # c2 # c3 # rest"
    and c: "in_range lo hi c1" "in_range 128 191 c2" "in_range 128 191 c3"
    and r: "r = b mod 8 * 262144 + cont_bits c1 * 4096 + cont_bits c2 * 64 + cont_bits c3" "n = 4"
    by (auto simp: decode4_def split: list.splits if_splits)
  have "1 \<le> b mod 8 \<or> 16 \<le> cont_bits c1" using assms(3) cont_bits_from [OF c(1), of 16] by auto
  then have "128 \<le> r" using r(1) by auto
  with c cs r(2) assms(2) show ?thesis by (auto simp: in_range_def)
qed auto

lemma decode_rune_high:
  assumes "decode_rune (c # cs) = (r, n)" "128 \<le> byte c"
  shows "128 \<le> r \<and> 1 \<le> n \<and> n \<le> Suc (length cs) \<and> (\<forall>x \<in> set (take n (c # cs)). 128 \<le> byte x)"
proof -
  have "194 \<le> b \<Longrightarrow> b \<le> 223 \<Longrightarrow> 2 \<le> b mod 32" "225 \<le> b \<Longrightarrow> b \<le> 239 \<Longrightarrow> 1 \<le> b mod 16"
    "241 \<le> b \<Longrightarrow> b \<le> 244 \<Longrightarrow> 1 \<le> b mod 8" for b :: nat by presburger+
  then have "128 \<le> r \<and> 1 \<le> n \<and> n \<le> Suc (length cs) \<and> (\<forall>x \<in> set (take (n - 1) cs). 128 \<le> byte x)"
    using assms decode2_high [of "byte c" cs r n] decode3_high [of _ _ "byte c" cs r n]
      decode4_high [of _ _ "byte c" cs r n]
    by (auto simp: Let_def split: if_splits)
  with assms(2) show ?thesis by (cases n) auto
qed

lemma last_start_less: "s \<noteq> [] \<Longrightarrow> last_start s < length s"
  by (auto simp: last_start_def Let_def split: option.splits)

lemma decode_last_rune_spec:
  assumes "s \<noteq> []" "decode_last_rune s = (r, n)"
  shows "1 \<le> n \<and> n \<le> length s \<and> (if byte (last s) < 128 then n = 1 \<and> r = byte (last s)
    else 128 \<le> r \<and> (\<forall>x \<in> set (drop (length s - n) s). 128 \<le> byte x))"
proof (cases "byte (last s) < 128")
  case True
  with assms show ?thesis by (auto simp: decode_last_rune_def Suc_le_eq)
next
  case False
  let ?i = "last_start s"
  obtain c cs where cs: "drop ?i s = c # cs"
    using last_start_less [OF assms(1)] by (cases "drop ?i s") auto
  obtain q m where d: "decode_rune (drop ?i s) = (q, m)" by fastforce
  have last: "drop (length s - 1) s = [last s]"
    using assms(1) by (cases s rule: rev_cases) auto
  show ?thesis
  proof (cases "?i + m = length s")
    case True
    then have rn: "r = q" "n = m" using assms False d by (auto simp: decode_last_rune_def)
    have len: "length (c # cs) = m" using cs True by (metis add_diff_cancel_left' length_drop)
    show ?thesis
    proof (cases "byte c < 128")
      case True
      with d cs have "m = 1" by simp
      with len cs have "drop ?i s = [c]" by simp
      then have "last s = c" by (metis last_drop last_ConsL last_start_less assms(1))
      with False True show ?thesis by simp
    next
      case high: False
      have "length s - n = ?i" using True rn by simp
      with decode_rune_high [of c cs q m] d cs len rn True high False show ?thesis by auto
    qed
  next
    case bad: False
    then have "r = RuneError" "n = 1" using assms False d by (auto simp: decode_last_rune_def)
    then show ?thesis using False last assms(1) by (auto simp: Suc_le_eq)
  qed
qed

termination trim_end
proof (relation "measure length")
  show "wf (measure length)" by simp
next
  fix c cs x y r n
  assume "x = (c # cs :: string)" "y = decode_last_rune x" "(r, n) = y"
  then have "1 \<le> n" using decode_last_rune_spec [of "c # cs" r n] by auto
  with \<open>x = c # cs\<close> show "(take (length x - n) x, c # cs) \<in> measure length" by simp
qed

lemma trim_end_unfold:
  "s \<noteq> [] \<Longrightarrow> decode_last_rune s = (r, n) \<Longrightarrow>
   trim_end s = (if isAlnum r then s else trim_end (take (length s - n) s))"
  by (cases s) (auto simp: Let_def)

text \<open>
  The second loop of the source decodes backwards in \<open>s[:end]\<close>; the byte at \<open>start\<close> is a letter or a
  digit, where every look-back stops, so it may as well run on \<open>s[start:end]\<close>.
\<close>

definition trimNonAlnum :: "string \<Rightarrow> string" where
  "trimNonAlnum s = trim_end (trim_start s)"

text \<open>Rune by rune from both ends comes to the same as byte by byte.\<close>

abbreviation junk :: "char \<Rightarrow> bool" where "junk c \<equiv> \<not> isAlnum (byte c)"

lemma high_junk: "128 \<le> r \<Longrightarrow> \<not> isAlnum r"
  by (simp add: isAlnum_def)

lemma trim_start_bytes: "trim_start s = dropWhile junk s"
proof (induction s rule: trim_start.induct)
  case (2 c cs)
  obtain r n where d: "decode_rune (c # cs) = (r, n)" by fastforce
  show ?case
  proof (cases "byte c < 128")
    case True
    with 2 d show ?thesis by (auto simp: Let_def)
  next
    case False
    with decode_rune_high [OF d] have h: "\<not> isAlnum r" "1 \<le> n" "n \<le> Suc (length cs)"
      "\<forall>x \<in> set (take n (c # cs)). junk x" by (auto simp: high_junk)
    have "c # cs = take n (c # cs) @ drop n (c # cs)" by simp
    also have "dropWhile junk \<dots> = dropWhile junk (drop n (c # cs))"
      using h(4) by (intro dropWhile_append2) blast
    finally have "dropWhile junk (c # cs) = dropWhile junk (drop (n - 1) cs)" using h(2) by (cases n) auto
    with 2 [OF d [symmetric] refl h(1)] d h(1) show ?thesis by simp
  qed
qed simp

lemma trim_end_bytes: "trim_end s = rev (dropWhile junk (rev s))"
proof (induction "length s" arbitrary: s rule: less_induct)
  case less
  show ?case
  proof (cases "s = []")
    case False
    obtain r n where d: "decode_last_rune s = (r, n)" by fastforce
    note sp = decode_last_rune_spec [OF False d]
    obtain t c where s: "s = t @ [c]" using False by (cases s rule: rev_cases) auto
    show ?thesis
    proof (cases "isAlnum r")
      case True
      with sp high_junk have "r = byte c" by (auto simp: s split: if_splits)
      with True s trim_end_unfold [OF False d] show ?thesis by simp
    next
      case junk: False
      have h: "\<forall>x \<in> set (drop (length s - n) s). junk x"
        using sp junk high_junk s by (auto split: if_splits)
      have "rev s = rev (drop (length s - n) s) @ rev (take (length s - n) s)"
        by (metis append_take_drop_id rev_append)
      also have "dropWhile junk \<dots> = dropWhile junk (rev (take (length s - n) s))"
        using h by (intro dropWhile_append2) auto
      finally have "dropWhile junk (rev s) = dropWhile junk (rev (take (length s - n) s))" .
      moreover have "length (take (length s - n) s) < length s" using sp s by auto
      ultimately show ?thesis using less junk trim_end_unfold [OF False d] by simp
    qed
  qed simp
qed

lemma trimNonAlnum_bytes: "trimNonAlnum s = rev (dropWhile junk (rev (dropWhile junk s)))"
  by (simp add: trimNonAlnum_def trim_start_bytes trim_end_bytes)

section \<open>The fold\<close>

datatype resource_error = ErrMalformed | ErrUnknownResource

definition isDash :: "rune \<Rightarrow> bool" where
  "isDash r \<longleftrightarrow> r \<in> set [0x2D, 0x2010, 0x2011, 0x2012, 0x2013, 0x2014, 0x2015, 0x2212, 0x2043, 0xFE58, 0xFE63, 0xFF0D]"

definition isQuote :: "rune \<Rightarrow> bool" where
  "isQuote r \<longleftrightarrow> r \<in> set [0x27, 0x22, 0x60, 0x2018, 0x2019, 0x201A, 0x201B, 0x201C, 0x201D, 0x201E, 0xAB, 0xBB, 0x2039, 0x203A]"

definition fold_lookalike :: "rune \<Rightarrow> string" where
  "fold_lookalike r =
     (if isDash r then ''-'' else if IsSpace r then '' '' else if isQuote r then '''' else encode_rune r)"

definition foldLookalikes :: "string \<Rightarrow> string" where
  "foldLookalikes s = concat (map fold_lookalike (runes s))"

definition separators :: string where
  "separators = ''/:;, '' @ [CHR 0x09]"

fun collapse_loop :: "bool \<Rightarrow> rune list \<Rightarrow> string" where
  "collapse_loop inRun [] = []"
| "collapse_loop inRun (r # rs) =
     (if r \<in> set (runes separators) then
        (if inRun then collapse_loop True rs else CHR '':'' # collapse_loop True rs)
      else encode_rune r @ collapse_loop False rs)"

definition collapseSeparators :: "string \<Rightarrow> string" where
  "collapseSeparators s = collapse_loop False (runes s)"

definition allowed :: "rune \<Rightarrow> bool" where
  "allowed r \<longleftrightarrow> 97 \<le> r \<and> r \<le> 122 \<or> 48 \<le> r \<and> r \<le> 57 \<or> r = 58 \<or> r = 45"

text \<open>
  The regular expression \<open>^[a-z][a-z0-9]*:[a-z0-9]+(?:-[a-z0-9]+)*$\<close>: one colon, a type before it
  and words joined by dashes after it.
\<close>

definition az :: "char \<Rightarrow> bool" where "az c \<longleftrightarrow> in_range 97 122 c"
definition az09 :: "char \<Rightarrow> bool" where "az09 c \<longleftrightarrow> az c \<or> in_range 48 57 c"

definition strictID :: "string \<Rightarrow> bool" where
  "strictID s =
     (case SplitByte s (CHR '':'') of
        [ty, ident] \<Rightarrow> ty \<noteq> [] \<and> az (hd ty) \<and> list_all az09 (tl ty)
          \<and> list_all (\<lambda>w. w \<noteq> [] \<and> list_all az09 w) (SplitByte ident (CHR ''-''))
      | _ \<Rightarrow> False)"

definition unescaped :: "string \<Rightarrow> string" where
  "unescaped s = (case PathUnescape s of Some unesc \<Rightarrow> if unesc \<noteq> '''' then unesc else s | None \<Rightarrow> s)"

definition unsafe :: "string \<Rightarrow> bool" where
  "unsafe s \<longleftrightarrow> ContainsAny s (''?#'' @ [CHR 0x5C]) \<or> Contains s ''..''
     \<or> list_ex (\<lambda>r. r < 32 \<or> r = 127 \<or> IsControl r) (runes s)"

definition fold_all :: "(string \<Rightarrow> string) \<Rightarrow> string \<Rightarrow> string" where
  "fold_all nfkc s =
     (let s = nfkc s;
          s = foldLookalikes s;
          s = ToLower s;
          s = trimNonAlnum s;
          s = collapseSeparators s
      in trimNonAlnum s)"

definition well_formed :: "string \<Rightarrow> bool" where
  "well_formed s =
     (if s = '''' \<or> Contains s ''..'' then False
      else if list_ex (\<lambda>r. \<not> allowed r) (runes s) then False
      else strictID s)"

definition Canonical :: "(string \<Rightarrow> string) \<Rightarrow> string \<Rightarrow> resource_error + string" where
  "Canonical nfkc raw =
     (let s = TrimSpace raw in
      if s = '''' then Inl ErrMalformed
      else let s = unescaped s in
      if unsafe s then Inl ErrMalformed
      else let s = fold_all nfkc s in
      if \<not> well_formed s then Inl ErrMalformed
      else Inr s)"

definition MustCanonical :: "(string \<Rightarrow> string) \<Rightarrow> string \<Rightarrow> string" where
  "MustCanonical nfkc raw = (case Canonical nfkc raw of Inl _ \<Rightarrow> '''' | Inr s \<Rightarrow> s)"

section \<open>The catalogue\<close>

text \<open>The set of registered identifiers, as the list of its distinct elements.\<close>

record Catalogue =
  cat_ids :: "string list"

fun NewCatalogue :: "(string \<Rightarrow> string) \<Rightarrow> string list \<Rightarrow> Catalogue" where
  "NewCatalogue nfkc registered =
     \<lparr>cat_ids = foldl (\<lambda>ids x. case Canonical nfkc x of Inl _ \<Rightarrow> ids | Inr folded \<Rightarrow> List.insert folded ids) [] registered\<rparr>"

definition CatalogueCanonical :: "(string \<Rightarrow> string) \<Rightarrow> Catalogue \<Rightarrow> string \<Rightarrow> resource_error + string" where
  "CatalogueCanonical nfkc c raw =
     (case Canonical nfkc raw of
        Inl err \<Rightarrow> Inl err
      | Inr folded \<Rightarrow>
          if cat_ids c = [] then Inr folded
          else if folded \<in> set (cat_ids c) then Inr folded
          else Inl ErrUnknownResource)"

section \<open>The corpus\<close>

definition CosmeticVariants :: "string \<Rightarrow> string list" where
  "CosmeticVariants base =
     [base, base @ ''.'', base @ ''-'', base @ ''_'', base @ ''!'', base @ [CHR 0x40], base @ ''   '',
      base @ encode_rune 0x2010, base @ encode_rune 0x2013]"

definition CupfinalCorpus :: "string list" where
  "CupfinalCorpus = CosmeticVariants ''ticket:cupfinal''"

section \<open>Grammar\<close>

text \<open>What NFKC is relied on to leave alone.\<close>

definition nfkc_inert :: "rune \<Rightarrow> bool" where
  "nfkc_inert r \<longleftrightarrow> r < 128 \<or> r \<in> {0x2010, 0x2012, 0x2013, 0x2014, 0x2015}"

definition nfkc_law :: "(string \<Rightarrow> string) \<Rightarrow> bool" where
  "nfkc_law nfkc \<longleftrightarrow> (\<forall>rs. (\<forall>r \<in> set rs. nfkc_inert r) \<longrightarrow> nfkc (encode_runes rs) = encode_runes rs)"

inductive resource_id :: "string \<Rightarrow> bool" where
  "az c \<Longrightarrow> list_all az09 ty \<Longrightarrow> ws \<noteq> [] \<Longrightarrow> \<forall>w \<in> set ws. w \<noteq> [] \<and> list_all az09 w
   \<Longrightarrow> resource_id ((c # ty) @ CHR '':'' # JoinByte ws (CHR ''-''))"

lemma az09_sep: "list_all az09 w \<Longrightarrow> CHR '':'' \<notin> set w \<and> CHR ''-'' \<notin> set w"
  by (auto simp: list_all_iff az09_def az_def in_range_def)

lemma JoinByte_set: "set (JoinByte ws c) \<subseteq> insert c (\<Union> (set ` set ws))"
  by (induction ws c rule: JoinByte.induct) auto

lemma resource_id_bytes:
  "resource_id s \<Longrightarrow> \<forall>c \<in> set s. az09 c \<or> c = CHR '':'' \<or> c = CHR ''-''"
  using JoinByte_set by (fastforce elim!: resource_id.cases simp: list_all_iff az09_def)

lemma strictID_iff: "strictID s \<longleftrightarrow> resource_id s"
proof
  assume "strictID s"
  then obtain ty ident where sp: "SplitByte s (CHR '':'') = [ty, ident]"
    and ty: "ty \<noteq> []" "az (hd ty)" "list_all az09 (tl ty)"
    and ws: "list_all (\<lambda>w. w \<noteq> [] \<and> list_all az09 w) (SplitByte ident (CHR ''-''))"
    by (auto simp: strictID_def split: list.splits)
  have "s = ty @ CHR '':'' # ident" using Join_Split [of s "CHR '':''"] by (simp add: sp)
  moreover have "ident = JoinByte (SplitByte ident (CHR ''-'')) (CHR ''-'')" by (simp add: Join_Split)
  moreover have "ty = hd ty # tl ty" using ty(1) by simp
  ultimately have "s = (hd ty # tl ty) @ CHR '':'' # JoinByte (SplitByte ident (CHR ''-'')) (CHR ''-'')" by metis
  moreover have "resource_id \<dots>" using ty ws by (intro resource_id.intros) (auto simp: list_all_iff)
  ultimately show "resource_id s" by simp
next
  assume "resource_id s"
  then show "strictID s"
  proof cases
    case (1 c ty ws)
    have col: "CHR '':'' \<notin> set (c # ty)" using 1(2,3) az09_sep [of "c # ty"] by (simp add: az09_def)
    have free: "\<forall>w \<in> set ws. CHR '':'' \<notin> set w" using az09_sep 1(5) by blast
    have col': "CHR '':'' \<notin> set (JoinByte ws (CHR ''-''))"
      by (rule contra_subsetD [OF JoinByte_set]) (use free in auto)
    have dash: "SplitByte (JoinByte ws (CHR ''-'')) (CHR ''-'') = ws"
      using 1(4,5) az09_sep by (intro Split_Join) auto
    have "SplitByte s (CHR '':'') = [c # ty, JoinByte ws (CHR ''-'')]"
      unfolding 1(1) using SplitByte_append [OF col] SplitByte_free [OF col'] by simp
    then show ?thesis using 1 dash by (auto simp: strictID_def list_all_iff)
  qed
qed

lemma Canonical_strict: "Canonical nfkc raw = Inr s \<Longrightarrow> resource_id s"
  by (auto simp: Canonical_def well_formed_def Let_def strictID_iff split: if_splits)

section \<open>Folding what is already an identifier, with cosmetic variation\<close>

lemma trim_around:
  assumes "u \<noteq> []" "\<not> P (hd u)" "\<not> P (last u)"
  shows "rev (dropWhile P (rev (dropWhile P (p @ u @ q)))) = dropWhile P p @ u @ rev (dropWhile P (rev q))"
proof -
  have front: "dropWhile P (p @ u @ q) = dropWhile P p @ u @ q"
    using assms(1,2) by (induction p) (cases u, auto)+
  have "rev u \<noteq> []" "\<not> P (hd (rev u))" using assms by (auto simp: hd_rev)
  then have "dropWhile P (rev q @ rev u @ rev (dropWhile P p)) = dropWhile P (rev q) @ rev u @ rev (dropWhile P p)"
    by (induction q rule: rev_induct) (cases "rev u", auto)+
  then show ?thesis by (simp add: front)
qed

lemma inert_chunk:
  assumes "nfkc_inert r"
  shows "utf8_chunks (encode_rune r @ t) = (r, encode_rune r) # utf8_chunks t"
  using assms
  by (auto simp: nfkc_inert_def encode_rune_def decode3_def in_range_def cont_bits_def)

lemma inert_chunks:
  "\<forall>r \<in> set rs. nfkc_inert r \<Longrightarrow> utf8_chunks (encode_runes rs) = map (\<lambda>r. (r, encode_rune r)) rs"
  by (induction rs) (auto simp: encode_runes_def inert_chunk)

lemma TrimSpace_inert:
  assumes "\<forall>r \<in> set rs. nfkc_inert r"
  shows "TrimSpace (encode_runes rs) = encode_runes (rev (dropWhile IsSpace (rev (dropWhile IsSpace rs))))"
  using inert_chunks [OF assms]
  by (simp add: TrimSpace_def encode_runes_def dropWhile_map rev_map comp_def)

lemma resource_id_ends:
  assumes "resource_id s"
  shows "s \<noteq> [] \<and> az (hd s) \<and> az09 (last s)"
  using assms
proof cases
  case (1 c ty ws)
  have "\<forall>w \<in> set ws. w \<noteq> [] \<and> list_all az09 w \<Longrightarrow> ws \<noteq> [] \<Longrightarrow>
      JoinByte ws (CHR ''-'') \<noteq> [] \<and> az09 (last (JoinByte ws (CHR ''-'')))"
    by (induction ws "CHR ''-''" rule: JoinByte.induct) (auto simp: list_all_iff)
  with 1 show ?thesis by auto
qed

text \<open>A rune that carries no identity: neither letter nor digit, and harmless to the earlier checks.\<close>

definition cosmetic :: "rune \<Rightarrow> bool" where
  "cosmetic r \<longleftrightarrow> nfkc_inert r \<and> \<not> isAlnum r \<and> \<not> IsControl r \<and> r \<notin> {0x25, 0x3F, 0x23, 0x5C}"

lemma az09_byte: "az09 c \<Longrightarrow> byte c < 128 \<and> isAlnum (byte c) \<and> \<not> IsSpace (byte c) \<and> \<not> IsControl (byte c)
    \<and> \<not> isDash (byte c) \<and> \<not> isQuote (byte c)"
  by (auto simp: az09_def az_def in_range_def isAlnum_def IsSpace_def IsControl_def isDash_def isQuote_def)

text \<open>The letters of an identifier in any case.\<close>

lemma cased_bytes:
  assumes "resource_id (map lower_byte u)" "c \<in> set u"
  shows "byte c < 128 \<and> (isAlnum (byte c) \<or> byte c = 58 \<or> byte c = 45)"
proof -
  have "az09 (lower_byte c) \<or> lower_byte c = CHR '':'' \<or> lower_byte c = CHR ''-''"
    using resource_id_bytes [OF assms(1)] assms(2) by auto
  moreover have "65 \<le> byte c \<and> byte c \<le> 90 \<or> lower_byte c = c" by (simp add: lower_byte_def)
  ultimately show ?thesis by (auto simp: az09_def az_def in_range_def isAlnum_def)
qed

lemma cased_ends:
  assumes "resource_id (map lower_byte u)"
  shows "u \<noteq> [] \<and> isAlnum (byte (hd u)) \<and> isAlnum (byte (last u))"
proof -
  have "isAlnum (byte (lower_byte c)) \<Longrightarrow> isAlnum (byte c)" for c
    by (auto simp: lower_byte_def isAlnum_def)
  then show ?thesis
    using resource_id_ends [OF assms] az09_byte
    by (auto simp: hd_map last_map az09_def)
qed

abbreviation string_runes :: "string \<Rightarrow> rune list" where "string_runes u \<equiv> map of_char u"

lemma encode_string_runes: "ascii u \<Longrightarrow> encode_runes (string_runes u) = u"
  by (subst encode_ascii_runes) (auto simp: ascii_def list_all_iff)

lemma encode_runes_append [simp]: "encode_runes (xs @ ys) = encode_runes xs @ encode_runes ys"
  by (simp add: encode_runes_def)

lemma encode_runes_Nil [simp]: "encode_runes [] = []"
  by (simp add: encode_runes_def)

lemma inert_bytes:
  assumes "c \<in> set (encode_rune r)" "nfkc_inert r"
  shows "byte c = r \<or> 128 \<le> byte c"
  using assms by (auto simp: nfkc_inert_def encode_rune_def)

text \<open>A sequence of runes that the checks before the fold let through.\<close>

definition harmless :: "rune list \<Rightarrow> bool" where
  "harmless rs \<longleftrightarrow> (\<forall>r \<in> set rs. nfkc_inert r \<and> \<not> IsControl r \<and> r \<notin> {0x25, 0x3F, 0x23, 0x5C})"

lemma harmless_byte:
  assumes "harmless rs" "c \<in> set (encode_runes rs)"
  shows "c \<notin> {CHR ''%'', CHR ''?'', CHR ''#'', CHR 0x5C}"
proof -
  from assms(2) obtain r where r: "r \<in> set rs" "c \<in> set (encode_rune r)" by (auto simp: encode_runes_def)
  with assms(1) have "nfkc_inert r" "r \<notin> {0x25, 0x3F, 0x23, 0x5C}"
    by (auto simp: harmless_def)
  with inert_bytes [OF r(2)] have "byte c = r \<or> 128 \<le> byte c" "r \<notin> {0x25, 0x3F, 0x23, 0x5C}" by auto
  then show ?thesis by auto
qed

lemma harmless_passes:
  assumes "harmless rs" "\<not> Contains (encode_runes rs) ''..''"
  shows "unescaped (encode_runes rs) = encode_runes rs \<and> \<not> unsafe (encode_runes rs)"
proof -
  have "CHR ''%'' \<notin> set (encode_runes rs)" using harmless_byte [OF assms(1)] by blast
  then have "unescaped (encode_runes rs) = encode_runes rs" by (simp add: unescaped_def PathUnescape_free)
  moreover have "\<not> ContainsAny (encode_runes rs) (''?#'' @ [CHR 0x5C])"
  proof -
    have "set (''?#'' @ [CHR 0x5C]) = {CHR ''?'', CHR ''#'', CHR 0x5C}" by simp
    then show ?thesis unfolding ContainsAny_def list_ex_iff using harmless_byte [OF assms(1)] by blast
  qed
  moreover have eq: "runes (encode_runes rs) = rs"
    using assms(1) by (simp add: runes_def harmless_def inert_chunks comp_def)
  have "\<forall>r \<in> set rs. \<not> IsControl r" using assms(1) by (simp add: harmless_def)
  then have "\<not> list_ex (\<lambda>r. r < 32 \<or> r = 127 \<or> IsControl r) (runes (encode_runes rs))"
    unfolding eq by (induction rs) (auto simp: IsControl_def)
  ultimately show ?thesis using assms(2) by (simp add: unsafe_def)
qed

lemma fold_cosmetic:
  assumes "\<forall>r \<in> set p. cosmetic r"
  shows "\<forall>c \<in> set (concat (map fold_lookalike p)). byte c < 128 \<and> junk c"
proof
  fix c
  assume "c \<in> set (concat (map fold_lookalike p))"
  then obtain r where "r \<in> set p" and c: "c \<in> set (fold_lookalike r)" by auto
  then have "cosmetic r" using assms by blast
  with c show "byte c < 128 \<and> junk c"
    by (auto simp: fold_lookalike_def cosmetic_def nfkc_inert_def isDash_def isAlnum_def encode_rune_def
        split: if_splits)
qed

lemma fold_cased:
  assumes "resource_id (map lower_byte u)"
  shows "concat (map fold_lookalike (string_runes u)) = u"
proof -
  have one: "fold_lookalike (byte c) = [c]" if "c \<in> set u" for c
  proof (cases "byte c = 45")
    case True
    then have "c = CHR ''-''" by (intro of_char_eqI [where ?'a = nat]) simp
    then show ?thesis by (simp add: fold_lookalike_def isDash_def)
  next
    case False
    with cased_bytes [OF assms that] show ?thesis
      by (auto simp: fold_lookalike_def isDash_def IsSpace_def isQuote_def isAlnum_def encode_rune_def)
  qed
  then have "concat (map fold_lookalike (string_runes v)) = v" if "set v \<subseteq> set u" for v
    using that by (induction v) auto
  then show ?thesis by blast
qed

lemma collapse_plain:
  "\<forall>c \<in> set xs. byte c < 128 \<and> byte c \<notin> set (runes separators) \<Longrightarrow>
   collapse_loop b (string_runes xs @ rs) = xs @ (if xs = [] then collapse_loop b rs else collapse_loop False rs)"
  by (induction xs arbitrary: b) (auto simp: encode_rune_def)

lemma runes_separators: "set (runes separators) = {47, 58, 59, 44, 32, 9}"
  by (simp add: separators_def runes_ascii)

lemma az09_plain: "az09 c \<or> c = CHR ''-'' \<Longrightarrow> byte c < 128 \<and> byte c \<notin> set (runes separators)"
  by (auto simp: runes_separators az09_def az_def in_range_def)

lemma collapse_resource_id:
  assumes "resource_id s"
  shows "collapseSeparators s = s"
  using assms
proof cases
  case (1 c ty ws)
  let ?i = "JoinByte ws (CHR ''-'')"
  have plain: "\<forall>x \<in> set (c # ty). byte x < 128 \<and> byte x \<notin> set (runes separators)"
    using 1(2,3) by (intro ballI az09_plain) (auto simp: az09_def list_all_iff)
  have "\<forall>x \<in> set ?i. az09 x \<or> x = CHR ''-''"
    using JoinByte_set [of ws "CHR ''-''"] 1(5) by (auto simp: list_all_iff)
  then have plain': "\<forall>x \<in> set ?i. byte x < 128 \<and> byte x \<notin> set (runes separators)"
    by (intro ballI az09_plain) auto
  have "ascii s" using plain plain' unfolding 1(1) by (auto simp: ascii_def list_all_iff)
  then have "runes s = string_runes (c # ty) @ 58 # string_runes ?i @ []"
    by (simp add: runes_ascii 1(1))
  then show ?thesis
    unfolding collapseSeparators_def 1(1)
    using collapse_plain [OF plain, of False "58 # string_runes ?i @ []"] collapse_plain [OF plain', of True "[]"]
    by (simp add: runes_separators)
qed

lemma well_formed_resource_id:
  assumes "resource_id s"
  shows "well_formed s"
proof -
  have "az09 c \<or> c = CHR '':'' \<or> c = CHR ''-'' \<Longrightarrow> byte c < 128 \<and> allowed (byte c) \<and> byte c \<noteq> 46" for c
    by (elim disjE) (auto simp: az09_def az_def in_range_def allowed_def)
  then have bytes: "\<forall>c \<in> set s. byte c < 128 \<and> allowed (byte c) \<and> byte c \<noteq> 46"
    using resource_id_bytes [OF assms] by blast
  then have "runes s = string_runes s" by (simp add: runes_ascii ascii_def list_all_iff)
  moreover have "\<not> Contains s ''..''" using bytes unfolding Contains_iff by fastforce
  ultimately show ?thesis
    using bytes assms resource_id_ends [OF assms]
    by (auto simp: well_formed_def strictID_iff list_ex_iff)
qed

lemma fold_all_cosmetic:
  assumes law: "nfkc_law nfkc" and u: "resource_id (map lower_byte u)"
    and pq: "\<forall>r \<in> set p. cosmetic r" "\<forall>r \<in> set q. cosmetic r"
  shows "fold_all nfkc (encode_runes (p @ string_runes u @ q)) = map lower_byte u"
proof -
  let ?rs = "p @ string_runes u @ q" and ?s = "map lower_byte u"
  let ?p = "concat (map fold_lookalike p)" and ?q = "concat (map fold_lookalike q)"
  have inert: "\<forall>r \<in> set ?rs. nfkc_inert r"
    using pq cased_bytes [OF u] by (auto simp: cosmetic_def nfkc_inert_def)
  with law have n: "nfkc (encode_runes ?rs) = encode_runes ?rs" unfolding nfkc_law_def by blast
  have f: "foldLookalikes (encode_runes ?rs) = ?p @ u @ ?q"
    using fold_cased [OF u] inert_chunks [OF inert]
    by (simp add: foldLookalikes_def runes_def comp_def)
  have junk: "\<forall>c \<in> set ?p. byte c < 128 \<and> junk c" "\<forall>c \<in> set ?q. byte c < 128 \<and> junk c"
    using fold_cosmetic pq by blast+
  then have asc: "ascii (?p @ u @ ?q)" using cased_bytes [OF u] by (auto simp: ascii_def list_all_iff)
  have low: "\<forall>c \<in> set xs. byte c < 128 \<and> junk c \<Longrightarrow> map lower_byte xs = xs" for xs
    by (induction xs) (auto simp: lower_byte_def isAlnum_def)
  have l: "ToLower (?p @ u @ ?q) = ?p @ ?s @ ?q"
    using low [OF junk(1)] low [OF junk(2)] by (simp add: ToLower_ascii [OF asc] del: map_concat)
  have ends: "?s \<noteq> []" "\<not> junk (hd ?s)" "\<not> junk (last ?s)"
    using resource_id_ends [OF u] az09_byte by (auto simp: az09_def)
  have t: "trimNonAlnum (?p @ ?s @ ?q) = ?s"
    using trim_around [where P = junk, OF ends, of ?p ?q] junk
    by (simp add: trimNonAlnum_bytes dropWhile_eq_Nil_conv [THEN iffD2])
  have t': "trimNonAlnum ?s = ?s"
    using trim_around [where P = junk, OF ends, of "[]" "[]"] by (simp add: trimNonAlnum_bytes)
  show ?thesis unfolding fold_all_def Let_def n f l t collapse_resource_id [OF u] t' ..
qed

lemma Canonical_cosmetic:
  assumes law: "nfkc_law nfkc" and u: "resource_id (map lower_byte u)"
    and pq: "\<forall>r \<in> set p. cosmetic r" "\<forall>r \<in> set q. cosmetic r"
    and dots: "\<not> Contains (encode_runes p @ u @ encode_runes q) ''..''"
  shows "Canonical nfkc (encode_runes p @ u @ encode_runes q) = Inr (map lower_byte u)"
proof -
  let ?v = "string_runes u"
  have au: "ascii u" using cased_bytes [OF u] by (auto simp: ascii_def list_all_iff)
  then have raw: "encode_runes p @ u @ encode_runes q = encode_runes (p @ ?v @ q)"
    by (simp add: encode_string_runes)
  define p' q' where "p' = dropWhile IsSpace p" and "q' = rev (dropWhile IsSpace (rev q))"
  have "isAlnum r \<Longrightarrow> \<not> IsSpace r" for r by (auto simp: isAlnum_def IsSpace_def)
  then have ends: "?v \<noteq> []" "\<not> IsSpace (hd ?v)" "\<not> IsSpace (last ?v)"
    using cased_ends [OF u] by (auto simp: hd_map last_map)
  have c': "\<forall>r \<in> set p'. cosmetic r" "\<forall>r \<in> set q'. cosmetic r"
    using pq by (auto simp: p'_def q'_def dest: set_dropWhileD)
  have "\<forall>r \<in> set (p @ ?v @ q). nfkc_inert r"
    using pq cased_bytes [OF u] by (auto simp: cosmetic_def nfkc_inert_def)
  from TrimSpace_inert [OF this]
  have t: "TrimSpace (encode_runes (p @ ?v @ q)) = encode_runes (p' @ ?v @ q')"
    using trim_around [where P = IsSpace, OF ends, of p q] by (simp add: p'_def q'_def)
  have "\<exists>x y. p = x @ p' \<and> q = q' @ y"
    unfolding p'_def q'_def by (metis takeWhile_dropWhile_id rev_append rev_rev_ident)
  then obtain x y where "p = x @ p'" "q = q' @ y" by blast
  then have inf: "encode_runes (p @ ?v @ q) = encode_runes x @ encode_runes (p' @ ?v @ q') @ encode_runes y" by simp
  have dots': "\<not> Contains (encode_runes (p' @ ?v @ q')) ''..''"
    using dots unfolding raw inf Contains_iff by (metis append.assoc)
  have "harmless (p' @ ?v @ q')"
    using c' cased_bytes [OF u]
    by (fastforce simp: harmless_def cosmetic_def nfkc_inert_def IsControl_def isAlnum_def)
  from harmless_passes [OF this dots']
  have pass: "unescaped (encode_runes (p' @ ?v @ q')) = encode_runes (p' @ ?v @ q')"
    "unsafe (encode_runes (p' @ ?v @ q')) = False" by simp_all
  have ne: "(encode_runes (p' @ ?v @ q') = []) = False"
    using ends(1) encode_string_runes [OF au] by simp
  have wf: "well_formed (map lower_byte u) = True" using well_formed_resource_id [OF u] by simp
  show ?thesis
    unfolding raw Canonical_def Let_def t
    by (simp only: ne pass wf fold_all_cosmetic [OF law u c'] if_False not_True_eq_False)
qed

end
