(* ===== verification/GoTime.thy ===== *)
theory GoTime
  imports GoStrings
begin

text \<open>
  \<open>time.ParseDuration\<close>, which the policy and the configuration use: a signed sequence of decimal
  numbers with units, in 64-bit nanoseconds. The fraction of a number, which the library computes in
  \<open>float64\<close>, is computed exactly and truncated.
\<close>

definition digit :: "char \<Rightarrow> bool" where
  "digit c \<longleftrightarrow> in_range 48 57 c"

definition digit_val :: "char \<Rightarrow> int" where
  "digit_val c = int (byte c) - 48"

text \<open>\<open>leadingInt\<close>: None on overflow of \<open>1<<63\<close>.\<close>

fun leadingInt :: "int \<Rightarrow> string \<Rightarrow> (int \<times> string) option" where
  "leadingInt x [] = Some (x, [])"
| "leadingInt x (c # cs) =
     (if \<not> digit c then Some (x, c # cs)
      else if x > 2 ^ 63 div 10 then None
      else let y = x * 10 + digit_val c in if y > 2 ^ 63 then None else leadingInt y cs)"

text \<open>\<open>leadingFraction\<close>: further digits are dropped once the value would overflow.\<close>

fun leadingFraction :: "bool \<Rightarrow> int \<Rightarrow> int \<Rightarrow> string \<Rightarrow> int \<times> int \<times> string" where
  "leadingFraction overflow x scale [] = (x, scale, [])"
| "leadingFraction overflow x scale (c # cs) =
     (if \<not> digit c then (x, scale, c # cs)
      else if overflow \<or> x > (2 ^ 63 - 1) div 10 then leadingFraction True x scale cs
      else let y = x * 10 + digit_val c in
        if y > 2 ^ 63 then leadingFraction True x scale cs
        else leadingFraction False y (scale * 10) cs)"

definition unitMap :: "string \<Rightarrow> int option" where
  "unitMap u = map_of
     [(''ns'', 1), (''us'', 1000), ([CHR 0xC2, CHR 0xB5, CHR ''s''], 1000), ([CHR 0xCE, CHR 0xBC, CHR ''s''], 1000),
      (''ms'', 1000000), (''s'', 1000000000), (''m'', 60000000000), (''h'', 3600000000000)] u"

definition unit_char :: "char \<Rightarrow> bool" where
  "unit_char c \<longleftrightarrow> c \<noteq> CHR ''.'' \<and> \<not> digit c"

text \<open>One number with its unit: its value in nanoseconds and the rest of the input.\<close>

definition parse_term :: "string \<Rightarrow> (int \<times> string) option" where
  "parse_term s =
     (if s = [] \<or> \<not> (hd s = CHR ''.'' \<or> digit (hd s)) then None
      else case leadingInt 0 s of
        None \<Rightarrow> None
      | Some (v, s1) \<Rightarrow>
          let pre = (length s \<noteq> length s1);
              (f, scale, s2) = (if s1 \<noteq> [] \<and> hd s1 = CHR ''.'' then leadingFraction False 0 1 (tl s1) else (0, 1, s1));
              post = (s1 \<noteq> [] \<and> hd s1 = CHR ''.'' \<and> length (tl s1) \<noteq> length s2)
          in if \<not> pre \<and> \<not> post then None
             else let u = takeWhile unit_char s2; rest = dropWhile unit_char s2 in
               if u = [] then None
               else case unitMap u of
                 None \<Rightarrow> None
               | Some unit \<Rightarrow>
                   if v > 2 ^ 63 div unit then None
                   else let v = v * unit + (if f > 0 then f * unit div scale else 0) in
                     if v > 2 ^ 63 then None else Some (v, rest))"

lemma leadingInt_length: "leadingInt x s = Some (v, t) \<Longrightarrow> length t \<le> length s"
  by (induction x s rule: leadingInt.induct) (auto simp: Let_def split: if_splits)

lemma leadingFraction_length: "leadingFraction b x k s = (f, k', t) \<Longrightarrow> length t \<le> length s"
  by (induction b x k s rule: leadingFraction.induct) (auto simp: Let_def split: if_splits)

lemma parse_term_length:
  assumes "parse_term s = Some (v, rest)"
  shows "length rest < length s"
proof -
  from assms obtain w s1 where l: "leadingInt 0 s = Some (w, s1)"
    by (auto simp: parse_term_def split: if_splits option.splits)
  obtain f k s2 where fr: "(if s1 \<noteq> [] \<and> hd s1 = CHR ''.'' then leadingFraction False 0 1 (tl s1) else (0, 1, s1)) = (f, k, s2)"
    by (metis prod_cases3)
  then have "length s2 \<le> length s1"
    using leadingFraction_length [of False 0 1 "tl s1" f k s2] by (cases s1) (auto split: if_splits)
  moreover from assms l fr have "rest = dropWhile unit_char s2" "takeWhile unit_char s2 \<noteq> []"
    by (auto simp: parse_term_def Let_def split: if_splits option.splits)
  then have "length rest < length s2"
    by (metis length_append length_greater_0_conv less_add_same_cancel2 takeWhile_dropWhile_id)
  ultimately show ?thesis using leadingInt_length [OF l] by simp
qed

function parse_terms :: "int \<Rightarrow> string \<Rightarrow> int option" where
  "parse_terms d [] = Some d"
| "parse_terms d (c # cs) =
     (case parse_term (c # cs) of
        None \<Rightarrow> None
      | Some (v, rest) \<Rightarrow> if d + v > 2 ^ 63 then None else parse_terms (d + v) rest)"
  by pat_completeness auto
termination
  by (relation "measure (length \<circ> snd)") (auto dest!: parse_term_length)

definition ParseDuration :: "string \<Rightarrow> duration option" where
  "ParseDuration s0 =
     (let neg = (s0 \<noteq> [] \<and> hd s0 = CHR ''-'');
          s = (if s0 \<noteq> [] \<and> (hd s0 = CHR ''-'' \<or> hd s0 = CHR ''+'') then tl s0 else s0)
      in if s = ''0'' then Some 0
         else if s = [] then None
         else case parse_terms 0 s of
           None \<Rightarrow> None
         | Some d \<Rightarrow> if neg then Some (- d) else if d > 2 ^ 63 - 1 then None else Some d)"

section \<open>Bounds\<close>

lemma leadingInt_bounds: "leadingInt x s = Some (v, t) \<Longrightarrow> 0 \<le> x \<Longrightarrow> x \<le> 2 ^ 63 \<Longrightarrow> 0 \<le> v \<and> v \<le> 2 ^ 63"
  by (induction x s rule: leadingInt.induct)
    (auto simp: Let_def digit_def in_range_def digit_val_def split: if_splits)

lemma leadingFraction_bounds:
  "leadingFraction b x k s = (f, k', t) \<Longrightarrow> 0 \<le> x \<Longrightarrow> 0 < k \<Longrightarrow> 0 \<le> f \<and> 0 < k'"
proof (induction b x k s rule: leadingFraction.induct)
  case (2 b x k c cs)
  have "digit c \<Longrightarrow> 0 \<le> digit_val c" by (simp add: digit_def in_range_def digit_val_def)
  with 2 show ?case by (simp add: Let_def split: if_splits)
qed simp

lemma unitMap_pos: "unitMap u = Some n \<Longrightarrow> 0 < n"
  unfolding unitMap_def by (drule map_of_SomeD) auto

lemma parse_term_nonneg:
  assumes "parse_term s = Some (v, rest)"
  shows "0 \<le> v"
proof -
  from assms obtain w s1 where l: "leadingInt 0 s = Some (w, s1)"
    by (auto simp: parse_term_def split: if_splits option.splits)
  obtain f k s2 where fr: "(if s1 \<noteq> [] \<and> hd s1 = CHR ''.'' then leadingFraction False 0 1 (tl s1) else (0, 1, s1)) = (f, k, s2)"
    by (metis prod_cases3)
  then have "0 < k" using leadingFraction_bounds [of False 0 1 "tl s1" f k s2] by (auto split: if_splits)
  moreover from assms l fr obtain u where u: "unitMap (takeWhile unit_char s2) = Some u"
    "v = w * u + (if f > 0 then f * u div k else 0)"
    by (simp add: parse_term_def Let_def split: if_splits option.splits)
  moreover have "0 < u" by (rule unitMap_pos [OF u(1)])
  moreover have "0 \<le> w" using leadingInt_bounds [OF l] by simp
  ultimately show ?thesis by (simp add: pos_imp_zdiv_nonneg_iff)
qed

lemma parse_terms_bounds: "parse_terms d s = Some v \<Longrightarrow> 0 \<le> d \<Longrightarrow> d \<le> 2 ^ 63 \<Longrightarrow> 0 \<le> v \<and> v \<le> 2 ^ 63"
proof (induction d s rule: parse_terms.induct)
  case (2 d c cs)
  from "2.prems"(1) obtain w rest where p: "parse_term (c # cs) = Some (w, rest)" "\<not> d + w > 2 ^ 63"
    "parse_terms (d + w) rest = Some v"
    by (auto split: option.splits if_splits)
  have "0 \<le> d + w" using parse_term_nonneg [OF p(1)] "2.prems"(2) by simp
  with "2.IH" [OF p(1) refl p(2,3)] p(2) show ?case by simp
qed simp

lemma ParseDuration_bounds:
  assumes "ParseDuration s = Some d"
  shows "- (2 ^ 63) \<le> d \<and> d < 2 ^ 63"
proof (cases "d = 0")
  case False
  then obtain t v where "parse_terms 0 t = Some v" "d = - v \<or> d = v \<and> v \<le> 2 ^ 63 - 1"
    using assms by (simp add: ParseDuration_def Let_def split: if_splits option.splits)
  with parse_terms_bounds [of 0 t v] show ?thesis by auto
qed simp

end
