(* ===== verification/Policy.thy ===== *)
theory Policy
  imports Resource GoTime Lease
begin

text \<open>
  \<open>internal/policy/policy.go\<close> and \<open>safety.go\<close>: the policy document, its compilation, and the
  evaluation of a request to a decision with its domain key. \<open>yaml.Unmarshal\<close> is the parameter
  \<open>unmarshal\<close> and NFKC the parameter \<open>nfkc\<close>. Errors are values of \<open>policy_error\<close>, one constructor per
  message.
\<close>

definition FallbackDeny :: string where "FallbackDeny = ''deny''"
definition FallbackAllowUncontrolled :: string where "FallbackAllowUncontrolled = ''allow-uncontrolled''"
definition MissingDeny :: string where "MissingDeny = ''deny''"
definition MissingFallthrough :: string where "MissingFallthrough = ''fallthrough''"
definition ControlNone :: string where "ControlNone = ''none''"

section \<open>Documents\<close>

record Defaults =
  df_LeaseTTL :: string
  df_MaxLifetime :: string
  df_SessionTTL :: string
  df_PrincipalTypes :: "string list"

record Budget =
  bg_MaxOps :: int
  bg_MaxProtected :: int
  bg_MaxBasket :: int
  bg_MaxAlloc :: int
  bg_MaxCheckout :: int

record Waiting =
  wt_Mode :: string
  wt_MaxWaiters :: int

record Match =
  mt_Action :: "string list"
  mt_ResourcePrefix :: string

record Rule =
  ru_Name :: string
  ru_Match :: Match
  ru_Scope :: "string list"
  ru_MaxActive :: int
  ru_LeaseTTL :: string
  ru_MaxLifetime :: string
  ru_Precedence :: "string list"
  ru_Control :: string
  ru_OnMissingAnchor :: string
  ru_Waiting :: Waiting
  ru_Budget :: Budget

record Document =
  do_Version :: int
  do_Merchant :: string
  do_Defaults :: Defaults
  do_Domains :: "Rule list"
  do_Fallback :: string

record PolicyRequest =
  pq_MerchantID :: string
  pq_CustomerID :: string
  pq_PrincipalType :: string
  pq_Resource :: string
  pq_Action :: string
  pq_Anchors :: "string \<rightharpoonup> string"

record Decision =
  dc_RuleName :: string
  dc_DomainKey :: string
  dc_MaxActive :: int
  dc_TTL :: duration
  dc_MaxLifetime :: duration
  dc_Precedence :: "string list"
  dc_MaxWaiters :: int
  dc_MaxOps :: int
  dc_ControlNone :: bool
  dc_Denied :: bool
  dc_Reason :: string

record compiledRule =
  cr_Rule :: Rule
  cr_ttl :: duration
  cr_lifetime :: duration

record Compiled =
  cp_Doc :: Document
  cp_ttl :: duration
  cp_lifetime :: duration
  cp_rules :: "compiledRule list"
  cp_fallback :: string
  cp_precedence :: "string list"

datatype policy_error =
    PolicyYAML
  | UnsupportedVersion int
  | BadFallback
  | BadDefaultTTL
  | BadDefaultLifetime
  | NoDomains
  | NameRequired nat
  | ScopeRequired string
  | UnknownDimension string string
  | BadMissingAnchor string
  | BadRuleTTL string
  | BadRuleLifetime string

definition BudgetMax :: "Budget \<Rightarrow> int" where
  "BudgetMax b =
     (let n = foldl (\<lambda>n v. if v > n then v else n) (bg_MaxOps b)
                [bg_MaxProtected b, bg_MaxBasket b, bg_MaxAlloc b, bg_MaxCheckout b]
      in if n < 0 then 0 else n)"

section \<open>Compilation\<close>

definition parseDur :: "string \<Rightarrow> duration \<Rightarrow> duration option" where
  "parseDur s def =
     (if s = '''' then Some def
      else case ParseDuration s of
        None \<Rightarrow> None
      | Some d \<Rightarrow> if d \<le> 0 then None else Some d)"

definition validDim :: "string \<Rightarrow> bool" where
  "validDim dim \<longleftrightarrow> dim \<in> {''customer'', ''resource'', ''resource_pool'', ''principal_type''}
     \<or> HasPrefix dim ''anchor:'' \<and> length dim > length ''anchor:''"

definition normalizeWaiting :: "Waiting \<Rightarrow> Waiting" where
  "normalizeWaiting w =
     (let mode = ToLower (TrimSpace (wt_Mode w)) in
      if mode \<in> {''bounded'', ''queue'', ''intra-customer''}
      then \<lparr>wt_Mode = ''bounded'', wt_MaxWaiters = (if wt_MaxWaiters w < 1 then 1 else wt_MaxWaiters w)\<rparr>
      else \<lparr>wt_Mode = ''none'', wt_MaxWaiters = 0\<rparr>)"

definition defPrec :: "string list" where "defPrec = [''browser'', ''agent'']"

text \<open>One iteration of the loop over \<open>d.Domains\<close>.\<close>

definition compileRule :: "duration \<Rightarrow> duration \<Rightarrow> nat \<Rightarrow> Rule \<Rightarrow> policy_error + compiledRule" where
  "compileRule defTTL defLife i r =
     (if ru_Name r = '''' then Inl (NameRequired i)
      else if ru_Control r = ControlNone then Inr \<lparr>cr_Rule = r, cr_ttl = 0, cr_lifetime = 0\<rparr>
      else if ru_Scope r = [] then Inl (ScopeRequired (ru_Name r))
      else case find (\<lambda>dim. \<not> validDim dim) (ru_Scope r) of
        Some dim \<Rightarrow> Inl (UnknownDimension (ru_Name r) dim)
      | None \<Rightarrow>
          let r = (if ru_MaxActive r < 1 then r\<lparr>ru_MaxActive := 1\<rparr> else r);
              r = (if ru_OnMissingAnchor r = '''' then r\<lparr>ru_OnMissingAnchor := MissingDeny\<rparr> else r)
          in if ru_OnMissingAnchor r \<noteq> MissingDeny \<and> ru_OnMissingAnchor r \<noteq> MissingFallthrough
             then Inl (BadMissingAnchor (ru_Name r))
             else case parseDur (ru_LeaseTTL r) defTTL of
               None \<Rightarrow> Inl (BadRuleTTL (ru_Name r))
             | Some ttl \<Rightarrow>
                 (case parseDur (ru_MaxLifetime r) defLife of
                    None \<Rightarrow> Inl (BadRuleLifetime (ru_Name r))
                  | Some life \<Rightarrow>
                      let r = (if ru_Precedence r = [] then r\<lparr>ru_Precedence := defPrec\<rparr> else r);
                          r = r\<lparr>ru_Waiting := normalizeWaiting (ru_Waiting r)\<rparr>
                      in Inr \<lparr>cr_Rule = r, cr_ttl = ttl, cr_lifetime = life\<rparr>))"

fun compileRules :: "duration \<Rightarrow> duration \<Rightarrow> nat \<Rightarrow> Rule list \<Rightarrow> policy_error + compiledRule list" where
  "compileRules defTTL defLife i [] = Inr []"
| "compileRules defTTL defLife i (r # rs) =
     (case compileRule defTTL defLife i r of
        Inl err \<Rightarrow> Inl err
      | Inr cr \<Rightarrow>
          (case compileRules defTTL defLife (Suc i) rs of
             Inl err \<Rightarrow> Inl err
           | Inr crs \<Rightarrow> Inr (cr # crs)))"

definition Compile :: "Document \<Rightarrow> policy_error + Compiled" where
  "Compile d =
     (let d = (if do_Version d = 0 then d\<lparr>do_Version := 1\<rparr> else d) in
      if do_Version d \<noteq> 1 then Inl (UnsupportedVersion (do_Version d))
      else let d = (if do_Fallback d = '''' then d\<lparr>do_Fallback := FallbackDeny\<rparr> else d) in
      if do_Fallback d \<noteq> FallbackDeny \<and> do_Fallback d \<noteq> FallbackAllowUncontrolled then Inl BadFallback
      else case parseDur (df_LeaseTTL (do_Defaults d)) (60 * second) of
        None \<Rightarrow> Inl BadDefaultTTL
      | Some defTTL \<Rightarrow>
          (case parseDur (df_MaxLifetime (do_Defaults d)) (15 * minute) of
             None \<Rightarrow> Inl BadDefaultLifetime
           | Some defLife \<Rightarrow>
               if do_Domains d = [] then Inl NoDomains
               else (case compileRules defTTL defLife 0 (do_Domains d) of
                       Inl err \<Rightarrow> Inl err
                     | Inr rules \<Rightarrow> Inr \<lparr>cp_Doc = d, cp_ttl = defTTL, cp_lifetime = defLife, cp_rules = rules,
                         cp_fallback = do_Fallback d, cp_precedence = defPrec\<rparr>)))"

definition Parse :: "(string \<Rightarrow> Document option) \<Rightarrow> string \<Rightarrow> policy_error + Document" where
  "Parse unmarshal raw = (case unmarshal raw of None \<Rightarrow> Inl PolicyYAML | Some d \<Rightarrow> Inr d)"

definition CompileYAML :: "(string \<Rightarrow> Document option) \<Rightarrow> string \<Rightarrow> policy_error + Compiled" where
  "CompileYAML unmarshal raw = (case Parse unmarshal raw of Inl err \<Rightarrow> Inl err | Inr d \<Rightarrow> Compile d)"

section \<open>Evaluation\<close>

definition matchRule :: "Rule \<Rightarrow> PolicyRequest \<Rightarrow> bool" where
  "matchRule r req =
     (if mt_Action (ru_Match r) \<noteq> [] \<and> \<not> list_ex (\<lambda>a. a = pq_Action req) (mt_Action (ru_Match r)) then False
      else if mt_ResourcePrefix (ru_Match r) \<noteq> '''' \<and> \<not> HasPrefix (pq_Resource req) (mt_ResourcePrefix (ru_Match r)) then False
      else True)"

definition dimValue :: "PolicyRequest \<Rightarrow> string \<Rightarrow> string option" where
  "dimValue req dim =
     (if dim = ''customer'' then Some (pq_CustomerID req)
      else if dim = ''resource'' then Some (pq_Resource req)
      else if dim = ''resource_pool'' then
        (case LastIndexByte (pq_Resource req) (CHR '':'') of
           Some i \<Rightarrow> if i > 0 then Some (take i (pq_Resource req)) else Some (pq_Resource req)
         | None \<Rightarrow> Some (pq_Resource req))
      else if dim = ''principal_type'' then Some (pq_PrincipalType req)
      else if HasPrefix dim ''anchor:'' then
        (case pq_Anchors req (TrimPrefix dim ''anchor:'') of
           None \<Rightarrow> None
         | Some v \<Rightarrow> if v = '''' then None else Some v)
      else None)"

fun dimParts :: "PolicyRequest \<Rightarrow> string list \<Rightarrow> string list option" where
  "dimParts req [] = Some []"
| "dimParts req (dim # dims) =
     (case dimValue req dim of
        None \<Rightarrow> None
      | Some val \<Rightarrow> map_option ((#) (dim @ ''='' @ val)) (dimParts req dims))"

definition domainKey :: "PolicyRequest \<Rightarrow> string \<Rightarrow> string list \<Rightarrow> string option" where
  "domainKey req ruleName scope =
     map_option (\<lambda>parts. JoinByte (pq_MerchantID req # ruleName # parts) (CHR ''/'')) (dimParts req scope)"

definition Decision0 :: Decision where
  "Decision0 = \<lparr>dc_RuleName = '''', dc_DomainKey = '''', dc_MaxActive = 0, dc_TTL = 0, dc_MaxLifetime = 0,
     dc_Precedence = [], dc_MaxWaiters = 0, dc_MaxOps = 0, dc_ControlNone = False, dc_Denied = False, dc_Reason = ''''\<rparr>"

definition granted :: "compiledRule \<Rightarrow> string \<Rightarrow> Decision" where
  "granted c key = (let r = cr_Rule c in
     \<lparr>dc_RuleName = ru_Name r, dc_DomainKey = key, dc_MaxActive = ru_MaxActive r, dc_TTL = cr_ttl c,
      dc_MaxLifetime = cr_lifetime c, dc_Precedence = ru_Precedence r, dc_MaxWaiters = wt_MaxWaiters (ru_Waiting r),
      dc_MaxOps = BudgetMax (ru_Budget r), dc_ControlNone = False, dc_Denied = False, dc_Reason = ''''\<rparr>)"

fun evaluateRules :: "compiledRule list \<Rightarrow> PolicyRequest \<Rightarrow> Decision option" where
  "evaluateRules [] req = None"
| "evaluateRules (c # cs) req =
     (let r = cr_Rule c in
      if \<not> matchRule r req then evaluateRules cs req
      else if ru_Control r = ControlNone then Some (Decision0\<lparr>dc_RuleName := ru_Name r, dc_ControlNone := True\<rparr>)
      else case domainKey req (ru_Name r) (ru_Scope r) of
        None \<Rightarrow>
          if ru_OnMissingAnchor r = MissingFallthrough then evaluateRules cs req
          else Some (Decision0\<lparr>dc_RuleName := ru_Name r, dc_Denied := True, dc_Reason := ''missing_anchor''\<rparr>)
      | Some key \<Rightarrow> Some (granted c key))"

definition fallbackDecision :: "Compiled \<Rightarrow> Decision" where
  "fallbackDecision c =
     (if cp_fallback c = FallbackAllowUncontrolled
      then Decision0\<lparr>dc_RuleName := ''fallback'', dc_ControlNone := True\<rparr>
      else Decision0\<lparr>dc_RuleName := ''fallback'', dc_Denied := True, dc_Reason := ''no_matching_rule''\<rparr>)"

definition Evaluate :: "(string \<Rightarrow> string) \<Rightarrow> Compiled \<Rightarrow> PolicyRequest \<Rightarrow> Decision" where
  "Evaluate nfkc c req0 =
     (let decide = (\<lambda>req. case evaluateRules (cp_rules c) req of Some d \<Rightarrow> d | None \<Rightarrow> fallbackDecision c)
      in case Canonical nfkc (pq_Resource req0) of
           Inr canon \<Rightarrow> decide (req0\<lparr>pq_Resource := canon\<rparr>)
         | Inl _ \<Rightarrow>
             if pq_Resource req0 \<noteq> ''''
             then Decision0\<lparr>dc_RuleName := ''resource'', dc_Denied := True, dc_Reason := ''malformed_resource''\<rparr>
             else decide req0)"

definition Precedence :: "Compiled \<Rightarrow> string \<Rightarrow> string list" where
  "Precedence c ruleName =
     (case find (\<lambda>x. ru_Name (cr_Rule x) = ruleName \<and> ru_Precedence (cr_Rule x) \<noteq> []) (cp_rules c) of
        Some x \<Rightarrow> ru_Precedence (cr_Rule x)
      | None \<Rightarrow> cp_precedence c)"

section \<open>The default document and production safety\<close>

definition Match0 :: Match where "Match0 = \<lparr>mt_Action = [], mt_ResourcePrefix = ''''\<rparr>"
definition Budget0 :: Budget where
  "Budget0 = \<lparr>bg_MaxOps = 0, bg_MaxProtected = 0, bg_MaxBasket = 0, bg_MaxAlloc = 0, bg_MaxCheckout = 0\<rparr>"
definition Rule0 :: Rule where
  "Rule0 = \<lparr>ru_Name = '''', ru_Match = Match0, ru_Scope = [], ru_MaxActive = 0, ru_LeaseTTL = '''', ru_MaxLifetime = '''',
     ru_Precedence = [], ru_Control = '''', ru_OnMissingAnchor = '''', ru_Waiting = \<lparr>wt_Mode = '''', wt_MaxWaiters = 0\<rparr>,
     ru_Budget = Budget0\<rparr>"

definition DefaultDocument :: "string \<Rightarrow> Document" where
  "DefaultDocument merchantID =
     \<lparr>do_Version = 1, do_Merchant = merchantID,
      do_Defaults = \<lparr>df_LeaseTTL = ''60s'', df_MaxLifetime = ''15m'', df_SessionTTL = '''', df_PrincipalTypes = []\<rparr>,
      do_Domains =
        [Rule0\<lparr>ru_Name := DefaultRuleName, ru_Match := Match0\<lparr>mt_Action := [''purchase'', ''hold'']\<rparr>,
           ru_Scope := [''customer'', ''resource''], ru_MaxActive := 1, ru_LeaseTTL := ''60s'', ru_MaxLifetime := ''15m'',
           ru_Precedence := [''browser'', ''agent'']\<rparr>,
         Rule0\<lparr>ru_Name := ''discovery'', ru_Match := Match0\<lparr>mt_Action := [''search'']\<rparr>, ru_Control := ControlNone\<rparr>],
      do_Fallback = FallbackDeny\<rparr>"

definition FailOpenReasons :: "Document \<Rightarrow> string list" where
  "FailOpenReasons d =
     (if EqualFold (TrimSpace (do_Fallback d)) FallbackAllowUncontrolled then [''fallback: allow-uncontrolled''] else [])"

text \<open>None when the policy is accepted, the reasons otherwise.\<close>

definition CheckProductionSafety :: "Document \<Rightarrow> bool \<Rightarrow> string list option" where
  "CheckProductionSafety d allowUnsafe =
     (let reasons = FailOpenReasons d in
      if reasons = [] then None else if allowUnsafe then None else Some reasons)"

text \<open>\<open>lease.DomainKey\<close>.\<close>

definition DomainKey :: "(string \<Rightarrow> string) \<Rightarrow> string \<Rightarrow> string \<Rightarrow> string \<Rightarrow> string \<Rightarrow> string" where
  "DomainKey nfkc merchantID ruleName customerID res0 =
     (let res = (case Canonical nfkc res0 of Inr canon \<Rightarrow> canon | Inl _ \<Rightarrow> res0)
      in merchantID @ ''/'' @ ruleName @ ''/customer='' @ customerID @ ''/resource='' @ res)"

end
