(* ===== verification/Store_Policy.thy ===== *)
theory Store_Policy
  imports Store_Ops Policy
begin

text \<open>
  \<open>internal/store/postgres/policy.go\<close>: versioned policy documents, of which one per merchant is
  active. \<open>yaml.Unmarshal\<close> is a parameter, as in the policy engine. Concurrent writers are serialised
  by the primary key and the partial unique index; the model runs a transaction at a time and raises
  the violation as an error of the statement. The notification after the commit is a statement whose
  outcome is ignored.
\<close>

definition nextVersion :: "string \<Rightarrow> db \<Rightarrow> int" where
  "nextVersion merchantID d =
     foldl max 0 (map pr_Version (filter (\<lambda>p. pr_MerchantID p = merchantID) (policies d))) + 1"

definition insertPolicy :: "policy_row \<Rightarrow> unit db_op" where
  "insertPolicy row = stmt (\<lambda>d.
     if pr_Version row > max_int4 then Inl ErrSQL
     else if list_ex (\<lambda>p. pr_MerchantID p = pr_MerchantID row \<and> (pr_Version p = pr_Version row \<or> pr_Active p)) (policies d)
     then Inl ErrSQL
     else Inr ((), d\<lparr>policies := policies d @ [row]\<rparr>))"

definition putBody :: "time \<Rightarrow> string \<Rightarrow> string \<Rightarrow> string \<Rightarrow> AdminAudit \<Rightarrow> policy_row db_op" where
  "putBody now merchantID yamlText requestID audit =
     andThen (query (nextVersion merchantID)) (\<lambda>next.
     andThen (modify (\<lambda>d. d\<lparr>policies := update_where (\<lambda>p. pr_MerchantID p = merchantID \<and> pr_Active p)
         (\<lambda>p. p\<lparr>pr_Active := False\<rparr>) (policies d)\<rparr>)) (\<lambda>_.
     let row = \<lparr>pr_MerchantID = merchantID, pr_Version = next, pr_YAML = yamlText, pr_Active = True\<rparr> in
     andThen (insertPolicy row) (\<lambda>_.
     andThen (insertAudit now merchantID (auditRow0\<lparr>ar_typ := ''POLICY_CHANGED'', ar_reason := ''put'', ar_requestID := requestID,
         ar_principalType := aa_Role audit, ar_principalID := aa_Actor audit,
         ar_attrs := [(''actor'', JStr (aa_Actor audit)), (''role'', JStr (aa_Role audit)), (''auth'', JStr (aa_Auth audit)),
           (''ip'', JStr (aa_IP audit)), (''before_hash'', JStr (aa_Before audit)), (''after_hash'', JStr (aa_After audit))]\<rparr>)) (\<lambda>_.
     ret row))))"

definition PutPolicy :: "(string \<Rightarrow> Document option) \<Rightarrow> time \<Rightarrow> string \<Rightarrow> string \<Rightarrow> string \<Rightarrow> AdminAudit \<Rightarrow> policy_row db_op" where
  "PutPolicy unmarshal now merchantID yamlText requestID audit =
     (if merchantID = '''' \<or> yamlText = '''' then throw ErrInvalidInput
      else case CompileYAML unmarshal yamlText of
        Inl _ \<Rightarrow> throw ErrInvalidInput
      | Inr _ \<Rightarrow>
          andThen (transact (putBody now merchantID yamlText requestID audit)) (\<lambda>row.
          attempt (query (\<lambda>_. ())) (\<lambda>_. ret row)))"

definition ActivePolicy :: "string \<Rightarrow> policy_row db_op" where
  "ActivePolicy merchantID =
     attempt (query_row (\<lambda>d. find (\<lambda>p. pr_MerchantID p = merchantID \<and> pr_Active p) (policies d))) (\<lambda>r.
       case r of
         Inl err \<Rightarrow> if err = ErrNoRows then throw ErrNotFound else throw (wrapStore err)
       | Inr row \<Rightarrow> ret row)"

definition PolicyHistory :: "string \<Rightarrow> int \<Rightarrow> policy_row list db_op" where
  "PolicyHistory merchantID limit =
     wrapping (query (\<lambda>d. limit_rows (if limit < 1 then 20 else limit)
       (order_by (\<lambda>p. - pr_Version p) (filter (\<lambda>p. pr_MerchantID p = merchantID) (policies d)))))"

section \<open>One active policy per merchant\<close>

definition rows_of :: "string \<Rightarrow> db \<Rightarrow> policy_row list" where
  "rows_of m d = filter (\<lambda>p. pr_MerchantID p = m) (policies d)"

text \<open>
  The versions of a merchant are 1, 2, 3 and so on in the order of the puts, the last one is the active
  one, and every stored document compiles.
\<close>

definition policies_ok :: "(string \<Rightarrow> Document option) \<Rightarrow> db \<Rightarrow> bool" where
  "policies_ok unmarshal d \<longleftrightarrow>
     (\<forall>m. map pr_Version (rows_of m d) = map int [1..<Suc (length (rows_of m d))]
        \<and> map pr_Active (rows_of m d) = map (\<lambda>i. i = length (rows_of m d)) [1..<Suc (length (rows_of m d))])
     \<and> (\<forall>p \<in> set (policies d). \<not> isl (CompileYAML unmarshal (pr_YAML p)))"

lemma foldl_max_le: "foldl max (a::int) xs \<le> b \<longleftrightarrow> a \<le> b \<and> (\<forall>x \<in> set xs. x \<le> b)"
  by (induction xs arbitrary: a) auto

lemma foldl_max_upt: "foldl max 0 (map int [1..<Suc n]) = int n"
proof (rule antisym)
  show "foldl max 0 (map int [1..<Suc n]) \<le> int n" by (auto simp: foldl_max_le)
  show "int n \<le> foldl max 0 (map int [1..<Suc n])"
    using foldl_max_le [of 0 "map int [1..<Suc n]" "foldl max 0 (map int [1..<Suc n])"] by (cases n) auto
qed

lemma nextVersion_ok: "policies_ok unmarshal d \<Longrightarrow> nextVersion m d = int (length (rows_of m d)) + 1"
  unfolding nextVersion_def policies_ok_def rows_of_def [symmetric] by (simp only: foldl_max_upt)

lemma runs_putBody:
  assumes "runs (putBody now m y rq au) d row d'"
  shows "row = \<lparr>pr_MerchantID = m, pr_Version = nextVersion m d, pr_YAML = y, pr_Active = True\<rparr>
    \<and> policies d' = update_where (\<lambda>p. pr_MerchantID p = m \<and> pr_Active p) (\<lambda>p. p\<lparr>pr_Active := False\<rparr>) (policies d) @ [row]"
  using assms unfolding putBody_def insertPolicy_def Let_def runs_simps
  by (auto split: if_splits)

lemma rows_of_put:
  assumes "policies d' = update_where (\<lambda>p. pr_MerchantID p = m \<and> pr_Active p) (\<lambda>p. p\<lparr>pr_Active := False\<rparr>) (policies d) @ [row]"
    and "pr_MerchantID row = m"
  shows "rows_of m' d' = (if m' = m then map (\<lambda>p. p\<lparr>pr_Active := False\<rparr>) (rows_of m d) @ [row] else rows_of m' d)"
proof -
  have "filter (\<lambda>p. pr_MerchantID p = m') (update_where (\<lambda>p. pr_MerchantID p = m \<and> pr_Active p) (\<lambda>p. p\<lparr>pr_Active := False\<rparr>) xs)
      = (if m' = m then map (\<lambda>p. p\<lparr>pr_Active := False\<rparr>) (filter (\<lambda>p. pr_MerchantID p = m') xs)
         else filter (\<lambda>p. pr_MerchantID p = m') xs)" for xs :: "policy_row list"
    by (induction xs) auto
  with assms show ?thesis by (simp add: rows_of_def)
qed

lemma policies_ok_put:
  assumes ok: "policies_ok unmarshal d" and run: "runs (putBody now m y rq au) d row d'"
    and y: "\<not> isl (CompileYAML unmarshal y)"
  shows "policies_ok unmarshal d'"
proof -
  note r = runs_putBody [OF run]
  have row: "pr_MerchantID row = m" "pr_Version row = int (length (rows_of m d)) + 1" "pr_Active row" "pr_YAML row = y"
    using r nextVersion_ok [OF ok] by simp_all
  note rows = rows_of_put [OF conjunct2 [OF r] row(1)]
  have "map pr_Version (rows_of m' d') = map int [1..<Suc (length (rows_of m' d'))]
      \<and> map pr_Active (rows_of m' d') = map (\<lambda>i. i = length (rows_of m' d')) [1..<Suc (length (rows_of m' d'))]" for m'
  proof (cases "m' = m")
    case True
    have v: "map pr_Version (rows_of m d) = map int [1..<Suc (length (rows_of m d))]"
      using ok by (simp add: policies_ok_def)
    have "map (pr_Version \<circ> (\<lambda>p. p\<lparr>pr_Active := False\<rparr>)) (rows_of m d) = map pr_Version (rows_of m d)" by simp
    with v have "map pr_Version (rows_of m d') = map int [1..<Suc (length (rows_of m d))] @ [int (Suc (length (rows_of m d)))]"
      by (simp add: rows row)
    moreover have "map pr_Active (rows_of m d') = replicate (length (rows_of m d)) False @ [True]"
      by (simp add: rows row comp_def map_replicate_const)
    moreover have "map (\<lambda>i. i = Suc n) [1..<Suc (Suc n)] = replicate n False @ [True]" for n :: nat
    proof -
      have "map (\<lambda>i. i = Suc n) [1..<Suc n] = map (\<lambda>_. False) [1..<Suc n]" by (rule map_cong) auto
      then have "map (\<lambda>i. i = Suc n) [1..<Suc n] = replicate n False" by (simp add: map_replicate_const del: upt_Suc)
      moreover have "[1..<Suc (Suc n)] = [1..<Suc n] @ [Suc n]" by simp
      ultimately show ?thesis by (simp del: upt_Suc)
    qed
    moreover have "length (rows_of m d') = Suc (length (rows_of m d))" by (simp add: rows)
    ultimately show ?thesis unfolding True by simp
  next
    case False
    then show ?thesis using ok by (simp add: rows policies_ok_def)
  qed
  moreover have "\<forall>p \<in> set (policies d'). \<not> isl (CompileYAML unmarshal (pr_YAML p))"
    using ok y row(4) r by (auto simp: policies_ok_def set_update_where)
  ultimately show ?thesis by (simp add: policies_ok_def)
qed

lemma PutPolicy_ends:
  assumes "ends (PutPolicy unmarshal now m y rq au) d d'"
  shows "d' = d \<or> (\<exists>row. runs (putBody now m y rq au) d row d' \<and> \<not> isl (CompileYAML unmarshal y))"
proof -
  have q: "ends (attempt (query (\<lambda>_. ())) (\<lambda>_. ret row)) e d' \<Longrightarrow> d' = e" for e and row :: policy_row
    by (erule ends_attemptE) auto
  from assms show ?thesis
    unfolding PutPolicy_def
    by (auto split: if_splits sum.splits elim!: ends_andThenE dest!: q ends_transact runs_transact fails_transact)
qed

lemma PutPolicy_runs:
  assumes "runs (PutPolicy unmarshal now m y rq au) d row d'"
  shows "runs (putBody now m y rq au) d row d' \<and> \<not> isl (CompileYAML unmarshal y)"
proof -
  have q: "runs (attempt (query (\<lambda>_. ())) (\<lambda>_. ret r)) e row d' \<Longrightarrow> d' = e \<and> row = r" for e r
    by (erule runs_attemptE) (auto dest: ends_fails)
  from assms show ?thesis
    unfolding PutPolicy_def by (auto split: if_splits sum.splits elim!: runs_andThenE dest!: q runs_transact)
qed

text \<open>
  The policy table over time: puts of any merchant with any text, and anything else that leaves the
  table alone.
\<close>

inductive policy_step :: "(string \<Rightarrow> Document option) \<Rightarrow> time \<Rightarrow> db \<Rightarrow> db \<Rightarrow> bool" for unmarshal now where
  put: "ends (PutPolicy unmarshal now m y rq au) d d' \<Longrightarrow> policy_step unmarshal now d d'"
| elsewhere: "policies d' = policies d \<Longrightarrow> policy_step unmarshal now d d'"

lemma policies_ok_table: "policies d' = policies d \<Longrightarrow> policies_ok unmarshal d' = policies_ok unmarshal d"
  by (simp add: policies_ok_def rows_of_def)

lemma policy_step_ok: "policy_step unmarshal now d d' \<Longrightarrow> policies_ok unmarshal d \<Longrightarrow> policies_ok unmarshal d'"
proof (induction rule: policy_step.induct)
  case (put m y rq au d d')
  then show ?case using PutPolicy_ends [OF put.hyps] policies_ok_put [OF put.prems] by auto
next
  case (elsewhere d' d)
  then show ?case using policies_ok_table [OF elsewhere.hyps] by blast
qed

interpretation policy_table: timed_invariant empty_db "policy_step unmarshal" "\<lambda>_. policies_ok unmarshal" for unmarshal
  by unfold_locales
    (simp add: policies_ok_def rows_of_def empty_db_def, assumption, rule policy_step_ok)

end
