(* ===== verification/Store_Steps.thy ===== *)
theory Store_Steps
  imports Store_Inv Store_Policy
begin

text \<open>
  The store as a transition system: every operation of the Postgres store, with arbitrary
  arguments and an arbitrary schedule of faults, as a step at the time of its transaction. The
  lease invariants hold in every reachable state.
\<close>

section \<open>Frames of the operations outside the lease tables\<close>

definition lease_view :: "db \<Rightarrow> (domain \<rightharpoonup> int) \<times> execution list \<times> waiter list" where
  "lease_view d = (domains d, executions d, waiters d)"

lemma keeps_insertAudit [frame_intro]: "keeps lease_view (insertAudit now m a)"
  unfolding insertAudit_def by (intro frame_intro) (simp add: lease_view_def)

lemma keeps_Session [frame_intro]: "keeps v (Session sid)"
  unfolding Session_def by (intro frame_intro)

lemma keeps_WriteActorAudit [frame_intro]: "keeps lease_view (WriteActorAudit now m ty ro ac re rq at)"
  unfolding WriteActorAudit_def by (intro frame_intro)

lemma keeps_writeAdminAction [frame_intro]: "keeps lease_view (writeAdminAction now m ty re rq au at)"
  unfolding writeAdminAction_def by (intro frame_intro)

lemma keeps_PurgeAudit: "keeps lease_view (PurgeAudit fmt now m t)"
  unfolding PurgeAudit_def by (intro frame_intro) (auto simp: lease_view_def)

lemma keeps_EnsureMerchant: "keeps lease_view (EnsureMerchant m n s)"
  unfolding EnsureMerchant_def by (intro frame_intro) (simp add: lease_view_def)

lemma keeps_EnsureSigningKey: "keeps lease_view (EnsureSigningKey now rnd ks m)"
  unfolding EnsureSigningKey_def by (intro frame_intro) (auto simp: lease_view_def split: if_splits)

lemma keeps_InsertSession: "keeps lease_view (InsertSession s)"
  unfolding InsertSession_def by (intro frame_intro) (auto simp: lease_view_def split: if_splits)

lemma keeps_RevokeSession: "keeps lease_view (RevokeSession now m s)"
  unfolding RevokeSession_def by (intro frame_intro) (auto simp: lease_view_def)

lemma keeps_EnsureBudget: "keeps lease_view (EnsureBudget m i n)"
  unfolding EnsureBudget_def by (intro frame_intro) (auto simp: lease_view_def split: if_splits)

lemma keeps_ConsumeOp: "keeps lease_view (ConsumeOp m i)"
  unfolding ConsumeOp_def by (intro frame_intro) (auto simp: lease_view_def split: if_splits option.splits)

lemma keeps_ClaimReplay: "keeps lease_view (ClaimReplay n1 n2 m k knd w)"
  unfolding ClaimReplay_def by (intro frame_intro) (auto simp: lease_view_def split: if_splits option.splits)

lemma keeps_PutControls: "keeps lease_view (PutControls now rnd m c au)"
  unfolding PutControls_def by (intro frame_intro) (auto simp: lease_view_def split: if_splits)

lemma keeps_insertDryEvent [frame_intro]: "keeps lease_view (insertDryEvent now m ev)"
  unfolding insertDryEvent_def by (intro frame_intro) (simp add: lease_view_def)

lemma keeps_commitDry [frame_intro]: "keeps lease_view (commitDry now m ev)"
  unfolding commitDry_def by (intro frame_intro)

lemma keeps_RecordDecision: "keeps lease_view (RecordDecision now m ev)"
  unfolding RecordDecision_def by (intro frame_intro)

lemma keeps_insertHold [frame_intro]: "keeps lease_view (insertHold h)"
  unfolding insertHold_def by (intro frame_intro) (auto simp: lease_view_def split: if_splits)

lemma keeps_ShadowDecide: "keeps lease_view (ShadowDecide now rnd m k c p re ac ru ma mw ttl rq)"
  unfolding ShadowDecide_def Let_def
  by (intro frame_intro) (simp_all add: lease_view_def)

lemma keeps_insertPolicy [frame_intro]: "keeps lease_view (insertPolicy row)"
  unfolding insertPolicy_def by (intro frame_intro) (auto simp: lease_view_def split: if_splits)

lemma keeps_PutPolicy: "keeps lease_view (PutPolicy u now m y rq au)"
  unfolding PutPolicy_def putBody_def by (intro frame_intro) (simp add: lease_view_def)

section \<open>Steps\<close>

text \<open>
  The lease operations step one transaction at a time, with the domain key that the lookup
  before the transaction may have returned as an arbitrary argument. \<open>reorder\<close> is a table scan
  that meets the rows in another order.
\<close>

inductive lease_txn :: "(domain \<Rightarrow> nat) \<Rightarrow> time \<Rightarrow> db \<Rightarrow> db \<Rightarrow> bool"
  for cap :: "domain \<Rightarrow> nat" and now :: time where
  acquire: "\<lbrakk>ends (Acquire now rnd req) d d';
      q_MaxActive (acquireDefaults req) \<le> int (cap (q_MerchantID req, q_DomainKey req))\<rbrakk>
    \<Longrightarrow> lease_txn cap now d d'"
| renew: "ends (transact (renewBody now dk m i sid rq ttl)) d d' \<Longrightarrow> lease_txn cap now d d'"
| release: "ends (transact (endBody now dk m i sid rq StateReleased reason True)) d d' \<Longrightarrow> lease_txn cap now d d'"
| revoke: "ends (transact (endBody now dk m i sid rq StateRevoked reason False)) d d' \<Longrightarrow> lease_txn cap now d d'"
| dequeued: "ends (transact (dequeueBody now goNow dk m i sid rq)) d d' \<Longrightarrow> lease_txn cap now d d'"
| handoff: "ends (transact (handoffBody now rndE rndS dk caller hreq)) d d' \<Longrightarrow> lease_txn cap now d d'"
| expire: "ends (expireAndPromoteDomain now m k) d d' \<Longrightarrow> lease_txn cap now d d'"
| promote: "ends (promoteDue now m k) d d' \<Longrightarrow> lease_txn cap now d d'"
| reap: "ends (ExpireWaiters now lim) d d' \<Longrightarrow> lease_txn cap now d d'"

inductive store_step :: "(domain \<Rightarrow> nat) \<Rightarrow> time \<Rightarrow> db \<Rightarrow> db \<Rightarrow> bool"
  for cap :: "domain \<Rightarrow> nat" and now :: time where
  lease: "lease_txn cap now d d' \<Longrightarrow> store_step cap now d d'"
| drain: "ends (DrainWaiters now m rq au) d d' \<Longrightarrow> store_step cap now d d'"
| audit: "ends (WriteActorAudit now m ty role actor reason rq attrs) d d' \<Longrightarrow> store_step cap now d d'"
| purge: "ends (PurgeAudit fmt now m older) d d' \<Longrightarrow> store_step cap now d d'"
| merchant: "ends (EnsureMerchant m nm secret) d d' \<Longrightarrow> store_step cap now d d'"
| signing_key: "ends (EnsureSigningKey now rnd ks m) d d' \<Longrightarrow> store_step cap now d d'"
| session: "ends (InsertSession sess) d d' \<Longrightarrow> store_step cap now d d'"
| revoke_session: "ends (RevokeSession now m sid) d d' \<Longrightarrow> store_step cap now d d'"
| budget: "ends (EnsureBudget m i n) d d' \<Longrightarrow> store_step cap now d d'"
| consume: "ends (ConsumeOp m i) d d' \<Longrightarrow> store_step cap now d d'"
| replay: "ends (ClaimReplay now0 now m key knd win) d d' \<Longrightarrow> store_step cap now d d'"
| controls: "ends (PutControls now rnd m c au) d d' \<Longrightarrow> store_step cap now d d'"
| shadow: "ends (ShadowDecide now rnd m k cu pr re ac ru ma mw ttl rq) d d' \<Longrightarrow> store_step cap now d d'"
| record_decision: "ends (RecordDecision now m ev) d d' \<Longrightarrow> store_step cap now d d'"
| policy: "ends (PutPolicy u now m y rq au) d d' \<Longrightarrow> store_step cap now d d'"
| reorder: "\<lbrakk>domains d' = domains d; mset (executions d') = mset (executions d);
      mset (waiters d') = mset (waiters d); audits d' = audits d\<rbrakk> \<Longrightarrow> store_step cap now d d'"

section \<open>The lease invariant\<close>

definition lease_inv :: "(domain \<Rightarrow> nat) \<Rightarrow> time \<Rightarrow> db \<Rightarrow> bool" where
  "lease_inv cap t d \<longleftrightarrow> rows_ok d \<and> within_cap cap t d"

text \<open>The effect of an operation on the lease tables is a sequence of lease steps.\<close>

definition lease_effect :: "(domain \<Rightarrow> nat) \<Rightarrow> time \<Rightarrow> db \<Rightarrow> db \<Rightarrow> bool" where
  "lease_effect cap now d d' \<longleftrightarrow> (\<exists>d2. lease_steps cap now d d2 \<and> lease_view d2 = lease_view d')"

lemma lease_effect_steps: "lease_steps cap now d d' \<Longrightarrow> lease_effect cap now d d'"
  by (auto simp: lease_effect_def)

lemma transact_steps:
  assumes "ends (transact body) d d'" "\<And>a. runs body d a d' \<Longrightarrow> lease_steps cap now d d'"
  shows "lease_steps cap now d d'"
  using ends_transact [OF assms(1)] assms(2) by blast

lemma lease_effect_view: "keeps lease_view m \<Longrightarrow> ends m d d' \<Longrightarrow> lease_effect cap now d d'"
  unfolding lease_effect_def by (metis keepsD rtranclp.rtrancl_refl)

lemma rows_ok_view: "lease_view d = lease_view d' \<Longrightarrow> rows_ok d = rows_ok d'"
  by (simp add: lease_view_def rows_ok_def)

lemma within_cap_view: "lease_view d = lease_view d' \<Longrightarrow> within_cap cap t d = within_cap cap t d'"
  by (simp add: lease_view_def within_cap_def)

lemma evolves_view: "lease_view d = lease_view d' \<Longrightarrow> evolves e d = evolves e d'"
  by (simp add: lease_view_def evolves_def)

lemma lease_effect_inv: "lease_effect cap now d d' \<Longrightarrow> lease_inv cap now d \<Longrightarrow> lease_inv cap now d'"
  unfolding lease_effect_def lease_inv_def
  by (metis lease_steps_rows_ok lease_steps_within_cap rows_ok_view within_cap_view)

lemma lease_effect_evolves: "lease_effect cap now d d' \<Longrightarrow> rows_ok d \<Longrightarrow> evolves d d'"
  unfolding lease_effect_def by (metis lease_steps_evolves evolves_view)

lemma acquireDefaults_simps [simp]:
  "q_MerchantID (acquireDefaults req) = q_MerchantID req"
  "q_DomainKey (acquireDefaults req) = q_DomainKey req"
  "q_CustomerID (acquireDefaults req) = q_CustomerID req"
  "q_Principal (acquireDefaults req) = q_Principal req"
  "q_SessionID (acquireDefaults req) = q_SessionID req"
  "q_MaxWaiters (acquireDefaults req) = q_MaxWaiters req"
  "1 \<le> q_MaxActive (acquireDefaults req)" "0 < q_TTL (acquireDefaults req)"
  "0 < q_MaxLifetime (acquireDefaults req)"
  by (simp_all add: acquireDefaults_def)

lemma ends_DrainWaiters:
  assumes "ends (DrainWaiters now m rq au) d d'"
  shows "domains d' = domains d \<and> executions d' = executions d \<and> mset (waiters d') \<subseteq># mset (waiters d)"
proof -
  let ?del = "\<lambda>d. Inr (count_where (\<lambda>w. w_MerchantID w = m) (waiters d),
         d\<lparr>waiters := filter (\<lambda>w. w_MerchantID w \<noteq> m) (waiters d)\<rparr>) :: store_error + int \<times> db"
  from assms obtain r d1 where d1: "ends (stmt ?del) d d1"
    and rest: "ends (case r of Inl err \<Rightarrow> ret (0, Some (wrapStore err))
       | Inr n \<Rightarrow> attempt (writeAdminAction now m ''EMERGENCY_DRAIN'' ''waiters'' rq au
               [(''count'', JNum n)]) (\<lambda>w. ret (n, case w of Inl err \<Rightarrow> Some err | Inr _ \<Rightarrow> None))) d1 d'"
    unfolding DrainWaiters_def by (elim ends_attemptE)
  have "keeps lease_view (case r of Inl err \<Rightarrow> ret (0, Some (wrapStore err))
       | Inr n \<Rightarrow> attempt (writeAdminAction now m ''EMERGENCY_DRAIN'' ''waiters'' rq au
               [(''count'', JNum n)]) (\<lambda>w. ret (n, case w of Inl err \<Rightarrow> Some err | Inr _ \<Rightarrow> None)))"
    by (intro frame_intro)
  from keepsD [OF this rest] d1 show ?thesis
    by (elim ends_stmtE) (auto simp: lease_view_def)
qed

lemma lease_effect_drop:
  assumes "domains d' = domains d" "mset (executions d') = mset (executions d)"
    and "mset (waiters d') \<subseteq># mset (waiters d)"
  shows "lease_effect cap now d d'"
proof -
  let ?d = "d'\<lparr>audits := audits d\<rparr>"
  have "lease_step cap now d ?d" by (rule lease_step.other [of _ _ "[]"]) (use assms in simp_all)
  moreover have "lease_view ?d = lease_view d'" by (simp add: lease_view_def)
  ultimately show ?thesis unfolding lease_effect_def by blast
qed

lemma Acquire_steps:
  assumes "ends (Acquire now rnd req) d d'" "rows_ok d"
    and "q_MaxActive (acquireDefaults req) \<le> int (cap (q_MerchantID req, q_DomainKey req))"
  shows "lease_steps cap now d d'"
proof (cases "q_MerchantID req = '''' \<or> q_DomainKey req = '''' \<or> q_CustomerID req = '''' \<or> p_ID (q_Principal req) = ''''")
  case True
  with assms show ?thesis by (auto simp: Acquire_def)
next
  case False
  with assms(1) have "ends (transact (acquireBody now rnd (acquireDefaults req))) d d'"
    by (simp add: Acquire_def)
  then show ?thesis
    using assms(2,3) by (rule_tac transact_steps) (auto intro: acquireBody_steps)
qed

lemma ExpireWaiters_steps: "ends (ExpireWaiters now lim) d d' \<Longrightarrow> lease_steps cap now d d'"
  unfolding ExpireWaiters_def Let_def
proof (erule transact_steps)
  fix a
  assume "runs (andThen (query (\<lambda>d. limit_rows (if lim < 1 then 100 else lim) (filter (\<lambda>w. w_ExpiresAt w \<le> now) (waiters d)))) (\<lambda>expired.
        andThen (expireWaiterList now expired) (\<lambda>_. ret (int (length expired))))) d a d'"
  then show "lease_steps cap now d d'"
    unfolding runs_simps by (auto elim!: runs_andThenE intro: expireWaiterList_steps)
qed

theorem lease_txn_steps: "lease_txn cap now d d' \<Longrightarrow> lease_inv cap now d \<Longrightarrow> lease_steps cap now d d'"
proof (induction rule: lease_txn.induct)
  case (acquire rnd req d d')
  then show ?case by (auto simp: lease_inv_def intro: Acquire_steps)
next
  case (renew dk m i sid rq ttl d d')
  then show ?case by (elim transact_steps) (auto simp: lease_inv_def intro: renewBody_steps)
next
  case (release dk m i sid rq reason d d')
  then show ?case by (elim transact_steps) (auto simp: lease_inv_def intro: endBody_steps)
next
  case (revoke dk m i sid rq reason d d')
  then show ?case by (elim transact_steps) (auto simp: lease_inv_def intro: endBody_steps)
next
  case (dequeued goNow dk m i sid rq d d')
  then show ?case by (elim transact_steps) (blast intro: dequeueBody_steps)+
next
  case (handoff rndE rndS dk caller hreq d d')
  then show ?case by (elim transact_steps) (auto simp: lease_inv_def intro: handoffBody_steps)
next
  case (expire m k d d')
  then show ?case unfolding expireAndPromoteDomain_def
    by (elim transact_steps) (auto simp: lease_inv_def intro: expireAndPromoteBody_steps)
next
  case (promote m k d d')
  then show ?case unfolding promoteDue_def
    by (elim transact_steps)
      (auto simp: lease_inv_def intro: promoteLocked_steps dest!: runs_andThen_lock)
next
  case (reap lim d d')
  then show ?case by (blast intro: ExpireWaiters_steps)
qed

theorem store_step_effect:
  "store_step cap now d d' \<Longrightarrow> lease_inv cap now d \<Longrightarrow> lease_effect cap now d d'"
proof (induction rule: store_step.induct)
  case (lease d d')
  then show ?case by (blast intro: lease_effect_steps lease_txn_steps)
next
  case (drain m rq au d d')
  then show ?case using ends_DrainWaiters by (metis lease_effect_drop)
next
  case (reorder d' d)
  then show ?case by (metis lease_effect_drop subset_mset.order_refl)
qed (blast intro: lease_effect_view keeps_WriteActorAudit keeps_PurgeAudit keeps_EnsureMerchant
    keeps_EnsureSigningKey keeps_InsertSession keeps_RevokeSession keeps_EnsureBudget keeps_ConsumeOp
    keeps_ClaimReplay keeps_PutControls keeps_ShadowDecide keeps_RecordDecision keeps_PutPolicy)+

section \<open>Reachable states\<close>

interpretation store: timed_invariant empty_db "store_step cap" "lease_inv cap" for cap
proof unfold_locales
  show "lease_inv cap t empty_db" for t
    by (simp add: lease_inv_def rows_ok_def within_cap_def empty_db_def)
  show "lease_inv cap t' d" if "lease_inv cap t d" "t \<le> t'" for t t' d
    using that by (auto simp: lease_inv_def intro: within_cap_later)
  show "lease_inv cap t d'" if "lease_inv cap t d" "store_step cap t d d'" for t d d'
    using that by (blast intro: lease_effect_inv store_step_effect)
qed

abbreviation reachable :: "(domain \<Rightarrow> nat) \<Rightarrow> time \<Rightarrow> db \<Rightarrow> bool" where
  "reachable cap \<equiv> timed_reach empty_db (store_step cap)"

text \<open>One state later than another: a run of the store between times \<open>t\<close> and \<open>t'\<close>.\<close>

inductive store_run :: "(domain \<Rightarrow> nat) \<Rightarrow> time \<Rightarrow> db \<Rightarrow> time \<Rightarrow> db \<Rightarrow> bool" for cap t d where
  here: "store_run cap t d t d"
| there: "store_run cap t d t' d' \<Longrightarrow> t' \<le> t'' \<Longrightarrow> store_step cap t'' d' d'' \<Longrightarrow> store_run cap t d t'' d''"

lemma store_run_reachable: "store_run cap t d t' d' \<Longrightarrow> reachable cap t d \<Longrightarrow> reachable cap t' d'"
  by (induction rule: store_run.induct) (auto intro: timed_reach.later)

lemma store_run_evolves: "store_run cap t d t' d' \<Longrightarrow> reachable cap t d \<Longrightarrow> evolves d d'"
proof (induction rule: store_run.induct)
  case here
  show ?case by (rule evolves_refl)
next
  case (there t' d' t'' d'')
  then have r: "reachable cap t' d'" "reachable cap t'' d''"
    by (auto intro: store_run_reachable timed_reach.later)
  then have "lease_inv cap t'' d'" using there.hyps(2) store.inv_wait store.reach_inv by blast
  with there r show ?case
    by (metis evolves_trans lease_effect_evolves lease_inv_def store.reach_inv store_step_effect)
qed

section \<open>The interface to clients\<close>

text \<open>
  \<open>lease.Store\<close>, the interface through which the gateway uses a lease store: every operation changes the
  state by a step of the store, if at all, provided the requests to acquire are admissible.
\<close>

locale lease_store =
  fixes step :: "time \<Rightarrow> 's \<Rightarrow> 's \<Rightarrow> bool" and admits :: "acquire_request \<Rightarrow> bool"
    and acquire :: "time \<Rightarrow> string \<Rightarrow> acquire_request \<Rightarrow> ('s, acquire_result) dbop"
    and renew :: "time \<Rightarrow> string \<Rightarrow> string \<Rightarrow> string \<Rightarrow> string \<Rightarrow> duration \<Rightarrow> ('s, execution) dbop"
    and release :: "time \<Rightarrow> time \<Rightarrow> time \<Rightarrow> string \<Rightarrow> string \<Rightarrow> string \<Rightarrow> string \<Rightarrow> ('s, execution) dbop"
    and revoke :: "time \<Rightarrow> time \<Rightarrow> string \<Rightarrow> string \<Rightarrow> string \<Rightarrow> string \<Rightarrow> string \<Rightarrow> ('s, execution) dbop"
    and handoff :: "time \<Rightarrow> string \<Rightarrow> string \<Rightarrow> handoff_request \<Rightarrow> ('s, handoff_result) dbop"
  assumes acquire_step: "ends (acquire now rnd req) s s' \<Longrightarrow> admits req \<Longrightarrow> s' = s \<or> step now s s'"
    and renew_step: "ends (renew now m i sid rq ttl) s s' \<Longrightarrow> s' = s \<or> step now s s'"
    and release_step: "ends (release now0 now goNow m i sid rq) s s' \<Longrightarrow> s' = s \<or> step now s s'"
    and revoke_step: "ends (revoke now0 now m i sid rq reason) s s' \<Longrightarrow> s' = s \<or> step now s s'"
    and handoff_step: "ends (handoff now rndE rndS req') s s' \<Longrightarrow> s' = s \<or> step now s s'"

lemma keeps_lookupDomainKey [frame_intro]: "keeps v (lookupDomainKey m i)"
  unfolding lookupDomainKey_def by (intro frame_intro)

lemma keeps_getWaiter [frame_intro]: "keeps v (getWaiter now m i)"
  unfolding getWaiter_def waiterPosition_def by (intro frame_intro)

lemma keeps_Get [frame_intro]: "keeps v (Get now m i)"
  unfolding Get_def by (intro frame_intro)

lemma keeps_holderMatches [frame_intro]: "keeps v (holderMatches e sid)"
  unfolding holderMatches_def by (intro frame_intro)

text \<open>A read followed by an operation.\<close>

lemma read_then:
  assumes "ends (andThen m k) s s'" "keeps (\<lambda>s. s) m"
  shows "s' = s \<or> (\<exists>a. ends (k a) s s')"
  using assms(1)
proof (rule ends_andThenE)
  assume "\<exists>e. fails m s e s'"
  then show ?thesis using keepsD [OF assms(2) ends_fails] by auto
next
  fix a t
  assume "runs m s a t" "ends (k a) t s'"
  then show ?thesis using keepsD [OF assms(2) runs_ends] by auto
qed

lemma read_attempt:
  assumes "ends (attempt m k) s s'" "keeps (\<lambda>s. s) m"
  shows "\<exists>r. ends (k r) s s'"
  using assms(1)
proof (rule ends_attemptE)
  fix r t
  assume "ends m s t" "ends (k r) t s'"
  then show ?thesis using keepsD [OF assms(2)] by auto
qed

lemma Renew_step: "ends (Renew now m i sid rq ttl) d d' \<Longrightarrow> d' = d \<or> store_step cap now d d'"
  unfolding Renew_def by (drule read_then) (auto intro: frame_intro lease lease_txn.renew)

lemma endBody_step:
  assumes "ends (transact (endBody now dk m i sid rq st reason h)) d d'" "st = StateReleased \<and> h \<or> st = StateRevoked \<and> \<not> h"
  shows "store_step cap now d d'"
proof -
  from assms have "lease_txn cap now d d'"
    using lease_txn.release [of now dk m i sid rq reason d d' cap] lease_txn.revoke [of now dk m i sid rq reason d d' cap] by auto
  then show ?thesis by (rule lease)
qed

lemma endExecution_step:
  assumes "ends (endExecution now m i sid rq st reason h) d d'" "st = StateReleased \<and> h \<or> st = StateRevoked \<and> \<not> h"
  shows "d' = d \<or> store_step cap now d d'"
  using read_then [OF assms(1) [unfolded endExecution_def] keeps_lookupDomainKey] endBody_step [OF _ assms(2)] by blast

lemma dequeue_step: "ends (dequeue now goNow m i sid rq) d d' \<Longrightarrow> d' = d \<or> store_step cap now d d'"
  unfolding dequeue_def by (drule read_then) (auto intro: frame_intro lease lease_txn.dequeued)

lemma Release_step:
  assumes "ends (Release now0 now goNow m i sid rq) d d'"
  shows "d' = d \<or> store_step cap now d d'"
proof -
  from read_then [OF assms [unfolded Release_def] keeps_Get] consider "d' = d"
    | "ends (dequeue now goNow m i sid rq) d d'"
    | "ends (endExecution now m i sid rq StateReleased ReasonReleased True) d d'"
    by (auto split: if_splits)
  then show ?thesis using dequeue_step endExecution_step by cases auto
qed

lemma Revoke_step:
  assumes "ends (Revoke now0 now m i sid rq reason) d d'"
  shows "d' = d \<or> store_step cap now d d'"
proof -
  let ?stop = "\<lambda>r. endExecution now m i '''' rq StateRevoked r False"
  have e: "ends (?stop r) d d' \<Longrightarrow> ?thesis" for r using endExecution_step [of now m i "[]" rq StateRevoked r False d d' cap] by blast
  show ?thesis
  proof (cases "sid = ''''")
    case True
    with assms e show ?thesis by (simp add: Revoke_def Let_def)
  next
    case False
    from assms False have "d' = d \<or> (\<exists>r. ends (?stop r) d d')"
      unfolding Revoke_def Let_def
      by (auto dest!: read_then [OF _ keeps_Get] read_attempt [OF _ keeps_Session] read_attempt [OF _ keeps_holderMatches]
          split: if_splits sum.splits)
    with e show ?thesis by blast
  qed
qed

lemma Handoff_step:
  assumes "ends (Handoff now rndE rndS req) d d'"
  shows "d' = d \<or> store_step cap now d d'"
proof -
  from assms have "d' = d \<or> (\<exists>dk caller req'. ends (transact (handoffBody now rndE rndS dk caller req')) d d')"
    unfolding Handoff_def Let_def
    by (auto dest!: read_attempt [OF _ keeps_Session] read_then [OF _ keeps_lookupDomainKey] split: if_splits sum.splits)
  then show ?thesis using lease_txn.handoff store_step.lease by metis
qed

interpretation pg: lease_store "store_step cap"
  "\<lambda>req. q_MaxActive (acquireDefaults req) \<le> int (cap (q_MerchantID req, q_DomainKey req))"
  Acquire Renew Release Revoke Handoff for cap
  by unfold_locales
    (blast intro: lease_txn.acquire store_step.lease, (erule Renew_step Release_step Revoke_step Handoff_step)+)

end
