(* ===== verification/Lock_Spec.thy ===== *)
theory Lock_Spec
  imports Prelude
begin

text \<open>
  What the lease store promises, without tables: a lock service that issues numbered leases. A
  domain has a counter of the fences issued so far and the leases that are held, by fence. A
  lease counts while its time has not run out; the service never lets more leases of a domain
  count than the domain's capacity, and never issues a fence twice.
\<close>

record ('c, 'p) holding =
  ho_customer :: 'c
  ho_principal :: 'p
  ho_until :: time

record ('k, 'c, 'p) lock_service =
  issued :: "'k \<Rightarrow> int"
  held :: "'k \<Rightarrow> int \<rightharpoonup> ('c, 'p) holding"

definition no_locks :: "('k, 'c, 'p) lock_service" where
  "no_locks = \<lparr>issued = \<lambda>_. 0, held = \<lambda>_. Map.empty\<rparr>"

definition counting :: "('k, 'c, 'p) lock_service \<Rightarrow> 'k \<Rightarrow> time \<Rightarrow> int set" where
  "counting s k t = {f. \<exists>h. held s k f = Some h \<and> ho_until h > t}"

inductive serve :: "('k \<Rightarrow> nat) \<Rightarrow> time \<Rightarrow> ('k, 'c, 'p) lock_service \<Rightarrow> ('k, 'c, 'p) lock_service \<Rightarrow> bool"
  for cap :: "'k \<Rightarrow> nat" and now :: time where
  idle: "serve cap now s s"
| issue: "\<lbrakk>card (counting s k now) < cap k;
      s' = s\<lparr>issued := (issued s)(k := issued s k + 1),
             held := (held s)(k := (held s k)(issued s k + 1 \<mapsto> h))\<rparr>\<rbrakk>
    \<Longrightarrow> serve cap now s s'"
| prolong: "\<lbrakk>held s k f = Some h; ho_until h > now;
      s' = s\<lparr>held := (held s)(k := (held s k)(f \<mapsto> h\<lparr>ho_until := u\<rparr>))\<rparr>\<rbrakk>
    \<Longrightarrow> serve cap now s s'"
| free: "\<lbrakk>held s k f \<noteq> None; s' = s\<lparr>held := (held s)(k := (held s k)(f := None))\<rparr>\<rbrakk>
    \<Longrightarrow> serve cap now s s'"
| transfer: "\<lbrakk>held s k f = Some h; ho_until h > now;
      s' = s\<lparr>issued := (issued s)(k := issued s k + 1),
             held := (held s)(k := (held s k)(f := None, issued s k + 1 \<mapsto> h\<lparr>ho_principal := p, ho_until := u\<rparr>))\<rparr>\<rbrakk>
    \<Longrightarrow> serve cap now s s'"

text \<open>The service keeps its promise: fences stay below the counter and capacities are respected.\<close>

definition locks_ok :: "('k \<Rightarrow> nat) \<Rightarrow> time \<Rightarrow> ('k, 'c, 'p) lock_service \<Rightarrow> bool" where
  "locks_ok cap t s \<longleftrightarrow>
     (\<forall>k f. held s k f \<noteq> None \<longrightarrow> 1 \<le> f \<and> f \<le> issued s k) \<and> (\<forall>k. 0 \<le> issued s k)
     \<and> (\<forall>k. finite (dom (held s k)) \<and> card (counting s k t) \<le> cap k)"

lemma counting_dom: "counting s k t \<subseteq> dom (held s k)"
  by (auto simp: counting_def)

lemma counting_later: "t \<le> t' \<Longrightarrow> counting s k t' \<subseteq> counting s k t"
  by (force simp: counting_def)

lemma locks_ok_later: "locks_ok cap t s \<Longrightarrow> t \<le> t' \<Longrightarrow> locks_ok cap t' s"
  unfolding locks_ok_def
  by (meson card_mono counting_dom counting_later finite_subset order_trans)

lemma locks_ok_fence: "locks_ok cap t s \<Longrightarrow> held s k f = Some h \<Longrightarrow> 1 \<le> f \<and> f \<le> issued s k"
  unfolding locks_ok_def by blast

lemma locks_ok_issued: "locks_ok cap t s \<Longrightarrow> 0 \<le> issued s k"
  unfolding locks_ok_def by blast

lemma locks_ok_finite: "locks_ok cap t s \<Longrightarrow> finite (dom (held s k))"
  unfolding locks_ok_def by blast

lemma locks_ok_card: "locks_ok cap t s \<Longrightarrow> card (counting s k t) \<le> cap k"
  unfolding locks_ok_def by blast

lemma counting_finite: "locks_ok cap t s \<Longrightarrow> finite (counting s k u)"
  by (rule finite_subset [OF counting_dom locks_ok_finite])

lemma locks_okI:
  assumes ok: "locks_ok cap t s"
    and other: "\<And>j. j \<noteq> k \<Longrightarrow> held s' j = held s j \<and> issued s' j = issued s j"
    and range: "\<And>f h. held s' k f = Some h \<Longrightarrow> 1 \<le> f \<and> f \<le> issued s' k" "0 \<le> issued s' k"
    and fin: "finite (dom (held s' k))" and card: "card (counting s' k t) \<le> cap k"
  shows "locks_ok cap t s'"
  unfolding locks_ok_def
proof (intro conjI allI impI)
  fix j f
  have same: "counting s' j t = counting s j t" if "j \<noteq> k"
    using other [OF that] by (simp add: counting_def)
  show "0 \<le> issued s' j" using range other [of j] locks_ok_issued [OF ok, of j] by (cases "j = k") auto
  show "finite (dom (held s' j))" using fin other [of j] locks_ok_finite [OF ok, of j] by (cases "j = k") auto
  show "card (counting s' j t) \<le> cap j" using card same locks_ok_card [OF ok, of j] by (cases "j = k") auto
  assume "held s' j f \<noteq> None"
  then obtain h where h: "held s' j f = Some h" by blast
  have "1 \<le> f \<and> f \<le> issued s' j"
  proof (cases "j = k")
    case True
    with h range show ?thesis by blast
  next
    case False
    with h other [OF False] locks_ok_fence [OF ok, of j f h] show ?thesis by simp
  qed
  then show "1 \<le> f" "f \<le> issued s' j" by auto
qed

theorem serve_locks_ok: "serve cap now s s' \<Longrightarrow> locks_ok cap now s \<Longrightarrow> locks_ok cap now s'"
proof (induction rule: serve.induct)
  case (idle s)
  then show ?case .
next
  case (issue s k s' h)
  have "counting s' k now \<subseteq> insert (issued s k + 1) (counting s k now)"
    by (auto simp: counting_def issue.hyps(2) split: if_splits)
  then have "card (counting s' k now) \<le> card (insert (issued s k + 1) (counting s k now))"
    using counting_finite [OF issue.prems] by (intro card_mono) auto
  also have "\<dots> \<le> cap k"
    using issue.hyps(1) card_insert_le_m1 [of "cap k" "counting s k now" "issued s k + 1"] by simp
  finally show ?case
    using issue.hyps(2) locks_ok_fence [OF issue.prems, of k] locks_ok_issued [OF issue.prems, of k]
      locks_ok_finite [OF issue.prems, of k]
    by (intro locks_okI [OF issue.prems, of k]) (fastforce split: if_splits)+
next
  case (prolong s k f h s' u)
  have "counting s' k now \<subseteq> counting s k now"
    using prolong.hyps by (auto simp: counting_def split: if_splits)
  then have "card (counting s' k now) \<le> cap k"
    using counting_finite [OF prolong.prems] locks_ok_card [OF prolong.prems]
    by (meson card_mono order_trans)
  then show ?case
    using prolong.hyps locks_ok_fence [OF prolong.prems, of k] locks_ok_issued [OF prolong.prems, of k]
      locks_ok_finite [OF prolong.prems, of k]
    by (intro locks_okI [OF prolong.prems, of k]) (auto split: if_splits)
next
  case (free s k f s')
  have "counting s' k now \<subseteq> counting s k now"
    using free.hyps by (auto simp: counting_def split: if_splits)
  then have "card (counting s' k now) \<le> cap k"
    using counting_finite [OF free.prems] locks_ok_card [OF free.prems]
    by (meson card_mono order_trans)
  then show ?case
    using free.hyps(2) locks_ok_fence [OF free.prems, of k] locks_ok_issued [OF free.prems, of k]
      locks_ok_finite [OF free.prems, of k]
    by (intro locks_okI [OF free.prems, of k]) (auto split: if_splits)
next
  case (transfer s k f h s' p u)
  let ?new = "issued s k + 1"
  have f: "f \<in> counting s k now" using transfer.hyps by (simp add: counting_def)
  have "counting s' k now \<subseteq> insert ?new (counting s k now - {f})"
    using transfer.hyps by (auto simp: counting_def split: if_splits)
  then have "card (counting s' k now) \<le> card (insert ?new (counting s k now - {f}))"
    using counting_finite [OF transfer.prems] by (intro card_mono) auto
  also have "\<dots> \<le> Suc (card (counting s k now - {f}))" by (rule card_insert_le_m1) auto
  also have "\<dots> = card (counting s k now)"
    by (rule card_Suc_Diff1 [OF counting_finite [OF transfer.prems] f])
  also have "\<dots> \<le> cap k" by (rule locks_ok_card [OF transfer.prems])
  finally show ?case
    using transfer.hyps(3) locks_ok_fence [OF transfer.prems, of k] locks_ok_issued [OF transfer.prems, of k]
      locks_ok_finite [OF transfer.prems, of k]
    by (intro locks_okI [OF transfer.prems, of k]) (fastforce split: if_splits)+
qed

interpretation lock_service: timed_invariant no_locks "\<lambda>t. (serve cap t)\<^sup>*\<^sup>*" "locks_ok cap" for cap :: "'k \<Rightarrow> nat"
proof unfold_locales
  show "locks_ok cap t (no_locks :: ('k, 'c, 'p) lock_service)" for t
    by (simp add: locks_ok_def no_locks_def counting_def)
  show "locks_ok cap t' s" if "locks_ok cap t s" "t \<le> t'" for t t' and s :: "('k, 'c, 'p) lock_service"
    using that by (rule locks_ok_later)
  show "locks_ok cap t s'" if "locks_ok cap t s" "(serve cap t)\<^sup>*\<^sup>* s s'" for t and s s' :: "('k, 'c, 'p) lock_service"
    using that(2,1) by (induction rule: rtranclp_induct) (auto dest: serve_locks_ok)
qed

end
