(* ===== verification/Store_Refine.thy ===== *)
theory Store_Refine
  imports Store_Steps Lock_Spec
begin

text \<open>
  The Postgres store implements the lock service of \<open>Lock_Spec\<close>: the abstraction of a database
  keeps the fence counters and, for every domain, the executions whose row is still \<open>ACTIVE\<close>,
  by fence. Every step of the store is a sequence of steps of the service.
\<close>

declare split_paired_All [simp del] split_paired_Ex [simp del]

definition hold_of :: "execution \<Rightarrow> (string, principal) holding" where
  "hold_of e = \<lparr>ho_customer = e_CustomerID e, ho_principal = e_Principal e, ho_until = e_ExpiresAt e\<rparr>"

definition lock_abs :: "db \<Rightarrow> (domain, string, principal) lock_service" where
  "lock_abs d =
     \<lparr>issued = (\<lambda>k. case domains d k of None \<Rightarrow> 0 | Some f \<Rightarrow> f),
      held = (\<lambda>k f. map_option hold_of
        (find (\<lambda>e. dom_of e = k \<and> e_Fence e = f \<and> e_State e = StateActive) (executions d)))\<rparr>"

definition row_for :: "db \<Rightarrow> domain \<Rightarrow> int \<Rightarrow> execution \<Rightarrow> bool" where
  "row_for d k f e \<longleftrightarrow> e \<in> set (executions d) \<and> dom_of e = k \<and> e_Fence e = f \<and> e_State e = StateActive"

lemma row_for_unique: "rows_ok d \<Longrightarrow> row_for d k f e \<Longrightarrow> row_for d k f e' \<Longrightarrow> e = e'"
  unfolding row_for_def using same_fence [of d e e'] by (simp add: row_key_def)

lemma held_abs: "rows_ok d \<Longrightarrow> held (lock_abs d) k f = Some h \<longleftrightarrow> (\<exists>e. row_for d k f e \<and> h = hold_of e)"
proof -
  assume ok: "rows_ok d"
  let ?P = "\<lambda>e. dom_of e = k \<and> e_Fence e = f \<and> e_State e = StateActive"
  show ?thesis
  proof (cases "find ?P (executions d)")
    case None
    then have "held (lock_abs d) k f = None" "\<not> row_for d k f e" for e
      by (simp add: lock_abs_def) (use None in \<open>auto simp: find_None_iff row_for_def\<close>)
    then show ?thesis by simp
  next
    case (Some e)
    then have e: "row_for d k f e" by (auto simp: find_Some_iff row_for_def)
    have "held (lock_abs d) k f = Some (hold_of e)" using Some by (simp add: lock_abs_def)
    then show ?thesis using e row_for_unique [OF ok e] by (metis option.inject)
  qed
qed

lemma issued_abs: "issued (lock_abs d) k = (case domains d k of None \<Rightarrow> 0 | Some f \<Rightarrow> f)"
  by (simp add: lock_abs_def)

lemma held_eqI:
  assumes "rows_ok d" "\<And>h. (\<exists>e. row_for d k f e \<and> h = hold_of e) \<longleftrightarrow> x = Some h"
  shows "held (lock_abs d) k f = x"
  using held_abs [OF assms(1), of k f] assms(2) by (cases x) (auto simp: option.exhaust)

lemma held_upd:
  assumes ok: "rows_ok d" "rows_ok d'" and e: "e \<in> set (executions d)"
    and d': "executions d' = upd (e_ID e) g (executions d)" and g: "\<And>x. identity (g x) = identity x"
  shows "held (lock_abs d') k f =
    (if row_key e = (k, f) then (if e_State (g e) = StateActive then Some (hold_of (g e)) else None)
     else held (lock_abs d) k f)"
proof (rule held_eqI [OF ok(2)])
  fix h
  have key: "dom_of (g e) = dom_of e" "e_Fence (g e) = e_Fence e" "e_ID (g e) = e_ID e"
    using g [of e] by (auto simp: identity_def)
  have row: "row_for d' k f x \<longleftrightarrow> (x = g e \<and> row_key e = (k, f) \<and> e_State (g e) = StateActive)
      \<or> (row_for d k f x \<and> row_key e \<noteq> (k, f))" for x
  proof (cases "x = g e")
    case True
    have "row_key e = (k, f)" if "row_for d k f (g e)" using that key by (simp add: row_for_def row_key_def)
    moreover have "row_for d' k f (g e) \<longleftrightarrow> row_key e = (k, f) \<and> e_State (g e) = StateActive"
      using key by (auto simp: row_for_def d' upd_mem [OF ok(1) e] row_key_def)
    ultimately show ?thesis using True by blast
  next
    case False
    then have "row_for d' k f x \<longleftrightarrow> row_for d k f x \<and> e_ID x \<noteq> e_ID e"
      by (auto simp: row_for_def d' upd_mem [OF ok(1) e])
    moreover have "e_ID x \<noteq> e_ID e \<longleftrightarrow> row_key e \<noteq> (k, f)" if x: "row_for d k f x"
    proof -
      from x have "x \<in> set (executions d)" "row_key x = (k, f)" by (auto simp: row_for_def row_key_def)
      then show ?thesis using same_fence [OF ok(1), of x e] same_id [OF ok(1), of x e] e by metis
    qed
    ultimately show ?thesis using False by blast
  qed
  show "(\<exists>x. row_for d' k f x \<and> h = hold_of x) \<longleftrightarrow>
      (if row_key e = (k, f) then (if e_State (g e) = StateActive then Some (hold_of (g e)) else None)
       else held (lock_abs d) k f) = Some h"
    unfolding row using held_abs [OF ok(1), of k f h] by auto
qed

lemma held_append:
  assumes ok: "rows_ok d" "rows_ok d'" and d': "executions d' = executions d @ [e]" and e: "e_State e = StateActive"
  shows "held (lock_abs d') k f = (if row_key e = (k, f) then Some (hold_of e) else held (lock_abs d) k f)"
proof (rule held_eqI [OF ok(2)])
  fix h
  have row: "row_for d' k f x \<longleftrightarrow> row_for d k f x \<or> x = e \<and> row_key e = (k, f)" for x
    using e by (auto simp: row_for_def d' row_key_def)
  have only: "x = e" if "row_for d k f x" "row_key e = (k, f)" for x
    using that ok(2) e by (intro row_for_unique [OF ok(2), of k f]) (auto simp: row)
  show "(\<exists>x. row_for d' k f x \<and> h = hold_of x) \<longleftrightarrow>
      (if row_key e = (k, f) then Some (hold_of e) else held (lock_abs d) k f) = Some h"
    unfolding row using held_abs [OF ok(1), of k f h] only by auto
qed

lemma lock_eqI: "(\<And>k. issued s k = issued s' k) \<Longrightarrow> (\<And>k f. held s k f = held s' k f) \<Longrightarrow> s = (s' :: ('k, 'c, 'p) lock_service)"
  by (intro lock_service.equality) (auto simp: fun_eq_iff)

lemma counting_abs:
  assumes ok: "rows_ok d"
  shows "int (card (counting (lock_abs d) k t)) = count_where (live k t) (executions d)"
proof -
  let ?L = "filter (live k t) (executions d)"
  have "counting (lock_abs d) k t = e_Fence ` set ?L"
    by (auto simp: counting_def held_abs [OF ok] row_for_def hold_of_def live_def IsActive_def)
  moreover have "inj_on e_Fence (set ?L)"
    by (rule inj_onI) (auto simp: live_def row_key_def intro!: same_fence [OF ok])
  moreover have "distinct ?L" using ok by (simp add: rows_ok_def distinct_map)
  ultimately show ?thesis
    by (simp add: card_image distinct_card count_where_def del: set_filter)
qed

lemma held_active:
  "rows_ok d \<Longrightarrow> e \<in> set (executions d) \<Longrightarrow> e_State e = StateActive \<Longrightarrow> held (lock_abs d) (dom_of e) (e_Fence e) = Some (hold_of e)"
  by (auto simp: held_abs row_for_def)

lemma hold_until: "now < e_ExpiresAt e \<Longrightarrow> now < ho_until (hold_of e)"
  by (simp add: hold_of_def)

theorem lease_step_serves:
  assumes step: "lease_step cap now d d'" and ok: "rows_ok d"
  shows "serve cap now (lock_abs d) (lock_abs d')"
  using step
proof cases
  case (other evs)
  then have ok': "rows_ok d'" using ok by (blast intro: rows_ok_mset)
  have "row_for d' k f x = row_for d k f x" for k f x
    using mset_eq_setD [of "executions d'" "executions d"] other by (simp add: row_for_def)
  then have "held (lock_abs d') k f = held (lock_abs d) k f" for k f
    by (intro held_eqI [OF ok']) (simp add: held_abs [OF ok])
  then have "lock_abs d' = lock_abs d"
    by (intro lock_eqI) (simp_all add: issued_abs other)
  then show ?thesis by (simp add: serve.idle)
next
  case (enqueue w evs)
  then have "lock_abs d' = lock_abs d" by (simp add: lock_abs_def)
  then show ?thesis by (simp add: serve.idle)
next
  case (open_domain k)
  then have "lock_abs d' = lock_abs d" by (auto simp: lock_abs_def fun_eq_iff)
  then show ?thesis by (simp add: serve.idle)
next
  case (grant k f e a)
  have ok': "rows_ok d'" using lease_step_rows_ok [OF step ok] .
  have room: "card (counting (lock_abs d) k now) < cap k"
    using grant(3) counting_abs [OF ok, of k now] by simp
  have e: "e_State e = StateActive" "row_key e = (k, f + 1)" using grant(2) by (auto simp: fresh_in_def row_key_def)
  have "lock_abs d' = (lock_abs d)\<lparr>issued := (issued (lock_abs d))(k := issued (lock_abs d) k + 1),
      held := (held (lock_abs d))(k := (held (lock_abs d) k)(issued (lock_abs d) k + 1 \<mapsto> hold_of e))\<rparr>"
    by (rule lock_eqI) (auto simp: held_append [OF ok ok' grant(6) e(1)] e(2) issued_abs grant(1,5))
  with room show ?thesis by (rule serve.issue)
next
  case (extend e ttl sid evs)
  have ok': "rows_ok d'" using lease_step_rows_ok [OF step ok] .
  have e: "e_State e = StateActive" "e_ExpiresAt e > now" using extend(2) by (auto simp: live_def IsActive_def)
  have "lock_abs d' = (lock_abs d)\<lparr>held := (held (lock_abs d))(dom_of e := (held (lock_abs d) (dom_of e))
      (e_Fence e \<mapsto> (hold_of e)\<lparr>ho_until := e_ExpiresAt (extended now ttl sid e)\<rparr>))\<rparr>"
    by (rule lock_eqI)
      (auto simp: held_upd [OF ok ok' extend(1,4)] row_key_def issued_abs extend(3) e(1),
       simp add: hold_of_def extended_def)
  with held_active [OF ok extend(1) e(1)] hold_until [OF e(2)] show ?thesis by (rule serve.prolong)
next
  case (finish e st ty a reason)
  have ok': "rows_ok d'" using lease_step_rows_ok [OF step ok] .
  have "lock_abs d' = (lock_abs d)\<lparr>held := (held (lock_abs d))(dom_of e := (held (lock_abs d) (dom_of e))(e_Fence e := None))\<rparr>"
    by (rule lock_eqI)
      (auto simp: held_upd [OF ok ok' finish(1,7)] row_key_def issued_abs finish(3,6))
  with held_active [OF ok finish(1,2)] show ?thesis by (intro serve.free) simp_all
next
  case (handover e k f s a b)
  let ?m = "d\<lparr>executions := upd (e_ID e) (ended StateHandedOff now ReasonHandedOff (e_ID s)) (executions d)\<rparr>"
  have ok': "rows_ok d'" using lease_step_rows_ok [OF step ok] .
  have okm: "rows_ok ?m"
    using ok by (rule rows_ok_upd [of d ?m "e_ID e" "ended StateHandedOff now ReasonHandedOff (e_ID s)"]) auto
  have e: "e_State e = StateActive" "e_ExpiresAt e > now" "dom_of e = k"
    using handover(2) by (auto simp: live_def IsActive_def)
  have s: "e_State s = StateActive" "row_key s = (k, f + 1)" using handover(4) by (auto simp: fresh_in_def row_key_def)
  have "hold_of s = (hold_of e)\<lparr>ho_principal := e_Principal s, ho_until := e_ExpiresAt s\<rparr>"
    using handover(5) by (simp add: hold_of_def)
  moreover have key: "row_key e = (k, e_Fence e)" using e(3) by (simp add: row_key_def)
  moreover have m: "held (lock_abs ?m) j g = (if row_key e = (j, g) then None else held (lock_abs d) j g)" for j g
    by (subst held_upd [OF ok okm handover(1), of "ended StateHandedOff now ReasonHandedOff (e_ID s)"]) simp_all
  moreover have "held (lock_abs d') j g = (if row_key s = (j, g) then Some (hold_of s) else held (lock_abs ?m) j g)" for j g
    by (rule held_append [OF okm ok']) (simp_all add: handover(12) s(1))
  ultimately have "lock_abs d' = (lock_abs d)\<lparr>issued := (issued (lock_abs d))(k := issued (lock_abs d) k + 1),
      held := (held (lock_abs d))(k := (held (lock_abs d) k)(e_Fence e := None, issued (lock_abs d) k + 1 \<mapsto>
        (hold_of e)\<lparr>ho_principal := e_Principal s, ho_until := e_ExpiresAt s\<rparr>))\<rparr>"
    by (intro lock_eqI) (auto simp: m key issued_abs handover(3,11) s(2) split_paired_all)
  with held_active [OF ok handover(1) e(1), unfolded e(3)] hold_until [OF e(2)] show ?thesis
    by (rule serve.transfer)
qed

lemma lock_abs_view: "lease_view d = lease_view d' \<Longrightarrow> lock_abs d = lock_abs d'"
  by (simp add: lease_view_def lock_abs_def)

lemma lease_steps_serve: "lease_steps cap now d d' \<Longrightarrow> rows_ok d \<Longrightarrow> (serve cap now)\<^sup>*\<^sup>* (lock_abs d) (lock_abs d')"
proof (induction rule: rtranclp_induct)
  case (step y z)
  then have "rows_ok y" by (blast intro: lease_steps_rows_ok)
  with step show ?case by (meson lease_step_serves rtranclp.rtrancl_into_rtrancl)
qed simp

interpretation store_lock: timed_simulation empty_db "store_step cap" "lease_inv cap" lock_abs no_locks
    "\<lambda>t. (serve cap t)\<^sup>*\<^sup>*" for cap
proof unfold_locales
  show "lock_abs empty_db = no_locks"
    by (simp add: lock_abs_def no_locks_def empty_db_def fun_eq_iff)
  show "(serve cap t)\<^sup>*\<^sup>* (lock_abs d) (lock_abs d')" if "lease_inv cap t d" "store_step cap t d d'" for t d d'
    using store_step_effect [OF that(2,1)] that(1) unfolding lease_effect_def lease_inv_def
    by (metis lease_steps_serve lock_abs_view)
qed


end
