(* ===== verification/Store_Props.thy ===== *)
theory Store_Props
  imports Store_Refine
begin

text \<open>
  The properties of the lease store: capacity, fencing, history, audit and the behaviour of
  each operation, with concrete runs of the store as witnesses.
\<close>

declare split_paired_All [simp del] split_paired_Ex [simp del]

section \<open>Concrete runs\<close>

definition after :: "'a db_op \<Rightarrow> db \<Rightarrow> db" where
  "after m d = fst (snd (m d []))"

lemma ends_after: "ends m d (after m d)"
  unfolding ends_def after_def by blast

definition answer :: "'a db_op \<Rightarrow> db \<Rightarrow> 'a" where
  "answer m d = projr (fst (m d []))"

lemma runs_answer: "\<not> isl (fst (m d [])) \<Longrightarrow> runs m d (answer m d) (after m d)"
proof -
  assume "\<not> isl (fst (m d []))"
  then have "m d [] = (Inr (answer m d), after m d, snd (snd (m d [])))"
    by (simp add: answer_def after_def prod_eq_iff)
  then show ?thesis by (rule runsI)
qed

definition demo_req :: "string \<Rightarrow> acquire_request" where
  "demo_req p = \<lparr>q_MerchantID = ''m'', q_DomainKey = ''k'', q_CustomerID = ''c'',
     q_Principal = \<lparr>p_Type = ''agent'', p_ID = p\<rparr>, q_SessionID = ''s'' @ p, q_Resource = ''r'', q_Action = ''hold'',
     q_RuleName = ''rule'', q_MaxActive = 1, q_TTL = 60 * second, q_MaxLifetime = 15 * minute,
     q_Precedence = [], q_MaxWaiters = 1, q_MaxOps = 0, q_RequestID = ''req''\<rparr>"

definition demo1 :: db where "demo1 = after (Acquire 0 ''a'' (demo_req ''p'')) empty_db"
definition demo2 :: db where "demo2 = after (Acquire second ''b'' (demo_req ''q'')) demo1"
definition demo3 :: db where
  "demo3 = after (transact (endBody (2 * second) ''k'' ''m'' ''exe_61'' ''sp'' ''req'' StateReleased ReasonReleased True)) demo2"

definition one :: "domain \<Rightarrow> nat" where "one k = 1"

lemma demo1_exec: "map (\<lambda>e. (e_ID e, e_Fence e, e_State e)) (executions demo1) = [(''exe_61'', 1, StateActive)]"
  by code_simp

lemma demo2_wait: "map w_ID (waiters demo2) = [''exe_62'']"
  by code_simp

lemma demo3_exec: "map (\<lambda>e. (e_ID e, e_Fence e, e_State e)) (executions demo3)
   = [(''exe_61'', 1, StateReleased), (''exe_62'', 2, StateActive)]"
  by code_simp

lemma step_acquire:
  "q_MaxActive (acquireDefaults req) \<le> int (cap (q_MerchantID req, q_DomainKey req)) \<Longrightarrow>
   store_step cap now d (after (Acquire now rnd req) d)"
  by (rule store_step.lease [OF lease_txn.acquire [OF ends_after]])

lemma demo_step: "store_step one now d (after (Acquire now rnd (demo_req p)) d)"
  by (rule step_acquire) (simp add: acquireDefaults_def demo_req_def one_def)

lemma reach1: "reachable one 0 demo1"
  unfolding demo1_def by (rule timed_reach.later [OF timed_reach.start order_refl]) (rule demo_step)

lemma reach2: "reachable one second demo2"
  unfolding demo2_def by (rule timed_reach.later [OF reach1 _ demo_step]) simp

lemma step_demo3: "store_step one (2 * second) demo2 demo3"
  unfolding demo3_def by (rule store_step.lease [OF lease_txn.release [OF ends_after]])

lemma reach3: "reachable one (2 * second) demo3"
  by (rule timed_reach.later [OF reach2 _ step_demo3]) simp

lemma run23: "store_run one second demo2 (2 * second) demo3"
  by (rule store_run.there [OF store_run.here _ step_demo3]) simp

section \<open>Capacity\<close>



text \<open>Mutual exclusion: in a domain whose requests all have \<open>max_active\<close> 1, two executions that
  are live at the same time are the same execution.\<close>

theorem store_mutual_exclusion:
  assumes "reachable cap t d" "cap k \<le> 1"
    and "e \<in> set (executions d)" "live k t e" "e' \<in> set (executions d)" "live k t e'"
  shows "e = e'"
proof -
  have "count_where (live k t) (executions d) \<le> 1"
    using within_cap_count [of cap t d k] store.reach_inv [OF assms(1)] assms(2)
    by (simp add: lease_inv_def)
  then have "length (filter (live k t) (executions d)) \<le> 1" by (simp add: count_where_def)
  moreover have "e \<in> set (filter (live k t) (executions d))" "e' \<in> set (filter (live k t) (executions d))"
    using assms by auto
  ultimately show ?thesis
    by (cases "filter (live k t) (executions d)") auto
qed

lemma demo3_live:
  "last (executions demo3) \<in> set (executions demo3)" "live (''m'', ''k'') (2 * second) (last (executions demo3))"
  "executions demo3 ! 1 \<in> set (executions demo3)" "live (''m'', ''k'') (2 * second) (executions demo3 ! 1)"
  by code_simp+

theorem store_mutual_exclusion_witness:
  "live (''m'', ''k'') (2 * second) (executions demo3 ! 1) \<and> last (executions demo3) = executions demo3 ! 1"
  using store_mutual_exclusion [OF reach3 _ demo3_live] demo3_live by (simp add: one_def)

section \<open>Fencing and history\<close>

lemma later_fence:
  assumes "reachable cap t d" "store_run cap t d t' d'"
    and "e \<in> set (executions d)" "e' \<in> set (executions d')"
    and "e_ID e' \<notin> e_ID ` set (executions d)" "dom_of e' = dom_of e"
  shows "e_Fence e < e_Fence e'"
proof -
  have ok: "rows_ok d" using store.reach_inv [OF assms(1)] by (simp add: lease_inv_def)
  then obtain f where f: "domains d (dom_of e) = Some f" "e_Fence e \<le> f"
    using assms(3) by (auto simp: rows_ok_def row_ok_def)
  have "evolves d d'" using store_run_evolves [OF assms(2,1)] .
  then have "f < e_Fence e'" using assms(4-6) f(1) unfolding evolves_def by metis
  with f(2) show ?thesis by simp
qed

text \<open>C3. Fencing: if a state \<open>d'\<close> comes after \<open>d\<close> in a run of the store, an execution granted in
  between has a larger fence than every execution the same domain had in \<open>d\<close>, whatever became of
  those.\<close>

theorem store_fences_increase:
  assumes "reachable cap t d" "store_run cap t d t' d'"
    and "e \<in> set (executions d)" "e' \<in> set (executions d')"
    and "e_ID e' \<notin> e_ID ` set (executions d)" "dom_of e' = dom_of e"
  shows "e_Fence e < e_Fence e'"
  by (rule later_fence [OF assms])

lemma demo23_rows:
  "hd (executions demo2) \<in> set (executions demo2)" "last (executions demo3) \<in> set (executions demo3)"
  "e_ID (last (executions demo3)) \<notin> e_ID ` set (executions demo2)"
  "dom_of (last (executions demo3)) = dom_of (hd (executions demo2))"
  by code_simp+

theorem store_fences_increase_witness:
  "e_Fence (hd (executions demo2)) < e_Fence (last (executions demo3))"
  by (rule store_fences_increase [OF reach2 run23 demo23_rows])

text \<open>C4. History: an execution never disappears; its identifier determines it in every later state,
  its domain, customer, principal, fence, grant time and maximal lifetime never change, and once it
  has ended the row does not change at all.\<close>

theorem store_history:
  assumes "reachable cap t d" "store_run cap t d t' d'" "e \<in> set (executions d)"
  shows "\<exists>!e'. e' \<in> set (executions d') \<and> e_ID e' = e_ID e
    \<and> identity e' = identity e \<and> (e_State e \<noteq> StateActive \<longrightarrow> e' = e)"
proof -
  have ok: "rows_ok d'"
    using store.reach_inv [OF store_run_reachable [OF assms(2,1)]] by (simp add: lease_inv_def)
  from store_run_evolves [OF assms(2,1)] assms(3) obtain e' where
    "e' \<in> set (executions d')" "identity e' = identity e" "e_State e \<noteq> StateActive \<longrightarrow> e' = e"
    unfolding evolves_def by blast
  moreover from this have "e_ID e' = e_ID e" by (simp add: identity_def)
  ultimately show ?thesis using same_id [OF ok] by metis
qed

theorem store_history_witness:
  "\<exists>!e'. e' \<in> set (executions demo3) \<and> e_ID e' = e_ID (hd (executions demo2))
    \<and> identity e' = identity (hd (executions demo2))
    \<and> (e_State (hd (executions demo2)) \<noteq> StateActive \<longrightarrow> e' = hd (executions demo2))"
  by (rule store_history [OF reach2 run23 demo23_rows(1)])

text \<open>C16. In every reachable state the fence of an execution lies between 1 and its domain's counter,
  identifiers are unique, no two executions of a domain share a fence, and an execution is \<open>ACTIVE\<close>
  exactly while it has no end time.\<close>

theorem store_rows:
  assumes "reachable cap t d" "e \<in> set (executions d)" "e' \<in> set (executions d)"
  shows "(\<exists>f. domains d (dom_of e) = Some f \<and> 1 \<le> e_Fence e \<and> e_Fence e \<le> f)
    \<and> (e_ID e = e_ID e' \<longrightarrow> e = e') \<and> (dom_of e = dom_of e' \<longrightarrow> e_Fence e = e_Fence e' \<longrightarrow> e = e')
    \<and> (e_State e = StateActive \<longleftrightarrow> e_EndedAt e = None)"
proof -
  have ok: "rows_ok d" using store.reach_inv [OF assms(1)] by (simp add: lease_inv_def)
  have "row_ok (domains d) e" using ok assms(2) by (simp add: rows_ok_def)
  then show ?thesis
    using same_id [OF ok assms(2,3)] same_fence [OF ok assms(2,3)] by (auto simp: row_ok_def row_key_def)
qed

theorem store_rows_witness:
  "(\<exists>f. domains demo3 (dom_of (last (executions demo3))) = Some f
      \<and> 1 \<le> e_Fence (last (executions demo3)) \<and> e_Fence (last (executions demo3)) \<le> f)
   \<and> e_State (last (executions demo3)) = StateActive"
proof
  show "e_State (last (executions demo3)) = StateActive" by code_simp
qed (use store_rows [OF reach3 demo23_rows(2) demo23_rows(2)] in blast)



section \<open>Audit\<close>

text \<open>C17. Audit: whatever a lease transaction does to a reachable database, also when it fails or its
  acknowledgement is lost, it removes no audit event, every execution it grants has an
  \<open>EXECUTION_GRANTED\<close> event with its identifier, fence, customer and principal, and every
  execution it ends has a \<open>RELEASED\<close>, \<open>REVOKED\<close>, \<open>EXPIRED\<close> or \<open>HANDED_OFF\<close> event.\<close>

theorem lease_txn_logged:
  assumes "reachable cap t d" "t \<le> t'" "lease_txn cap t' d d'"
  shows "logged d d'"
proof -
  have "lease_inv cap t' d" using store.inv_wait [OF store.reach_inv [OF assms(1)] assms(2)] .
  with lease_txn_steps [OF assms(3)] show ?thesis
    by (auto simp: lease_inv_def intro: lease_steps_logged)
qed

theorem lease_txn_logged_witness:
  "logged demo2 demo3 \<and> map a_Type (audits demo3)
     = [''EXECUTION_GRANTED'', ''EXECUTION_QUEUED'', ''EXECUTION_RELEASED'', ''EXECUTION_GRANTED'']"
proof
  have "lease_txn one (2 * second) demo2 demo3"
    unfolding demo3_def by (rule lease_txn.release [OF ends_after])
  then show "logged demo2 demo3" by (rule lease_txn_logged [OF reach2, rotated]) simp
qed code_simp

end
