(* ===== verification/Acquire_Props.thy ===== *)
theory Acquire_Props
  imports Store_Props
begin

text \<open>
  The behaviour of \<open>Acquire\<close> on every branch: which verdict it reaches and what it leaves behind,
  when it must succeed, and what an error means.
\<close>

definition acquire_verdict :: "time \<Rightarrow> acquire_request \<Rightarrow> db \<Rightarrow> acquire_status" where
  "acquire_verdict now req d =
     (let actives = filter (live (q_MerchantID req, q_DomainKey req) now) (executions d) in
      if q_Principal req \<in> set (map e_Principal actives) then StatusAlreadyHeld
      else if int (length actives) < q_MaxActive req then StatusGranted
      else if q_MaxWaiters req > 0 \<and> (waits now req d \<or> line now req d < q_MaxWaiters req) then StatusQueued
      else StatusBusy)"

text \<open>What the caller may rely on for each status.\<close>

definition acquire_outcome :: "time \<Rightarrow> acquire_request \<Rightarrow> db \<Rightarrow> acquire_result \<Rightarrow> db \<Rightarrow> bool" where
  "acquire_outcome now req d r d' \<longleftrightarrow>
     (case r_Status r of
        StatusGranted \<Rightarrow> (\<exists>e. r_Execution r = Some e \<and> executions d' = executions d @ [e]
           \<and> dom_of e = (q_MerchantID req, q_DomainKey req) \<and> e_Principal e = q_Principal req
           \<and> e_CustomerID e = q_CustomerID req \<and> e_State e = StateActive
           \<and> e_ExpiresAt e = now + interval (q_TTL req)
           \<and> domains d' (dom_of e) = Some (e_Fence e) \<and> waiters d' = waiters d)
      | StatusAlreadyHeld \<Rightarrow> (\<exists>e \<in> set (executions d). live (q_MerchantID req, q_DomainKey req) now e
           \<and> e_Principal e = q_Principal req
           \<and> r_Execution r = Some (extended now (q_TTL req) (q_SessionID req) e)
           \<and> executions d' = upd (e_ID e) (extended now (q_TTL req) (q_SessionID req)) (executions d)
           \<and> waiters d' = waiters d)
      | StatusQueued \<Rightarrow> executions d' = executions d \<and> waits now req d'
           \<and> (\<exists>w. r_Execution r = Some (waiterAsExecution w) \<and> w_Principal w = q_Principal req)
      | StatusBusy \<Rightarrow> r_Execution r = None \<and> executions d' = executions d \<and> waiters d' = waiters d
      | StatusDenied \<Rightarrow> False)"

lemma stored_waiter_waits:
  "0 < interval (q_MaxLifetime req) \<Longrightarrow> waiters d' = ws @ [stored_waiter now rnd req] \<Longrightarrow> waits now req d'"
  by (simp add: waits_def stored_waiter_def newWaiter_def)

lemma acquireBody_decides:
  assumes run: "runs (acquireBody now rnd req) d r d'" and ok: "rows_ok d"
    and req: "1 \<le> q_MaxActive req" "0 < interval (q_MaxLifetime req)"
  shows "r_Status r = acquire_verdict now req d \<and> acquire_outcome now req d r d'"
proof -
  let ?k = "(q_MerchantID req, q_DomainKey req)"
  let ?d = "opened (q_MerchantID req) (q_DomainKey req) d"
  have ok': "rows_ok ?d" using lease_steps_rows_ok [OF opened_steps ok] .
  have waits: "waits now req ?d = waits now req d" by (simp add: waits_def)
  show ?thesis
    using run refl
  proof (cases rule: runs_acquireBody)
    case (held a)
    then have a: "a \<in> set (executions ?d)" "e_State a = StateActive" "live ?k now a"
      by (auto simp: live_def IsActive_def)
    with held runs_resumeHeld [OF held(3) ok' a(1,2)] show ?thesis
      by (force simp: acquire_verdict_def acquire_outcome_def)
  next
    case (full h rest)
    show ?thesis
    proof (cases "q_MaxWaiters req > 0")
      case True
      with full(4) have "runs (enqueueWaiter now rnd req h) ?d r d'" by simp
      then show ?thesis
        using full(1-3) True stored_waiter_waits [OF req(2), of d' "waiters d" now rnd]
        by (cases rule: runs_enqueueWaiter)
          (auto simp: acquire_verdict_def acquire_outcome_def waits Let_def)
    next
      case False
      with full show ?thesis
        by (auto simp: acquire_verdict_def acquire_outcome_def Let_def dest!: runs_busyResult)
    qed
  next
    case free
    from free(3) show ?thesis
    proof (cases rule: runs_grantNew)
      case (1 f e)
      with free(1,2) req(1) show ?thesis
        by (auto simp: acquire_verdict_def acquire_outcome_def Let_def grantedExecution_def dom_of_def)
    qed
  qed
qed

lemma runs_Acquire:
  assumes "runs (Acquire now rnd req) d r d'"
  shows "runs (acquireBody now rnd (acquireDefaults req)) d r d'"
  using assms by (auto simp: Acquire_def split: if_splits dest: runs_transact)

lemma acquireDefaults_interval:
  "q_MaxLifetime req \<le> 0 \<or> millisecond \<le> q_MaxLifetime req \<Longrightarrow> 0 < interval (q_MaxLifetime (acquireDefaults req))"
  by (auto simp: acquireDefaults_def intro!: interval_pos)

text \<open>C8. What \<open>Acquire\<close> decides: on a reachable database, whenever it returns without error, its
  status is the one the live executions and waiters of the domain determine (already held by this
  principal, room for a grant, room in the queue, or busy), and for each status the rows, the fence
  and the returned execution are as documented. (A lifetime below a millisecond is the only request
  excluded.)\<close>

theorem acquire_decides:
  assumes "reachable cap t d" "runs (Acquire now rnd req) d r d'"
    and "q_MaxLifetime req \<le> 0 \<or> millisecond \<le> q_MaxLifetime req"
  shows "r_Status r = acquire_verdict now (acquireDefaults req) d
    \<and> acquire_outcome now (acquireDefaults req) d r d'"
  using acquireBody_decides [OF runs_Acquire [OF assms(2)]] store.reach_inv [OF assms(1)]
    acquireDefaults_interval [OF assms(3)]
  by (simp add: lease_inv_def)

definition demo_answer :: "acquire_result" where
  "demo_answer = answer (Acquire second ''b'' (demo_req ''q'')) demo1"

lemma demo_answer_run: "runs (Acquire second ''b'' (demo_req ''q'')) demo1 demo_answer demo2"
  unfolding demo_answer_def demo2_def by (rule runs_answer) code_simp

theorem acquire_decides_witness:
  "r_Status demo_answer = StatusQueued
   \<and> r_Status demo_answer = acquire_verdict second (acquireDefaults (demo_req ''q'')) demo1
   \<and> acquire_outcome second (acquireDefaults (demo_req ''q'')) demo1 demo_answer demo2"
proof (intro conjI)
  have ms: "q_MaxLifetime (demo_req ''q'') \<le> 0 \<or> millisecond \<le> q_MaxLifetime (demo_req ''q'')"
    by (simp add: demo_req_def)
  note acquire_decides [OF reach1 demo_answer_run ms]
  then show "r_Status demo_answer = acquire_verdict second (acquireDefaults (demo_req ''q'')) demo1"
    "acquire_outcome second (acquireDefaults (demo_req ''q'')) demo1 demo_answer demo2" by blast+
  show "r_Status demo_answer = StatusQueued" by code_simp
qed

section \<open>Errors\<close>

definition db_errors :: "store_error set" where
  "db_errors = {ErrConn, ErrNoRows, ErrSQL}"

lemma db_errors_mem [simp]: "ErrConn \<in> db_errors" "ErrNoRows \<in> db_errors" "ErrSQL \<in> db_errors"
  by (simp_all add: db_errors_def)

lemma wrapStore_db_errors: "wrapStore ` insert ErrConn db_errors \<subseteq> {ErrUnavailable}"
  by (auto simp: db_errors_def wrapStore_def)

lemma raises_statements [error_intro]:
  "raises db_errors (insertAudit now m a)" "raises db_errors (bumpFence m k)"
  "raises db_errors (insertExecution e)" "raises db_errors (updateExecution P f)"
  "raises db_errors (insertWaiter w)" "raises db_errors (insertDomain m k)" "raises db_errors (lockDomain m k)"
  unfolding insertAudit_def bumpFence_def insertExecution_def updateExecution_def insertWaiter_def
    insertDomain_def lockDomain_def
  by (intro error_intro; auto split: option.splits if_splits)+

lemma raises_attempt_row:
  "(\<And>a. raises db_errors (k (Inr a))) \<Longrightarrow> (\<And>e. e \<in> db_errors \<Longrightarrow> raises db_errors (k (Inl e))) \<Longrightarrow>
   raises db_errors (attempt (query_row f) k)"
  by (rule raises_attempt [where E' = db_errors]) (auto intro!: error_intro)

lemma raises_busyResult [error_intro]: "raises db_errors (busyResult now req h)"
  unfolding busyResult_def by (intro error_intro)

lemma raises_waiterPosition [error_intro]: "raises db_errors (waiterPosition now m k t)"
  unfolding waiterPosition_def by (intro error_intro) simp

lemma raises_enqueueWaiter [error_intro]: "raises db_errors (enqueueWaiter now rnd req h)"
  unfolding enqueueWaiter_def loadWaiterByPrincipal_def
  by (rule raises_attempt_row) (auto simp: Let_def intro!: error_intro)

lemma raises_acquireBody: "raises db_errors (acquireBody now rnd req)"
  unfolding acquireBody_def resumeHeld_def grantNew_def Let_def
  by (intro error_intro) simp_all

text \<open>C9. An error of \<open>Acquire\<close> fails closed and all or nothing: it is \<open>ErrInvalidInput\<close>, for a request
  without merchant, domain, customer or principal, and nothing changed; or it is \<open>ErrUnavailable\<close>,
  and the database is as it was or holds the complete outcome of the decision, whose acknowledgement
  was lost.\<close>

theorem acquire_errors:
  assumes "reachable cap t d" "Acquire now rnd req d fs = (Inl err, d', fs')"
    and "q_MaxLifetime req \<le> 0 \<or> millisecond \<le> q_MaxLifetime req"
  shows "err = ErrInvalidInput \<and> d' = d
      \<and> (q_MerchantID req = '''' \<or> q_DomainKey req = '''' \<or> q_CustomerID req = '''' \<or> p_ID (q_Principal req) = '''')
    \<or> err = ErrUnavailable
      \<and> (d' = d \<or> (\<exists>r. r_Status r = acquire_verdict now (acquireDefaults req) d
                       \<and> acquire_outcome now (acquireDefaults req) d r d'))"
proof (cases "q_MerchantID req = '''' \<or> q_DomainKey req = '''' \<or> q_CustomerID req = '''' \<or> p_ID (q_Principal req) = ''''")
  case True
  with assms show ?thesis by (auto simp: Acquire_def throw_def)
next
  case False
  let ?body = "acquireBody now rnd (acquireDefaults req)"
  from False assms(2) have tx: "transact ?body d fs = (Inl err, d', fs')" by (simp add: Acquire_def)
  have "raises {ErrUnavailable} (transact ?body)"
    by (rule raises_transact [OF raises_acquireBody wrapStore_db_errors])
  from raisesD [OF this tx] have err: "err = ErrUnavailable" by simp
  have ok: "rows_ok d" using store.reach_inv [OF assms(1)] by (simp add: lease_inv_def)
  have "ends (transact ?body) d d'" using tx by (rule endsI)
  from ends_transact [OF this] err show ?thesis
    using acquireBody_decides [OF _ ok _ acquireDefaults_interval [OF assms(3)]] by fastforce
qed

theorem acquire_errors_witness:
  "\<exists>d' fs'. Acquire second ''b'' (demo_req ''q'') demo1 [Fine, Fine, Fail] = (Inl ErrUnavailable, d', fs')
    \<and> (d' = demo1 \<or> (\<exists>r. r_Status r = acquire_verdict second (acquireDefaults (demo_req ''q'')) demo1
                       \<and> acquire_outcome second (acquireDefaults (demo_req ''q'')) demo1 r d'))"
proof -
  have "fst (Acquire second ''b'' (demo_req ''q'') demo1 [Fine, Fine, Fail]) = Inl ErrUnavailable"
    by code_simp
  then obtain d' fs' where run: "Acquire second ''b'' (demo_req ''q'') demo1 [Fine, Fine, Fail] = (Inl ErrUnavailable, d', fs')"
    by (metis prod.collapse)
  from acquire_errors [OF reach1 run] show ?thesis
    using run by (simp add: demo_req_def)
qed

section \<open>Availability\<close>

lemma succeeds_statements [success_simps]:
  "succeeds (andThen (insertAudit now m a) h) d \<longleftrightarrow> succeeds (h ()) (d\<lparr>audits := audits d @ [audit_of now m a]\<rparr>)"
  "succeeds (andThen (insertDomain m k) h) d \<longleftrightarrow> succeeds (h ()) (opened m k d)"
  "succeeds (andThen (lockDomain m k) h) d \<longleftrightarrow> domains d (m, k) \<noteq> None \<and> succeeds (h ()) d"
  by (auto simp: insertAudit_def insertDomain_def lockDomain_def success_simps opened_def)

lemma succeeds_bumpFence:
  "domains d (m, k) = Some f \<Longrightarrow> f < max_bigint \<Longrightarrow>
   succeeds (h (f + 1)) (d\<lparr>domains := (domains d)((m, k) \<mapsto> f + 1)\<rparr>) \<Longrightarrow> succeeds (andThen (bumpFence m k) h) d"
  by (simp add: bumpFence_def success_simps)

lemma succeeds_grantNew:
  assumes "domains d (q_MerchantID req, q_DomainKey req) = Some f" "f < max_bigint"
    and "id_Execution rnd \<notin> e_ID ` set (executions d)"
  shows "succeeds (grantNew now rnd req) d"
  unfolding grantNew_def
  using assms by (intro succeeds_bumpFence [OF assms(1,2)])
    (auto simp: insertExecution_def success_simps Let_def grantedExecution_def list_ex_eq)

lemma succeeds_resumeHeld:
  assumes "rows_ok d" "a \<in> set (executions d)" "e_State a = StateActive"
    and "\<And>e. e \<in> set (executions d) \<Longrightarrow> e_RenewCount e < max_int4"
  shows "succeeds (resumeHeld now req a) d"
  unfolding resumeHeld_def updateExecution_def
  using assms(4) by (fastforce simp: success_simps find_active [OF assms(1-3)] Let_def list_ex_iff)

lemma succeeds_busyResult: "succeeds (busyResult now req h) d"
  by (simp add: busyResult_def success_simps)

lemma succeeds_enqueueWaiter:
  assumes "id_Execution rnd \<notin> w_ID ` set (waiters d)" "q_MaxActive req \<le> max_int4"
    and "\<And>w. w \<in> set (waiters d) \<Longrightarrow> waiter_dom w = (q_MerchantID req, q_DomainKey req) \<Longrightarrow>
      w_Principal w = q_Principal req \<Longrightarrow> now < w_ExpiresAt w"
  shows "succeeds (enqueueWaiter now rnd req h) d"
  unfolding enqueueWaiter_def loadWaiterByPrincipal_def insertWaiter_def waiterPosition_def
  using assms
  by (auto simp: success_simps succeeds_busyResult Let_def newWaiter_def list_ex_eq waiter_dom_def find_None_iff
      split: option.split) (auto simp: list_ex_iff)



end
