(* ===== verification/Mutate_Props.thy ===== *)
theory Mutate_Props
  imports Store_Props
begin

text \<open>
  Renewal, release, revocation, promotion, expiry and handoff: who may perform them, what they
  change, and in which order waiters are served.
\<close>

section \<open>Reads before the transaction\<close>

lemma runs_read: "keeps (\<lambda>d. d) m \<Longrightarrow> runs m d a d' \<Longrightarrow> d' = d"
  using keepsD [of "\<lambda>d. d" m d d'] runs_ends by fastforce

lemma runs_after_read:
  assumes "runs (andThen m k) d b t" "keeps (\<lambda>d. d) m"
  obtains a where "runs m d a d" "runs (k a) d b t"
  using assms by (metis runs_andThenE runs_read)

text \<open>\<open>Get\<close> of an identifier that an execution has returns that execution.\<close>

lemma runs_Get_row:
  assumes run: "runs (Get now m i) d e d'" and ok: "rows_ok d"
    and x: "x \<in> set (executions d)" "e_MerchantID x = m" "e_ID x = i"
  shows "e = x"
  using run [unfolded Get_def]
proof (cases rule: runs_attempt_query_row)
  case (row y)
  then have "y \<in> set (executions d)" "e_ID y = e_ID x" using x(3) by (auto simp: find_Some_iff)
  with row(2) show ?thesis using same_id [OF ok _ x(1)] by simp
next
  case none
  with x show ?thesis by (auto simp: find_None_iff)
qed simp

section \<open>Renew\<close>

text \<open>C13. A successful \<open>Renew\<close> was asked by a session that owns the execution (its own session, or
  one of the same merchant, customer and principal); the execution was live; its expiry becomes
  \<open>now\<close> plus the TTL but never beyond its maximal lifetime; and no other row changes.\<close>

theorem renew_spec:
  assumes "reachable cap t d" "runs (Renew now m i sid rq ttl) d r d'"
  shows "\<exists>e \<in> set (executions d). e_ID e = i \<and> e_MerchantID e = m \<and> live (dom_of e) now e \<and> owns d sid e
    \<and> r = extended now ttl sid e \<and> e_ExpiresAt r \<le> e_MaxLifetimeAt e
    \<and> executions d' = upd i (\<lambda>_. r) (executions d) \<and> domains d' = domains d \<and> waiters d' = waiters d"
proof -
  have ok: "rows_ok d" using store.reach_inv [OF assms(1)] by (simp add: lease_inv_def)
  from assms(2) [unfolded Renew_def] obtain dk where
    "runs (transact (renewBody now dk m i sid rq ttl)) d r d'"
    by (rule runs_after_read) (intro frame_intro)
  from runs_transact [OF this] ok show ?thesis
  proof (cases rule: runs_renewBody)
    case (1 e a)
    have "upd (e_ID e) (extended now ttl sid) (executions d) = upd (e_ID e) (\<lambda>_. r) (executions d)"
      using 1(6) by (intro upd_cong [OF ok 1(1)]) simp
    with 1 show ?thesis by (intro bexI [of _ e]) (auto simp: extended_def)
  qed
qed

abbreviation demo_renew :: "execution db_op" where
  "demo_renew \<equiv> Renew second ''m'' ''exe_61'' ''sp'' ''req'' (60 * second)"

lemma demo_renew_ok: "\<not> isl (fst (demo_renew demo1 []))" "e_ExpiresAt (answer demo_renew demo1) = 61 * second"
  by code_simp+

theorem renew_spec_witness:
  "e_ExpiresAt (answer demo_renew demo1) = 61 * second
   \<and> (\<exists>e \<in> set (executions demo1). e_ID e = ''exe_61'' \<and> owns demo1 ''sp'' e)"
  using renew_spec [OF reach1 runs_answer [of demo_renew demo1, OF demo_renew_ok(1)]] demo_renew_ok(2) by blast

section \<open>Release and promotion\<close>

text \<open>Who is next, and what becomes of the queue when a slot may have become free.\<close>

definition promotion :: "time \<Rightarrow> domain \<Rightarrow> db \<Rightarrow> db \<Rightarrow> bool" where
  "promotion now k d d' \<longleftrightarrow>
     (if \<forall>w \<in> set (waiters d). waiter_dom w = k \<longrightarrow> w_ExpiresAt w \<le> now
      then executions d' = executions d
      else \<exists>w. first_in_line now (fst k) (snd k) d w
        \<and> (if count_where (live k now) (executions d) < waiter_cap w
           then (\<exists>f. domains d k = Some f \<and> executions d' = executions d @ [promotedExecution now w (f + 1)])
                \<and> w \<notin> set (waiters d')
           else executions d' = executions d))"

lemma first_in_line_reaped: "first_in_line now m k (reaped now m k d) w \<longleftrightarrow> first_in_line now m k d w"
  by (auto simp: first_in_line_def reaped_def waiter_dom_def)

lemma promoteLocked_promotion:
  assumes "runs (promoteLocked now m k rq) d u d'"
  shows "promotion now (m, k) d d'"
  using assms
proof (cases rule: runs_promoteLocked)
  case none
  then show ?thesis
    unfolding promotion_def by (auto simp: first_in_line_reaped not_less)
next
  case (one w f)
  then have w: "first_in_line now m k d w" by (simp add: first_in_line_reaped)
  then have "\<not> (\<forall>w \<in> set (waiters d). waiter_dom w = (m, k) \<longrightarrow> w_ExpiresAt w \<le> now)"
    by (force simp: first_in_line_def)
  moreover have "w \<notin> set (waiters d')" using one(5) by (simp add: promoted_def)
  ultimately show ?thesis
    using one w unfolding promotion_def by (auto simp: promoted_def intro!: exI [of _ w])
qed


abbreviation demo_release :: "execution db_op" where
  "demo_release \<equiv> transact (endBody (2 * second) ''k'' ''m'' ''exe_61'' ''sp'' ''req'' StateReleased ReasonReleased True)"

lemma demo_release_ok: "\<not> isl (fst (demo_release demo2 []))"
  by code_simp


section \<open>Expiry\<close>

lemma runs_expireDues_rows:
  assumes "runs (expireDues now m k es) d u d'" "rows_ok d" "distinct (map e_ID es)"
    and "\<And>e. e \<in> set es \<Longrightarrow> e \<in> set (executions d) \<and> e_State e = StateActive \<and> e_MerchantID e = m"
  shows "x \<in> set (executions d') \<longleftrightarrow>
      x \<in> set (executions d) \<and> e_ID x \<notin> e_ID ` set es
      \<or> (\<exists>e \<in> set es. x = ended StateExpired now ReasonExpired (e_SuccessorID e) e)"
  using assms
proof (induction es arbitrary: d)
  case Nil
  then show ?case by simp
next
  case (Cons e es)
  let ?d = "expired_db now m k e d"
  from Cons.prems(4) [of e] have e: "e \<in> set (executions d)" "e_State e = StateActive" "e_MerchantID e = m"
    by auto
  have mem: "y \<in> set (executions ?d) \<longleftrightarrow> y = ended StateExpired now ReasonExpired (e_SuccessorID e) e
      \<or> y \<in> set (executions d) \<and> e_ID y \<noteq> e_ID e" for y
    using upd_mem [OF Cons.prems(2) e(1)] by (simp add: expired_db_def)
  have new: "e_ID e \<notin> e_ID ` set es" using Cons.prems(3) by simp
  have "x \<in> set (executions d') \<longleftrightarrow> x \<in> set (executions ?d) \<and> e_ID x \<notin> e_ID ` set es
      \<or> (\<exists>e \<in> set es. x = ended StateExpired now ReasonExpired (e_SuccessorID e) e)"
  proof (rule Cons.IH)
    show "runs (expireDues now m k es) ?d u d'" by (rule runs_expireDues_Cons [OF Cons.prems(1,2) e(1,2)])
    show "rows_ok ?d"
      using expired_db_step [OF e, of one now k] Cons.prems(2) by (rule lease_step_rows_ok)
    show "distinct (map e_ID es)" using Cons.prems(3) by simp
    fix y assume y: "y \<in> set es"
    with new have "e_ID y \<noteq> e_ID e" by (force simp: image_iff)
    with Cons.prems(4) [of y] y show "y \<in> set (executions ?d) \<and> e_State y = StateActive \<and> e_MerchantID y = m"
      by (simp add: mem)
  qed
  with mem new show ?case by auto
qed


lemma promotion_executions:
  "promotion now k d d' \<Longrightarrow> executions d' = executions d
     \<or> (\<exists>w f. first_in_line now (fst k) (snd k) d w \<and> executions d' = executions d @ [promotedExecution now w (f + 1)])"
  unfolding promotion_def by (auto split: if_splits)

lemma expired_ids_kept:
  assumes rows: "\<And>x. x \<in> set xs' \<longleftrightarrow> x \<in> set xs \<and> e_ID x \<notin> e_ID ` set es
      \<or> (\<exists>e \<in> set es. x = ended StateExpired now ReasonExpired (e_SuccessorID e) e)"
    and due: "\<And>x. x \<in> set xs \<Longrightarrow> e_ID x \<in> e_ID ` set es \<Longrightarrow> x \<in> set es"
  shows "e_ID ` set xs \<subseteq> e_ID ` set xs'"
proof (rule image_subsetI)
  fix x assume x: "x \<in> set xs"
  show "e_ID x \<in> e_ID ` set xs'"
  proof (cases "e_ID x \<in> e_ID ` set es")
    case True
    with x due have "ended StateExpired now ReasonExpired (e_SuccessorID x) x \<in> set xs'" by (subst rows) auto
    then show ?thesis by (metis ended_simps(3) imageI)
  qed (use x in \<open>auto simp: rows\<close>)
qed

text \<open>C14. The sweeper: after a committed \<open>expireAndPromoteDomain\<close> on a reachable database, no execution
  that was there before is still \<open>ACTIVE\<close> in the domain with its time run out, the returned count is
  the number of those, and the executions that had not run out are untouched.\<close>

theorem expire_spec:
  assumes "reachable cap t d" "runs (expireAndPromoteDomain now m k) d n d'"
  shows "n = count_where (\<lambda>e. dom_of e = (m, k) \<and> e_State e = StateActive \<and> e_ExpiresAt e \<le> now) (executions d)
    \<and> (\<forall>e \<in> set (executions d'). dom_of e = (m, k) \<longrightarrow> e_State e = StateActive \<longrightarrow>
         e_ID e \<in> e_ID ` set (executions d) \<longrightarrow> e_ExpiresAt e > now)
    \<and> (\<forall>e \<in> set (executions d). e_State e \<noteq> StateActive \<or> e_ExpiresAt e > now \<longrightarrow> e \<in> set (executions d'))"
proof -
  have ok: "rows_ok d" using store.reach_inv [OF assms(1)] by (simp add: lease_inv_def)
  let ?due = "\<lambda>e. dom_of e = (m, k) \<and> e_State e = StateActive \<and> e_ExpiresAt e \<le> now"
  have run: "runs (expireAndPromoteBody now m k) d n d'"
    using assms(2) unfolding expireAndPromoteDomain_def by (rule runs_transact)
  from run refl show ?thesis
  proof (cases rule: runs_expireAndPromoteBody)
    case (1 d1)
    let ?es = "filter ?due (executions d)"
    have rows: "x \<in> set (executions d1) \<longleftrightarrow> x \<in> set (executions d) \<and> e_ID x \<notin> e_ID ` set ?es
        \<or> (\<exists>e \<in> set ?es. x = ended StateExpired now ReasonExpired (e_SuccessorID e) e)" for x
      by (rule runs_expireDues_rows [OF 1(1) ok])
        (use ok in \<open>auto simp: rows_ok_def dom_of_def distinct_map inj_on_def\<close>)
    have due: "e_ID x \<in> e_ID ` set ?es \<longleftrightarrow> ?due x" if "x \<in> set (executions d)" for x
      using that same_id [OF ok] by (auto simp: image_iff)
    have exec: "executions d' = executions d1 \<or> (\<exists>w f. executions d' = executions d1 @ [promotedExecution now w (f + 1)]
        \<and> w_ID w \<notin> e_ID ` set (executions d1))"
      using 1(2) by (cases rule: runs_promoteLocked) (auto simp: promoted_def)
    have ids: "e_ID ` set (executions d) \<subseteq> e_ID ` set (executions d1)"
      by (rule expired_ids_kept [where es = ?es, OF rows]) (use due in auto)
    have "e_ExpiresAt e > now" if e: "e \<in> set (executions d')" "dom_of e = (m, k)" "e_State e = StateActive"
        "e_ID e \<in> e_ID ` set (executions d)" for e
    proof -
      have "e_ID e \<in> e_ID ` set (executions d1)" using e(4) ids by blast
      then have "e \<in> set (executions d1)" using e(1) exec by auto
      then show ?thesis using e due [of e] by (auto simp: rows)
    qed
    moreover have "e \<in> set (executions d')" if "e \<in> set (executions d)" "e_State e \<noteq> StateActive \<or> e_ExpiresAt e > now" for e
      using that due [OF that(1)] exec by (auto simp: rows)
    moreover have "n = count_where ?due (executions d)" using 1(3) by (simp add: count_where_def)
    ultimately show ?thesis by blast
  qed
qed

abbreviation demo_expire :: "int db_op" where
  "demo_expire \<equiv> expireAndPromoteDomain (61 * second) ''m'' ''k''"

lemma demo_expire_ok: "\<not> isl (fst (demo_expire demo2 []))"
  "map (\<lambda>e. (e_ID e, e_State e)) (executions (after demo_expire demo2)) = [(''exe_61'', StateExpired), (''exe_62'', StateActive)]"
  by code_simp+

theorem expire_spec_witness:
  "answer demo_expire demo2 = count_where (\<lambda>e. dom_of e = (''m'', ''k'') \<and> e_State e = StateActive
      \<and> e_ExpiresAt e \<le> 61 * second) (executions demo2)
   \<and> map (\<lambda>e. (e_ID e, e_State e)) (executions (after demo_expire demo2)) = [(''exe_61'', StateExpired), (''exe_62'', StateActive)]"
  using expire_spec [OF reach2 runs_answer [of demo_expire demo2, OF demo_expire_ok(1)]] demo_expire_ok(2) by blast

section \<open>Handoff\<close>

text \<open>Who may hand an execution to whom: its owner to anybody else, or a caller of the same customer
  whose principal outranks the holder's, to itself.\<close>

definition may_hand_off :: "db \<Rightarrow> handoff_request \<Rightarrow> execution \<Rightarrow> principal \<Rightarrow> bool" where
  "may_hand_off d req old to \<longleftrightarrow>
     (\<exists>caller \<in> set (sessions d). s_ID caller = h_SessionID req \<and> s_CustomerID caller = e_CustomerID old
        \<and> (owns d (h_SessionID req) old
           \<or> to = \<lparr>p_Type = s_PrincipalType caller, p_ID = s_PrincipalID caller\<rparr>
             \<and> CanPreemptRanked to (e_Principal old) (h_Precedence req)))"

lemma handoffTarget_Inr:
  assumes "handoffTarget req callerP old hm = Inr (mode, to)"
  shows "hm \<and> mode = ModeCooperative \<and> to = h_To req
    \<or> \<not> hm \<and> mode = ModePreempt \<and> to = callerP \<and> CanPreemptRanked callerP (e_Principal old) (h_Precedence req)"
  using assms by (auto simp: handoffTarget_def Let_def mode_defs split: if_splits)

text \<open>C11. A successful \<open>Handoff\<close> had the authority to: the caller belongs to the customer of the
  execution and owns it, or takes it for a principal type of higher precedence. The successor has a
  fresh identifier, the domain's next fence, the same customer, domain and maximal lifetime and
  expires no later than that; the predecessor is \<open>HANDED_OFF\<close> and names it; all other rows stay.\<close>

theorem handoff_spec:
  assumes "reachable cap t d" "runs (Handoff now rndE rndS req) d r d'"
  shows "\<exists>old \<in> set (executions d). \<exists>succ f. live (dom_of old) now old \<and> e_ID old = h_ExecutionID req
    \<and> may_hand_off d req old (e_Principal succ) \<and> e_Principal succ \<noteq> e_Principal old
    \<and> domains d (dom_of old) = Some f \<and> e_Fence succ = f + 1 \<and> e_Fence old < e_Fence succ
    \<and> e_ID succ \<notin> e_ID ` set (executions d) \<and> dom_of succ = dom_of old
    \<and> e_CustomerID succ = e_CustomerID old \<and> e_MaxLifetimeAt succ = e_MaxLifetimeAt old
    \<and> e_ExpiresAt succ \<le> e_MaxLifetimeAt old \<and> hr_Successor r = succ
    \<and> executions d' = upd (e_ID old) (ended StateHandedOff now ReasonHandedOff (e_ID succ)) (executions d) @ [succ]"
proof -
  have ok: "rows_ok d" using store.reach_inv [OF assms(1)] by (simp add: lease_inv_def)
  let ?req = "req\<lparr>h_TTL := (if h_TTL req \<le> 0 then 60 * second else h_TTL req)\<rparr>"
  from assms(2) have "runs (attempt (Session (h_SessionID ?req)) (\<lambda>r.
          case r of
            Inl err \<Rightarrow> if err = ErrNoRows then throw ErrNotHolder else throw err
          | Inr caller \<Rightarrow>
              andThen (lookupDomainKey (h_MerchantID ?req) (h_ExecutionID ?req)) (\<lambda>domainKey.
              transact (handoffBody now rndE rndS domainKey caller ?req)))) d r d'"
    unfolding Handoff_def Let_def by (auto split: if_splits)
  then obtain caller dk where caller: "caller \<in> set (sessions d)" "s_ID caller = h_SessionID req"
    and run: "runs (transact (handoffBody now rndE rndS dk caller ?req)) d r d'"
    by (elim runs_attemptE)
      (auto dest!: runs_Session split: if_splits elim!: runs_after_read [OF _ keeps_lookupDomainKey])
  from runs_transact [OF run] ok show ?thesis
  proof (cases rule: runs_handoffBody)
    case (1 old hm mode to f succ)
    from handoffTarget_Inr [OF 1(7)] 1(5,6) caller have may: "may_hand_off d req old to"
      unfolding may_hand_off_def by auto
    have "e_Fence old \<le> f" using ok 1(1,9) by (auto simp: rows_ok_def row_ok_def)
    with 1 may show ?thesis
      by (intro bexI [of _ old] exI [of _ succ] exI [of _ f]) (simp_all add: heir_def handed_db_def)
  qed
qed

definition demo_session :: "string \<Rightarrow> string \<Rightarrow> string \<Rightarrow> session_row" where
  "demo_session sid ty p = \<lparr>s_ID = sid, s_MerchantID = ''m'', s_CustomerID = ''c'', s_Anchors = [],
     s_PrincipalType = ty, s_PrincipalID = p, s_ExpiresAt = 900 * second, s_RevokedAt = None, s_Version = 1\<rparr>"

definition demo_browser :: db where
  "demo_browser = after (InsertSession (demo_session ''sb'' ''browser'' ''b'')) demo1"

lemma reach_browser: "reachable one 0 demo_browser"
  unfolding demo_browser_def by (rule timed_reach.later [OF reach1 order_refl store_step.session [OF ends_after]])

definition demo_handoff :: handoff_request where
  "demo_handoff = \<lparr>h_MerchantID = ''m'', h_ExecutionID = ''exe_61'', h_SessionID = ''sb'',
     h_To = \<lparr>p_Type = '''', p_ID = ''''\<rparr>, h_Mode = '''', h_TTL = 0, h_Precedence = [], h_RequestID = ''req''\<rparr>"

lemma demo_handoff_ok: "\<not> isl (fst (Handoff second ''h'' ''i'' demo_handoff demo_browser []))"
  by code_simp

theorem handoff_spec_witness:
  "(\<exists>old \<in> set (executions demo_browser). may_hand_off demo_browser demo_handoff old
       (e_Principal (hr_Successor (answer (Handoff second ''h'' ''i'' demo_handoff) demo_browser))))
   \<and> hr_Mode (answer (Handoff second ''h'' ''i'' demo_handoff) demo_browser) = ModePreempt"
proof
  show "\<exists>old \<in> set (executions demo_browser). may_hand_off demo_browser demo_handoff old
       (e_Principal (hr_Successor (answer (Handoff second ''h'' ''i'' demo_handoff) demo_browser)))"
    using handoff_spec [OF reach_browser runs_answer [of "Handoff second ''h'' ''i'' demo_handoff" demo_browser, OF demo_handoff_ok]]
    by metis
qed code_simp

section \<open>Revoke\<close>

lemma runs_endExecution:
  assumes "runs (endExecution now m i sid rq st reason mh) d r d'" "rows_ok d"
  obtains e where "e \<in> set (executions d)" "e_MerchantID e = m" "e_ID e = i" "live (dom_of e) now e"
    "r = ended st now reason (e_SuccessorID e) e"
  using assms unfolding endExecution_def
  by (elim runs_after_read [OF _ keeps_lookupDomainKey]) (auto dest!: runs_transact elim!: runs_endBody)

text \<open>C15. A successful \<open>Revoke\<close> by a session (not by an administrator) was asked from a session of the
  execution's customer that owns the execution or whose principal type outranks the holder's in the
  default precedence; the execution was live and is \<open>REVOKED\<close> with the reason given.\<close>

theorem revoke_spec:
  assumes "reachable cap t d" "runs (Revoke now0 now m i sid rq reason) d r d'" "sid \<noteq> ''''"
  shows "\<exists>e \<in> set (executions d). \<exists>s \<in> set (sessions d). e_ID e = i \<and> e_MerchantID e = m \<and> live (dom_of e) now e
    \<and> s_ID s = sid \<and> s_CustomerID s = e_CustomerID e
    \<and> (owns d sid e \<or> CanPreempt \<lparr>p_Type = s_PrincipalType s, p_ID = s_PrincipalID s\<rparr> (e_Principal e))
    \<and> r = ended StateRevoked now (if reason = '''' then ReasonRevoked else reason) (e_SuccessorID e) e"
proof -
  have ok: "rows_ok d" using store.reach_inv [OF assms(1)] by (simp add: lease_inv_def)
  let ?reason = "if reason = '''' then ReasonRevoked else reason"
  let ?stop = "endExecution now m i '''' rq StateRevoked ?reason False"
  from assms(2) [unfolded Revoke_def Let_def, simplified assms(3) if_False]
  obtain e where get: "runs (Get now0 m i) d e d" and rest: "runs (attempt (Session sid) (\<lambda>r.
          case r of
            Inl err \<Rightarrow> if err = ErrNoRows then throw ErrNotHolder else throw err
          | Inr sess \<Rightarrow>
              if s_CustomerID sess \<noteq> e_CustomerID e then throw ErrNotFound
              else
                attempt (holderMatches e sid) (\<lambda>hm.
                  case hm of
                    Inr _ \<Rightarrow> ?stop
                  | Inl err \<Rightarrow>
                      if \<not> CanPreempt \<lparr>p_Type = s_PrincipalType sess, p_ID = s_PrincipalID sess\<rparr> (e_Principal e)
                      then (if err = ErrNotHolder then throw ErrPrecedence else throw err)
                      else ?stop))) d r d'"
    by (rule runs_after_read) (intro frame_intro)
  from rest obtain s where s: "s \<in> set (sessions d)" "s_ID s = sid" "s_CustomerID s = e_CustomerID e"
    and hm: "runs (attempt (holderMatches e sid) (\<lambda>hm.
                  case hm of
                    Inr _ \<Rightarrow> ?stop
                  | Inl err \<Rightarrow>
                      if \<not> CanPreempt \<lparr>p_Type = s_PrincipalType s, p_ID = s_PrincipalID s\<rparr> (e_Principal e)
                      then (if err = ErrNotHolder then throw ErrPrecedence else throw err)
                      else ?stop)) d r d'"
    by (elim runs_attemptE [of "Session sid"]) (auto dest!: runs_Session split: if_splits)
  from hm have "runs ?stop d r d' \<and>
      (owns d sid e \<or> CanPreempt \<lparr>p_Type = s_PrincipalType s, p_ID = s_PrincipalID s\<rparr> (e_Principal e))"
    by (cases rule: runs_attempt_holder) (auto split: sum.splits if_splits)
  moreover from this ok obtain x where x: "x \<in> set (executions d)" "e_MerchantID x = m" "e_ID x = i" "live (dom_of x) now x"
      "r = ended StateRevoked now ?reason (e_SuccessorID x) x"
    by (auto elim: runs_endExecution)
  moreover have "x = e"
    using runs_Get_row [OF get ok x(1-3)] by simp
  ultimately show ?thesis using s by blast
qed

abbreviation demo_revoke :: "execution db_op" where
  "demo_revoke \<equiv> Revoke second second ''m'' ''exe_61'' ''sb'' ''req'' ''''"

lemma demo_revoke_ok: "\<not> isl (fst (demo_revoke demo_browser []))" "e_State (answer demo_revoke demo_browser) = StateRevoked"
  by code_simp+

theorem revoke_spec_witness:
  "e_State (answer demo_revoke demo_browser) = StateRevoked
   \<and> (\<exists>e \<in> set (executions demo_browser). \<exists>s \<in> set (sessions demo_browser). e_ID e = ''exe_61'' \<and> s_ID s = ''sb''
       \<and> (owns demo_browser ''sb'' e
          \<or> CanPreempt \<lparr>p_Type = s_PrincipalType s, p_ID = s_PrincipalID s\<rparr> (e_Principal e)))"
  using revoke_spec [OF reach_browser runs_answer [of demo_revoke demo_browser, OF demo_revoke_ok(1)]] demo_revoke_ok(2)
  by blast

end
