(* ===== verification/Findings.thy ===== *)
theory Findings
  imports Mutate_Props
begin

text \<open>
  Runs in which the code does something its documentation or its callers do not expect, each
  evaluated on a concrete database.
\<close>

definition demo_acquire :: "time \<Rightarrow> string \<Rightarrow> string \<Rightarrow> db \<Rightarrow> db" where
  "demo_acquire now rnd p = after (Acquire now rnd (demo_req p))"

text \<open>
  A transaction whose start time lies before the expiry of a lease, but which takes the domain lock
  after another transaction has seen the lease expired and granted its successor, extends the old
  lease. \<open>store_capacity\<close> needs the start times of the transactions of a domain to be ordered like
  the transactions; Postgres' \<open>now()\<close> does not promise that.
\<close>

theorem stale_clock_two_holders:
  "count_where (live (''m'', ''k'') (62 * second))
     (executions (after (transact (renewBody (59 * second) ''k'' ''m'' ''exe_61'' ''sp'' ''req'' (60 * second)))
        (demo_acquire (61 * second) ''c'' ''q'' demo1))) = 2"
  by code_simp

text \<open>
  A waiter that acquires directly once the holder has expired keeps its place in the queue: when it
  releases, it is promoted again and holds an execution it never asked for.
\<close>

theorem waiter_promoted_after_release:
  "map (\<lambda>e. (e_ID e, p_ID (e_Principal e), e_State e))
     (executions (after (transact (endBody (62 * second) ''k'' ''m'' ''exe_63'' ''sq'' ''req'' StateReleased ReasonReleased True))
        (demo_acquire (61 * second) ''c'' ''q'' demo2)))
   = [(''exe_61'', ''p'', StateActive), (''exe_63'', ''q'', StateReleased), (''exe_62'', ''q'', StateActive)]"
  by code_simp

text \<open>
  While a principal's expired waiter has not been reaped, its next request for the busy domain
  violates the unique index on waiters and is answered with \<open>ErrUnavailable\<close>.
\<close>

definition demo_held :: db where
  "demo_held = after (Acquire 0 ''a'' ((demo_req ''p'')\<lparr>q_TTL := 30 * minute, q_MaxLifetime := 30 * minute\<rparr>)) empty_db"

theorem expired_waiter_blocks_queue:
  "fst (Acquire (16 * minute) ''d'' (demo_req ''q'') (demo_acquire second ''b'' ''q'' demo_held) [])
   = Inl ErrUnavailable"
  by code_simp

text \<open>A grant does not respect its own maximal lifetime when the TTL is longer.\<close>

theorem grant_beyond_max_lifetime:
  "list_ex (\<lambda>e. e_State e = StateActive \<and> e_ExpiresAt e > e_MaxLifetimeAt e)
     (executions (after (Acquire 0 ''a'' ((demo_req ''p'')\<lparr>q_TTL := 60 * minute\<rparr>)) empty_db))"
  by code_simp

text \<open>Revoking every active execution promotes their waiters, which are then active.\<close>

definition no_admin :: AdminAudit where
  "no_admin = \<lparr>aa_Actor = '''', aa_Role = '''', aa_IP = '''', aa_Auth = '''', aa_Before = '''', aa_After = '''', aa_RequestID = ''''\<rparr>"

theorem emergency_revoke_leaves_active:
  "map (\<lambda>e. (e_ID e, e_State e))
     (executions (after (RevokeActive (\<lambda>_. 2 * second) ''m'' ''req'' ''emergency'' no_admin) demo2))
   = [(''exe_61'', StateRevoked), (''exe_62'', StateActive)]"
  by code_simp

text \<open>Registering a merchant again without a secret erases the stored one.\<close>

theorem empty_secret_overwrites:
  "merchants (after (EnsureMerchant ''m'' ''name'' '''') (after (EnsureMerchant ''m'' ''name'' ''secret'') d)) ''m''
   = Some \<lparr>m_Name = ''name'', m_IDPHMACSecret = Some ''''\<rparr>"
  by (simp add: EnsureMerchant_def after_def dbop_simps)

text \<open>The case-insensitive comparison of actions looks only at the first byte of every rune: a
  disabled action whose name is one two-byte letter disables another letter.\<close>

theorem action_comparison_skips_bytes:
  "stringsEqual [CHR 0xC3, CHR 0xA9] [CHR 0xC3, CHR 0xA8]
   \<and> ActionDisabled (DefaultControls\<lparr>c_DisabledActions := [[CHR 0xC3, CHR 0xA9]]\<rparr>) [CHR 0xC3, CHR 0xA8]"
  by code_simp

text \<open>A dry-run mode spelled in capitals is dry run for \<open>EffectivePercent\<close> and is turned into
  enforcement by \<open>Normalize\<close>.\<close>

theorem dry_run_spelling:
  "EffectivePercent (DefaultControls\<lparr>c_Mode := ''DRY-RUN''\<rparr>) = 0
   \<and> EffectivePercent (Normalize (DefaultControls\<lparr>c_Mode := ''DRY-RUN''\<rparr>)) = 100"
  by code_simp

end
