(* ===== verification/Ops_Props.thy ===== *)
theory Ops_Props
  imports Store_Props
begin

text \<open>
  Properties of budgets, replay keys, sessions and runtime controls, in the store and in the pure
  functions of \<open>internal/ops\<close>.
\<close>

section \<open>Budgets\<close>

lemma ConsumeOp_budget:
  assumes b: "budgets d i = Some b" and max: "0 < bu_MaxOps b" and run: "ConsumeOp m i d fs = (r, d', fs')"
  shows "(d' = d \<or> bu_OpsUsed b < bu_MaxOps b \<and> budgets d' i = Some (b\<lparr>bu_OpsUsed := bu_OpsUsed b + 1\<rparr>))
    \<and> (\<forall>um. r = Inr um \<longrightarrow> d' \<noteq> d \<and> um = (bu_OpsUsed b + 1, bu_MaxOps b))
    \<and> (r = Inl ErrBudget \<longrightarrow> d' = d \<and> bu_MaxOps b \<le> bu_OpsUsed b)"
proof -
  let ?f = "\<lambda>d. (case budgets d i of
          None \<Rightarrow> Inr ((1, 0), d\<lparr>budgets := (budgets d)(i \<mapsto> \<lparr>bu_MerchantID = m, bu_MaxOps = 0, bu_OpsUsed = 1\<rparr>)\<rparr>)
        | Some b \<Rightarrow>
            if \<not> (bu_MaxOps b = 0 \<or> bu_OpsUsed b < bu_MaxOps b) then Inl ErrNoRows
            else if bu_OpsUsed b + 1 > max_int4 then Inl ErrSQL
            else Inr ((bu_OpsUsed b + 1, bu_MaxOps b), d\<lparr>budgets := (budgets d)(i \<mapsto>
              b\<lparr>bu_OpsUsed := bu_OpsUsed b + 1\<rparr>)\<rparr>)) :: store_error + (int \<times> int) \<times> db"
  obtain q d1 fs1 where q: "stmt ?f d fs = (q, d1, fs1)" by (cases "stmt ?f d fs") auto
  have ne: "d\<lparr>budgets := (budgets d)(i \<mapsto> b\<lparr>bu_OpsUsed := bu_OpsUsed b + 1\<rparr>)\<rparr> \<noteq> d"
  proof
    assume eq: "d\<lparr>budgets := (budgets d)(i \<mapsto> b\<lparr>bu_OpsUsed := bu_OpsUsed b + 1\<rparr>)\<rparr> = d"
    have "budgets (d\<lparr>budgets := (budgets d)(i \<mapsto> b\<lparr>bu_OpsUsed := bu_OpsUsed b + 1\<rparr>)\<rparr>) i = budgets d i"
      unfolding eq ..
    with b have "b\<lparr>bu_OpsUsed := bu_OpsUsed b + 1\<rparr> = b" by simp
    then have "bu_OpsUsed (b\<lparr>bu_OpsUsed := bu_OpsUsed b + 1\<rparr>) = bu_OpsUsed b" by metis
    then show False by simp
  qed
  from stmt_cases [OF q] run q b max ne show ?thesis
    unfolding ConsumeOp_def attempt_def
    by (auto simp: run_stmt_def ret_def throw_def wrapStore_def split: if_splits)
qed

text \<open>The operations that succeed in a sequence of attempts, each with its own faults.\<close>

fun consumed :: "string \<Rightarrow> string \<Rightarrow> fault list list \<Rightarrow> db \<Rightarrow> int" where
  "consumed m i [] d = 0"
| "consumed m i (fs # fss) d =
     (case ConsumeOp m i d fs of (r, d', _) \<Rightarrow>
        (case r of Inr _ \<Rightarrow> 1 | Inl _ \<Rightarrow> 0) + consumed m i fss d')"

text \<open>C18. A budget is never overspent: starting with \<open>ops_used\<close> operations used of a positive
  \<open>max_ops\<close>, no sequence of \<open>ConsumeOp\<close> calls, whatever statements fail or lose their reply, lets more
  than the remaining \<open>max_ops - ops_used\<close> operations through.\<close>

theorem budget_never_overspent:
  assumes "budgets d i = Some b" "0 < bu_MaxOps b" "bu_OpsUsed b \<le> bu_MaxOps b"
  shows "consumed m i fss d \<le> bu_MaxOps b - bu_OpsUsed b"
  using assms
proof (induction fss arbitrary: d b)
  case Nil
  then show ?case by simp
next
  case (Cons fs fss)
  obtain r d' fs' where run: "ConsumeOp m i d fs = (r, d', fs')" by (cases "ConsumeOp m i d fs") auto
  note c = ConsumeOp_budget [OF Cons.prems(1,2) run]
  show ?case
  proof (cases "d' = d")
    case True
    then have "\<exists>e. r = Inl e" using c by (cases r) auto
    with True run Cons.IH [OF Cons.prems] show ?thesis by auto
  next
    case False
    with c have b': "bu_OpsUsed b < bu_MaxOps b" "budgets d' i = Some (b\<lparr>bu_OpsUsed := bu_OpsUsed b + 1\<rparr>)" by auto
    have "consumed m i fss d' \<le> bu_MaxOps b - (bu_OpsUsed b + 1)"
      using Cons.IH [OF b'(2)] Cons.prems(2) b'(1) by simp
    then show ?thesis using run by (auto split: sum.splits)
  qed
qed

definition demo_budget :: db where
  "demo_budget = after (EnsureBudget ''m'' ''exe_61'' 2) empty_db"

theorem budget_never_overspent_witness:
  "consumed ''m'' ''exe_61'' [[], [LostAck], [], []] demo_budget = 1
   \<and> consumed ''m'' ''exe_61'' [[], [LostAck], [], []] demo_budget \<le> 2"
proof
  have "budgets demo_budget ''exe_61'' = Some \<lparr>bu_MerchantID = ''m'', bu_MaxOps = 2, bu_OpsUsed = 0\<rparr>"
    by code_simp
  from budget_never_overspent [OF this, of "''m''" "[[], [LostAck], [], []]"]
  show "consumed ''m'' ''exe_61'' [[], [LostAck], [], []] demo_budget \<le> 2"
    by (simp del: consumed.simps)
qed code_simp

section \<open>Replay keys\<close>

lemma runs_wrapped_stmt:
  "runs (andThen (wrapping (stmt f)) k) s b t \<Longrightarrow> \<exists>a s'. f s = Inr (a, s') \<and> runs (k a) s' b t"
  by (erule runs_andThenE) auto


lemma demo_claim_ok: "\<not> isl (fst (ClaimReplay 0 0 ''m'' ''key'' ''authorize'' minute empty_db []))"
  by code_simp


section \<open>Sessions\<close>

lemma runs_Session_row:
  "runs (Session sid) d sess d' \<Longrightarrow> find (\<lambda>s. s_ID s = sid) (sessions d) = Some sess \<and> d' = d"
  unfolding Session_def by (erule runs_attempt_query_row) (auto split: if_splits)

lemma find_update_where_key:
  assumes "\<And>x. key (f x) = key x" and "find (\<lambda>x. key x = k) (update_where P f xs) = Some y"
  shows "\<exists>x. find (\<lambda>x. key x = k) xs = Some x \<and> y = (if P x then f x else x)"
  using assms(2) by (induction xs) (auto simp: assms(1) split: if_splits)


definition demo_session :: session_row where
  "demo_session = \<lparr>s_ID = ''ses_1'', s_MerchantID = ''m'', s_CustomerID = ''c'', s_Anchors = [],
     s_PrincipalType = ''agent'', s_PrincipalID = ''a'', s_ExpiresAt = 10, s_RevokedAt = None, s_Version = 1\<rparr>"

definition demo_sessions :: db where
  "demo_sessions = after (InsertSession demo_session) empty_db"

lemma demo_session_revoked: "\<not> isl (fst (RevokeSession 5 ''m'' ''ses_1'' demo_sessions []))"
  by code_simp

lemma demo_session_live: "map_sum id s_ID (fst (LiveSession 4 ''m'' ''ses_1'' demo_sessions [])) = Inr ''ses_1''"
  by code_simp


section \<open>Runtime controls\<close>

lemma trim_nonempty_idem: "trim_nonempty (trim_nonempty xs) = trim_nonempty xs"
  by (induction xs) (auto simp: trim_nonempty_def)

lemma JoinActions_nonempty: "acts \<noteq> [] \<Longrightarrow> \<forall>a \<in> set acts. a \<noteq> [] \<Longrightarrow> JoinActions acts \<noteq> []"
  unfolding JoinActions_def by (cases acts; cases "tl acts") (auto simp: JoinByte_Cons)

lemma Split_JoinActions:
  assumes "\<forall>a \<in> set acts. CHR '','' \<notin> set a"
  shows "SplitActions (JoinActions (trim_nonempty acts)) = trim_nonempty acts"
proof (cases "trim_nonempty acts = []")
  case True
  then show ?thesis by (simp add: SplitActions_def JoinActions_def)
next
  case False
  have "set (TrimSpace a) \<subseteq> set a" for a
  proof -
    obtain x y where "utf8_chunks a = x @ trim_chunks (utf8_chunks a) @ y" using trim_chunks_split by blast
    then have "a = concat (map snd x) @ TrimSpace a @ concat (map snd y)"
      using concat_utf8_chunks [of a] by (metis TrimSpace_chunks concat_append map_append)
    then have "set a = set (concat (map snd x)) \<union> set (TrimSpace a) \<union> set (concat (map snd y))"
      by (metis set_append Un_assoc)
    then show ?thesis by blast
  qed
  then have "\<forall>a \<in> set (trim_nonempty acts). CHR '','' \<notin> set a"
    using assms by (fastforce simp: trim_nonempty_def)
  with False have "SplitByte (JoinActions (trim_nonempty acts)) (CHR '','') = trim_nonempty acts"
    unfolding JoinActions_def by (rule Split_Join)
  moreover have "JoinActions (trim_nonempty acts) \<noteq> []"
    using False by (intro JoinActions_nonempty) (auto simp: trim_nonempty_def)
  ultimately show ?thesis by (simp add: SplitActions_def trim_nonempty_idem)
qed

lemma Normalize_reload:
  assumes "SplitActions (JoinActions (trim_nonempty (c_DisabledActions c))) = trim_nonempty (c_DisabledActions c)"
  shows "Normalize (Normalize c\<lparr>c_DisabledActions := SplitActions (JoinActions (c_DisabledActions (Normalize c)))\<rparr>)
    = Normalize c"
  using assms by (simp add: Normalize_def Let_def ClampPercent_def trim_nonempty_idem ModeDryRun_def ModeEnforce_def)

text \<open>Controls survive the round trip through their table: what \<open>PutControls\<close> stored (it answers the
  normalised controls) is what the next \<open>GetControls\<close> of that merchant reads, provided no disabled
  action contains the comma that separates them in their column.\<close>

theorem controls_round_trip:
  assumes put: "runs (PutControls now rnd m c audit) d c' d'"
    and comma: "\<forall>a \<in> set (c_DisabledActions c). CHR '','' \<notin> set a"
  shows "c' = Normalize c \<and> fst (GetControls m d' []) = Inr (Normalize c, True)"
proof -
  have keep: "keeps runtime_controls (writeAdminAction now m t s r a xs)" for t s r a xs
    unfolding writeAdminAction_def WriteActorAudit_def insertAudit_def by (intro frame_intro) simp
  define d1 where "d1 = d\<lparr>runtime_controls := (runtime_controls d)(m \<mapsto>
    (Normalize c\<lparr>c_DisabledActions := []\<rparr>, JoinActions (c_DisabledActions (Normalize c))))\<rparr>"
  then have d1: "runtime_controls d1 m = Some (Normalize c\<lparr>c_DisabledActions := []\<rparr>,
    JoinActions (c_DisabledActions (Normalize c)))" by simp
  from put have c': "c' = Normalize c"
    and w: "runs (writeAdminAction now m ''CONTROL_CHANGED'' (c_Mode (Normalize c)) (id_Request rnd) audit
        (control_attrs (Normalize c))) d1 () d'"
    unfolding PutControls_def Let_def d1_def
    by (auto dest!: runs_wrapped_stmt elim!: runs_andThenE split: if_splits)
  note fr = keepsD [OF keep runs_ends [OF w]]
  have "c_DisabledActions (Normalize c) = trim_nonempty (c_DisabledActions c)"
    by (simp add: Normalize_def Let_def)
  then have "fst (GetControls m d' []) = Inr (Normalize (Normalize c\<lparr>c_DisabledActions :=
      SplitActions (JoinActions (c_DisabledActions (Normalize c)))\<rparr>), True)"
    by (simp add: GetControls_def dbop_simps fr d1)
  with Normalize_reload [OF Split_JoinActions [OF comma]] c' show ?thesis by simp
qed

definition demo_controls :: controls where
  "demo_controls = DefaultControls\<lparr>c_EnforcePercent := 140, c_DisabledActions := ['' checkout'', '''', ''reserve'']\<rparr>"

definition demo_admin :: AdminAudit where
  "demo_admin = \<lparr>aa_Actor = ''ops'', aa_Role = ''operator'', aa_IP = '''', aa_Auth = '''', aa_Before = '''',
     aa_After = '''', aa_RequestID = ''''\<rparr>"

lemma demo_put_ok: "\<not> isl (fst (PutControls 7 ''6f'' ''m'' demo_controls demo_admin empty_db []))"
  by code_simp

lemma demo_answer: "answer (PutControls 7 ''6f'' ''m'' demo_controls demo_admin) empty_db
   = demo_controls\<lparr>c_EnforcePercent := 100, c_DisabledActions := [''checkout'', ''reserve'']\<rparr>"
  by code_simp

theorem controls_round_trip_witness:
  "fst (GetControls ''m'' (after (PutControls 7 ''6f'' ''m'' demo_controls demo_admin) empty_db) [])
     = Inr (demo_controls\<lparr>c_EnforcePercent := 100, c_DisabledActions := [''checkout'', ''reserve'']\<rparr>, True)"
  using controls_round_trip [OF runs_answer [of "PutControls 7 ''6f'' ''m'' demo_controls demo_admin" empty_db, OF demo_put_ok]]
  unfolding demo_answer by (simp add: demo_controls_def)

section \<open>Progressive enforcement\<close>

text \<open>The ramp is monotone: a customer whose requests are enforced stays enforced when only the
  percentage is raised, so widening a rollout never releases anyone.\<close>

theorem ramp_monotone:
  assumes "ShouldEnforce c inp" "c_EnforcePercent c \<le> p"
  shows "ShouldEnforce (c\<lparr>c_EnforcePercent := p\<rparr>) inp"
  using assms by (auto simp: ShouldEnforce_iff ClampPercent_def split: if_splits)

definition demo_ramp :: controls where
  "demo_ramp = DefaultControls\<lparr>c_EnforcePercent := 30, c_RampSalt := ''s''\<rparr>"

definition demo_input :: ramp_input where
  "demo_input = \<lparr>ri_CustomerID = ''c1'', ri_Resource = ''event:1'', ri_Action = ''hold'', ri_RuleName = '''',
     ri_EventID = '''', ri_Path = '''', ri_Pool = '''', ri_Cohort = '''', ri_Env = ''''\<rparr>"

definition demo_bucket :: int where "demo_bucket = Bucket ''c1'' ''s''"

lemma demo_enforced: "ShouldEnforce (demo_ramp\<lparr>c_EnforcePercent := demo_bucket + 1\<rparr>) demo_input"
  by code_simp

lemma demo_not_enforced: "\<not> ShouldEnforce (demo_ramp\<lparr>c_EnforcePercent := demo_bucket\<rparr>) demo_input"
  by code_simp

theorem ramp_monotone_witness:
  "\<not> ShouldEnforce (demo_ramp\<lparr>c_EnforcePercent := demo_bucket\<rparr>) demo_input
   \<and> ShouldEnforce (demo_ramp\<lparr>c_EnforcePercent := 1000\<rparr>) demo_input"
  using ramp_monotone [OF demo_enforced, of 1000] demo_not_enforced Bucket_bounds [of "''c1''" "''s''"]
  by (simp add: demo_bucket_def)

end
