(* ===== verification/Resource_Props.thy ===== *)
theory Resource_Props
  imports Resource
begin

text \<open>
  What canonicalisation promises: its results are in the grammar, cosmetic variants of one
  identifier are one identifier, and a catalogue admits registered identifiers only.
\<close>

text \<open>A fragment of NFKC: fullwidth forms, the ideographic and no-break spaces, the non-breaking hyphen.\<close>

definition nfkc_fragment :: "string \<Rightarrow> string" where
  "nfkc_fragment s = encode_runes (map (\<lambda>r.
     if 0xFF01 \<le> r \<and> r \<le> 0xFF5E then r - 65248 else if r = 0x3000 \<or> r = 0xA0 then 32
     else if r = 0x2011 then 0x2010 else r) (runes s))"

lemma nfkc_fragment_law: "nfkc_law nfkc_fragment"
  unfolding nfkc_law_def
proof (intro allI impI)
  fix rs
  assume a: "\<forall>r \<in> set rs. nfkc_inert r"
  then have "runes (encode_runes rs) = rs" by (simp add: runes_def inert_chunks comp_def)
  moreover have "map (\<lambda>r. if 0xFF01 \<le> r \<and> r \<le> 0xFF5E then r - 65248 else if r = 0x3000 \<or> r = 0xA0 then 32
     else if r = 0x2011 then 0x2010 else r) rs = rs"
    using a by (intro map_idI) (auto simp: nfkc_inert_def)
  ultimately show "nfkc_fragment (encode_runes rs) = encode_runes rs" by (simp add: nfkc_fragment_def)
qed

lemma demo_cosmetic:
  "resource_id (map lower_byte ''Event:Ars-CHE'')" "\<forall>r \<in> set [32, 0x5F]. cosmetic r"
  "\<forall>r \<in> set [0x2013, 46, 0x27, 33]. cosmetic r"
  "\<not> Contains (encode_runes [32, 0x5F] @ ''Event:Ars-CHE'' @ encode_runes [0x2013, 46, 0x27, 33]) ''..''"
proof -
  have "strictID (map lower_byte ''Event:Ars-CHE'')" by code_simp
  then show "resource_id (map lower_byte ''Event:Ars-CHE'')" by (simp only: strictID_iff)
  show "\<forall>r \<in> set [32, 0x5F]. cosmetic r" "\<forall>r \<in> set [0x2013, 46, 0x27, 33]. cosmetic r"
    by (simp_all add: cosmetic_def nfkc_inert_def isAlnum_def IsControl_def)
  show "\<not> Contains (encode_runes [32, 0x5F] @ ''Event:Ars-CHE'' @ encode_runes [0x2013, 46, 0x27, 33]) ''..''"
    by (simp add: encode_runes_def encode_rune_def HasPrefix_def char_of_eq_iff)
qed

lemma demo_lower: "map lower_byte ''Event:Ars-CHE'' = ''event:ars-che''"
  by code_simp

lemma demo_canonical:
  "Canonical nfkc_fragment (encode_runes [32, 0x5F] @ ''Event:Ars-CHE'' @ encode_runes [0x2013, 46, 0x27, 33])
     = Inr ''event:ars-che''"
  using Canonical_cosmetic [OF nfkc_fragment_law demo_cosmetic] unfolding demo_lower .

text \<open>Whatever the input and the normaliser, an identifier that \<open>Canonical\<close> returns is in the grammar
  \<open>type:word(-word)*\<close> over lower-case letters and digits.\<close>

theorem canonical_grammar:
  assumes "Canonical nfkc raw = Inr s"
  shows "resource_id s"
  using Canonical_strict assms .

theorem canonical_grammar_witness: "resource_id ''event:ars-che''"
  using canonical_grammar [OF demo_canonical] .

text \<open>Cosmetic variation cannot make a second identifier: an identifier in any letter case, with any
  punctuation, spaces, quotes and dashes around it (short of \<open>%\<close>, \<open>?\<close>, \<open>#\<close>, a backslash, control
  characters and two dots in a row), folds to the identifier.\<close>

theorem canonical_folds_cosmetic:
  assumes "nfkc_law nfkc" "resource_id (map lower_byte u)"
    and "\<forall>r \<in> set p. cosmetic r" "\<forall>r \<in> set q. cosmetic r"
    and "\<not> Contains (encode_runes p @ u @ encode_runes q) ''..''"
  shows "Canonical nfkc (encode_runes p @ u @ encode_runes q) = Inr (map lower_byte u)"
  using assms by (rule Canonical_cosmetic)

theorem canonical_folds_cosmetic_witness:
  "Canonical nfkc_fragment (encode_runes [32, 0x5F] @ ''Event:Ars-CHE'' @ encode_runes [0x2013, 46, 0x27, 33])
     = Inr ''event:ars-che''"
  using canonical_folds_cosmetic [OF nfkc_fragment_law demo_cosmetic] unfolding demo_lower .

lemma suffix_chars:
  "char_of (46::nat) = CHR ''.''" "char_of (45::nat) = CHR ''-''" "char_of (95::nat) = CHR ''_''"
  "char_of (33::nat) = CHR ''!''" "char_of (64::nat) = CHR 0x40" "char_of (32::nat) = CHR '' ''"
  "char_of (226::nat) = CHR 0xE2" "char_of (128::nat) = CHR 0x80" "char_of (144::nat) = CHR 0x90"
  "char_of (147::nat) = CHR 0x93"
  by (simp_all add: char_of_eq_iff)

text \<open>C21. Folding is idempotent, and every variant of the corpus (trailing punctuation, spaces, Unicode
  dashes) of a canonical identifier folds back to it.\<close>

theorem canonical_variants:
  assumes law: "nfkc_law nfkc" and c: "Canonical nfkc raw = Inr s"
  shows "\<forall>v \<in> set (CosmeticVariants s). Canonical nfkc v = Inr s"
proof -
  note id = Canonical_strict [OF c]
  have "c \<in> set s \<Longrightarrow> \<not> (65 \<le> byte c \<and> byte c \<le> 90) \<and> byte c \<noteq> 46" for c
    using resource_id_bytes [OF id] by (auto simp: az09_def az_def in_range_def)
  then have low: "map lower_byte s = s" and nodot: "CHR ''.'' \<notin> set s"
    by (auto simp: lower_byte_def intro!: map_idI) force
  have "\<not> Contains (s @ t) ''..''" if "CHR ''.'' \<notin> set t \<or> t = ''.''" for t
  proof
    assume "Contains (s @ t) ''..''"
    then obtain a b where "s @ t = a @ ''..'' @ b" by (auto simp: Contains_iff)
    then have "2 \<le> count_list (s @ t) (CHR ''.'')" by (simp del: count_list_append) simp
    with that nodot show False by (auto simp: count_list_0_iff [THEN iffD2])
  qed
  then have suffix: "Canonical nfkc (s @ encode_runes q) = Inr s"
    if "\<forall>r \<in> set q. cosmetic r" "CHR ''.'' \<notin> set (encode_runes q) \<or> encode_runes q = ''.''" for q
    using Canonical_cosmetic [OF law, of s "[]" q] low id that by simp
  note cos = cosmetic_def nfkc_inert_def isAlnum_def IsControl_def encode_runes_def encode_rune_def suffix_chars
  show ?thesis
    unfolding CosmeticVariants_def
    using suffix [of "[]"] suffix [of "[46]"] suffix [of "[45]"] suffix [of "[95]"] suffix [of "[33]"]
      suffix [of "[64]"] suffix [of "[32, 32, 32]"] suffix [of "[0x2010]"] suffix [of "[0x2013]"]
    by (simp add: cos)
qed

theorem canonical_variants_witness:
  "set (map (Canonical nfkc_fragment) (CosmeticVariants ''event:ars-che'')) \<subseteq> {Inr ''event:ars-che''}"
  using canonical_variants [OF nfkc_fragment_law demo_canonical] by auto

section \<open>Catalogue\<close>

lemma catalogue_fold:
  "set (foldl (\<lambda>ids x. case Canonical nfkc x of Inl _ \<Rightarrow> ids | Inr f \<Rightarrow> List.insert f ids) acc xs)
   = set acc \<union> {f. \<exists>x \<in> set xs. Canonical nfkc x = Inr f}"
  by (induction xs arbitrary: acc) (auto split: sum.splits)

text \<open>C22. With a catalogue that has at least one well-formed entry, exactly the inputs that fold to the
  fold of a registered entry are admitted, and every other well-formed input is an unknown resource:
  no free-form string reaches the domain key.\<close>

theorem catalogue_admits_registered:
  assumes some: "\<exists>x \<in> set registered. \<exists>f. Canonical nfkc x = Inr f" and wf: "Canonical nfkc raw = Inr s"
  shows "CatalogueCanonical nfkc (NewCatalogue nfkc registered) raw =
    (if \<exists>x \<in> set registered. Canonical nfkc x = Inr s then Inr s else Inl ErrUnknownResource)"
proof -
  have "set (cat_ids (NewCatalogue nfkc registered)) = {f. \<exists>x \<in> set registered. Canonical nfkc x = Inr f}"
    using catalogue_fold [of nfkc "[]"] by simp
  moreover from this some have "cat_ids (NewCatalogue nfkc registered) \<noteq> []" by force
  ultimately show ?thesis using wf by (auto simp: CatalogueCanonical_def)
qed

lemma demo_malformed: "Canonical nfkc ''??'' = Inl ErrMalformed"
proof -
  have "TrimSpace ''??'' = ''??''" by (subst TrimSpace_ascii) (simp_all add: IsSpace_def)
  then show ?thesis
    by (simp add: Canonical_def Let_def unescaped_def unsafe_def ContainsAny_def)
qed

lemma demo_other: "Canonical nfkc_fragment ''ticket:cupfinal'' = Inr ''ticket:cupfinal''"
proof -
  have "strictID (map lower_byte ''ticket:cupfinal'')" "map lower_byte ''ticket:cupfinal'' = ''ticket:cupfinal''"
    "\<not> Contains ''ticket:cupfinal'' ''..''"
    by code_simp+
  then show ?thesis
    using Canonical_cosmetic [OF nfkc_fragment_law, of "''ticket:cupfinal''" "[]" "[]"]
    by (simp only: strictID_iff encode_runes_def) simp
qed

theorem catalogue_admits_registered_witness:
  "CatalogueCanonical nfkc_fragment (NewCatalogue nfkc_fragment [''ticket:cupfinal'', ''??''])
     (encode_runes [32, 0x5F] @ ''Event:Ars-CHE'' @ encode_runes [0x2013, 46, 0x27, 33]) = Inl ErrUnknownResource"
proof -
  have some: "\<exists>x \<in> set [''ticket:cupfinal'', ''??'']. \<exists>f. Canonical nfkc_fragment x = Inr f"
    using demo_other by simp
  have "\<not> (\<exists>x \<in> set [''ticket:cupfinal'', ''??'']. Canonical nfkc_fragment x = Inr ''event:ars-che'')"
    using demo_other demo_malformed by simp
  with catalogue_admits_registered [OF some demo_canonical] show ?thesis by (simp only: if_False)
qed

end
