(* ===== verification/Policy_Props.thy ===== *)
theory Policy_Props
  imports Policy Resource_Props
begin

text \<open>
  Properties of the policy engine: what a compiled policy guarantees of its rules, which rule
  decides, when a request may pass uncontrolled, and that different customers get different domains.
\<close>

section \<open>Compilation\<close>

definition duration_ok :: "duration \<Rightarrow> bool" where
  "duration_ok d \<longleftrightarrow> 0 < d \<and> d < 2 ^ 63"

definition controlled :: "compiledRule \<Rightarrow> bool" where
  "controlled c \<longleftrightarrow> ru_Control (cr_Rule c) \<noteq> ControlNone"

definition rule_ok :: "compiledRule \<Rightarrow> bool" where
  "rule_ok c \<longleftrightarrow> (let r = cr_Rule c in
     ru_Name r \<noteq> '''' \<and> (controlled c \<longrightarrow>
       ru_Scope r \<noteq> [] \<and> list_all validDim (ru_Scope r) \<and> 1 \<le> ru_MaxActive r
       \<and> duration_ok (cr_ttl c) \<and> duration_ok (cr_lifetime c) \<and> ru_Precedence r \<noteq> []
       \<and> ru_OnMissingAnchor r \<in> {MissingDeny, MissingFallthrough}
       \<and> (wt_Mode (ru_Waiting r) = ''none'' \<and> wt_MaxWaiters (ru_Waiting r) = 0
          \<or> wt_Mode (ru_Waiting r) = ''bounded'' \<and> 1 \<le> wt_MaxWaiters (ru_Waiting r))))"

lemma parseDur_ok: "parseDur s def = Some d \<Longrightarrow> duration_ok def \<Longrightarrow> duration_ok d"
  using ParseDuration_bounds [of s d] by (auto simp: parseDur_def duration_ok_def split: if_splits option.splits)

lemma normalizeWaiting_ok:
  "wt_Mode (normalizeWaiting w) = ''none'' \<and> wt_MaxWaiters (normalizeWaiting w) = 0
   \<or> wt_Mode (normalizeWaiting w) = ''bounded'' \<and> 1 \<le> wt_MaxWaiters (normalizeWaiting w)"
  by (simp add: normalizeWaiting_def Let_def)

lemma find_SomeD: "find P xs = Some x \<Longrightarrow> x \<in> set xs \<and> P x"
  by (auto simp: find_Some_iff)

lemma find_None_all: "find (\<lambda>x. \<not> P x) xs = None \<Longrightarrow> list_all P xs"
  by (simp add: find_None_iff list_all_iff)

lemma compileRule_ok:
  assumes "compileRule ttl life i r = Inr c" "duration_ok ttl" "duration_ok life"
  shows "rule_ok c \<and> ru_Name (cr_Rule c) = ru_Name r \<and> ru_Match (cr_Rule c) = ru_Match r
    \<and> ru_Scope (cr_Rule c) = ru_Scope r \<and> ru_Control (cr_Rule c) = ru_Control r"
proof (cases "ru_Control r = ControlNone")
  case True
  with assms(1) show ?thesis by (auto simp: compileRule_def rule_ok_def controlled_def split: if_splits)
next
  case False
  with assms(1) have sc: "ru_Name r \<noteq> ''''" "ru_Scope r \<noteq> []" "find (\<lambda>dim. \<not> validDim dim) (ru_Scope r) = None"
    by (auto simp: compileRule_def split: if_splits option.splits)
  define r1 where "r1 = (let r = (if ru_MaxActive r < 1 then r\<lparr>ru_MaxActive := 1\<rparr> else r)
    in if ru_OnMissingAnchor r = '''' then r\<lparr>ru_OnMissingAnchor := MissingDeny\<rparr> else r)"
  have r1: "ru_Name r1 = ru_Name r" "ru_Match r1 = ru_Match r" "ru_Scope r1 = ru_Scope r" "ru_Control r1 = ru_Control r"
    "1 \<le> ru_MaxActive r1" by (auto simp: r1_def Let_def)
  from assms(1) False sc obtain t l where ok: "ru_OnMissingAnchor r1 \<in> {MissingDeny, MissingFallthrough}"
    "parseDur (ru_LeaseTTL r1) ttl = Some t" "parseDur (ru_MaxLifetime r1) life = Some l"
    and c: "c = \<lparr>cr_Rule = (if ru_Precedence r1 = [] then r1\<lparr>ru_Precedence := defPrec\<rparr> else r1)
         \<lparr>ru_Waiting := normalizeWaiting (ru_Waiting (if ru_Precedence r1 = [] then r1\<lparr>ru_Precedence := defPrec\<rparr> else r1))\<rparr>,
       cr_ttl = t, cr_lifetime = l\<rparr>"
    by (simp add: compileRule_def Let_def r1_def split: if_splits option.splits)
  show ?thesis
    using sc r1 ok parseDur_ok [OF ok(2) assms(2)] parseDur_ok [OF ok(3) assms(3)] find_None_all [OF sc(3)]
      normalizeWaiting_ok
    by (auto simp: c rule_ok_def Let_def defPrec_def)
qed

lemma compileRules_ok:
  "compileRules ttl life i rs = Inr cs \<Longrightarrow> duration_ok ttl \<Longrightarrow> duration_ok life \<Longrightarrow>
   list_all rule_ok cs \<and> map (ru_Name \<circ> cr_Rule) cs = map ru_Name rs \<and> map (ru_Match \<circ> cr_Rule) cs = map ru_Match rs
   \<and> map (ru_Scope \<circ> cr_Rule) cs = map ru_Scope rs \<and> map (ru_Control \<circ> cr_Rule) cs = map ru_Control rs"
proof (induction rs arbitrary: i cs)
  case (Cons r rs)
  then obtain c cs' where "compileRule ttl life i r = Inr c" "compileRules ttl life (Suc i) rs = Inr cs'" "cs = c # cs'"
    by (auto split: sum.splits)
  with Cons compileRule_ok [of ttl life i r c] show ?case by auto
qed simp

lemma Compile_rules:
  assumes "Compile d = Inr c"
  obtains ttl life where "compileRules ttl life 0 (do_Domains d) = Inr (cp_rules c)" "duration_ok ttl" "duration_ok life"
    "do_Domains d \<noteq> []" "cp_fallback c = (if do_Fallback d = '''' then FallbackDeny else do_Fallback d)"
    "cp_fallback c \<in> {FallbackDeny, FallbackAllowUncontrolled}"
proof -
  define d' where "d' = (let d = (if do_Version d = 0 then d\<lparr>do_Version := 1\<rparr> else d)
    in if do_Fallback d = '''' then d\<lparr>do_Fallback := FallbackDeny\<rparr> else d)"
  have d': "do_Domains d' = do_Domains d" "do_Defaults d' = do_Defaults d"
    "do_Fallback d' = (if do_Fallback d = '''' then FallbackDeny else do_Fallback d)" by (auto simp: d'_def Let_def)
  from assms obtain ttl life where c: "parseDur (df_LeaseTTL (do_Defaults d)) (60 * second) = Some ttl"
    "parseDur (df_MaxLifetime (do_Defaults d)) (15 * minute) = Some life"
    "compileRules ttl life 0 (do_Domains d) = Inr (cp_rules c)" "do_Domains d \<noteq> []" "cp_fallback c = do_Fallback d'"
    "do_Fallback d' \<in> {FallbackDeny, FallbackAllowUncontrolled}"
    by (auto simp: Compile_def d'_def Let_def split: if_splits option.splits sum.splits)
  then show thesis
    using that d' parseDur_ok [OF c(1)] parseDur_ok [OF c(2)] by (simp add: duration_ok_def)
qed

text \<open>A compiled policy keeps the rules of its document in order, with their names, matches and scopes,
  and every controlled rule of it has a non-empty scope of known dimensions, room for at least one
  execution, positive 64-bit durations, a precedence, a decided treatment of missing anchors and a
  consistent queue bound.\<close>

theorem compile_rules_ok:
  assumes "Compile d = Inr c"
  shows "list_all rule_ok (cp_rules c) \<and> map (ru_Name \<circ> cr_Rule) (cp_rules c) = map ru_Name (do_Domains d)
    \<and> map (ru_Scope \<circ> cr_Rule) (cp_rules c) = map ru_Scope (do_Domains d)
    \<and> map (ru_Match \<circ> cr_Rule) (cp_rules c) = map ru_Match (do_Domains d)"
  using assms by (elim Compile_rules) (auto dest: compileRules_ok)

definition default_compiled :: "string \<Rightarrow> Compiled" where
  "default_compiled m =
     \<lparr>cp_Doc = DefaultDocument m, cp_ttl = 60 * second, cp_lifetime = 15 * minute,
      cp_rules = map (\<lambda>(r, t, l). \<lparr>cr_Rule = r, cr_ttl = t, cr_lifetime = l\<rparr>)
        [((do_Domains (DefaultDocument m) ! 0)\<lparr>ru_OnMissingAnchor := MissingDeny,
            ru_Waiting := \<lparr>wt_Mode = ''none'', wt_MaxWaiters = 0\<rparr>\<rparr>, 60 * second, 15 * minute),
         (do_Domains (DefaultDocument m) ! 1, 0, 0)],
      cp_fallback = FallbackDeny, cp_precedence = [''browser'', ''agent'']\<rparr>"

lemma default_durations: "ParseDuration ''60s'' = Some 60000000000" "ParseDuration ''15m'' = Some 900000000000"
  by code_simp+

lemma validDim_default: "validDim ''customer''" "validDim ''resource''"
  by (simp_all add: validDim_def)

lemma ToLower_Nil [simp]: "ToLower [] = []"
  by (simp add: ToLower_def runes_def encode_runes_def)

lemma compile_default: "Compile (DefaultDocument m) = Inr (default_compiled m)"
  by (simp add: Compile_def DefaultDocument_def default_compiled_def parseDur_def default_durations compileRule_def
      validDim_default Rule0_def Match0_def DefaultRuleName_def ControlNone_def FallbackDeny_def
      FallbackAllowUncontrolled_def MissingDeny_def normalizeWaiting_def defPrec_def)

theorem compile_rules_ok_witness: "list_all rule_ok (cp_rules (default_compiled ''m''))"
  using compile_rules_ok [OF compile_default] by blast

section \<open>Which rule decides\<close>

definition applies :: "PolicyRequest \<Rightarrow> compiledRule \<Rightarrow> bool" where
  "applies req c \<longleftrightarrow> (let r = cr_Rule c in matchRule r req
     \<and> (ru_Control r = ControlNone \<or> domainKey req (ru_Name r) (ru_Scope r) \<noteq> None
        \<or> ru_OnMissingAnchor r \<noteq> MissingFallthrough))"

definition verdict :: "PolicyRequest \<Rightarrow> compiledRule \<Rightarrow> Decision" where
  "verdict req c = (let r = cr_Rule c in
     if ru_Control r = ControlNone then Decision0\<lparr>dc_RuleName := ru_Name r, dc_ControlNone := True\<rparr>
     else case domainKey req (ru_Name r) (ru_Scope r) of
       None \<Rightarrow> Decision0\<lparr>dc_RuleName := ru_Name r, dc_Denied := True, dc_Reason := ''missing_anchor''\<rparr>
     | Some key \<Rightarrow> granted c key)"

lemma evaluateRules_find: "evaluateRules cs req = map_option (verdict req) (find (applies req) cs)"
  by (induction cs) (auto simp: applies_def verdict_def Let_def split: option.splits)

lemma Evaluate_canonical:
  "Canonical nfkc (pq_Resource req) = Inr s \<Longrightarrow>
   Evaluate nfkc c req = (case find (applies (req\<lparr>pq_Resource := s\<rparr>)) (cp_rules c) of
     None \<Rightarrow> fallbackDecision c | Some r \<Rightarrow> verdict (req\<lparr>pq_Resource := s\<rparr>) r)"
  by (simp add: Evaluate_def Let_def evaluateRules_find split: option.splits)

text \<open>The three ways a decision can look.\<close>

definition decision_ok :: "Decision \<Rightarrow> bool" where
  "decision_ok d \<longleftrightarrow>
     dc_Denied d \<and> \<not> dc_ControlNone d \<and> dc_DomainKey d = ''''
       \<and> dc_Reason d \<in> {''malformed_resource'', ''missing_anchor'', ''no_matching_rule''}
   \<or> dc_ControlNone d \<and> \<not> dc_Denied d \<and> dc_DomainKey d = ''''
   \<or> \<not> dc_Denied d \<and> \<not> dc_ControlNone d \<and> dc_DomainKey d \<noteq> '''' \<and> 1 \<le> dc_MaxActive d \<and> duration_ok (dc_TTL d)
       \<and> duration_ok (dc_MaxLifetime d) \<and> dc_Precedence d \<noteq> [] \<and> 0 \<le> dc_MaxWaiters d \<and> 0 \<le> dc_MaxOps d"

lemma domainKey_nonempty: "domainKey req n sc = Some key \<Longrightarrow> key \<noteq> ''''"
  by (auto simp: domainKey_def JoinByte_Cons)

lemma verdict_ok: "rule_ok c \<Longrightarrow> decision_ok (verdict req c)"
  by (auto simp: verdict_def rule_ok_def controlled_def decision_ok_def granted_def Decision0_def BudgetMax_def Let_def
      dest: domainKey_nonempty split: option.splits)

lemma Evaluate_cases:
  obtains (malformed) "Evaluate nfkc c req = Decision0\<lparr>dc_RuleName := ''resource'', dc_Denied := True, dc_Reason := ''malformed_resource''\<rparr>"
  | (rule) req' r where "r \<in> set (cp_rules c)" "applies req' r" "Evaluate nfkc c req = verdict req' r"
      "pq_MerchantID req' = pq_MerchantID req" "pq_CustomerID req' = pq_CustomerID req"
      "pq_PrincipalType req' = pq_PrincipalType req" "pq_Anchors req' = pq_Anchors req" "pq_Action req' = pq_Action req"
      "pq_Resource req' = '''' \<or> resource_id (pq_Resource req')"
  | (fallback) "Evaluate nfkc c req = fallbackDecision c"
proof (cases "Canonical nfkc (pq_Resource req)")
  case (Inl e)
  show thesis
  proof (cases "pq_Resource req = ''''")
    case True
    then show thesis
      using Inl rule [of _ req] fallback
      by (cases "find (applies req) (cp_rules c)")
        (auto simp: Evaluate_def Let_def evaluateRules_find find_Some_iff2 dest!: find_SomeD)
  qed (use Inl malformed in \<open>simp add: Evaluate_def\<close>)
next
  case (Inr s)
  let ?req = "req\<lparr>pq_Resource := s\<rparr>"
  show thesis
    using Evaluate_canonical [OF Inr] rule [of _ ?req] fallback Canonical_strict [OF Inr]
    by (cases "find (applies ?req) (cp_rules c)") (auto dest!: find_SomeD)
qed

lemma Compile_rule_ok: "Compile d = Inr c \<Longrightarrow> r \<in> set (cp_rules c) \<Longrightarrow> rule_ok r"
  by (elim Compile_rules) (auto dest!: compileRules_ok simp: list_all_iff)

lemma Compile_source:
  assumes "Compile d = Inr c" "r \<in> set (cp_rules c)"
  shows "\<exists>r0 \<in> set (do_Domains d). ru_Name r0 = ru_Name (cr_Rule r) \<and> ru_Match r0 = ru_Match (cr_Rule r)
    \<and> ru_Scope r0 = ru_Scope (cr_Rule r) \<and> ru_Control r0 = ru_Control (cr_Rule r)"
proof -
  obtain ttl life where "compileRules ttl life 0 (do_Domains d) = Inr (cp_rules c)" "duration_ok ttl" "duration_ok life"
    using Compile_rules [OF assms(1)] by metis
  then have eq: "map (ru_Name \<circ> cr_Rule) (cp_rules c) = map ru_Name (do_Domains d)"
    "map (ru_Match \<circ> cr_Rule) (cp_rules c) = map ru_Match (do_Domains d)"
    "map (ru_Scope \<circ> cr_Rule) (cp_rules c) = map ru_Scope (do_Domains d)"
    "map (ru_Control \<circ> cr_Rule) (cp_rules c) = map ru_Control (do_Domains d)"
    using compileRules_ok by blast+
  obtain i where i: "i < length (cp_rules c)" "r = cp_rules c ! i" using assms(2) by (auto simp: in_set_conv_nth)
  moreover have len: "length (do_Domains d) = length (cp_rules c)" using map_eq_imp_length_eq [OF eq(1)] by simp
  ultimately have at: "f (cr_Rule r) = g (do_Domains d ! i)"
    if "map (f \<circ> cr_Rule) (cp_rules c) = map g (do_Domains d)" for f :: "Rule \<Rightarrow> 'z" and g
    using arg_cong [OF that, of "\<lambda>xs. xs ! i"] by simp
  show ?thesis
    using at [OF eq(1)] at [OF eq(2)] at [OF eq(3)] at [OF eq(4)] i(1) len by (metis nth_mem)
qed

lemma fallbackDecision_ok: "decision_ok (fallbackDecision c)"
  by (simp add: fallbackDecision_def decision_ok_def Decision0_def)

text \<open>C24. A compiled policy decides every request, by the first rule that applies to it (it matches, and is
  not passed over for a missing anchor) and else by the fallback; the decision is a denial with a
  known reason, an uncontrolled pass, or a grant with a domain key, room, and positive durations.\<close>

theorem evaluate_first_match:
  assumes "Compile d = Inr c"
  shows "decision_ok (Evaluate nfkc c req)
    \<and> (\<forall>s. Canonical nfkc (pq_Resource req) = Inr s \<longrightarrow>
        Evaluate nfkc c req = (case find (applies (req\<lparr>pq_Resource := s\<rparr>)) (cp_rules c) of
          None \<Rightarrow> fallbackDecision c | Some r \<Rightarrow> verdict (req\<lparr>pq_Resource := s\<rparr>) r))"
proof
  show "decision_ok (Evaluate nfkc c req)"
  proof (cases rule: Evaluate_cases [of nfkc c req])
    case (rule req' r)
    with Compile_rule_ok [OF assms] verdict_ok show ?thesis by auto
  next
    case malformed
    then show ?thesis by (simp add: decision_ok_def Decision0_def)
  next
    case fallback
    then show ?thesis using fallbackDecision_ok by simp
  qed
qed (simp add: Evaluate_canonical)

definition demo_request :: PolicyRequest where
  "demo_request = \<lparr>pq_MerchantID = ''m'', pq_CustomerID = ''c1'', pq_PrincipalType = ''agent'',
     pq_Resource = encode_runes [32, 0x5F] @ ''Event:Ars-CHE'' @ encode_runes [0x2013, 46, 0x27, 33],
     pq_Action = ''hold'', pq_Anchors = Map.empty\<rparr>"

lemma demo_request_canonical: "Canonical nfkc_fragment (pq_Resource demo_request) = Inr ''event:ars-che''"
  unfolding demo_request_def PolicyRequest.simps by (rule demo_canonical)

lemma demo_evaluate:
  "evaluateRules (cp_rules (default_compiled ''m'')) (demo_request\<lparr>pq_Resource := ''event:ars-che''\<rparr>)
   = Some (granted (cp_rules (default_compiled ''m'') ! 0) ''m/purchase-per-event/customer=c1/resource=event:ars-che'')"
  by (simp add: default_compiled_def DefaultDocument_def demo_request_def Rule0_def Match0_def matchRule_def ControlNone_def
      domainKey_def dimValue_def DefaultRuleName_def Let_def)

theorem evaluate_first_match_witness:
  "decision_ok (Evaluate nfkc_fragment (default_compiled ''m'') demo_request)
   \<and> dc_DomainKey (Evaluate nfkc_fragment (default_compiled ''m'') demo_request)
      = ''m/purchase-per-event/customer=c1/resource=event:ars-che''"
proof
  show "decision_ok (Evaluate nfkc_fragment (default_compiled ''m'') demo_request)"
    using evaluate_first_match [OF compile_default, of nfkc_fragment "''m''" demo_request] by (rule conjunct1)
  show "dc_DomainKey (Evaluate nfkc_fragment (default_compiled ''m'') demo_request)
      = ''m/purchase-per-event/customer=c1/resource=event:ars-che''"
    using demo_request_canonical demo_evaluate by (simp add: Evaluate_def granted_def Let_def)
qed

section \<open>Failing closed\<close>

lemma fail_open_fallback: "FailOpenReasons d = [] \<Longrightarrow> do_Fallback d \<noteq> FallbackAllowUncontrolled"
proof
  assume "FailOpenReasons d = []" "do_Fallback d = FallbackAllowUncontrolled"
  moreover have "TrimSpace FallbackAllowUncontrolled = FallbackAllowUncontrolled"
    by (subst TrimSpace_ascii) (simp_all add: FallbackAllowUncontrolled_def IsSpace_def)
  ultimately show False by (simp add: FailOpenReasons_def EqualFold_def)
qed


lemma demo_safe: "CheckProductionSafety (DefaultDocument ''m'') False = None"
proof -
  have "TrimSpace FallbackDeny = FallbackDeny"
    by (subst TrimSpace_ascii) (simp_all add: FallbackDeny_def IsSpace_def)
  then show ?thesis
    by (simp add: CheckProductionSafety_def FailOpenReasons_def DefaultDocument_def EqualFold_def runes_ascii
        FallbackDeny_def FallbackAllowUncontrolled_def)
qed

lemma demo_search: "Evaluate nfkc_fragment (default_compiled ''m'') (demo_request\<lparr>pq_Action := ''search''\<rparr>)
   = Decision0\<lparr>dc_RuleName := ''discovery'', dc_ControlNone := True\<rparr>"
  using demo_request_canonical
  by (simp add: Evaluate_def default_compiled_def DefaultDocument_def Rule0_def Match0_def matchRule_def Let_def
      ControlNone_def)


section \<open>Separation of domains\<close>

lemma dimParts_iff:
  "dimParts req sc = Some parts \<longleftrightarrow>
   list_all2 (\<lambda>dim p. \<exists>v. dimValue req dim = Some v \<and> p = dim @ ''='' @ v) sc parts"
proof (induction sc arbitrary: parts)
  case (Cons dim sc)
  then show ?case by (cases parts) (auto split: option.splits)
qed auto

text \<open>No slash in the parts a domain key is joined from.\<close>

definition slash_free :: "PolicyRequest \<Rightarrow> bool" where
  "slash_free req \<longleftrightarrow> CHR ''/'' \<notin> set (pq_MerchantID req) \<and> CHR ''/'' \<notin> set (pq_CustomerID req)
     \<and> CHR ''/'' \<notin> set (pq_PrincipalType req) \<and> (\<forall>v \<in> ran (pq_Anchors req). CHR ''/'' \<notin> set v)"

definition slash_free_rules :: "Rule list \<Rightarrow> bool" where
  "slash_free_rules rs \<longleftrightarrow> (\<forall>r \<in> set rs. CHR ''/'' \<notin> set (ru_Name r) \<and> (\<forall>dim \<in> set (ru_Scope r). CHR ''/'' \<notin> set dim))"

lemma resource_id_no_slash: "resource_id s \<Longrightarrow> CHR ''/'' \<notin> set s"
  using resource_id_bytes [of s] by (fastforce simp: az09_def az_def in_range_def)

lemma dimValue_no_slash:
  assumes "dimValue req dim = Some v" "slash_free req" "pq_Resource req = '''' \<or> resource_id (pq_Resource req)"
  shows "CHR ''/'' \<notin> set v"
proof -
  have res: "CHR ''/'' \<notin> set (pq_Resource req)" using assms(3) resource_id_no_slash by auto
  then have "CHR ''/'' \<notin> set (take i (pq_Resource req))" for i by (auto dest: in_set_takeD)
  with res assms(1,2) show ?thesis
    by (auto simp: dimValue_def slash_free_def ran_def split: if_splits option.splits)
qed

lemma list_all2_right: "list_all2 P xs ys \<Longrightarrow> y \<in> set ys \<Longrightarrow> \<exists>x \<in> set xs. P x y"
  by (induction rule: list_all2_induct) auto

lemma domainKey_parts:
  assumes "domainKey req n sc = Some key" "slash_free req" "pq_Resource req = '''' \<or> resource_id (pq_Resource req)"
    and "CHR ''/'' \<notin> set n" "\<forall>dim \<in> set sc. CHR ''/'' \<notin> set dim"
  obtains parts where "SplitByte key (CHR ''/'') = pq_MerchantID req # n # parts"
    "list_all2 (\<lambda>dim p. \<exists>v. dimValue req dim = Some v \<and> p = dim @ ''='' @ v) sc parts"
proof -
  from assms(1) obtain parts where p: "dimParts req sc = Some parts"
    "key = JoinByte (pq_MerchantID req # n # parts) (CHR ''/'')" by (auto simp: domainKey_def)
  then have all: "list_all2 (\<lambda>dim p. \<exists>v. dimValue req dim = Some v \<and> p = dim @ ''='' @ v) sc parts"
    by (simp add: dimParts_iff)
  have one: "CHR ''/'' \<notin> set w" if "dimValue req dim = Some v" "w = dim @ ''='' @ v" "dim \<in> set sc" for dim v w
    using that assms(5) dimValue_no_slash [OF that(1) assms(2,3)] by simp
  have "\<forall>w \<in> set parts. CHR ''/'' \<notin> set w"
  proof
    fix w
    assume "w \<in> set parts"
    with list_all2_right [OF all] one show "CHR ''/'' \<notin> set w" by blast
  qed
  then have "\<forall>w \<in> set (pq_MerchantID req # n # parts). CHR ''/'' \<notin> set w"
    using assms(2,4) by (simp add: slash_free_def)
  then show thesis using that [OF _ all] Split_Join [of "pq_MerchantID req # n # parts"] p(2) by simp
qed

lemma customer_part:
  assumes "validDim dim" "''customer='' @ c = dim @ ''='' @ v"
  shows "dim = ''customer''"
  using assms by (auto simp: validDim_def HasPrefix_iff)

lemma same_key_same_customer:
  assumes k: "domainKey r1 n1 sc1 = Some key" "domainKey r2 n2 sc2 = Some key"
    and f: "slash_free r1" "slash_free r2"
      "pq_Resource r1 = '''' \<or> resource_id (pq_Resource r1)" "pq_Resource r2 = '''' \<or> resource_id (pq_Resource r2)"
      "CHR ''/'' \<notin> set n1" "\<forall>dim \<in> set sc1. CHR ''/'' \<notin> set dim" "CHR ''/'' \<notin> set n2" "\<forall>dim \<in> set sc2. CHR ''/'' \<notin> set dim"
    and c: "''customer'' \<in> set sc1" "list_all validDim sc2"
  shows "pq_MerchantID r1 = pq_MerchantID r2 \<and> n1 = n2 \<and> pq_CustomerID r1 = pq_CustomerID r2"
proof -
  obtain parts where s1: "SplitByte key (CHR ''/'') = pq_MerchantID r1 # n1 # parts"
    and p1: "list_all2 (\<lambda>dim p. \<exists>v. dimValue r1 dim = Some v \<and> p = dim @ ''='' @ v) sc1 parts"
    by (rule domainKey_parts [OF k(1) f(1,3,5,6)])
  obtain parts' where s2: "SplitByte key (CHR ''/'') = pq_MerchantID r2 # n2 # parts'"
    and p2: "list_all2 (\<lambda>dim p. \<exists>v. dimValue r2 dim = Some v \<and> p = dim @ ''='' @ v) sc2 parts'"
    by (rule domainKey_parts [OF k(2) f(2,4,7,8)])
  from s1 s2 have eq: "pq_MerchantID r1 = pq_MerchantID r2" "n1 = n2" "parts' = parts" by simp_all
  note p = p1 p2 [unfolded eq(3)]
  obtain i where i: "i < length sc1" "sc1 ! i = ''customer''" using c(1) by (auto simp: in_set_conv_nth)
  with p(1) obtain w where w: "dimValue r1 ''customer'' = Some w" "parts ! i = ''customer'' @ ''='' @ w"
    by (auto simp: list_all2_conv_all_nth)
  from p i obtain v where v: "dimValue r2 (sc2 ! i) = Some v" "parts ! i = sc2 ! i @ ''='' @ v" "i < length sc2"
    by (auto simp: list_all2_conv_all_nth)
  have "validDim (sc2 ! i)" using c(2) v(3) by (simp add: list_all_length)
  moreover have "''customer='' @ w = sc2 ! i @ ''='' @ v" using w(2) v(2) by simp
  ultimately have "sc2 ! i = ''customer''" by (rule customer_part)
  with w v have "pq_CustomerID r1 = pq_CustomerID r2" by (simp add: dimValue_def)
  with eq show ?thesis by simp
qed


lemma demo_rules: "slash_free_rules (do_Domains (DefaultDocument ''m''))"
  "\<forall>r \<in> set (do_Domains (DefaultDocument ''m'')). ru_Control r \<noteq> ControlNone \<longrightarrow> ''customer'' \<in> set (ru_Scope r)"
  by (simp_all add: slash_free_rules_def DefaultDocument_def Rule0_def DefaultRuleName_def)

lemma demo_free: "slash_free demo_request" "slash_free (demo_request\<lparr>pq_PrincipalType := ''browser''\<rparr>)"
  by (simp_all add: slash_free_def demo_request_def)

lemma demo_key: "dc_DomainKey (Evaluate nfkc_fragment (default_compiled ''m'') demo_request)
      = ''m/purchase-per-event/customer=c1/resource=event:ars-che''"
  using demo_request_canonical demo_evaluate by (simp add: Evaluate_def granted_def Let_def)

definition demo_browser :: PolicyRequest where
  "demo_browser = demo_request\<lparr>pq_PrincipalType := ''browser''\<rparr>"

lemma demo_browser_key: "dc_DomainKey (Evaluate nfkc_fragment (default_compiled ''m'') demo_browser)
      = ''m/purchase-per-event/customer=c1/resource=event:ars-che''"
  using demo_request_canonical
  by (simp add: demo_browser_def Evaluate_def default_compiled_def DefaultDocument_def demo_request_def Rule0_def Match0_def
      matchRule_def ControlNone_def domainKey_def dimValue_def DefaultRuleName_def granted_def Let_def)


text \<open>Under the default policy a purchase or hold of a well-formed resource is controlled in exactly the
  domain that \<open>lease.DomainKey\<close> names, with room for one execution, 60 seconds at a time, 15 minutes in
  all, and no queue.\<close>

theorem default_policy_domain:
  assumes "Compile (DefaultDocument m) = Inr c" "Canonical nfkc (pq_Resource req) = Inr s"
    and "pq_Action req \<in> {''purchase'', ''hold''}"
  shows "Evaluate nfkc c req = Decision0\<lparr>dc_RuleName := DefaultRuleName,
      dc_DomainKey := DomainKey nfkc (pq_MerchantID req) DefaultRuleName (pq_CustomerID req) (pq_Resource req),
      dc_MaxActive := 1, dc_TTL := 60 * second, dc_MaxLifetime := 15 * minute, dc_Precedence := [''browser'', ''agent'']\<rparr>"
proof -
  have c: "c = default_compiled m" using assms(1) compile_default by simp
  show ?thesis
    unfolding c using assms(2,3)
    by (auto simp: Evaluate_def default_compiled_def DefaultDocument_def Rule0_def Match0_def matchRule_def ControlNone_def
        domainKey_def dimValue_def granted_def DomainKey_def Decision0_def BudgetMax_def Budget0_def Let_def)
qed

theorem default_policy_domain_witness:
  "dc_DomainKey (Evaluate nfkc_fragment (default_compiled ''m'') demo_request)
     = DomainKey nfkc_fragment ''m'' DefaultRuleName ''c1'' (pq_Resource demo_request)"
  using default_policy_domain [OF compile_default demo_request_canonical]
  by (simp add: demo_request_def Decision0_def)

end
