(* ===== verification/Policy_Store_Props.thy ===== *)
theory Policy_Store_Props
  imports Policy_Props Store_Policy Store_Props
begin

text \<open>Properties of the policy table: what a put leaves behind, and what holds at any time.\<close>

text \<open>C26. At any time, whatever puts have been made, failed or lost their acknowledgement, the policies of a
  merchant carry the versions 1, 2, 3 and so on, exactly the last one is active, and every stored
  document compiles.\<close>

theorem policy_versions:
  assumes "timed_reach empty_db (policy_step unmarshal) t d"
  shows "map pr_Version (rows_of m d) = map int [1..<Suc (length (rows_of m d))]
    \<and> filter pr_Active (rows_of m d) = (if rows_of m d = [] then [] else [last (rows_of m d)])
    \<and> (\<forall>p \<in> set (rows_of m d). \<not> isl (CompileYAML unmarshal (pr_YAML p)))"
proof -
  note ok = policy_table.reach_inv [OF assms]
  have act: "map pr_Active (rows_of m d) = map (\<lambda>i. i = length (rows_of m d)) [1..<Suc (length (rows_of m d))]"
    and ver: "map pr_Version (rows_of m d) = map int [1..<Suc (length (rows_of m d))]"
    using ok by (auto simp: policies_ok_def simp del: upt_Suc)
  have "filter pr_Active (rows_of m d) = (if rows_of m d = [] then [] else [last (rows_of m d)])"
  proof (cases "rows_of m d" rule: rev_cases)
    case (snoc rows row)
    have "map pr_Active rows = map (\<lambda>i. i = Suc (length rows)) [1..<Suc (length rows)] \<and> pr_Active row"
      using act by (simp add: snoc del: upt_Suc) (simp add: upt_Suc_append)
    then have "\<forall>p \<in> set rows. \<not> pr_Active p" "pr_Active row"
      by (auto simp del: upt_Suc dest!: arg_cong [of _ _ set])
    then show ?thesis by (simp add: snoc)
  qed simp
  moreover have "\<forall>p \<in> set (rows_of m d). \<not> isl (CompileYAML unmarshal (pr_YAML p))"
    using ok by (auto simp: policies_ok_def rows_of_def)
  ultimately show ?thesis using ver by blast
qed

definition demo_unmarshal :: "string \<Rightarrow> Document option" where
  "demo_unmarshal s = (if s = ''default'' then Some (DefaultDocument ''m'') else None)"

definition demo_audit :: AdminAudit where
  "demo_audit = \<lparr>aa_Actor = ''ops'', aa_Role = ''admin'', aa_IP = '''', aa_Auth = '''', aa_Before = '''', aa_After = '''',
     aa_RequestID = ''''\<rparr>"

lemma demo_compiles: "CompileYAML demo_unmarshal ''default'' = Inr (default_compiled ''m'')"
  by (simp add: CompileYAML_def Parse_def demo_unmarshal_def compile_default)

definition demo_policies :: db where
  "demo_policies = after (PutPolicy demo_unmarshal 1 ''m'' ''default'' ''rq'' demo_audit) empty_db"

lemma demo_put: "fst (PutPolicy demo_unmarshal 1 ''m'' ''default'' ''rq'' demo_audit empty_db [])
   = Inr \<lparr>pr_MerchantID = ''m'', pr_Version = 1, pr_YAML = ''default'', pr_Active = True\<rparr>"
  by (simp add: PutPolicy_def demo_compiles putBody_def insertPolicy_def nextVersion_def insertAudit_def empty_db_def dbop_simps
      run_stmt_def max_int4_def Let_def)

lemma demo_policies_runs:
  "runs (PutPolicy demo_unmarshal 1 ''m'' ''default'' ''rq'' demo_audit) empty_db
     \<lparr>pr_MerchantID = ''m'', pr_Version = 1, pr_YAML = ''default'', pr_Active = True\<rparr> demo_policies"
  using runs_answer [of "PutPolicy demo_unmarshal 1 ''m'' ''default'' ''rq'' demo_audit" empty_db] demo_put
  by (simp add: answer_def demo_policies_def)

lemma demo_policies_reach: "timed_reach empty_db (policy_step demo_unmarshal) 1 demo_policies"
  using timed_reach.start [of empty_db "policy_step demo_unmarshal" 0] policy_step.put [OF runs_ends [OF demo_policies_runs]]
  by (auto intro: timed_reach.later)

theorem policy_versions_witness:
  "map pr_Version (rows_of ''m'' demo_policies) = map int [1..<Suc (length (rows_of ''m'' demo_policies))]"
  using policy_versions [OF demo_policies_reach] by blast

lemma update_where_clears: "(\<And>x. P x \<Longrightarrow> \<not> P (f x)) \<Longrightarrow> \<forall>x \<in> set (update_where P f xs). \<not> P x"
  by (induction xs) auto

lemma find_snoc: "\<forall>x \<in> set xs. \<not> P x \<Longrightarrow> P y \<Longrightarrow> find P (xs @ [y]) = Some y"
  by (induction xs) auto

text \<open>A successful put is what the merchant gets from then on: the new row has the next version, compiles,
  and is what \<open>ActivePolicy\<close> reads; the rows of every other merchant stay as they were.\<close>

theorem put_policy_is_active:
  assumes reach: "timed_reach empty_db (policy_step unmarshal) t d"
    and put: "runs (PutPolicy unmarshal now m y rq au) d row d'"
  shows "row = \<lparr>pr_MerchantID = m, pr_Version = int (length (rows_of m d)) + 1, pr_YAML = y, pr_Active = True\<rparr>
    \<and> \<not> isl (CompileYAML unmarshal y) \<and> fst (ActivePolicy m d' []) = Inr row
    \<and> (\<forall>m'. m' \<noteq> m \<longrightarrow> rows_of m' d' = rows_of m' d)"
proof -
  note ok = policy_table.reach_inv [OF reach]
  note r = runs_putBody [OF conjunct1 [OF PutPolicy_runs [OF put]]]
  have row: "row = \<lparr>pr_MerchantID = m, pr_Version = int (length (rows_of m d)) + 1, pr_YAML = y, pr_Active = True\<rparr>"
    using r nextVersion_ok [OF ok] by simp
  have "\<forall>p \<in> set (update_where (\<lambda>p. pr_MerchantID p = m \<and> pr_Active p) (\<lambda>p. p\<lparr>pr_Active := False\<rparr>) (policies d)).
      \<not> (pr_MerchantID p = m \<and> pr_Active p)"
    by (rule update_where_clears) simp
  then have "find (\<lambda>p. pr_MerchantID p = m \<and> pr_Active p) (policies d') = Some row"
    unfolding conjunct2 [OF r] by (rule find_snoc) (simp add: row)
  then have "fst (ActivePolicy m d' []) = Inr row" by (simp add: ActivePolicy_def dbop_simps)
  moreover have "\<forall>m'. m' \<noteq> m \<longrightarrow> rows_of m' d' = rows_of m' d"
    using rows_of_put [OF conjunct2 [OF r]] row by simp
  ultimately show ?thesis using row PutPolicy_runs [OF put] by blast
qed

theorem put_policy_is_active_witness:
  "fst (ActivePolicy ''m'' demo_policies []) = Inr \<lparr>pr_MerchantID = ''m'', pr_Version = 1, pr_YAML = ''default'', pr_Active = True\<rparr>"
  using put_policy_is_active [OF timed_reach.start [of empty_db "policy_step demo_unmarshal" 0] demo_policies_runs] by blast

end
