(* ===== verification/Limit.thy ===== *)
theory Limit
  imports Prelude Complex_Main
begin

text \<open>
  \<open>internal/limit/limit.go\<close>: token buckets per key (\<open>Keyed\<close>) and per execution (\<open>PerExecution\<close>). The
  \<open>float64\<close> rates and token counts are exact rationals here. A slot is shared by pointer between the map
  and the release functions handed out, so slots live in a heap and the map holds their addresses;
  a release function is the address it closes over. The mutexes make every operation one step.
\<close>

section \<open>Slots\<close>

record slot =
  sl_inflight :: int
  sl_tokens :: rat
  sl_last :: time

text \<open>\<open>now.Sub(s.last).Seconds()\<close>.\<close>

definition Seconds :: "duration \<Rightarrow> rat" where
  "Seconds d = of_int d / of_int second"

text \<open>The refill of both limiters, up to a cap.\<close>

definition refill :: "rat \<Rightarrow> rat \<Rightarrow> time \<Rightarrow> slot \<Rightarrow> slot" where
  "refill rps cap now s =
     (let elapsed = Seconds (now - sl_last s) in
      if elapsed > 0 then
        let tokens = sl_tokens s + elapsed * rps
        in s\<lparr>sl_tokens := (if tokens > cap then cap else tokens), sl_last := now\<rparr>
      else s)"

section \<open>Keyed\<close>

record Keyed =
  ky_RPS :: rat
  ky_Burst :: int
  ky_byID :: "string \<rightharpoonup> slot"
  ky_limited :: nat

text \<open>\<open>int(rps)\<close> truncates towards zero.\<close>

definition trunc :: "rat \<Rightarrow> int" where
  "trunc r = (if r < 0 then - \<lfloor>- r\<rfloor> else \<lfloor>r\<rfloor>)"

definition NewKeyed :: "rat \<Rightarrow> int \<Rightarrow> Keyed" where
  "NewKeyed rps burst =
     \<lparr>ky_RPS = rps,
      ky_Burst = (if burst < 1 then let b = trunc rps + 5 in if b < 1 then 10 else b else burst),
      ky_byID = Map.empty, ky_limited = 0\<rparr>"

definition Allow :: "string \<Rightarrow> time \<Rightarrow> Keyed \<Rightarrow> bool \<times> Keyed" where
  "Allow i now k =
     (if ky_RPS k \<le> 0 \<or> i = '''' then (True, k)
      else
        let s = (case ky_byID k i of
                   None \<Rightarrow> \<lparr>sl_inflight = 0, sl_tokens = of_int (ky_Burst k), sl_last = now\<rparr>
                 | Some s \<Rightarrow> s);
            s = refill (ky_RPS k) (of_int (ky_Burst k)) now s
        in if sl_tokens s < 1 then (False, k\<lparr>ky_byID := (ky_byID k)(i \<mapsto> s), ky_limited := ky_limited k + 1\<rparr>)
           else (True, k\<lparr>ky_byID := (ky_byID k)(i \<mapsto> s\<lparr>sl_tokens := sl_tokens s - 1\<rparr>)\<rparr>))"

section \<open>PerExecution\<close>

record PerExecution =
  pe_MaxInFlight :: int
  pe_RPS :: rat
  pe_Burst :: int
  pe_byID :: "string \<rightharpoonup> nat"
  pe_heap :: "slot list"

definition New :: "int \<Rightarrow> rat \<Rightarrow> PerExecution" where
  "New maxInFlight rps =
     (let maxInFlight = (if maxInFlight \<le> 0 then 2 else maxInFlight);
          rps = (if rps \<le> 0 then 5 else rps);
          burst = trunc rps + 5;
          burst = (if burst < 1 then 10 else burst)
      in \<lparr>pe_MaxInFlight = maxInFlight, pe_RPS = rps, pe_Burst = burst, pe_byID = Map.empty, pe_heap = []\<rparr>)"

text \<open>The slot of an execution, allocated when there is none.\<close>

definition slotOf :: "string \<Rightarrow> time \<Rightarrow> PerExecution \<Rightarrow> nat \<times> PerExecution" where
  "slotOf i now p =
     (case pe_byID p i of
        Some a \<Rightarrow> (a, p)
      | None \<Rightarrow> (length (pe_heap p),
          p\<lparr>pe_heap := pe_heap p @ [\<lparr>sl_inflight = 0, sl_tokens = pe_RPS p, sl_last = now\<rparr>],
            pe_byID := (pe_byID p)(i \<mapsto> length (pe_heap p))\<rparr>))"

text \<open>The answer: refused, or allowed with the release function (None for the empty identifier).\<close>

datatype taken = Refused | Allowed "nat option"

definition Take :: "string \<Rightarrow> time \<Rightarrow> PerExecution \<Rightarrow> taken \<times> PerExecution" where
  "Take i now p =
     (if i = '''' then (Allowed None, p)
      else
        let (a, p) = slotOf i now p;
            s = refill (pe_RPS p) (if pe_Burst p > 0 then of_int (pe_Burst p) else pe_RPS p) now (pe_heap p ! a)
        in if sl_inflight s \<ge> pe_MaxInFlight p \<or> sl_tokens s < 1
           then (Refused, p\<lparr>pe_heap := (pe_heap p)[a := s]\<rparr>)
           else (Allowed (Some a),
             p\<lparr>pe_heap := (pe_heap p)[a := s\<lparr>sl_inflight := sl_inflight s + 1, sl_tokens := sl_tokens s - 1\<rparr>]\<rparr>))"

definition release :: "string \<Rightarrow> nat \<Rightarrow> PerExecution \<Rightarrow> PerExecution" where
  "release i a p =
     (let s = (pe_heap p ! a)\<lparr>sl_inflight := sl_inflight (pe_heap p ! a) - 1\<rparr>;
          p = p\<lparr>pe_heap := (pe_heap p)[a := s]\<rparr>
      in if sl_inflight s \<le> 0 \<and> sl_tokens s \<ge> pe_RPS p - 1 / 100
         then p\<lparr>pe_byID := (pe_byID p)(i := None)\<rparr> else p)"

section \<open>The rate of a key\<close>

lemma Seconds_add: "Seconds (a + b) = Seconds a + Seconds b"
  by (simp add: Seconds_def add_divide_distrib)

lemma Seconds_pos [simp]: "0 < Seconds d \<longleftrightarrow> 0 < d" "0 \<le> Seconds d \<longleftrightarrow> 0 \<le> d"
  by (simp_all add: Seconds_def zero_less_divide_iff zero_le_divide_iff)

lemma Seconds_zero [simp]: "Seconds 0 = 0"
  by (simp add: Seconds_def)

lemma refill_tokens:
  assumes "sl_last s \<le> now" "0 \<le> rps" "sl_tokens s \<le> cap"
  shows "sl_tokens (refill rps cap now s) \<le> sl_tokens s + Seconds (now - sl_last s) * rps
    \<and> sl_tokens s \<le> sl_tokens (refill rps cap now s) \<and> sl_tokens (refill rps cap now s) \<le> cap
    \<and> sl_last (refill rps cap now s) = now"
proof (cases "sl_last s = now")
  case True
  with assms show ?thesis by (simp add: refill_def)
next
  case False
  with assms have "0 < Seconds (now - sl_last s)" by simp
  moreover from this assms have "0 \<le> Seconds (now - sl_last s) * rps" by simp
  ultimately show ?thesis using assms by (auto simp: refill_def Let_def)
qed

text \<open>How many of a sequence of calls for one key are let through.\<close>

fun allowed_calls :: "string \<Rightarrow> time list \<Rightarrow> Keyed \<Rightarrow> nat" where
  "allowed_calls i [] k = 0"
| "allowed_calls i (t # ts) k = (case Allow i t k of (ok, k') \<Rightarrow> (if ok then 1 else 0) + allowed_calls i ts k')"

lemma Allow_slot:
  assumes "ky_byID k i = Some s" "0 < ky_RPS k" "i \<noteq> ''''" "sl_last s \<le> t" "sl_tokens s \<le> of_int (ky_Burst k)"
    and "0 \<le> sl_tokens s" and "Allow i t k = (ok, k')"
  shows "ky_RPS k' = ky_RPS k \<and> ky_Burst k' = ky_Burst k
    \<and> (\<exists>s'. ky_byID k' i = Some s' \<and> sl_last s' = t \<and> 0 \<le> sl_tokens s' \<and> sl_tokens s' \<le> of_int (ky_Burst k)
        \<and> (if ok then 1 else 0) + sl_tokens s' \<le> sl_tokens s + Seconds (t - sl_last s) * ky_RPS k)"
  using refill_tokens [of s t "ky_RPS k" "of_int (ky_Burst k)"] assms
  by (auto simp: Allow_def Let_def split: if_splits)

lemma allowed_calls_bound:
  assumes "ky_byID k i = Some s" "0 < ky_RPS k" "i \<noteq> ''''" "sorted (sl_last s # ts)" "sl_tokens s \<le> of_int (ky_Burst k)"
    and "0 \<le> sl_tokens s"
  shows "of_nat (allowed_calls i ts k) \<le> sl_tokens s + Seconds (last (sl_last s # ts) - sl_last s) * ky_RPS k"
  using assms
proof (induction ts arbitrary: k s)
  case (Cons t ts)
  obtain ok k' where a: "Allow i t k = (ok, k')" by fastforce
  from Cons.prems have "sl_last s \<le> t" "sorted (t # ts)" by auto
  from Allow_slot [OF Cons.prems(1-3) this(1) Cons.prems(5,6) a]
  obtain s' where s': "ky_RPS k' = ky_RPS k" "ky_Burst k' = ky_Burst k" "ky_byID k' i = Some s'" "sl_last s' = t"
    "0 \<le> sl_tokens s'" "sl_tokens s' \<le> of_int (ky_Burst k)"
    "(if ok then 1 else 0) + sl_tokens s' \<le> sl_tokens s + Seconds (t - sl_last s) * ky_RPS k" by auto
  have "of_nat (allowed_calls i ts k') \<le> sl_tokens s' + Seconds (last (t # ts) - t) * ky_RPS k"
    using Cons.IH [of k' s'] s' Cons.prems \<open>sorted (t # ts)\<close> by simp
  moreover have "Seconds (last (t # ts) - sl_last s) = Seconds (last (t # ts) - t) + Seconds (t - sl_last s)"
    by (simp flip: Seconds_add)
  ultimately show ?case using s'(7) a by (auto simp: algebra_simps split: if_splits)
qed simp

section \<open>Requests in flight\<close>

text \<open>
  The limiter together with the release functions that have been handed out and not yet called, with
  the execution each is for. The callers call each of them once.
\<close>

type_synonym limiter = "PerExecution \<times> (string \<times> nat) multiset"

inductive limit_step :: "time \<Rightarrow> limiter \<Rightarrow> limiter \<Rightarrow> bool" for now where
  take: "Take i now p = (Allowed (Some a), p') \<Longrightarrow> limit_step now (p, out) (p', add_mset (i, a) out)"
| refuse: "Take i now p = (Refused, p') \<Longrightarrow> limit_step now (p, out) (p', out)"
| finish: "(i, a) \<in># out \<Longrightarrow> limit_step now (p, out) (release i a p, out - {#(i, a)#})"

definition in_flight :: "(string \<times> nat \<Rightarrow> bool) \<Rightarrow> (string \<times> nat) multiset \<Rightarrow> int" where
  "in_flight P out = int (size (filter_mset P out))"

definition limiter_ok :: "int \<Rightarrow> limiter \<Rightarrow> bool" where
  "limiter_ok M l \<longleftrightarrow> (case l of (p, out) \<Rightarrow>
     0 \<le> M \<and> pe_MaxInFlight p = M
     \<and> (\<forall>i a. pe_byID p i = Some a \<longrightarrow> a < length (pe_heap p))
     \<and> (\<forall>i j a. pe_byID p i = Some a \<longrightarrow> pe_byID p j = Some a \<longrightarrow> i = j)
     \<and> (\<forall>i a. (i, a) \<in># out \<longrightarrow> pe_byID p i = Some a)
     \<and> (\<forall>a < length (pe_heap p). sl_inflight (pe_heap p ! a) = in_flight (\<lambda>x. snd x = a) out
          \<and> sl_inflight (pe_heap p ! a) \<le> M))"

lemma refill_inflight [simp]: "sl_inflight (refill r c now s) = sl_inflight s"
  by (simp add: refill_def Let_def)

lemma in_flight_add: "in_flight P (add_mset x out) = (if P x then 1 else 0) + in_flight P out"
  by (simp add: in_flight_def)

lemma in_flight_remove: "x \<in># out \<Longrightarrow> in_flight P (out - {#x#}) = in_flight P out - (if P x then 1 else 0)"
  using in_flight_add [of P x "out - {#x#}"] by simp

lemma in_flight_none: "in_flight P out \<le> 0 \<longleftrightarrow> (\<forall>x. x \<in># out \<longrightarrow> \<not> P x)"
  by (auto simp: in_flight_def filter_mset_eq_mempty_iff)

lemma in_flight_nonneg: "0 \<le> in_flight P out"
  by (simp add: in_flight_def)

lemma slotOf_ok:
  assumes ok: "limiter_ok M (p, out)" and s: "slotOf i now p = (a, p')"
  shows "limiter_ok M (p', out) \<and> pe_byID p' i = Some a"
proof (cases "pe_byID p i")
  case None
  then have p': "a = length (pe_heap p)"
    "p' = p\<lparr>pe_heap := pe_heap p @ [\<lparr>sl_inflight = 0, sl_tokens = pe_RPS p, sl_last = now\<rparr>],
       pe_byID := (pe_byID p)(i \<mapsto> length (pe_heap p))\<rparr>" using s by (auto simp: slotOf_def)
  have old: "\<forall>j b. pe_byID p j = Some b \<longrightarrow> b < length (pe_heap p)" "\<forall>j b. (j, b) \<in># out \<longrightarrow> pe_byID p j = Some b"
    using ok by (auto simp: limiter_ok_def)
  then have "in_flight (\<lambda>x. snd x = length (pe_heap p)) out \<le> 0"
    unfolding in_flight_none by fastforce
  then have "in_flight (\<lambda>x. snd x = length (pe_heap p)) out = 0" using in_flight_nonneg by (rule antisym)
  moreover have "\<forall>j b. (j, b) \<in># out \<longrightarrow> j \<noteq> i" using old(2) None by auto
  ultimately show ?thesis
    using ok old p' by (auto simp: limiter_ok_def nth_append less_Suc_eq)
next
  case (Some b)
  with s ok show ?thesis by (simp add: slotOf_def)
qed

lemma limiter_ok_update:
  assumes "limiter_ok M (p, out)" "pe_byID p i = Some a" "out' = (if x then add_mset (i, a) out else out)"
    and "sl_inflight s = sl_inflight (pe_heap p ! a) + (if x then 1 else 0)"
    and "x \<longrightarrow> sl_inflight (pe_heap p ! a) < pe_MaxInFlight p"
  shows "limiter_ok M (p\<lparr>pe_heap := (pe_heap p)[a := s]\<rparr>, out')"
  using assms by (auto simp: limiter_ok_def nth_list_update in_flight_add split: if_splits)

lemma limiter_ok_release:
  assumes ok: "limiter_ok M (p, out)" and out: "(i, a) \<in># out"
  shows "limiter_ok M (release i a p, out - {#(i, a)#})"
proof -
  let ?s = "(pe_heap p ! a)\<lparr>sl_inflight := sl_inflight (pe_heap p ! a) - 1\<rparr>"
  let ?p = "p\<lparr>pe_heap := (pe_heap p)[a := ?s]\<rparr>" and ?out = "out - {#(i, a)#}"
  have at: "pe_byID p i = Some a" using ok out by (auto simp: limiter_ok_def)
  then have at: "pe_byID p i = Some a" "a < length (pe_heap p)" using ok by (auto simp: limiter_ok_def)
  have ok': "limiter_ok M (?p, ?out)"
    using ok at by (auto simp: limiter_ok_def nth_list_update in_flight_remove [OF out] dest: in_diffD)
  show ?thesis
  proof (cases "sl_inflight ?s \<le> 0 \<and> sl_tokens ?s \<ge> pe_RPS ?p - 1 / 100")
    case True
    have "sl_inflight ?s = in_flight (\<lambda>x. snd x = a) ?out"
      using ok' at(2) by (auto simp: limiter_ok_def nth_list_update)
    with True have "in_flight (\<lambda>x. snd x = a) ?out \<le> 0" by simp
    then have none: "\<forall>j b. (j, b) \<in># ?out \<longrightarrow> b \<noteq> a" unfolding in_flight_none by fastforce
    have "limiter_ok M (?p\<lparr>pe_byID := (pe_byID ?p)(i := None)\<rparr>, ?out)"
      using ok' none at(1) by (auto simp: limiter_ok_def)
    with True show ?thesis by (simp add: release_def Let_def)
  next
    case False
    then have "release i a p = ?p" by (simp only: release_def Let_def PerExecution.simps if_False)
    with ok' show ?thesis by simp
  qed
qed

lemma limiter_ok_Take:
  assumes ok: "limiter_ok M (p, out)" and t: "Take i now p = (r, p')"
  shows "limiter_ok M (p', case r of Allowed (Some a) \<Rightarrow> add_mset (i, a) out | _ \<Rightarrow> out)"
proof (cases "i = ''''")
  case True
  with t ok show ?thesis by (auto simp: Take_def)
next
  case False
  obtain a q where q: "slotOf i now p = (a, q)" by fastforce
  note sl = slotOf_ok [OF ok q]
  let ?s = "refill (pe_RPS q) (if pe_Burst q > 0 then of_int (pe_Burst q) else pe_RPS q) now (pe_heap q ! a)"
  show ?thesis
  proof (cases "sl_inflight ?s \<ge> pe_MaxInFlight q \<or> sl_tokens ?s < 1")
    case True
    with False q t have "r = Refused" "p' = q\<lparr>pe_heap := (pe_heap q)[a := ?s]\<rparr>" by (auto simp: Take_def Let_def)
    then show ?thesis using limiter_ok_update [of M q out i a out False ?s] sl by simp
  next
    case ok': False
    with False q t have "r = Allowed (Some a)"
      "p' = q\<lparr>pe_heap := (pe_heap q)[a := ?s\<lparr>sl_inflight := sl_inflight ?s + 1, sl_tokens := sl_tokens ?s - 1\<rparr>]\<rparr>"
      by (auto simp: Take_def Let_def)
    then show ?thesis
      using limiter_ok_update [of M q out i a "add_mset (i, a) out" True] sl ok' by simp
  qed
qed

interpretation limiter: timed_invariant "(New n r, {#})" limit_step "\<lambda>_. limiter_ok (pe_MaxInFlight (New n r))" for n r
proof unfold_locales
  show "limiter_ok (pe_MaxInFlight (New n r)) (New n r, {#})" by (simp add: limiter_ok_def New_def Let_def in_flight_def)
  show "limiter_ok (pe_MaxInFlight (New n r)) l'" if "limiter_ok (pe_MaxInFlight (New n r)) l" "limit_step t l l'" for t l l'
    using that(2,1)
  proof (induction rule: limit_step.induct)
    case (take i p a p' out)
    then show ?case using limiter_ok_Take [of "pe_MaxInFlight (New n r)" p out i t] by fastforce
  next
    case (refuse i p p' out)
    then show ?case using limiter_ok_Take [of "pe_MaxInFlight (New n r)" p out i t] by fastforce
  next
    case (finish i a out p)
    then show ?case by (blast intro: limiter_ok_release)
  qed
qed

end
