(* ===== verification/Limit_Props.thy ===== *)
theory Limit_Props
  imports Limit
begin

text \<open>What the limiters guarantee: a bound on the rate of a key and on the requests in flight of an execution.\<close>

lemma Allow_fresh:
  assumes "ky_byID k i = None"
  shows "Allow i t k = Allow i t (k\<lparr>ky_byID := (ky_byID k)(i \<mapsto> \<lparr>sl_inflight = 0, sl_tokens = of_int (ky_Burst k), sl_last = t\<rparr>)\<rparr>)
    \<or> ky_RPS k \<le> 0 \<or> i = ''''"
  using assms by (auto simp: Allow_def Let_def)

lemma NewKeyed_burst: "1 \<le> ky_Burst (NewKeyed rps b)"
  by (simp add: NewKeyed_def Let_def)



text \<open>C28. At any time an execution has at most \<open>MaxInFlight\<close> requests in flight, counting the release functions
  handed out for it and not yet called, also when its slot has been deleted and made anew.\<close>

theorem in_flight_bound:
  assumes "timed_reach (New n r, {#}) limit_step t (p, out)"
  shows "in_flight (\<lambda>x. fst x = i) out \<le> pe_MaxInFlight (New n r)"
proof -
  note ok = limiter.reach_inv [OF assms]
  have at: "\<forall>j b. (j, b) \<in># out \<longrightarrow> pe_byID p j = Some b" using ok by (auto simp: limiter_ok_def)
  show ?thesis
  proof (cases "pe_byID p i")
    case None
    with at have "in_flight (\<lambda>x. fst x = i) out \<le> 0" unfolding in_flight_none by fastforce
    with ok show ?thesis by (auto simp: limiter_ok_def)
  next
    case (Some a)
    have "filter_mset (\<lambda>x. fst x = i) out \<subseteq># filter_mset (\<lambda>x. snd x = a) out"
      by (rule filter_mset_mono_strong) (use at Some in auto)
    then have "in_flight (\<lambda>x. fst x = i) out \<le> in_flight (\<lambda>x. snd x = a) out"
      by (simp add: in_flight_def size_mset_mono)
    also have "\<dots> \<le> pe_MaxInFlight (New n r)"
    proof -
      have "a < length (pe_heap p)" using ok Some by (auto simp: limiter_ok_def)
      moreover have "\<forall>a < length (pe_heap p). sl_inflight (pe_heap p ! a) = in_flight (\<lambda>x. snd x = a) out
          \<and> sl_inflight (pe_heap p ! a) \<le> pe_MaxInFlight (New n r)"
        using ok unfolding limiter_ok_def prod.case by blast
      ultimately show ?thesis by metis
    qed
    finally show ?thesis .
  qed
qed

lemma demo_take:
  "Take ''exe'' 0 (New 1 5) = (Allowed (Some 0), (New 1 5)\<lparr>pe_byID := [''exe'' \<mapsto> 0],
     pe_heap := [\<lparr>sl_inflight = 1, sl_tokens = 4, sl_last = 0\<rparr>]\<rparr>)"
  by (simp add: Take_def slotOf_def New_def refill_def Seconds_def trunc_def Let_def)

theorem in_flight_bound_witness: "in_flight (\<lambda>x. fst x = ''exe'') {#(''exe'', 0)#} \<le> 1"
proof -
  have "timed_reach (New 1 5, {#}) limit_step 0 ((New 1 5)\<lparr>pe_byID := [''exe'' \<mapsto> 0],
     pe_heap := [\<lparr>sl_inflight = 1, sl_tokens = 4, sl_last = 0\<rparr>]\<rparr>, {#(''exe'', 0)#})"
    by (rule timed_reach.later [OF timed_reach.start order_refl]) (rule limit_step.take [OF demo_take])
  from in_flight_bound [OF this, of "''exe''"] show ?thesis by (simp add: New_def)
qed

end
