(* ===== verification/Cache.thy ===== *)
theory Cache
  imports Store_Steps
begin

text \<open>
  \<open>internal/lease/cache.go\<close>: \<open>BusyCache\<close>, which wraps a lease store and answers BUSY locally. Its
  operations take the operation of the wrapped store as an argument, as the source calls \<open>c.inner\<close>; a
  state is the cache together with the state of the wrapped store. \<open>now\<close> and \<open>now'\<close> are the readings of
  \<open>c.now()\<close>. What the cache relies on is the locale \<open>lease_store\<close>, and what it guarantees is proved there.
\<close>

section \<open>The cache\<close>

record cacheItem =
  ci_holder :: principal
  ci_exeID :: string
  ci_expiresAt :: time
  ci_maxActive :: int
  ci_occupied :: int

record BusyCache =
  bc_hedge :: "64 word"
  bc_items :: "string \<rightharpoonup> cacheItem"
  bc_n :: "64 word"
  bc_hits :: "64 word"
  bc_miss :: "64 word"

definition NewBusyCache :: "64 word \<Rightarrow> BusyCache" where
  "NewBusyCache hedge =
     \<lparr>bc_hedge = (if hedge = 0 then 50 else hedge), bc_items = Map.empty, bc_n = 0, bc_hits = 0, bc_miss = 0\<rparr>"

definition cacheKey :: "string \<Rightarrow> string \<Rightarrow> string" where
  "cacheKey merchantID dkey = merchantID @ [CHR 0x00] @ dkey"

definition Reset :: "BusyCache \<Rightarrow> BusyCache" where
  "Reset c = c\<lparr>bc_items := Map.empty\<rparr>"

definition remember :: "string \<Rightarrow> string \<Rightarrow> execution option \<Rightarrow> int \<Rightarrow> int \<Rightarrow> BusyCache \<Rightarrow> BusyCache" where
  "remember merchantID dkey exe maxActive occupied c =
     (case exe of
        None \<Rightarrow> c
      | Some e \<Rightarrow> c\<lparr>bc_items := (bc_items c)(cacheKey merchantID dkey \<mapsto>
          \<lparr>ci_holder = e_Principal e, ci_exeID = e_ID e, ci_expiresAt = e_ExpiresAt e,
           ci_maxActive = (if maxActive < 1 then 1 else maxActive), ci_occupied = (if occupied < 1 then 1 else occupied)\<rparr>)\<rparr>)"

definition rememberBusy :: "string \<Rightarrow> string \<Rightarrow> busy_info option \<Rightarrow> int \<Rightarrow> BusyCache \<Rightarrow> BusyCache" where
  "rememberBusy merchantID dkey b maxActive c =
     (case b of
        None \<Rightarrow> c
      | Some b \<Rightarrow> let maxActive = (if maxActive < 1 then 1 else maxActive) in
          c\<lparr>bc_items := (bc_items c)(cacheKey merchantID dkey \<mapsto>
            \<lparr>ci_holder = b_Holder b, ci_exeID = b_ActiveExecutionID b, ci_expiresAt = b_ExpiresAt b,
             ci_maxActive = maxActive, ci_occupied = maxActive\<rparr>)\<rparr>)"

definition forget :: "string \<Rightarrow> string \<Rightarrow> BusyCache \<Rightarrow> BusyCache" where
  "forget merchantID dkey c = c\<lparr>bc_items := (bc_items c)(cacheKey merchantID dkey := None)\<rparr>"

definition lookup :: "time \<Rightarrow> string \<Rightarrow> string \<Rightarrow> BusyCache \<Rightarrow> cacheItem option \<times> BusyCache" where
  "lookup now merchantID dkey c =
     (case bc_items c (cacheKey merchantID dkey) of
        None \<Rightarrow> (None, c)
      | Some it \<Rightarrow>
          if \<not> ci_expiresAt it > now then (None, forget merchantID dkey c)
          else (Some it, c))"

section \<open>The operations\<close>

text \<open>The local answer of \<open>Acquire\<close>, if it has one.\<close>

definition localBusy :: "time \<Rightarrow> acquire_request \<Rightarrow> BusyCache \<Rightarrow> acquire_result option \<times> BusyCache" where
  "localBusy now req c =
     (case lookup now (q_MerchantID req) (q_DomainKey req) c of
        (Some it, c) \<Rightarrow>
          let same = (p_Type (ci_holder it) = p_Type (q_Principal req) \<and> p_ID (ci_holder it) = p_ID (q_Principal req)) in
          if \<not> same \<and> ci_occupied it \<ge> ci_maxActive it then
            (Some \<lparr>r_Status = StatusBusy, r_Execution = None,
               r_Busy = Some \<lparr>b_ActiveExecutionID = ci_exeID it, b_Holder = ci_holder it, b_ExpiresAt = ci_expiresAt it,
                 b_CanPreempt = CanPreemptRanked (q_Principal req) (ci_holder it) (q_Precedence req)\<rparr>,
               r_Queue = None, r_Reason = ''''\<rparr>,
             c\<lparr>bc_hits := bc_hits c + 1\<rparr>)
          else (None, c)
      | (None, c) \<Rightarrow> (None, c\<lparr>bc_miss := bc_miss c + 1\<rparr>))"

text \<open>What is remembered of an answer of the store.\<close>

definition rememberResult :: "time \<Rightarrow> acquire_request \<Rightarrow> acquire_result \<Rightarrow> BusyCache \<Rightarrow> BusyCache" where
  "rememberResult now req res c =
     (let m = q_MerchantID req; k = q_DomainKey req; ma = (if q_MaxActive req < 1 then 1 else q_MaxActive req) in
      case r_Status res of
        StatusGranted \<Rightarrow>
          (case lookup now m k c of
             (Some it, c) \<Rightarrow> remember m k (r_Execution res) ma (ci_occupied it + 1) c
           | (None, c) \<Rightarrow> remember m k (r_Execution res) ma 1 c)
      | StatusAlreadyHeld \<Rightarrow>
          (case lookup now m k c of
             (Some it, c) \<Rightarrow> remember m k (r_Execution res) ma (ci_occupied it) c
           | (None, c) \<Rightarrow> remember m k (r_Execution res) ma 1 c)
      | StatusBusy \<Rightarrow> rememberBusy m k (r_Busy res) ma c
      | StatusQueued \<Rightarrow> c)"

definition refreshes :: "acquire_request \<Rightarrow> BusyCache \<Rightarrow> bool" where
  "refreshes req c \<longleftrightarrow> bc_hedge c > 0 \<and> bc_n c mod bc_hedge c = 0 \<or> q_MaxWaiters req > 0"

type_synonym ('s, 'a) cached = "(BusyCache \<times> 's, 'a) dbop"

definition CacheAcquire :: "time \<Rightarrow> time \<Rightarrow> ('s, acquire_result) dbop \<Rightarrow> acquire_request \<Rightarrow> ('s, acquire_result) cached" where
  "CacheAcquire now now' inner req cs fs =
     (case cs of (c, s) \<Rightarrow>
       let c = c\<lparr>bc_n := bc_n c + 1\<rparr>;
           (local, c) = (if refreshes req c then (None, c) else localBusy now req c)
       in case local of
            Some res \<Rightarrow> (Inr res, (c, s), fs)
          | None \<Rightarrow>
              (case inner s fs of
                 (Inl err, s', fs') \<Rightarrow> (Inl err, (c, s'), fs')
               | (Inr res, s', fs') \<Rightarrow> (Inr res, (rememberResult now' req res c, s'), fs')))"

text \<open>The other operations call the store and then adjust the cache when it succeeded.\<close>

definition afterwards :: "('s, 'a) dbop \<Rightarrow> ('a \<Rightarrow> BusyCache \<Rightarrow> BusyCache) \<Rightarrow> ('s, 'a) cached" where
  "afterwards inner f cs fs =
     (case cs of (c, s) \<Rightarrow>
       (case inner s fs of
          (Inl err, s', fs') \<Rightarrow> (Inl err, (c, s'), fs')
        | (Inr a, s', fs') \<Rightarrow> (Inr a, (f a c, s'), fs')))"

definition CacheRenew :: "('s, execution) dbop \<Rightarrow> string \<Rightarrow> ('s, execution) cached" where
  "CacheRenew inner merchantID = afterwards inner (\<lambda>e. remember merchantID (e_DomainKey e) (Some e) 1 1)"

definition CacheRelease :: "('s, execution) dbop \<Rightarrow> string \<Rightarrow> ('s, execution) cached" where
  "CacheRelease inner merchantID = afterwards inner (\<lambda>e. forget merchantID (e_DomainKey e))"

definition CacheRevoke :: "('s, execution) dbop \<Rightarrow> string \<Rightarrow> ('s, execution) cached" where
  "CacheRevoke inner merchantID = afterwards inner (\<lambda>e. forget merchantID (e_DomainKey e))"

definition CacheHandoff :: "('s, handoff_result) dbop \<Rightarrow> handoff_request \<Rightarrow> ('s, handoff_result) cached" where
  "CacheHandoff inner req = afterwards inner (\<lambda>res.
     remember (h_MerchantID req) (e_DomainKey (hr_Successor res)) (Some (hr_Successor res)) 1 1)"

definition CacheGet :: "('s, execution) dbop \<Rightarrow> ('s, execution) cached" where
  "CacheGet inner = afterwards inner (\<lambda>_ c. c)"

definition CacheExpireDue :: "('s, int \<times> store_error option) dbop \<Rightarrow> ('s, int \<times> store_error option) cached" where
  "CacheExpireDue inner = afterwards inner (\<lambda>_ c. c)"

section \<open>What the cache relies on\<close>

lemma ends_afterwards:
  assumes "ends (afterwards inner f) (c, s) (c', s')"
  shows "ends inner s s'"
proof -
  from assms obtain r fs fs' where "afterwards inner f (c, s) fs = (r, (c', s'), fs')"
    unfolding ends_def by (metis prod.collapse)
  then have "\<exists>r'. inner s fs = (r', s', fs')"
    by (auto simp: afterwards_def split: prod.splits sum.splits)
  then show ?thesis by (auto intro: endsI)
qed

lemma CacheAcquire_cases:
  assumes "CacheAcquire now now' inner req (c, s) fs = (r, (c', s'), fs')"
  obtains (store) "inner s fs = (r, s', fs')"
  | (local) res where "localBusy now req (c\<lparr>bc_n := bc_n c + 1\<rparr>) = (Some res, c')" "r = Inr res" "s' = s" "fs' = fs"
      "\<not> refreshes req (c\<lparr>bc_n := bc_n c + 1\<rparr>)"
proof (cases "refreshes req (c\<lparr>bc_n := bc_n c + 1\<rparr>)")
  case True
  with assms show thesis by (intro store) (auto simp: CacheAcquire_def Let_def split: prod.splits sum.splits)
next
  case False
  obtain l c1 where l: "localBusy now req (c\<lparr>bc_n := bc_n c + 1\<rparr>) = (l, c1)" by fastforce
  show thesis
  proof (cases l)
    case None
    with assms False l show thesis by (intro store) (auto simp: CacheAcquire_def Let_def split: prod.splits sum.splits)
  next
    case (Some res)
    with assms False l show thesis by (intro local [of res]) (auto simp: CacheAcquire_def Let_def)
  qed
qed

lemma CacheAcquire_ends:
  assumes "ends (CacheAcquire t1 t2 inner req) (c, s) (c', s')"
  shows "s' = s \<or> ends inner s s'"
proof -
  from assms obtain r fs fs' where "CacheAcquire t1 t2 inner req (c, s) fs = (r, (c', s'), fs')"
    unfolding ends_def by (metis prod.collapse)
  then show ?thesis by (cases rule: CacheAcquire_cases) (auto intro: endsI)
qed

text \<open>Through the cache, too, an operation changes the store by steps of the store, if at all.\<close>

context lease_store
begin

lemma cached_acquire:
  "ends (CacheAcquire t1 t2 (acquire now rnd req) req) (c, s) (c', s') \<Longrightarrow> admits req \<Longrightarrow> s' = s \<or> step now s s'"
  by (drule CacheAcquire_ends) (auto dest: acquire_step)

lemma cached_renew: "ends (CacheRenew (renew now m i sid rq ttl) m) (c, s) (c', s') \<Longrightarrow> s' = s \<or> step now s s'"
  unfolding CacheRenew_def by (drule ends_afterwards) (erule renew_step)

lemma cached_release:
  "ends (CacheRelease (release now0 now goNow m i sid rq) m) (c, s) (c', s') \<Longrightarrow> s' = s \<or> step now s s'"
  unfolding CacheRelease_def by (drule ends_afterwards) (erule release_step)

lemma cached_revoke:
  "ends (CacheRevoke (revoke now0 now m i sid rq reason) m) (c, s) (c', s') \<Longrightarrow> s' = s \<or> step now s s'"
  unfolding CacheRevoke_def by (drule ends_afterwards) (erule revoke_step)

lemma cached_handoff:
  "ends (CacheHandoff (handoff now rndE rndS req) req) (c, s) (c', s') \<Longrightarrow> s' = s \<or> step now s s'"
  unfolding CacheHandoff_def by (drule ends_afterwards) (erule handoff_step)

lemmas cached_ops = cached_acquire cached_renew cached_release cached_revoke cached_handoff

end

section \<open>The cached Postgres store\<close>

text \<open>
  The operations through the cache, steps of the store made by others (the sweeper, the administrator,
  other gateways), and, since the operations of a gateway run concurrently, any change of what the
  cache remembers.
\<close>

inductive cached_step :: "(domain \<Rightarrow> nat) \<Rightarrow> time \<Rightarrow> BusyCache \<times> db \<Rightarrow> BusyCache \<times> db \<Rightarrow> bool" for cap now where
  acquire: "ends (CacheAcquire t1 t2 (Acquire now rnd req) req) (c, d) (c', d') \<Longrightarrow>
    q_MaxActive (acquireDefaults req) \<le> int (cap (q_MerchantID req, q_DomainKey req)) \<Longrightarrow> cached_step cap now (c, d) (c', d')"
| renew: "ends (CacheRenew (Renew now m i sid rq ttl) m) (c, d) (c', d') \<Longrightarrow> cached_step cap now (c, d) (c', d')"
| release: "ends (CacheRelease (Release now0 now goNow m i sid rq) m) (c, d) (c', d') \<Longrightarrow> cached_step cap now (c, d) (c', d')"
| revoke: "ends (CacheRevoke (Revoke now0 now m i sid rq reason) m) (c, d) (c', d') \<Longrightarrow> cached_step cap now (c, d) (c', d')"
| handoff: "ends (CacheHandoff (Handoff now rndE rndS hreq) hreq) (c, d) (c', d') \<Longrightarrow> cached_step cap now (c, d) (c', d')"
| others: "store_step cap now d d' \<Longrightarrow> cached_step cap now (c, d) (c, d')"
| cache: "cached_step cap now (c, d) (c', d)"

lemma cached_step_store: "cached_step cap now cs cs' \<Longrightarrow> snd cs' = snd cs \<or> store_step cap now (snd cs) (snd cs')"
  by (induction rule: cached_step.induct) (auto dest: pg.cached_ops)

lemma store_step_idle: "store_step cap now d d"
  by (rule store_step.reorder) simp_all

interpretation cached: timed_simulation "(NewBusyCache h, empty_db)" "cached_step cap" "\<lambda>_ _. True" snd empty_db "store_step cap" for cap h
proof unfold_locales
  show "store_step cap t (snd s) (snd s')" if "cached_step cap t s s'" for t s s'
    using cached_step_store [OF that] store_step_idle [of cap t "snd s"] by auto
qed simp_all

end
