(* ===== verification/Cache_Props.thy ===== *)
theory Cache_Props
  imports Cache Store_Props
begin

text \<open>
  What the cache in front of the store guarantees: it grants nothing on its own, it answers BUSY only from
  an entry that is still valid, and it asks the store again within a bounded number of calls.
\<close>


definition demo_cached :: "BusyCache \<times> db" where
  "demo_cached = fst (snd (CacheAcquire 0 0 (Acquire 0 ''a'' (demo_req ''p'')) (demo_req ''p'') (NewBusyCache 3, empty_db) []))"

lemma demo_cached_reach: "timed_reach (NewBusyCache 3, empty_db) (cached_step one) 0 (fst demo_cached, snd demo_cached)"
proof -
  have "ends (CacheAcquire 0 0 (Acquire 0 ''a'' (demo_req ''p'')) (demo_req ''p'')) (NewBusyCache 3, empty_db) demo_cached"
    by (rule endsI [of _ _ "[]" "fst (CacheAcquire 0 0 (Acquire 0 ''a'' (demo_req ''p'')) (demo_req ''p'') (NewBusyCache 3, empty_db) [])"
          _ "snd (snd (CacheAcquire 0 0 (Acquire 0 ''a'' (demo_req ''p'')) (demo_req ''p'') (NewBusyCache 3, empty_db) []))"])
      (simp add: demo_cached_def)
  then have "cached_step one 0 (NewBusyCache 3, empty_db) (fst demo_cached, snd demo_cached)"
    using cached_step.acquire [of 0 0 0 "''a''" "demo_req ''p''" _ _ "fst demo_cached" "snd demo_cached" one]
    by (simp add: acquireDefaults_def demo_req_def one_def)
  then show ?thesis by (rule timed_reach.later [OF timed_reach.start order_refl])
qed


section \<open>Answers\<close>

text \<open>Whether a call asks the store.\<close>

definition asks_store :: "time \<Rightarrow> acquire_request \<Rightarrow> BusyCache \<Rightarrow> bool" where
  "asks_store now req c \<longleftrightarrow>
     (let c = c\<lparr>bc_n := bc_n c + 1\<rparr> in refreshes req c \<or> fst (localBusy now req c) = None)"

text \<open>The cache answers for itself only when it may: a call that does not ask the store is one without a
  queue, answered BUSY from an unexpired entry of the domain that another principal holds and that is
  full, and it touches nothing; every other call returns exactly what the store returned.\<close>

theorem cache_answers:
  assumes "CacheAcquire now now' inner req (c, s) fs = (r, (c', s'), fs')"
  shows "if asks_store now req c then inner s fs = (r, s', fs')
    else s' = s \<and> fs' = fs \<and> q_MaxWaiters req \<le> 0 \<and> (\<exists>res it. r = Inr res \<and> r_Status res = StatusBusy
      \<and> bc_items c (cacheKey (q_MerchantID req) (q_DomainKey req)) = Some it \<and> now < ci_expiresAt it
      \<and> ci_holder it \<noteq> q_Principal req \<and> ci_maxActive it \<le> ci_occupied it
      \<and> map_option b_ActiveExecutionID (r_Busy res) = Some (ci_exeID it))"
  using assms
proof (cases rule: CacheAcquire_cases)
  case store
  show ?thesis
  proof (cases "asks_store now req c")
    case False
    then obtain res where l: "fst (localBusy now req (c\<lparr>bc_n := bc_n c + 1\<rparr>)) = Some res" "\<not> refreshes req (c\<lparr>bc_n := bc_n c + 1\<rparr>)"
      by (auto simp: asks_store_def Let_def)
    then have "r = Inr res" "s' = s" "fs' = fs"
      using assms by (auto simp: CacheAcquire_def Let_def split: prod.splits)
    with l show ?thesis
      by (auto simp: asks_store_def localBusy_def lookup_def refreshes_def Let_def split: option.splits if_splits)
  qed (use store in simp)
next
  case (local res)
  then show ?thesis
    by (auto simp: asks_store_def localBusy_def lookup_def refreshes_def Let_def split: option.splits if_splits)
qed

lemma demo_cached_answer:
  "map_sum id r_Status (fst (CacheAcquire 1 1 (throw ErrUnavailable) (demo_req ''q''\<lparr>q_MaxWaiters := 0\<rparr>) demo_cached [])) = Inr StatusBusy"
  by code_simp

theorem cache_answers_witness:
  "\<not> asks_store 1 (demo_req ''q''\<lparr>q_MaxWaiters := 0\<rparr>) (fst demo_cached)
   \<and> snd (fst (snd (CacheAcquire 1 1 (throw ErrUnavailable) (demo_req ''q''\<lparr>q_MaxWaiters := 0\<rparr>) demo_cached []))) = snd demo_cached"
proof -
  obtain r c' s' fs' where run: "CacheAcquire 1 1 (throw ErrUnavailable) (demo_req ''q''\<lparr>q_MaxWaiters := 0\<rparr>) (fst demo_cached, snd demo_cached) []
      = (r, (c', s'), fs')" by (metis prod.collapse)
  have "\<not> asks_store 1 (demo_req ''q''\<lparr>q_MaxWaiters := 0\<rparr>) (fst demo_cached)" by code_simp
  with cache_answers [OF run] run show ?thesis by simp
qed

section \<open>Refreshing\<close>

lemma window_has_multiple:
  fixes n h :: "64 word"
  assumes "h \<noteq> 0"
  shows "\<exists>i < unat h. (n + of_nat (Suc i)) mod h = 0"
proof -
  let ?N = "unat n + 1" and ?h = "unat h"
  have h: "0 < ?h" using assms by (simp add: unat_gt_0)
  define q where "q = ((?N + ?h - 1) div ?h) * ?h"
  have q: "?N \<le> q" "q < ?N + ?h"
    using h div_mult_mod_eq [of "?N + ?h - 1" ?h] mod_less_divisor [OF h, of "?N + ?h - 1"] by (auto simp: q_def)
  have n: "n + of_nat (Suc (k - ?N)) = of_nat k" if "?N \<le> k" for k
  proof -
    have "n + of_nat (Suc (k - ?N)) = of_nat (unat n + Suc (k - ?N))" by simp
    also have "unat n + Suc (k - ?N) = k" using that by simp
    finally show ?thesis .
  qed
  show ?thesis
  proof (cases "q < 2 ^ 64")
    case True
    have "unat (of_nat q :: 64 word) = q" using True by (simp add: unat_of_nat take_bit_nat_eq_self)
    then have "unat ((of_nat q :: 64 word) mod h) = q mod ?h" by (simp add: unat_mod)
    also have "\<dots> = 0" by (simp add: q_def)
    finally have "(n + of_nat (Suc (q - ?N))) mod h = 0" unfolding n [OF q(1)] by (simp only: unat_eq_0)
    moreover have "q - ?N < ?h" using q h by linarith
    ultimately show ?thesis by (intro exI [of _ "q - ?N"] conjI)
  next
    case False
    have le: "?N \<le> 2 ^ 64" using unsigned_less [of n, where ?'a = nat] by simp
    have "(of_nat (2 ^ 64) :: 64 word) = 0"
      by (simp only: unat_eq_0 [symmetric] unat_of_nat take_bit_eq_mod) simp
    then have "(n + of_nat (Suc (2 ^ 64 - ?N))) mod h = 0" unfolding n [OF le] by (simp only: mod_0)
    moreover have "2 ^ 64 - ?N < ?h" using False q h by linarith
    ultimately show ?thesis by (intro exI [of _ "2 ^ 64 - ?N"] conjI)
  qed
qed

text \<open>Some call of a sequence of calls asks the store.\<close>

fun some_asks :: "(time \<times> time \<times> ('s, acquire_result) dbop \<times> acquire_request \<times> fault list) list \<Rightarrow> BusyCache \<times> 's \<Rightarrow> bool" where
  "some_asks [] cs = False"
| "some_asks ((t, t', inner, req, fs) # calls) cs =
     (asks_store t req (fst cs) \<or> some_asks calls (fst (snd (CacheAcquire t t' inner req cs fs))))"

lemma lookup_hedge: "lookup now m k c = (it, c') \<Longrightarrow> bc_n c' = bc_n c \<and> bc_hedge c' = bc_hedge c"
  by (auto simp: lookup_def forget_def split: option.splits if_splits)

lemma localBusy_hedge: "localBusy now req c = (l, c') \<Longrightarrow> bc_n c' = bc_n c \<and> bc_hedge c' = bc_hedge c"
  by (auto simp: localBusy_def Let_def dest!: lookup_hedge split: prod.splits option.splits if_splits)

lemma CacheAcquire_count:
  assumes "\<not> asks_store t req (fst cs)"
  shows "bc_n (fst (fst (snd (CacheAcquire t t' inner req cs fs)))) = bc_n (fst cs) + 1
    \<and> bc_hedge (fst (fst (snd (CacheAcquire t t' inner req cs fs)))) = bc_hedge (fst cs)"
proof -
  obtain c s where cs: "cs = (c, s)" by fastforce
  obtain l c1 where l: "localBusy t req (c\<lparr>bc_n := bc_n c + 1\<rparr>) = (l, c1)" by fastforce
  with assms cs obtain res where "l = Some res" "\<not> refreshes req (c\<lparr>bc_n := bc_n c + 1\<rparr>)"
    by (auto simp: asks_store_def Let_def)
  with l cs localBusy_hedge [OF l] show ?thesis by (simp add: CacheAcquire_def Let_def)
qed

lemma some_asks_turn:
  "i < length calls \<Longrightarrow> bc_hedge (fst cs) \<noteq> 0 \<Longrightarrow> (bc_n (fst cs) + of_nat (Suc i)) mod bc_hedge (fst cs) = 0
   \<Longrightarrow> some_asks calls cs"
proof (induction calls arbitrary: i cs)
  case (Cons call calls)
  obtain t t' inner req fs where call: "call = (t, t', inner, req, fs)" by (cases call)
  show ?case
  proof (cases "asks_store t req (fst cs)")
    case False
    note c = CacheAcquire_count [OF False, of t' inner fs]
    have "i \<noteq> 0"
    proof
      assume "i = 0"
      with Cons.prems(3) have "(bc_n (fst cs) + 1) mod bc_hedge (fst cs) = 0" by simp
      with False Cons.prems(2) show False by (simp add: asks_store_def refreshes_def Let_def word_gt_0)
    qed
    then obtain j where j: "i = Suc j" by (cases i) auto
    have "some_asks calls (fst (snd (CacheAcquire t t' inner req cs fs)))"
      by (rule Cons.IH [of j]) (use Cons.prems c j in \<open>simp_all add: algebra_simps\<close>)
    then show ?thesis by (simp add: call)
  qed (simp add: call)
qed simp

text \<open>C30. A stale BUSY does not last: of any \<open>hedge\<close> consecutive calls, for whatever domains, at least one asks
  the store, also across the wrap-around of the 64-bit call counter.\<close>

theorem cache_refreshes:
  assumes "bc_hedge c \<noteq> 0" "length calls = unat (bc_hedge c)"
  shows "some_asks calls (c, s)"
proof -
  obtain i where i: "i < unat (bc_hedge c)" "(bc_n c + of_nat (Suc i)) mod bc_hedge c = 0"
    using window_has_multiple [OF assms(1), of "bc_n c"] by metis
  show ?thesis by (rule some_asks_turn [of i]) (simp_all only: assms i fst_conv not_False_eq_True)
qed

definition demo_calls :: "(time \<times> time \<times> (db, acquire_result) dbop \<times> acquire_request \<times> fault list) list" where
  "demo_calls = replicate 3 (1, 1, throw ErrUnavailable, demo_req ''q''\<lparr>q_MaxWaiters := 0\<rparr>, [])"

theorem cache_refreshes_witness: "some_asks demo_calls (fst demo_cached, snd demo_cached)"
proof (rule cache_refreshes)
  have "bc_hedge (fst demo_cached) = 3" by code_simp
  then show "bc_hedge (fst demo_cached) \<noteq> 0" "length demo_calls = unat (bc_hedge (fst demo_cached))"
    by (simp_all add: demo_calls_def)
qed

end
