(* ===== verification/Web.thy ===== *)
theory Web
  imports Schema "HOL-Library.Word"
begin

text \<open>
  What the HTTP side of the gateway uses of Go: header maps with canonical names, requests and
  responses, decimal numbers, and members of decoded JSON objects; and the small helpers of
  \<open>internal/api/public\<close> over them. A request body is the JSON value its bytes spell, or \<open>None\<close> when
  they spell none.
\<close>

unbundle bit_operations_syntax

section \<open>Numbers\<close>

text \<open>\<open>strconv.FormatInt\<close> with base 10, most significant digit first.\<close>

function nat_digits :: "nat \<Rightarrow> string" where
  "nat_digits n = (if n < 10 then [char_of (48 + n)] else nat_digits (n div 10) @ [char_of (48 + n mod 10)])"
  by pat_completeness auto
termination by (relation "measure (\<lambda>n. n)") auto

declare nat_digits.simps [simp del]

definition FormatInt :: "int \<Rightarrow> string" where
  "FormatInt n = (if n < 0 then CHR ''-'' # nat_digits (nat (- n)) else nat_digits (nat n))"

lemma digits_value_snoc: "digits_value (s @ [c]) = 10 * digits_value s + (int (byte c) - 48)"
  by (simp add: digits_value_def)

lemma nat_digits_value: "digits_value (nat_digits n) = int n"
proof (induction n rule: nat_digits.induct)
  case (1 n)
  have "byte (char_of (48 + n mod 10)) = 48 + n mod 10" by (simp add: of_char_of)
  moreover have "n < 10 \<Longrightarrow> byte (char_of (48 + n)) = 48 + n" by (simp add: of_char_of)
  moreover have "10 * int (n div 10) + int (n mod 10) = int n" by presburger
  ultimately show ?case
    using 1 by (subst nat_digits.simps) (auto simp: digits_value_snoc digits_value_def [of "[_]"])
qed

lemma nat_digits_digits: "list_all is_digit (nat_digits n)"
proof (induction n rule: nat_digits.induct)
  case (1 n)
  have "k < 10 \<Longrightarrow> is_digit (char_of (48 + k))" for k :: nat by (simp add: is_digit_def of_char_of)
  with 1 show ?case by (subst nat_digits.simps) auto
qed

lemma nat_digits_hd: "nat_digits n \<noteq> [] \<and> is_digit (hd (nat_digits n))"
proof -
  have "nat_digits n \<noteq> []" by (subst nat_digits.simps) simp
  with nat_digits_digits [of n] show ?thesis by (cases "nat_digits n") auto
qed

text \<open>Reading back what was written, for the numbers of 64 bits.\<close>

lemma Atoi_FormatInt: "- (2 ^ 63) \<le> n \<Longrightarrow> n < 2 ^ 63 \<Longrightarrow> Atoi (FormatInt n) = Some n"
proof -
  assume n: "- (2 ^ 63) \<le> n" "n < 2 ^ 63"
  have sign: "is_digit c \<Longrightarrow> c \<noteq> CHR ''-'' \<and> c \<noteq> CHR ''+''" for c by (auto simp: is_digit_def)
  show ?thesis
    using n nat_digits_hd [of "nat n"] nat_digits_hd [of "nat (- n)"] sign [of "hd (nat_digits (nat n))"]
    by (auto simp: Atoi_def FormatInt_def Let_def nat_digits_value nat_digits_digits)
qed

section \<open>Headers\<close>

type_synonym headers = "(string \<times> string) list"

definition upper_byte :: "char \<Rightarrow> char" where
  "upper_byte c = (if 97 \<le> byte c \<and> byte c \<le> 122 then char_of (byte c - 32) else c)"

text \<open>The bytes \<open>net/textproto\<close> accepts in a header name; another name is left as it is.\<close>

definition token_byte :: "char \<Rightarrow> bool" where
  "token_byte c \<longleftrightarrow> in_range 48 57 c \<or> in_range 65 90 c \<or> in_range 97 122 c \<or> c \<in> set ''!#$%&*+-.^_`|~'' \<or> byte c = 39"

fun canonical_bytes :: "bool \<Rightarrow> string \<Rightarrow> string" where
  "canonical_bytes up [] = []"
| "canonical_bytes up (c # cs) = (if up then upper_byte c else lower_byte c) # canonical_bytes (c = CHR ''-'') cs"

definition CanonicalHeaderKey :: "string \<Rightarrow> string" where
  "CanonicalHeaderKey s = (if list_all token_byte s then canonical_bytes True s else s)"

definition hdrGet :: "headers \<Rightarrow> string \<Rightarrow> string" where
  "hdrGet h name = (case map_of h (CanonicalHeaderKey name) of None \<Rightarrow> '''' | Some v \<Rightarrow> v)"

definition hdrDel :: "string \<Rightarrow> headers \<Rightarrow> headers" where
  "hdrDel name h = filter (\<lambda>(k, _). k \<noteq> CanonicalHeaderKey name) h"

definition hdrSet :: "string \<Rightarrow> string \<Rightarrow> headers \<Rightarrow> headers" where
  "hdrSet name v h = (CanonicalHeaderKey name, v) # hdrDel name h"

lemma hdrGet_hdrSet:
  "hdrGet (hdrSet n v h) n' = (if CanonicalHeaderKey n' = CanonicalHeaderKey n then v else hdrGet h n')"
  by (induction h) (auto simp: hdrGet_def hdrSet_def hdrDel_def)

lemma hdrGet_hdrDel:
  "hdrGet (hdrDel n h) n' = (if CanonicalHeaderKey n' = CanonicalHeaderKey n then '''' else hdrGet h n')"
  by (induction h) (auto simp: hdrGet_def hdrDel_def)

section \<open>Requests and responses\<close>

record request =
  rq_Method :: string
  rq_Path :: string
  rq_Headers :: headers
  rq_Cookies :: "(string \<times> string) list"
  rq_RemoteAddr :: string
  rq_ReqID :: string
  rq_Body :: "json option"

record response =
  rs_status :: int
  rs_headers :: headers
  rs_body :: "json option"

abbreviation StatusOK :: int where "StatusOK \<equiv> 200"
abbreviation StatusCreated :: int where "StatusCreated \<equiv> 201"
abbreviation StatusAccepted :: int where "StatusAccepted \<equiv> 202"
abbreviation StatusBadRequest :: int where "StatusBadRequest \<equiv> 400"
abbreviation StatusUnauthorized :: int where "StatusUnauthorized \<equiv> 401"
abbreviation StatusForbidden :: int where "StatusForbidden \<equiv> 403"
abbreviation StatusNotFound :: int where "StatusNotFound \<equiv> 404"
abbreviation StatusConflict :: int where "StatusConflict \<equiv> 409"
abbreviation StatusGone :: int where "StatusGone \<equiv> 410"
abbreviation StatusTooManyRequests :: int where "StatusTooManyRequests \<equiv> 429"
abbreviation StatusInternalServerError :: int where "StatusInternalServerError \<equiv> 500"
abbreviation StatusServiceUnavailable :: int where "StatusServiceUnavailable \<equiv> 503"

definition writeJSON :: "headers \<Rightarrow> int \<Rightarrow> (string \<times> json) list \<Rightarrow> response" where
  "writeJSON h status body =
     \<lparr>rs_status = status, rs_headers = hdrSet ''Content-Type'' ''application/json'' h, rs_body = Some (JObj body)\<rparr>"

definition writeErr :: "headers \<Rightarrow> int \<Rightarrow> string \<Rightarrow> response" where
  "writeErr h status msg = writeJSON h status [(''error'', JStr msg)]"

definition cookieValue :: "request \<Rightarrow> string \<Rightarrow> string" where
  "cookieValue r name =
     (if name = '''' then '''' else case map_of (rq_Cookies r) name of None \<Rightarrow> '''' | Some v \<Rightarrow> v)"

definition headerValue :: "request \<Rightarrow> string \<Rightarrow> string" where
  "headerValue r name = (if name = '''' then '''' else hdrGet (rq_Headers r) name)"

definition firstNonEmpty :: "string \<Rightarrow> string \<Rightarrow> string" where
  "firstNonEmpty a b = (if a \<noteq> '''' then a else b)"

definition bearer :: "request \<Rightarrow> string" where
  "bearer r =
     (let h = hdrGet (rq_Headers r) ''Authorization'' in
      if HasPrefix (ToLower h) ''bearer '' then TrimSpace (drop 7 h) else '''')"

definition clientIP :: "request \<Rightarrow> string" where
  "clientIP r =
     (let xff = hdrGet (rq_Headers r) ''X-Forwarded-For'' in
      if xff \<noteq> '''' then TrimSpace (hd (SplitByte xff (CHR '','')))
      else
        let host = rq_RemoteAddr r in
        case LastIndexByte host (CHR '':'') of
          Some i \<Rightarrow> if i > 0 then take i host else host
        | None \<Rightarrow> host)"

text \<open>The comparison of secrets collects the differences of all bytes.\<close>

definition byte_word :: "char \<Rightarrow> 8 word" where
  "byte_word c = of_nat (byte c)"

definition subtleEqual :: "string \<Rightarrow> string \<Rightarrow> bool" where
  "subtleEqual got want =
     (if length got \<noteq> length want then False
      else foldl (\<lambda>v (g, w). v OR (byte_word g XOR byte_word w)) 0 (zip got want) = 0)"

lemma byte_word_eq: "byte_word c = byte_word d \<longleftrightarrow> c = d"
  by (simp add: byte_word_def word_of_nat_eq_iff take_bit_eq_mod)

lemma xor_zero: "a XOR b = (0::8 word) \<longleftrightarrow> a = b"
proof
  assume z: "a XOR b = 0"
  have "a = (a XOR b) XOR b" by (simp only: xor.assoc xor_self_eq xor.right_neutral)
  with z show "a = b" by simp
qed simp

lemma subtle_fold: "foldl (\<lambda>v (g, w). v OR (byte_word g XOR byte_word w)) v ps = 0 \<longleftrightarrow>
   v = 0 \<and> (\<forall>(g, w) \<in> set ps. g = w)"
  by (induction ps arbitrary: v) (auto simp: or_eq_0_iff xor_zero byte_word_eq)

lemma subtleEqual_iff: "subtleEqual got want \<longleftrightarrow> got = want"
proof -
  have "length got = length want \<Longrightarrow> (\<forall>(g, w) \<in> set (zip got want). g = w) \<longleftrightarrow> got = want"
    by (induction got want rule: list_induct2) auto
  then show ?thesis by (auto simp: subtleEqual_def subtle_fold)
qed

section \<open>Inbound headers\<close>

definition keptHeaders :: "string list" where
  "keptHeaders = [''X-Bruiser-Edge-Secret'', ''X-Bruiser-Admin-Secret'', ''X-Bruiser-Operator-Secret'',
     ''X-Bruiser-Event-Id'', ''X-Bruiser-Nonce'']"

definition stripInboundBruiser :: "request \<Rightarrow> request" where
  "stripInboundBruiser r =
     r\<lparr>rq_Headers := fold (\<lambda>(name, _) h.
        if \<not> HasPrefix (CanonicalHeaderKey name) ''X-Bruiser-'' then h
        else if CanonicalHeaderKey name \<in> set keptHeaders then h
        else hdrDel name h) (rq_Headers r) (rq_Headers r)\<rparr>"

section \<open>Decoded JSON objects\<close>

text \<open>
  Decoding into a Go struct compares names without case, and of several members for one field the
  last counts. A field keeps its zero value when the member is missing or null; the decoder reports an
  error when the member has another type. Decoding into a Go map compares names exactly.
\<close>

definition non_null :: "json option \<Rightarrow> json option" where
  "non_null v = (case v of Some JNull \<Rightarrow> None | _ \<Rightarrow> v)"

definition member :: "(string \<times> json) list \<Rightarrow> string \<Rightarrow> json option" where
  "member ms k = non_null (map_option snd (find (\<lambda>(n, _). EqualFold n k) (rev ms)))"

definition map_member :: "(string \<times> json) list \<Rightarrow> string \<Rightarrow> json option" where
  "map_member ms k = non_null (map_of (rev ms) k)"

lemma EqualFold_ascii: "ascii s \<Longrightarrow> ascii t \<Longrightarrow> EqualFold s t \<longleftrightarrow> map lower_byte s = map lower_byte t"
proof -
  assume a: "ascii s" "ascii t"
  have fold: "ascii u \<Longrightarrow> map fold_rune (runes u) = map (byte \<circ> lower_byte) u" for u
    by (auto simp: runes_ascii ascii_def list_all_iff fold_rune_def lower_rune_ascii lower_byte_def of_char_of)
  have inj: "map (byte \<circ> lower_byte) s = map (byte \<circ> lower_byte) t \<longleftrightarrow> map lower_byte s = map lower_byte t"
    by (metis (no_types, lifting) inj_on_def list.inj_map_strong list.map_comp of_char_eq_iff)
  show ?thesis by (simp only: EqualFold_def fold [OF a(1)] fold [OF a(2)] inj)
qed

definition as_str :: "json option \<Rightarrow> string option" where
  "as_str v = (case v of None \<Rightarrow> Some '''' | Some (JStr s) \<Rightarrow> Some s | Some _ \<Rightarrow> None)"

definition as_int :: "json option \<Rightarrow> int option" where
  "as_int v =
     (case v of
        None \<Rightarrow> Some 0
      | Some (JNum n) \<Rightarrow> if - (2 ^ 63) \<le> n \<and> n < 2 ^ 63 then Some n else None
      | Some _ \<Rightarrow> None)"

definition as_bool :: "json option \<Rightarrow> bool option" where
  "as_bool v = (case v of None \<Rightarrow> Some False | Some (JBool b) \<Rightarrow> Some b | Some _ \<Rightarrow> None)"

definition str_field :: "(string \<times> json) list \<Rightarrow> string \<Rightarrow> string option" where
  "str_field ms k = as_str (member ms k)"

definition int_field :: "(string \<times> json) list \<Rightarrow> string \<Rightarrow> int option" where
  "int_field ms k = as_int (member ms k)"

definition bool_field :: "(string \<times> json) list \<Rightarrow> string \<Rightarrow> bool option" where
  "bool_field ms k = as_bool (member ms k)"

lemma as_simps [simp]:
  "as_str None = Some ''''" "as_str (Some (JStr s)) = Some s"
  "as_int None = Some 0" "- (2 ^ 63) \<le> n \<Longrightarrow> n < 2 ^ 63 \<Longrightarrow> as_int (Some (JNum n)) = Some n"
  "as_bool None = Some False" "as_bool (Some (JBool b)) = Some b"
  by (simp_all add: as_str_def as_int_def as_bool_def)


definition objectOf :: "json option \<Rightarrow> (string \<times> json) list option" where
  "objectOf b = (case b of Some (JObj ms) \<Rightarrow> Some ms | Some JNull \<Rightarrow> Some [] | _ \<Rightarrow> None)"

text \<open>When the error of the decoder is ignored, a field of the wrong type keeps its zero value.\<close>

definition lax_str :: "json option \<Rightarrow> string \<Rightarrow> string" where
  "lax_str b k = (case objectOf b of None \<Rightarrow> '''' | Some ms \<Rightarrow> (case str_field ms k of None \<Rightarrow> '''' | Some s \<Rightarrow> s))"

definition lax_int :: "json option \<Rightarrow> string \<Rightarrow> int" where
  "lax_int b k = (case objectOf b of None \<Rightarrow> 0 | Some ms \<Rightarrow> (case int_field ms k of None \<Rightarrow> 0 | Some n \<Rightarrow> n))"

definition lax_bool :: "json option \<Rightarrow> string \<Rightarrow> bool" where
  "lax_bool b k = (case objectOf b of None \<Rightarrow> False | Some ms \<Rightarrow> (case bool_field ms k of None \<Rightarrow> False | Some x \<Rightarrow> x))"

section \<open>Times as text\<close>

text \<open>
  \<open>t.UTC().Format(time.RFC3339Nano)\<close> for a time in nanoseconds since 1970: the date by the days of
  400-year cycles that start on 1 March, the fraction without trailing zeros.
\<close>

definition civil :: "int \<Rightarrow> int \<times> int \<times> int" where
  "civil days =
     (let z = days + 719468;
          era = z div 146097;
          doe = z mod 146097;
          yoe = (doe - doe div 1460 + doe div 36524 - doe div 146096) div 365;
          doy = doe - (365 * yoe + yoe div 4 - yoe div 100);
          mp = (5 * doy + 2) div 153;
          m = (if mp < 10 then mp + 3 else mp - 9)
      in (yoe + era * 400 + (if m \<le> 2 then 1 else 0), m, doy - (153 * mp + 2) div 5 + 1))"

definition padded :: "nat \<Rightarrow> int \<Rightarrow> string" where
  "padded w n = (let s = nat_digits (nat n) in replicate (w - length s) (CHR ''0'') @ s)"

definition RFC3339Nano :: "time \<Rightarrow> string" where
  "RFC3339Nano t =
     (let (y, m, d) = civil (t div (86400 * second));
          s = (t mod (86400 * second)) div second;
          ns = t mod second;
          frac = rev (dropWhile (\<lambda>c. c = CHR ''0'') (rev (padded 9 ns)))
      in padded 4 y @ ''-'' @ padded 2 m @ ''-'' @ padded 2 d @ ''T'' @ padded 2 (s div 3600) @ '':''
         @ padded 2 (s mod 3600 div 60) @ '':'' @ padded 2 (s mod 60) @ (if ns = 0 then '''' else ''.'' @ frac) @ ''Z'')"

end
