(* ===== verification/Tokens.thy ===== *)
theory Tokens
  imports Web
begin

text \<open>
  \<open>internal/auth/tokens.go\<close>: the session, execution and access tokens of the gateway and the customer
  assertions of identity providers. The JWT library is the parameter \<open>J\<close>: how it signs a payload, how
  it parses and validates a token, and how it writes a date; what the gateway relies on is \<open>jwt_law\<close>.
  The claims structs are written to and read from the JSON payload as the struct tags say, so a token
  of one kind can be presented where another kind is expected. \<open>now\<close> is the reading of \<open>time.Now()\<close> in
  the call and \<open>rnd\<close> the bytes drawn for a token identifier.
\<close>

section \<open>The JWT library\<close>

datatype alg = EdDSA | HS256

type_synonym payload = "(string \<times> json) list"

text \<open>
  \<open>jw_sign\<close> is \<open>SignedString\<close> with the key identifier of the header; \<open>jw_parse\<close> is \<open>ParseWithClaims\<close> for a
  method, a key and a leeway at a time: the payload when the token is valid; \<open>jw_date\<close> is the number
  \<open>NewNumericDate\<close> writes. The others are the accessors of \<open>MapClaims\<close>: \<open>GetExpirationTime\<close> (an error, no
  time or a time), \<open>GetSubject\<close> and \<open>GetIssuer\<close> (empty on an error) and \<open>GetAudience\<close> (\<open>None\<close> on an error).
\<close>

record jwt =
  jw_sign :: "alg \<Rightarrow> string \<Rightarrow> string option \<Rightarrow> payload \<Rightarrow> string option"
  jw_parse :: "alg \<Rightarrow> string \<Rightarrow> duration \<Rightarrow> time \<Rightarrow> string \<Rightarrow> payload option"
  jw_date :: "time \<Rightarrow> int"
  jw_expirationTime :: "payload \<Rightarrow> time option option"
  jw_subject :: "payload \<Rightarrow> string"
  jw_issuer :: "payload \<Rightarrow> string"
  jw_audience :: "payload \<Rightarrow> string list option"

definition Skew :: duration where "Skew = 5 * second"

section \<open>Claims\<close>

record CustomerAssertion =
  ca_CustomerID :: string
  ca_MerchantID :: string
  ca_Anchors :: "(string \<times> string) list"
  ca_ExpiresAt :: time
  ca_JTI :: string

record RegisteredClaims =
  rc_Issuer :: string
  rc_Subject :: string
  rc_ExpiresAt :: "time option"
  rc_NotBefore :: "time option"
  rc_IssuedAt :: "time option"
  rc_ID :: string

record SessionClaims =
  sc_MerchantID :: string
  sc_CustomerID :: string
  sc_PrincipalType :: string
  sc_PrincipalID :: string
  sc_SessionID :: string
  sc_Version :: int
  sc_Anchors :: "(string \<times> string) list"
  sc_Registered :: RegisteredClaims

record ExecutionClaims =
  ec_MerchantID :: string
  ec_CustomerID :: string
  ec_ExecutionID :: string
  ec_Domain :: string
  ec_Resource :: string
  ec_Action :: string
  ec_Principal :: string
  ec_Fence :: int
  ec_Registered :: RegisteredClaims

record AccessClaims =
  ac_MerchantID :: string
  ac_Role :: string
  ac_Actor :: string
  ac_TokenType :: string
  ac_Registered :: RegisteredClaims

record Signer =
  sg_KID :: string
  sg_MerchantID :: string
  sg_Private :: string
  sg_Public :: string

definition AccessTokenType :: string where "AccessTokenType = ''bruiser_admin''"
definition RoleAdmin :: string where "RoleAdmin = ''admin''"
definition RoleOperator :: string where "RoleOperator = ''operator''"

section \<open>Payloads\<close>

definition omit_str :: "string \<Rightarrow> string \<Rightarrow> payload" where
  "omit_str k s = (if s = '''' then [] else [(k, JStr s)])"

definition omit_date :: "jwt \<Rightarrow> string \<Rightarrow> time option \<Rightarrow> payload" where
  "omit_date J k t = (case t of None \<Rightarrow> [] | Some t \<Rightarrow> [(k, JNum (jw_date J t))])"

text \<open>
  The members of the embedded \<open>RegisteredClaims\<close>, which are omitted when empty. In the session and the
  execution claims the outer field \<open>sub\<close> hides the embedded one.
\<close>

definition registered_members :: "jwt \<Rightarrow> bool \<Rightarrow> RegisteredClaims \<Rightarrow> payload" where
  "registered_members J withSub rc =
     omit_str ''iss'' (rc_Issuer rc) @ (if withSub then omit_str ''sub'' (rc_Subject rc) else [])
     @ omit_date J ''exp'' (rc_ExpiresAt rc) @ omit_date J ''nbf'' (rc_NotBefore rc)
     @ omit_date J ''iat'' (rc_IssuedAt rc) @ omit_str ''jti'' (rc_ID rc)"

definition session_payload :: "jwt \<Rightarrow> SessionClaims \<Rightarrow> payload" where
  "session_payload J c =
     [(''mid'', JStr (sc_MerchantID c)), (''sub'', JStr (sc_CustomerID c)), (''pty'', JStr (sc_PrincipalType c)),
      (''pid'', JStr (sc_PrincipalID c)), (''sid'', JStr (sc_SessionID c))]
     @ (if sc_Version c = 0 then [] else [(''ver'', JNum (sc_Version c))])
     @ (if sc_Anchors c = [] then [] else [(''anc'', JObj (map (map_prod id JStr) (sc_Anchors c)))])
     @ registered_members J False (sc_Registered c)"

definition execution_payload :: "jwt \<Rightarrow> ExecutionClaims \<Rightarrow> payload" where
  "execution_payload J c =
     [(''mid'', JStr (ec_MerchantID c)), (''sub'', JStr (ec_CustomerID c)), (''exe'', JStr (ec_ExecutionID c)),
      (''dom'', JStr (ec_Domain c)), (''res'', JStr (ec_Resource c)), (''act'', JStr (ec_Action c)),
      (''prn'', JStr (ec_Principal c)), (''fnc'', JNum (ec_Fence c))]
     @ registered_members J False (ec_Registered c)"

definition access_payload :: "jwt \<Rightarrow> AccessClaims \<Rightarrow> payload" where
  "access_payload J c =
     [(''mid'', JStr (ac_MerchantID c)), (''role'', JStr (ac_Role c)), (''act'', JStr (ac_Actor c)),
      (''typ'', JStr (ac_TokenType c))]
     @ registered_members J True (ac_Registered c)"

text \<open>Reading a payload into a struct; \<open>None\<close> is a decoding error, which \<open>ParseWithClaims\<close> returns.\<close>

definition as_date :: "json option \<Rightarrow> time option option" where
  "as_date v = (case v of None \<Rightarrow> Some None | Some (JNum n) \<Rightarrow> Some (Some (n * second)) | Some _ \<Rightarrow> None)"

definition date_field :: "payload \<Rightarrow> string \<Rightarrow> time option option" where
  "date_field p k = as_date (member p k)"

fun anchor_members :: "(string \<times> json) list \<Rightarrow> (string \<times> string) list option" where
  "anchor_members [] = Some []"
| "anchor_members ((k, JStr s) # ms) = map_option ((#) (k, s)) (anchor_members ms)"
| "anchor_members ((k, JNull) # ms) = map_option ((#) (k, '''')) (anchor_members ms)"
| "anchor_members ((k, _) # ms) = None"

definition as_anchors :: "json option \<Rightarrow> (string \<times> string) list option" where
  "as_anchors v = (case v of None \<Rightarrow> Some [] | Some (JObj ms) \<Rightarrow> anchor_members ms | Some _ \<Rightarrow> None)"

definition anchors_field :: "payload \<Rightarrow> string \<Rightarrow> (string \<times> string) list option" where
  "anchors_field p k = as_anchors (member p k)"

definition read_registered :: "bool \<Rightarrow> payload \<Rightarrow> RegisteredClaims option" where
  "read_registered withSub p =
     Option.bind (str_field p ''iss'') (\<lambda>iss.
     Option.bind (if withSub then str_field p ''sub'' else Some '''') (\<lambda>sub.
     Option.bind (date_field p ''exp'') (\<lambda>exp.
     Option.bind (date_field p ''nbf'') (\<lambda>nbf.
     Option.bind (date_field p ''iat'') (\<lambda>iat.
     Option.bind (str_field p ''jti'') (\<lambda>jti.
     Some \<lparr>rc_Issuer = iss, rc_Subject = sub, rc_ExpiresAt = exp, rc_NotBefore = nbf, rc_IssuedAt = iat, rc_ID = jti\<rparr>))))))"

definition read_session :: "payload \<Rightarrow> SessionClaims option" where
  "read_session p =
     Option.bind (str_field p ''mid'') (\<lambda>mid.
     Option.bind (str_field p ''sub'') (\<lambda>sub.
     Option.bind (str_field p ''pty'') (\<lambda>pty.
     Option.bind (str_field p ''pid'') (\<lambda>pid.
     Option.bind (str_field p ''sid'') (\<lambda>sid.
     Option.bind (int_field p ''ver'') (\<lambda>ver.
     Option.bind (anchors_field p ''anc'') (\<lambda>anc.
     Option.bind (read_registered False p) (\<lambda>rc.
     Some \<lparr>sc_MerchantID = mid, sc_CustomerID = sub, sc_PrincipalType = pty, sc_PrincipalID = pid,
           sc_SessionID = sid, sc_Version = ver, sc_Anchors = anc, sc_Registered = rc\<rparr>))))))))"

definition read_execution :: "payload \<Rightarrow> ExecutionClaims option" where
  "read_execution p =
     Option.bind (str_field p ''mid'') (\<lambda>mid.
     Option.bind (str_field p ''sub'') (\<lambda>sub.
     Option.bind (str_field p ''exe'') (\<lambda>exe.
     Option.bind (str_field p ''dom'') (\<lambda>dmn.
     Option.bind (str_field p ''res'') (\<lambda>res.
     Option.bind (str_field p ''act'') (\<lambda>act.
     Option.bind (str_field p ''prn'') (\<lambda>prn.
     Option.bind (int_field p ''fnc'') (\<lambda>fnc.
     Option.bind (read_registered False p) (\<lambda>rc.
     Some \<lparr>ec_MerchantID = mid, ec_CustomerID = sub, ec_ExecutionID = exe, ec_Domain = dmn, ec_Resource = res,
           ec_Action = act, ec_Principal = prn, ec_Fence = fnc, ec_Registered = rc\<rparr>)))))))))"

definition read_access :: "payload \<Rightarrow> AccessClaims option" where
  "read_access p =
     Option.bind (str_field p ''mid'') (\<lambda>mid.
     Option.bind (str_field p ''role'') (\<lambda>role.
     Option.bind (str_field p ''act'') (\<lambda>act.
     Option.bind (str_field p ''typ'') (\<lambda>tt.
     Option.bind (read_registered True p) (\<lambda>rc.
     Some \<lparr>ac_MerchantID = mid, ac_Role = role, ac_Actor = act, ac_TokenType = tt, ac_Registered = rc\<rparr>)))))"

section \<open>Signing\<close>

definition SignSession :: "jwt \<Rightarrow> string \<Rightarrow> Signer \<Rightarrow> SessionClaims \<Rightarrow> string option" where
  "SignSession J rnd s claims =
     (let claims = claims\<lparr>sc_Registered := (sc_Registered claims)
            \<lparr>rc_Issuer := ''bruiser/'' @ sg_MerchantID s, rc_ID := id_New ''jti'' rnd\<rparr>\<rparr>
      in jw_sign J EdDSA (sg_Private s) (Some (sg_KID s)) (session_payload J claims))"

definition executionClaims :: "time \<Rightarrow> string \<Rightarrow> execution \<Rightarrow> ExecutionClaims" where
  "executionClaims now rnd e =
     \<lparr>ec_MerchantID = e_MerchantID e, ec_CustomerID = e_CustomerID e, ec_ExecutionID = e_ID e,
      ec_Domain = e_DomainKey e, ec_Resource = e_Resource e, ec_Action = e_Action e,
      ec_Principal = p_Type (e_Principal e) @ '':'' @ p_ID (e_Principal e), ec_Fence = e_Fence e,
      ec_Registered = \<lparr>rc_Issuer = ''bruiser/'' @ e_MerchantID e, rc_Subject = e_CustomerID e,
        rc_ExpiresAt = Some (e_ExpiresAt e), rc_NotBefore = None, rc_IssuedAt = Some now,
        rc_ID = id_New ''jti'' rnd\<rparr>\<rparr>"

definition SignExecution :: "jwt \<Rightarrow> time \<Rightarrow> string \<Rightarrow> Signer \<Rightarrow> execution \<Rightarrow> string option" where
  "SignExecution J now rnd s e =
     jw_sign J EdDSA (sg_Private s) (Some (sg_KID s)) (execution_payload J (executionClaims now rnd e))"

definition SignAccess :: "jwt \<Rightarrow> time \<Rightarrow> string \<Rightarrow> Signer \<Rightarrow> string \<Rightarrow> string \<Rightarrow> duration \<Rightarrow> string option" where
  "SignAccess J now rnd s role actor ttl =
     (if role \<noteq> RoleAdmin \<and> role \<noteq> RoleOperator then None
      else
        let ttl = (if ttl \<le> 0 then 5 * minute else ttl);
            ttl = (if ttl > 60 * minute then 60 * minute else ttl);
            claims = \<lparr>ac_MerchantID = sg_MerchantID s, ac_Role = role, ac_Actor = actor, ac_TokenType = AccessTokenType,
              ac_Registered = \<lparr>rc_Issuer = ''bruiser/'' @ sg_MerchantID s, rc_Subject = actor,
                rc_ExpiresAt = Some (now + ttl), rc_NotBefore = Some now, rc_IssuedAt = Some now,
                rc_ID = id_New ''jti'' rnd\<rparr>\<rparr>
        in jw_sign J EdDSA (sg_Private s) (Some (sg_KID s)) (access_payload J claims))"

section \<open>Parsing\<close>

definition expired_by :: "duration \<Rightarrow> time \<Rightarrow> RegisteredClaims \<Rightarrow> bool" where
  "expired_by leeway now rc = (case rc_ExpiresAt rc of None \<Rightarrow> False | Some t \<Rightarrow> now > t + leeway)"

definition ParseExecution :: "jwt \<Rightarrow> time \<Rightarrow> string \<Rightarrow> string \<Rightarrow> ExecutionClaims option" where
  "ParseExecution J now token pub =
     Option.bind (Option.bind (jw_parse J EdDSA pub Skew now token) read_execution) (\<lambda>claims.
     if expired_by Skew now (ec_Registered claims) then None
     else if ec_ExecutionID claims = '''' \<or> ec_CustomerID claims = '''' \<or> ec_MerchantID claims = '''' then None
     else Some claims)"

definition ParseAccess :: "jwt \<Rightarrow> time \<Rightarrow> string \<Rightarrow> string \<Rightarrow> AccessClaims option" where
  "ParseAccess J now token pub =
     Option.bind (Option.bind (jw_parse J EdDSA pub Skew now token) read_access) (\<lambda>claims.
     if ac_TokenType claims \<noteq> AccessTokenType then None
     else if ac_Role claims \<noteq> RoleAdmin \<and> ac_Role claims \<noteq> RoleOperator then None
     else if expired_by Skew now (ac_Registered claims) then None
     else Some claims)"

definition ParseSession :: "jwt \<Rightarrow> time \<Rightarrow> string \<Rightarrow> string \<Rightarrow> SessionClaims option" where
  "ParseSession J now token pub =
     Option.bind (Option.bind (jw_parse J EdDSA pub 0 now token) read_session) (\<lambda>claims.
     if expired_by 0 now (sc_Registered claims) then None else Some claims)"

section \<open>Customer assertions\<close>

text \<open>A string member of a decoded map, empty when it is missing or no string.\<close>

definition map_str :: "payload \<Rightarrow> string \<Rightarrow> string" where
  "map_str p k = (case map_member p k of Some (JStr s) \<Rightarrow> s | _ \<Rightarrow> '''')"

fun string_members :: "(string \<times> json) list \<Rightarrow> (string \<times> string) list" where
  "string_members [] = []"
| "string_members ((k, JStr s) # ms) = (k, s) # string_members ms"
| "string_members (_ # ms) = string_members ms"

definition assertionMerchant :: "payload \<Rightarrow> string" where
  "assertionMerchant p =
     (case map_member p ''mid'' of
        Some (JStr v) \<Rightarrow> v
      | _ \<Rightarrow> (case map_member p ''merchant_id'' of Some (JStr v) \<Rightarrow> v | _ \<Rightarrow> ''''))"

definition ParseAssertionHS256Claim :: "jwt \<Rightarrow> time \<Rightarrow> string \<Rightarrow> string \<Rightarrow> string \<Rightarrow> CustomerAssertion option" where
  "ParseAssertionHS256Claim J now token secret subjectClaim0 =
     Option.bind (jw_parse J HS256 secret Skew now token) (\<lambda>claims.
     let subjectClaim = (if subjectClaim0 = '''' then ''sub'' else subjectClaim0);
         sub = map_str claims subjectClaim;
         sub = (if sub = '''' \<and> subjectClaim = ''sub'' then jw_subject J claims else sub)
     in if sub = '''' then None
        else case jw_expirationTime J claims of
          None \<Rightarrow> None
        | Some None \<Rightarrow> None
        | Some (Some exp) \<Rightarrow>
            if now > exp + Skew then None
            else Some \<lparr>ca_CustomerID = sub, ca_MerchantID = assertionMerchant claims,
              ca_Anchors = (case map_member claims ''bruiser_anchors'' of Some (JObj ms) \<Rightarrow> string_members ms | _ \<Rightarrow> []),
              ca_ExpiresAt = exp, ca_JTI = map_str claims ''jti''\<rparr>)"

definition ParseAssertionHS256 :: "jwt \<Rightarrow> time \<Rightarrow> string \<Rightarrow> string \<Rightarrow> CustomerAssertion option" where
  "ParseAssertionHS256 J now token secret = ParseAssertionHS256Claim J now token secret ''sub''"

record AssertionOpts =
  ao_Issuer :: string
  ao_Audience :: string
  ao_MerchantID :: string
  ao_Claim :: string

definition audienceOK :: "jwt \<Rightarrow> payload \<Rightarrow> string \<Rightarrow> bool" where
  "audienceOK J claims aud = (case jw_audience J claims of None \<Rightarrow> False | Some l \<Rightarrow> list_ex (\<lambda>a. a = aud) l)"

text \<open>The token is parsed again for the issuer and the audience.\<close>

definition issuerAndAudience :: "jwt \<Rightarrow> time \<Rightarrow> string \<Rightarrow> string \<Rightarrow> AssertionOpts \<Rightarrow> bool" where
  "issuerAndAudience J now token secret opts =
     (if ao_Issuer opts \<noteq> '''' then
        (case jw_parse J HS256 secret Skew now token of
           None \<Rightarrow> False
         | Some claims \<Rightarrow> jw_issuer J claims = ao_Issuer opts \<and> (ao_Audience opts = '''' \<or> audienceOK J claims (ao_Audience opts)))
      else if ao_Audience opts \<noteq> '''' then
        (case jw_parse J HS256 secret Skew now token of
           None \<Rightarrow> False
         | Some claims \<Rightarrow> audienceOK J claims (ao_Audience opts))
      else True)"

definition ParseAssertion :: "jwt \<Rightarrow> time \<Rightarrow> string \<Rightarrow> string \<Rightarrow> AssertionOpts \<Rightarrow> CustomerAssertion option" where
  "ParseAssertion J now token secret opts =
     Option.bind (ParseAssertionHS256Claim J now token secret (if ao_Claim opts = '''' then ''sub'' else ao_Claim opts)) (\<lambda>a.
     if \<not> issuerAndAudience J now token secret opts then None
     else if ao_MerchantID opts \<noteq> '''' \<and> ca_MerchantID a \<noteq> '''' \<and> ca_MerchantID a \<noteq> ao_MerchantID opts then None
     else Some (if ao_MerchantID opts \<noteq> '''' \<and> ca_MerchantID a = '''' then a\<lparr>ca_MerchantID := ao_MerchantID opts\<rparr> else a))"

definition IssueDevAssertion :: "jwt \<Rightarrow> time \<Rightarrow> string \<Rightarrow> string \<Rightarrow> string \<Rightarrow> duration \<Rightarrow> (string \<times> string) list \<Rightarrow> string option" where
  "IssueDevAssertion J now rnd secret customerID ttl anchors =
     jw_sign J HS256 secret None
       ([(''sub'', JStr customerID), (''iss'', JStr ''dev''), (''aud'', JStr ''bruiser''),
         (''iat'', JNum (now div second)), (''exp'', JNum ((now + ttl) div second)),
         (''jti'', JStr (id_New ''jti'' rnd))]
        @ (if length anchors > 0 then [(''bruiser_anchors'', JObj (map (map_prod id JStr) anchors))] else []))"

definition IssueBoxOfficeSession :: "jwt \<Rightarrow> time \<Rightarrow> string \<Rightarrow> string \<Rightarrow> string \<Rightarrow> duration \<Rightarrow> string option" where
  "IssueBoxOfficeSession J now rnd secret membershipNo ttl0 =
     (let ttl = (if ttl0 = 0 then 60 * minute else ttl0) in
      IssueDevAssertion J now rnd secret membershipNo ttl [(''membership_no'', membershipNo)])"

section \<open>What is assumed of the library\<close>

text \<open>
  A payload is in time when its \<open>exp\<close> has not passed and its \<open>nbf\<close> has come, up to the leeway. A token
  is accepted for a public key exactly when it was signed with the private key and is in time; dates
  are written in whole seconds.
\<close>

definition in_time :: "duration \<Rightarrow> time \<Rightarrow> payload \<Rightarrow> bool" where
  "in_time leeway now p \<longleftrightarrow>
     (case date_field p ''exp'' of None \<Rightarrow> False | Some None \<Rightarrow> True | Some (Some t) \<Rightarrow> now < t + leeway)
     \<and> (case date_field p ''nbf'' of None \<Rightarrow> False | Some None \<Rightarrow> True | Some (Some t) \<Rightarrow> t - leeway \<le> now)"

definition jwt_law :: "jwt \<Rightarrow> string \<Rightarrow> string \<Rightarrow> bool" where
  "jwt_law J priv pub \<longleftrightarrow>
     (\<forall>leeway now tok p. jw_parse J EdDSA pub leeway now tok = Some p \<longleftrightarrow>
        (\<exists>kid. jw_sign J EdDSA priv kid p = Some tok) \<and> in_time leeway now p)
     \<and> (\<forall>kid kid' p p' tok. jw_sign J EdDSA priv kid p = Some tok \<longrightarrow> jw_sign J EdDSA priv kid' p' = Some tok \<longrightarrow> p = p')
     \<and> (\<forall>t. jw_date J t = t div second)"

lemma jwt_parse:
  assumes "jwt_law J priv pub" "jw_sign J EdDSA priv kid p = Some tok"
  shows "jw_parse J EdDSA pub leeway now tok = (if in_time leeway now p then Some p else None)"
proof (cases "jw_parse J EdDSA pub leeway now tok")
  case None
  with assms show ?thesis unfolding jwt_law_def by (metis option.distinct(1))
next
  case (Some p')
  with assms show ?thesis unfolding jwt_law_def by metis
qed

lemma jwt_signed:
  assumes "jwt_law J priv pub" "jw_parse J EdDSA pub leeway now tok = Some p"
  shows "\<exists>kid. jw_sign J EdDSA priv kid p = Some tok" "in_time leeway now p"
  using assms unfolding jwt_law_def by blast+

text \<open>A library that signs the payloads of a table, with the key pair \<open>sk\<close> and \<open>pk\<close>.\<close>

definition table_jwt :: "(string \<times> payload) list \<Rightarrow> jwt" where
  "table_jwt tbl =
     \<lparr>jw_sign = (\<lambda>a key kid p. if a = EdDSA \<and> key = ''sk'' then map_of (map prod.swap tbl) p else None),
      jw_parse = (\<lambda>a key leeway now tok. if a = EdDSA \<and> key = ''pk'' then
         (case map_of tbl tok of None \<Rightarrow> None | Some p \<Rightarrow> if in_time leeway now p then Some p else None) else None),
      jw_date = (\<lambda>t. t div second), jw_expirationTime = (\<lambda>_. None), jw_subject = (\<lambda>_. ''''), jw_issuer = (\<lambda>_. ''''),
      jw_audience = (\<lambda>_. None)\<rparr>"

lemma map_of_swap: "distinct (map fst tbl) \<Longrightarrow> distinct (map snd tbl) \<Longrightarrow>
   map_of (map prod.swap tbl) p = Some tok \<longleftrightarrow> map_of tbl tok = Some p"
proof -
  assume d: "distinct (map fst tbl)" "distinct (map snd tbl)"
  have fs: "map fst (map prod.swap tbl) = map snd tbl" by simp
  have "(p, tok) \<in> set (map prod.swap tbl) \<longleftrightarrow> (tok, p) \<in> set tbl" by force
  with d show ?thesis by (simp only: map_of_eq_Some_iff fs)
qed

lemma table_jwt_law: "distinct (map fst tbl) \<Longrightarrow> distinct (map snd tbl) \<Longrightarrow> jwt_law (table_jwt tbl) ''sk'' ''pk''"
  by (auto simp: jwt_law_def table_jwt_def map_of_swap simp del: map_of_eq_Some_iff split: option.splits if_splits)

end
