(* ===== verification/Token_Props.thy ===== *)
theory Token_Props
  imports Tokens
begin

text \<open>
  Properties of the tokens: an execution token says what the gateway knew of the execution, is accepted
  exactly until its expiry and only if the gateway signed it, and no token of another kind passes for
  an execution or an access token.
\<close>

section \<open>Reading payloads\<close>

definition lower_name :: "string \<Rightarrow> bool" where
  "lower_name s \<longleftrightarrow> list_all (\<lambda>c. 97 \<le> byte c \<and> byte c \<le> 122) s"

lemma lower_name_fold: "lower_name s \<Longrightarrow> lower_name t \<Longrightarrow> EqualFold s t \<longleftrightarrow> s = t"
proof -
  assume a: "lower_name s" "lower_name t"
  have "lower_name u \<Longrightarrow> ascii u \<and> map lower_byte u = u" for u
    by (induction u) (auto simp: lower_name_def ascii_def lower_byte_def)
  with a show ?thesis by (simp add: EqualFold_ascii)
qed

lemma find_name: "list_all (lower_name \<circ> fst) ms \<Longrightarrow> lower_name k \<Longrightarrow>
   map_option snd (find (\<lambda>(n, _). EqualFold n k) ms) = map_of ms k"
  by (induction ms) (auto simp: lower_name_fold)

lemma member_lower: "list_all (lower_name \<circ> fst) ms \<Longrightarrow> lower_name k \<Longrightarrow> member ms k = non_null (map_of (rev ms) k)"
  by (simp add: member_def find_name)

lemma lower_literals [simp]:
  "lower_name ''mid''" "lower_name ''sub''" "lower_name ''exe''" "lower_name ''dom''" "lower_name ''res''"
  "lower_name ''act''" "lower_name ''prn''" "lower_name ''fnc''" "lower_name ''pty''" "lower_name ''pid''"
  "lower_name ''sid''" "lower_name ''ver''" "lower_name ''anc''" "lower_name ''role''" "lower_name ''typ''"
  "lower_name ''iss''" "lower_name ''exp''" "lower_name ''nbf''" "lower_name ''iat''" "lower_name ''jti''"
  by (simp_all add: lower_name_def)

lemma omit_names: "lower_name k \<Longrightarrow> list_all (lower_name \<circ> fst) (omit_str k s)"
  "lower_name k \<Longrightarrow> list_all (lower_name \<circ> fst) (omit_date J k t)"
  by (auto simp: omit_str_def omit_date_def split: option.splits)

lemma registered_names: "list_all (lower_name \<circ> fst) (registered_members J w rc)"
  by (auto simp: registered_members_def omit_names)

lemma payload_names:
  "list_all (lower_name \<circ> fst) (session_payload J sc)" "list_all (lower_name \<circ> fst) (execution_payload J ec)"
  "list_all (lower_name \<circ> fst) (access_payload J ac)"
  by (auto simp: session_payload_def execution_payload_def access_payload_def registered_names)

text \<open>An omitted member reads as the zero value; a date comes back as whole seconds.\<close>

definition opt_str :: "string \<Rightarrow> json option" where
  "opt_str s = (if s = '''' then None else Some (JStr s))"

definition opt_date :: "jwt \<Rightarrow> time option \<Rightarrow> json option" where
  "opt_date J t = map_option (\<lambda>t. JNum (jw_date J t)) t"

definition seconds_of :: "jwt \<Rightarrow> time option \<Rightarrow> time option" where
  "seconds_of J t = map_option (\<lambda>t. jw_date J t * second) t"

definition written :: "jwt \<Rightarrow> RegisteredClaims \<Rightarrow> RegisteredClaims" where
  "written J rc = rc\<lparr>rc_ExpiresAt := seconds_of J (rc_ExpiresAt rc), rc_NotBefore := seconds_of J (rc_NotBefore rc),
     rc_IssuedAt := seconds_of J (rc_IssuedAt rc)\<rparr>"

lemma opt_simps [simp]:
  "non_null (opt_str s) = opt_str s" "as_str (opt_str s) = Some s"
  "non_null (opt_date J t) = opt_date J t" "as_date (opt_date J t) = Some (seconds_of J t)"
  "non_null None = None" "non_null (Some (JStr s)) = Some (JStr s)" "non_null (Some (JNum n)) = Some (JNum n)"
  "non_null (Some (JObj ms)) = Some (JObj ms)" "as_anchors (Some (JObj ms)) = anchor_members ms"
  "as_date None = Some None" "as_anchors None = Some []"
  by (auto simp: non_null_def opt_str_def opt_date_def as_date_def as_anchors_def seconds_of_def split: option.splits)

lemma map_of_omit:
  "map_of (rev (omit_str k s)) k' = (if k' = k then opt_str s else None)"
  "map_of (rev (omit_date J k t)) k' = (if k' = k then opt_date J t else None)"
  by (auto simp: omit_str_def omit_date_def opt_str_def opt_date_def split: option.splits)

lemma map_of_registered:
  "map_of (rev (registered_members J w rc)) k =
     (if k = ''iss'' then opt_str (rc_Issuer rc) else if k = ''exp'' then opt_date J (rc_ExpiresAt rc)
      else if k = ''nbf'' then opt_date J (rc_NotBefore rc) else if k = ''iat'' then opt_date J (rc_IssuedAt rc)
      else if k = ''jti'' then opt_str (rc_ID rc) else if k = ''sub'' \<and> w then opt_str (rc_Subject rc) else None)"
  by (auto simp: registered_members_def map_of_omit map_add_def split: option.splits)

lemma case_option_self [simp]: "(case x of None \<Rightarrow> None | Some v \<Rightarrow> Some v) = x"
  by (cases x) simp_all

lemmas read_payload = str_field_def int_field_def date_field_def anchors_field_def read_registered_def
  read_session_def read_execution_def read_access_def member_lower payload_names

lemmas payload_members = session_payload_def execution_payload_def access_payload_def map_add_def map_of_registered
  written_def

lemma read_execution_payload:
  assumes "- (2 ^ 63) \<le> ec_Fence c" "ec_Fence c < 2 ^ 63"
  shows "read_execution (execution_payload J c) = Some (c\<lparr>ec_Registered := (written J (ec_Registered c))\<lparr>rc_Subject := ''''\<rparr>\<rparr>)"
  using assms by (simp add: read_payload, simp add: payload_members cong: option.case_cong)

lemma anchor_members_JStr: "anchor_members (map (map_prod id JStr) as) = Some as"
  by (induction as) auto

lemma read_session_payload:
  assumes "- (2 ^ 63) \<le> sc_Version c" "sc_Version c < 2 ^ 63"
  shows "read_session (session_payload J c) = Some (c\<lparr>sc_Registered := (written J (sc_Registered c))\<lparr>rc_Subject := ''''\<rparr>\<rparr>)"
  using assms by (simp add: read_payload, auto simp: payload_members anchor_members_JStr cong: option.case_cong)

lemma read_access_payload: "read_access (access_payload J c) = Some (c\<lparr>ac_Registered := written J (ac_Registered c)\<rparr>)"
  by (simp add: read_payload, simp add: payload_members cong: option.case_cong)

text \<open>Reading a payload of one kind as another.\<close>

lemma read_session_execution:
  "read_session (execution_payload J c) = Some \<lparr>sc_MerchantID = ec_MerchantID c, sc_CustomerID = ec_CustomerID c,
     sc_PrincipalType = '''', sc_PrincipalID = '''', sc_SessionID = '''', sc_Version = 0, sc_Anchors = [],
     sc_Registered = (written J (ec_Registered c))\<lparr>rc_Subject := ''''\<rparr>\<rparr>"
  by (simp add: read_payload, simp add: payload_members cong: option.case_cong)

lemma read_execution_session: "map_option ec_ExecutionID (read_execution (session_payload J c)) = Some ''''"
  by (simp add: read_payload, auto simp: payload_members cong: option.case_cong)

lemma read_execution_access: "map_option ec_ExecutionID (read_execution (access_payload J c)) = Some ''''"
  by (simp add: read_payload, auto simp: payload_members cong: option.case_cong)

lemma read_access_session: "map_option ac_TokenType (read_access (session_payload J c)) = Some ''''"
  "map_option ac_TokenType (read_access (execution_payload J e)) = Some ''''"
  by (simp_all add: read_payload, auto simp: payload_members cong: option.case_cong)


section \<open>Execution tokens\<close>

lemma in_time_execution:
  "in_time leeway now (execution_payload J (executionClaims t rnd e)) \<longleftrightarrow> now < jw_date J (e_ExpiresAt e) * second + leeway"
  by (simp add: in_time_def read_payload)
    (simp add: payload_members executionClaims_def seconds_of_def opt_date_def as_date_def non_null_def cong: option.case_cong)

lemma executionClaims_simps [simp]:
  "ec_MerchantID (executionClaims t rnd e) = e_MerchantID e" "ec_CustomerID (executionClaims t rnd e) = e_CustomerID e"
  "ec_ExecutionID (executionClaims t rnd e) = e_ID e" "ec_Domain (executionClaims t rnd e) = e_DomainKey e"
  "ec_Resource (executionClaims t rnd e) = e_Resource e" "ec_Action (executionClaims t rnd e) = e_Action e"
  "ec_Fence (executionClaims t rnd e) = e_Fence e"
  "rc_ExpiresAt (ec_Registered (executionClaims t rnd e)) = Some (e_ExpiresAt e)"
  by (simp_all add: executionClaims_def)

lemma ParseExecution_signed:
  assumes "jwt_law J (sg_Private s) (sg_Public s)" "SignExecution J t rnd s e = Some tok"
    and "0 \<le> e_Fence e" "e_Fence e \<le> max_bigint" "e_ID e \<noteq> ''''" "e_CustomerID e \<noteq> ''''" "e_MerchantID e \<noteq> ''''"
  shows "ParseExecution J now tok (sg_Public s) =
    (if now < (e_ExpiresAt e div second) * second + Skew
     then Some ((executionClaims t rnd e)\<lparr>ec_Registered := (written J (ec_Registered (executionClaims t rnd e)))\<lparr>rc_Subject := ''''\<rparr>\<rparr>)
     else None)"
proof -
  let ?c = "executionClaims t rnd e"
  have d: "jw_date J x = x div second" for x using assms(1) by (simp add: jwt_law_def)
  have read: "read_execution (execution_payload J ?c) = Some (?c\<lparr>ec_Registered := (written J (ec_Registered ?c))\<lparr>rc_Subject := ''''\<rparr>\<rparr>)"
    using assms(3,4) by (intro read_execution_payload) (simp_all add: max_bigint_def)
  have parse: "jw_parse J EdDSA (sg_Public s) Skew now tok =
      (if now < (e_ExpiresAt e div second) * second + Skew then Some (execution_payload J ?c) else None)"
    using jwt_parse [OF assms(1) assms(2) [unfolded SignExecution_def], of Skew now] by (simp only: in_time_execution d)
  have exp: "rc_ExpiresAt (written J (ec_Registered ?c)) = Some ((e_ExpiresAt e div second) * second)"
    by (simp add: written_def seconds_of_def d)
  show ?thesis using assms(5-7) exp unfolding ParseExecution_def parse by (simp add: read expired_by_def)
qed

text \<open>C31. The execution token the gateway hands out is read back by the origin as the execution it was issued for,
  with the fence, until the lease's expiry (in whole seconds) plus the allowed skew, and never after.\<close>

theorem execution_token_round_trip:
  assumes "jwt_law J (sg_Private s) (sg_Public s)" "SignExecution J t rnd s e = Some tok"
    and "0 \<le> e_Fence e" "e_Fence e \<le> max_bigint" "e_ID e \<noteq> ''''" "e_CustomerID e \<noteq> ''''" "e_MerchantID e \<noteq> ''''"
  shows "map_option (\<lambda>c. (ec_ExecutionID c, ec_MerchantID c, ec_CustomerID c, ec_Domain c, ec_Resource c, ec_Fence c))
      (ParseExecution J now tok (sg_Public s)) =
    (if now < (e_ExpiresAt e div second) * second + Skew
     then Some (e_ID e, e_MerchantID e, e_CustomerID e, e_DomainKey e, e_Resource e, e_Fence e) else None)"
  by (simp add: ParseExecution_signed [OF assms])

definition demo_lease :: execution where
  "demo_lease = \<lparr>e_ID = ''exe_1'', e_MerchantID = ''m'', e_DomainKey = ''k'', e_CustomerID = ''c'',
     e_Principal = \<lparr>p_Type = ''agent'', p_ID = ''a''\<rparr>, e_SessionID = ''ses_1'', e_Resource = ''event:x'',
     e_Action = ''hold'', e_RuleName = ''r'', e_Fence = 7, e_State = StateActive, e_GrantedAt = 0,
     e_ExpiresAt = 60 * second, e_MaxLifetimeAt = 900 * second, e_RenewCount = 0, e_EndedAt = None, e_EndReason = '''',
     e_SuccessorID = '''', e_QueuePosition = 0, e_OpsUsed = 0, e_MaxOps = 0\<rparr>"

definition demo_signer :: Signer where
  "demo_signer = \<lparr>sg_KID = ''kid_1'', sg_MerchantID = ''m'', sg_Private = ''sk'', sg_Public = ''pk''\<rparr>"

definition demo_jwt :: jwt where
  "demo_jwt = table_jwt [(''tok'', execution_payload (table_jwt []) (executionClaims 0 ''j'' demo_lease))]"

lemma demo_jwt_law: "jwt_law demo_jwt (sg_Private demo_signer) (sg_Public demo_signer)"
  unfolding demo_jwt_def demo_signer_def by (simp add: table_jwt_law)

lemma demo_signed: "SignExecution demo_jwt 0 ''j'' demo_signer demo_lease = Some ''tok''"
  by (simp add: SignExecution_def demo_jwt_def table_jwt_def demo_signer_def execution_payload_def registered_members_def
      omit_date_def split: option.splits)

lemma demo_lease_ok: "0 \<le> e_Fence demo_lease" "e_Fence demo_lease \<le> max_bigint" "e_ID demo_lease \<noteq> ''''"
    "e_CustomerID demo_lease \<noteq> ''''" "e_MerchantID demo_lease \<noteq> ''''"
  by (simp_all add: demo_lease_def max_bigint_def)

theorem execution_token_round_trip_witness:
  "map_option ec_Fence (ParseExecution demo_jwt (64 * second) ''tok'' ''pk'') = Some 7
   \<and> ParseExecution demo_jwt (65 * second) ''tok'' ''pk'' = None"
proof -
  have pk: "sg_Public demo_signer = ''pk''" by (simp add: demo_signer_def)
  note rt = execution_token_round_trip [OF demo_jwt_law demo_signed demo_lease_ok, unfolded pk]
  show ?thesis
    using rt [of "64 * second"] rt [of "65 * second"]
    by (auto simp: demo_lease_def Skew_def)
qed

text \<open>C32. An accepted execution token was signed with the gateway's private key, for the claims that are read from
  it, names an execution, a customer and a merchant, and has not expired by more than the skew; a
  session token or an access token is never accepted as an execution token.\<close>

theorem execution_token_authentic:
  assumes "jwt_law J (sg_Private s) (sg_Public s)" "ParseExecution J now tok (sg_Public s) = Some c"
  shows "(\<exists>kid p. jw_sign J EdDSA (sg_Private s) kid p = Some tok \<and> read_execution p = Some c)
    \<and> ec_ExecutionID c \<noteq> '''' \<and> ec_CustomerID c \<noteq> '''' \<and> ec_MerchantID c \<noteq> ''''
    \<and> \<not> expired_by Skew now (ec_Registered c)
    \<and> (\<forall>rnd sc. SignSession J rnd s sc \<noteq> Some tok) \<and> (\<forall>t rnd role actor ttl. SignAccess J t rnd s role actor ttl \<noteq> Some tok)"
proof -
  from assms(2) obtain p where p: "jw_parse J EdDSA (sg_Public s) Skew now tok = Some p" "read_execution p = Some c"
    and c: "ec_ExecutionID c \<noteq> ''''" "ec_CustomerID c \<noteq> ''''" "ec_MerchantID c \<noteq> ''''"
      "\<not> expired_by Skew now (ec_Registered c)"
    unfolding ParseExecution_def by (auto split: Option.bind_splits if_splits)
  have same: "jw_sign J EdDSA (sg_Private s) kid p' = Some tok \<Longrightarrow> p' = p" for kid p'
    using jwt_parse [OF assms(1), of kid p' tok Skew now] p(1) by (simp split: if_splits)
  have "read_execution (session_payload J sc) \<noteq> Some c" for sc using read_execution_session [of J sc] c(1) by auto
  moreover have "read_execution (access_payload J ac) \<noteq> Some c" for ac using read_execution_access [of J ac] c(1) by auto
  ultimately have "SignSession J rnd s sc \<noteq> Some tok" "SignAccess J t rnd s role actor ttl \<noteq> Some tok" for rnd sc t role actor ttl
    using same p(2) unfolding SignSession_def SignAccess_def Let_def by (metis, metis option.distinct(1))
  then show ?thesis using jwt_signed(1) [OF assms(1) p(1)] p(2) c by blast
qed

theorem execution_token_authentic_witness:
  "\<exists>c kid p. ParseExecution demo_jwt 0 ''tok'' ''pk'' = Some c \<and> jw_sign demo_jwt EdDSA ''sk'' kid p = Some ''tok''
    \<and> read_execution p = Some c"
proof -
  have keys: "sg_Private demo_signer = ''sk''" "sg_Public demo_signer = ''pk''" by (simp_all add: demo_signer_def)
  obtain c where c: "ParseExecution demo_jwt 0 ''tok'' ''pk'' = Some c"
    using ParseExecution_signed [OF demo_jwt_law demo_signed demo_lease_ok, of 0]
    by (simp add: demo_lease_def demo_signer_def Skew_def)
  from execution_token_authentic [of demo_jwt demo_signer 0 "''tok''" c, OF demo_jwt_law] c show ?thesis
    unfolding keys by blast
qed

end
