(* ===== verification/Merchant.thy ===== *)
theory Merchant
  imports Policy Web "HOL-Library.AList"
begin

text \<open>
  \<open>internal/merchant\<close>: the merchant profile (\<open>profile.go\<close>), the policy document it gives (\<open>policy.go\<close>), the
  checks for production (\<open>safety.go\<close>) and the validation of a profile (\<open>validate.go\<close>). The YAML decoder and
  the environment are parameters. A map that is ranged over is the list of its entries in the order
  of the iteration.
\<close>

section \<open>More of the strings package\<close>

definition upper_rune :: "rune \<Rightarrow> rune" where
  "upper_rune r =
     (if 97 \<le> r \<and> r \<le> 122 then r - 32
      else if r = 181 then 924
      else if r = 255 then 376
      else if r = 305 then 73
      else if r = 383 then 83
      else if 224 \<le> r \<and> r \<le> 254 \<and> r \<noteq> 247 then r - 32
      else if r = 962 then 931
      else if 945 \<le> r \<and> r \<le> 971 then r - 32
      else if 1072 \<le> r \<and> r \<le> 1103 then r - 32
      else if 1104 \<le> r \<and> r \<le> 1119 then r - 80
      else if 65345 \<le> r \<and> r \<le> 65370 then r - 32
      else r)"

definition ToUpper :: "string \<Rightarrow> string" where
  "ToUpper s = encode_runes (map upper_rune (runes s))"

text \<open>\<open>strings.ReplaceAll\<close> for a non-empty pattern.\<close>

function ReplaceAll :: "string \<Rightarrow> string \<Rightarrow> string \<Rightarrow> string" where
  "ReplaceAll s old new =
     (if s = [] \<or> old = [] then s
      else if HasPrefix s old then new @ ReplaceAll (drop (length old) s) old new
      else hd s # ReplaceAll (tl s) old new)"
  by pat_completeness auto
termination by (relation "measure (\<lambda>(s, _). length s)") (auto simp: diff_less)

declare ReplaceAll.simps [simp del]

definition em_dash :: string where "em_dash = [CHR 0xE2, CHR 0x80, CHR 0x94]"

section \<open>Profiles\<close>

record Identity =
  mi_Extractor :: string
  mi_Source :: string
  mi_Cookie :: string
  mi_Header :: string
  mi_PrincipalHeader :: string
  mi_SubjectClaim :: string
  mi_Claim :: string
  mi_HMACSecretEnv :: string
  mi_IntrospectURL :: string
  mi_JWKSURL :: string
  mi_Issuer :: string
  mi_Audience :: string
  mi_AllowUnsignedHeader :: bool

record RouteMatch =
  mm_Method :: string
  mm_Path :: string

record Route =
  rt_Match :: RouteMatch
  rt_Action :: string
  rt_Resource :: string
  rt_ResourceFrom :: string
  rt_ResourcePrefix :: string

record MerchantPolicy =
  mp_Version :: int
  mp_Defaults :: Defaults
  mp_Domains :: "Rule list"
  mp_Fallback :: string
  mp_RuleName :: string
  mp_MaxActive :: int
  mp_LeaseTTL :: string
  mp_MaxLifetime :: string
  mp_Waiting :: Waiting

record Profile =
  pf_MerchantID :: string
  pf_Name :: string
  pf_ProfileName :: string
  pf_Assumptions :: string
  pf_Unmatched :: string
  pf_Mode :: string
  pf_Identity :: Identity
  pf_Routes :: "Route list"
  pf_Policy :: MerchantPolicy
  pf_Resources :: "string list"

record compactRoot =
  co_Merchant :: string
  co_MaxActive :: int
  co_Scope :: string
  co_LeaseTTL :: string
  co_Heartbeat :: string
  co_WaitingMode :: string
  co_MaxWaiters :: int

definition mapSource :: "string \<Rightarrow> string" where
  "mapSource src =
     (let s = ToLower (TrimSpace src) in
      if s \<in> {''jwt'', ''bearer''} then ''bearer-jwt''
      else if s \<in> {''cookie'', ''cookie-jwt''} then ''cookie-jwt''
      else if s = ''header'' then ''header''
      else if s \<in> {''introspect'', ''introspection''} then ''introspect''
      else if s \<in> {''edge-signed'', ''signed-header''} then ''edge-signed''
      else if s \<in> {''oidc'', ''jwks''} then ''oidc''
      else src)"

text \<open>The compact fields at the root of the document, then the defaults.\<close>

definition withCompact :: "compactRoot \<Rightarrow> Profile \<Rightarrow> Profile" where
  "withCompact compact p =
     (let p = p\<lparr>pf_MerchantID := (if pf_MerchantID p = '''' then co_Merchant compact else pf_MerchantID p)\<rparr>;
          i = pf_Identity p;
          i = (if mi_Extractor i = '''' \<and> mi_Source i \<noteq> '''' then i\<lparr>mi_Extractor := mapSource (mi_Source i)\<rparr> else i);
          i = (if mi_SubjectClaim i = '''' \<and> mi_Claim i \<noteq> '''' then i\<lparr>mi_SubjectClaim := mi_Claim i\<rparr> else i);
          q = pf_Policy p;
          q = (if co_MaxActive compact > 0 \<and> mp_MaxActive q < 1 then q\<lparr>mp_MaxActive := co_MaxActive compact\<rparr> else q);
          q = (if co_LeaseTTL compact \<noteq> '''' \<and> mp_LeaseTTL q = '''' then q\<lparr>mp_LeaseTTL := co_LeaseTTL compact\<rparr> else q);
          q = (if co_WaitingMode compact \<noteq> '''' \<or> co_MaxWaiters compact > 0
               then q\<lparr>mp_Waiting := (mp_Waiting q)\<lparr>wt_Mode := co_WaitingMode compact, wt_MaxWaiters := co_MaxWaiters compact\<rparr>\<rparr> else q)
      in p\<lparr>pf_Identity := i, pf_Policy := q\<rparr>)"

definition withDefaults :: "Profile \<Rightarrow> Profile" where
  "withDefaults p =
     (let q = pf_Policy p;
          q = (if mp_MaxActive q < 1 then q\<lparr>mp_MaxActive := 1\<rparr> else q);
          q = (if mp_RuleName q = '''' then q\<lparr>mp_RuleName := ''purchase-per-event''\<rparr> else q);
          i = pf_Identity p;
          i = (if mi_SubjectClaim i = '''' then i\<lparr>mi_SubjectClaim := ''sub''\<rparr> else i);
          i = (if mi_Extractor i = '''' then i\<lparr>mi_Extractor := ''auto''\<rparr> else i);
          i = (if mi_Header i = '''' then i\<lparr>mi_Header := ''X-Customer-Id''\<rparr> else i)
      in p\<lparr>pf_Policy := q, pf_Identity := i, pf_Unmatched := (if pf_Unmatched p = '''' then ''deny'' else pf_Unmatched p)\<rparr>)"

definition ParseProfile :: "(string \<Rightarrow> Profile option) \<Rightarrow> (string \<Rightarrow> compactRoot) \<Rightarrow> string \<Rightarrow> Profile option" where
  "ParseProfile unmarshal unmarshalCompact b =
     (case unmarshal b of
        None \<Rightarrow> None
      | Some p \<Rightarrow>
          let p = withCompact (unmarshalCompact b) p in
          if pf_MerchantID p = '''' then None else Some (withDefaults p))"

definition UnmatchedAllow :: "Profile \<Rightarrow> bool" where
  "UnmatchedAllow p \<longleftrightarrow> \<not> EqualFold (pf_Unmatched p) ''deny''"

text \<open>The parameters of a path, the last segment of a name winning.\<close>

fun matchSegments :: "string list \<Rightarrow> string list \<Rightarrow> (string \<times> string) list \<Rightarrow> (string \<times> string) list option" where
  "matchSegments [] [] params = Some params"
| "matchSegments (p # ps) (s # ss) params =
     (if HasPrefix p ''{'' \<and> HasSuffix p ''}'' then
        matchSegments ps ss (AList.update (TrimSuffix (TrimPrefix p ''{'') ''}'') s params)
      else if p \<noteq> s then None
      else matchSegments ps ss params)"
| "matchSegments _ _ params = None"

definition matchPath :: "string \<Rightarrow> string \<Rightarrow> (string \<times> string) list option" where
  "matchPath pattern path =
     (let pp = SplitByte (TrimSuffix pattern ''/'') (CHR ''/'');
          sp = SplitByte (TrimSuffix path ''/'') (CHR ''/'')
      in if length pp \<noteq> length sp then None else matchSegments pp sp [])"

fun matchRoutes :: "Route list \<Rightarrow> string \<Rightarrow> string \<Rightarrow> (Route \<times> (string \<times> string) list) option" where
  "matchRoutes [] meth path = None"
| "matchRoutes (r # rs) meth path =
     (if ToUpper (mm_Method (rt_Match r)) \<noteq> meth then matchRoutes rs meth path
      else case matchPath (mm_Path (rt_Match r)) path of
        Some params \<Rightarrow> Some (r, params)
      | None \<Rightarrow> matchRoutes rs meth path)"

definition MatchRoute :: "Profile \<Rightarrow> string \<Rightarrow> string \<Rightarrow> (Route \<times> (string \<times> string) list) option" where
  "MatchRoute p meth path = matchRoutes (pf_Routes p) (ToUpper meth) path"

definition ResourceFor :: "(string \<Rightarrow> string) \<Rightarrow> Route \<Rightarrow> (string \<times> string) list \<Rightarrow> string \<Rightarrow> string" where
  "ResourceFor nfkc r params bodyEventID =
     (if rt_ResourceFrom r = ''event_id'' \<and> bodyEventID \<noteq> '''' then MustCanonical nfkc (rt_ResourcePrefix r @ bodyEventID)
      else MustCanonical nfkc (foldl (\<lambda>res (k, v). ReplaceAll res (''{'' @ k @ ''}'') v) (rt_Resource r) params))"

definition Controlled :: "Route \<Rightarrow> bool" where
  "Controlled r \<longleftrightarrow> rt_Resource r \<noteq> '''' \<or> rt_ResourceFrom r \<noteq> ''''"

definition ProfileCatalogue :: "(string \<Rightarrow> string) \<Rightarrow> Profile \<Rightarrow> Catalogue" where
  "ProfileCatalogue nfkc p = NewCatalogue nfkc (pf_Resources p)"

section \<open>The policy of a profile\<close>

definition PolicyDocument :: "Profile \<Rightarrow> Document" where
  "PolicyDocument p =
     (let q = pf_Policy p in
      if length (mp_Domains q) > 0 then
        \<lparr>do_Version = (if mp_Version q = 0 then 1 else mp_Version q), do_Merchant = pf_MerchantID p,
         do_Defaults = mp_Defaults q, do_Domains = mp_Domains q, do_Fallback = mp_Fallback q\<rparr>
      else
        let doc = DefaultDocument (pf_MerchantID p);
            r = hd (do_Domains doc);
            df = do_Defaults doc;
            r = (if mp_RuleName q \<noteq> '''' then r\<lparr>ru_Name := mp_RuleName q\<rparr> else r);
            r = (if mp_MaxActive q > 0 then r\<lparr>ru_MaxActive := mp_MaxActive q\<rparr> else r);
            (r, df) = (if mp_LeaseTTL q \<noteq> '''' then (r\<lparr>ru_LeaseTTL := mp_LeaseTTL q\<rparr>, df\<lparr>df_LeaseTTL := mp_LeaseTTL q\<rparr>) else (r, df));
            (r, df) = (if mp_MaxLifetime q \<noteq> '''' then (r\<lparr>ru_MaxLifetime := mp_MaxLifetime q\<rparr>, df\<lparr>df_MaxLifetime := mp_MaxLifetime q\<rparr>) else (r, df));
            r = (if wt_Mode (mp_Waiting q) \<noteq> '''' \<or> wt_MaxWaiters (mp_Waiting q) > 0 then r\<lparr>ru_Waiting := mp_Waiting q\<rparr> else r)
        in doc\<lparr>do_Domains := r # tl (do_Domains doc), do_Defaults := df\<rparr>)"


section \<open>Production safety\<close>

definition CommonAllocationPaths :: "string list" where
  "CommonAllocationPaths = [''/api/tickets/hold'', ''/api/tickets/holds'', ''/api/ticket/hold'', ''/api/holds'', ''/api/hold'',
     ''/boxoffice/holds'', ''/v1/holds'', ''/api/orders'', ''/api/checkout'']"

record SafetyOpts =
  so_OriginSecret :: string
  so_OriginURL :: string
  so_Proxy :: bool
  so_Production :: bool
  so_JWKSURL :: string
  so_Issuer :: string
  so_Audience :: string

record Issue =
  is_Level :: string
  is_Field :: string
  is_Message :: string

abbreviation FAIL :: "string \<Rightarrow> string \<Rightarrow> Issue" where
  "FAIL f m \<equiv> \<lparr>is_Level = ''FAIL'', is_Field = f, is_Message = m\<rparr>"
abbreviation WARN :: "string \<Rightarrow> string \<Rightarrow> Issue" where
  "WARN f m \<equiv> \<lparr>is_Level = ''WARN'', is_Field = f, is_Message = m\<rparr>"

definition IssueString :: "Issue \<Rightarrow> string" where
  "IssueString i = is_Level i @ '' '' @ is_Field i @ '': '' @ is_Message i"

definition ProfileFailOpenReasons :: "Profile \<Rightarrow> string list" where
  "ProfileFailOpenReasons p =
     (if UnmatchedAllow p then [''unmatched: allow''] else []) @ FailOpenReasons (PolicyDocument p)"

text \<open>None when the profile is accepted, the reasons otherwise.\<close>

definition ValidateProductionPolicy :: "Profile \<Rightarrow> bool \<Rightarrow> string list option" where
  "ValidateProductionPolicy p allowUnsafe =
     (let reasons = ProfileFailOpenReasons p in
      if length reasons = 0 then None else if allowUnsafe then None else Some reasons)"

definition hasMethodPath :: "Profile \<Rightarrow> string \<Rightarrow> string \<Rightarrow> bool" where
  "hasMethodPath p meth path \<longleftrightarrow> MatchRoute p meth path \<noteq> None"

definition unlistedCommonAllocation :: "Profile \<Rightarrow> string list" where
  "unlistedCommonAllocation p = filter (\<lambda>path. \<not> hasMethodPath p ''POST'' path) CommonAllocationPaths"

fun JoinComma :: "string list \<Rightarrow> string" where
  "JoinComma [] = ''''"
| "JoinComma [s] = s"
| "JoinComma (s # ss) = s @ '', '' @ JoinComma ss"

definition identityIssues :: "Profile \<Rightarrow> SafetyOpts \<Rightarrow> Issue list" where
  "identityIssues p opts =
     (let i = pf_Identity p; ext = ToLower (TrimSpace (mi_Extractor i)) in
      if ext \<in> {''oidc'', ''jwks'', ''auto'', ''cookie-jwt'', ''cookie'', ''bearer-jwt'', ''bearer'', ''jwt''} then
        (if mi_JWKSURL i = '''' \<and> so_JWKSURL opts = ''''
         then [FAIL ''identity.jwks_url'' ''production requires jwks_url (HS256 is development-only)''] else [])
        @ (if mi_Issuer i = '''' \<and> so_Issuer opts = ''''
           then [FAIL ''identity.issuer'' ''production requires identity.issuer''] else [])
        @ (if mi_Audience i = '''' \<and> so_Audience opts = ''''
           then [FAIL ''identity.audience'' ''production requires identity.audience''] else [])
        @ (if ext = ''auto'' \<and> TrimSpace (mi_Header i) \<noteq> '''' \<and> \<not> mi_AllowUnsignedHeader i
           then [FAIL ''identity.header'' ''production refuses extractor: auto with an unsigned customer header unless identity.allow_unsigned_header is explicitly true''] else [])
      else if ext = ''header'' then
        (if \<not> mi_AllowUnsignedHeader i
         then [FAIL ''identity.extractor'' ''production refuses unsigned header identity unless identity.allow_unsigned_header is explicitly true''] else [])
      else [])"

definition unmatchedIssues :: "Profile \<Rightarrow> SafetyOpts \<Rightarrow> Issue list" where
  "unmatchedIssues p opts =
     (if TrimSpace (so_OriginSecret opts) = ''''
      then [FAIL ''unmatched'' (''unmatched: allow without BRUISER_ORIGIN_SECRET '' @ em_dash
              @ '' unlisted hold/purchase paths can reach origin. Enable origin lockdown or set unmatched: deny'')]
      else [WARN ''unmatched'' ''unmatched: allow is fail-open for unlisted routes. Every scarce hold/purchase path must be listed. Origin lockdown is required. Go-live: bruiser authority-check --front <edge> --origin <origin> --control <bruiser>''])
     @ (if so_Production opts \<and> so_Proxy opts \<and> TrimSpace (so_OriginURL opts) = ''''
        then [FAIL ''origin_url'' ''production Proxy requires BRUISER_ORIGIN_URL so authority-check can prove origin lockdown''] else [])
     @ (let missing = unlistedCommonAllocation p in
        if length missing > 0
        then [WARN ''routes'' (''unmatched: allow '' @ em_dash @ '' common allocation paths not in the profile: '' @ JoinComma missing
                @ ''. If the origin serves any of these, they bypass Bruiser unless origin lockdown rejects them'')] else [])"

definition SafetyIssues :: "Profile \<Rightarrow> SafetyOpts \<Rightarrow> Issue list" where
  "SafetyIssues p opts =
     (let out = (if so_Production opts then identityIssues p opts else []) in
      if \<not> UnmatchedAllow p then out else out @ unmatchedIssues p opts)"

definition LooksLikeAllocation :: "Route \<Rightarrow> bool" where
  "LooksLikeAllocation r =
     (if Controlled r then False
      else
        let blob = ToLower (rt_Action r @ '' '' @ mm_Path (rt_Match r)) in
        list_ex (Contains blob) [''hold'', ''purchase'', ''allocate'', ''checkout'', ''order'', ''ticket'', ''reserve''])"

section \<open>Validation\<close>

definition knownExtractors :: "string list" where
  "knownExtractors = [''auto'', ''cookie-jwt'', ''cookie'', ''bearer-jwt'', ''bearer'', ''jwt'', ''header'', ''introspect'',
     ''introspection'', ''edge-signed'', ''signed-header'', ''oidc'', ''jwks'']"

definition extractorIssues :: "(string \<Rightarrow> string) \<Rightarrow> Identity \<Rightarrow> Issue list" where
  "extractorIssues getenv i =
     (let ext = ToLower (TrimSpace (mi_Extractor i)) in
      (if ext = '''' then [FAIL ''identity.extractor'' ''missing identity configuration (extractor)'']
       else if \<not> List.member knownExtractors ext
       then [FAIL ''identity.extractor'' (''unknown extractor '' @ mi_Extractor i @ '' (auto|cookie-jwt|bearer-jwt|header|introspect|edge-signed|oidc)'')]
       else [])
      @ (if ext \<in> {''oidc'', ''jwks''} then
           (if mi_JWKSURL i = '''' then [FAIL ''identity.jwks_url'' ''oidc extractor requires jwks_url''] else [])
         else if ext \<in> {''introspect'', ''introspection''} then
           (if mi_IntrospectURL i = '''' then [FAIL ''identity.introspect_url'' ''introspect extractor requires introspect_url''] else [])
         else if ext \<in> {''cookie-jwt'', ''cookie''} then
           (if mi_Cookie i = '''' then [FAIL ''identity.cookie'' ''cookie-jwt extractor requires cookie name''] else [])
         else [])
      @ (if mi_SubjectClaim i = '''' \<and> ext \<in> {''cookie-jwt'', ''bearer-jwt'', ''auto'', ''oidc''}
         then [WARN ''identity.subject_claim'' ''subject claim empty; defaulting to sub''] else [])
      @ (if mi_HMACSecretEnv i \<noteq> '''' \<and> getenv (mi_HMACSecretEnv i) = ''''
         then [WARN ''identity.hmac_secret_env'' (mi_HMACSecretEnv i @ '' is not set in this environment'')] else [])
      @ (if EqualFold ext ''header''
         then [WARN ''identity.extractor'' ''unsigned identity headers are only valid behind a trusted edge; prefer oidc/jwks/cookie-jwt''] else []))"

definition routeIssues :: "Route \<Rightarrow> Issue list" where
  "routeIssues r =
     (if mm_Method (rt_Match r) = '''' \<or> mm_Path (rt_Match r) = '''' then [FAIL ''routes'' ''route missing method or path''] else [])
     @ (if LooksLikeAllocation r \<and> \<not> Controlled r
        then [FAIL ''routes'' (mm_Method (rt_Match r) @ '' '' @ mm_Path (rt_Match r) @ '' looks like allocation (action='' @ rt_Action r
                @ '') but has no resource/resource_from '' @ em_dash @ '' unmatched traffic would pass it through'')] else [])"

text \<open>\<open>durErr\<close> and \<open>polErr\<close> are the texts of the errors of \<open>ParseDuration\<close> and \<open>Compile\<close>, \<open>quoted\<close> is \<open>%q\<close>.\<close>

definition policyIssues :: "(string \<Rightarrow> string) \<Rightarrow> (policy_error \<Rightarrow> string) \<Rightarrow> Profile \<Rightarrow> Issue list" where
  "policyIssues durErr polErr p =
     (let q = pf_Policy p; w = mp_Waiting q in
      (if wt_Mode w \<noteq> '''' \<and> \<not> EqualFold (wt_Mode w) ''bounded'' \<and> \<not> EqualFold (wt_Mode w) ''off''
       then [FAIL ''policy.waiting.mode'' ''waiting.mode must be bounded or off''] else [])
      @ (if EqualFold (wt_Mode w) ''bounded'' \<and> wt_MaxWaiters w < 1
         then [FAIL ''policy.waiting.max_waiters'' ''bounded queue requires max_waiters >= 1''] else [])
      @ (if mp_LeaseTTL q \<noteq> '''' then
           (case ParseDuration (mp_LeaseTTL q) of
              None \<Rightarrow> [FAIL ''policy.lease_ttl'' (''invalid lease ttl: '' @ durErr (mp_LeaseTTL q))]
            | Some d \<Rightarrow> if d < second then [WARN ''policy.lease_ttl'' ''lease ttl under 1s is unusually short''] else [])
         else [])
      @ (if mp_MaxLifetime q \<noteq> '''' \<and> mp_LeaseTTL q \<noteq> '''' then
           (case (ParseDuration (mp_MaxLifetime q), ParseDuration (mp_LeaseTTL q)) of
              (Some life, Some ttl) \<Rightarrow> if life < ttl then [FAIL ''policy.max_lifetime'' ''max_lifetime must be >= lease_ttl''] else []
            | _ \<Rightarrow> [])
         else [])
      @ (case Compile (PolicyDocument p) of Inl err \<Rightarrow> [FAIL ''policy'' (polErr err)] | Inr _ \<Rightarrow> []))"

fun resourceIssues :: "(string \<Rightarrow> string) \<Rightarrow> (string \<Rightarrow> string) \<Rightarrow> nat \<Rightarrow> string list \<Rightarrow> Issue list" where
  "resourceIssues nfkc quoted i [] = []"
| "resourceIssues nfkc quoted i (x # xs) =
     (case Canonical nfkc x of
        Inl _ \<Rightarrow> [FAIL ''resources'' (''resources['' @ FormatInt (int i) @ ''] '' @ quoted x @ '' is not a canonical resource ID'')]
      | Inr _ \<Rightarrow> [])
     @ resourceIssues nfkc quoted (Suc i) xs"

definition ValidateIssues :: "(string \<Rightarrow> string) \<Rightarrow> (string \<Rightarrow> string) \<Rightarrow> (string \<Rightarrow> string) \<Rightarrow> (policy_error \<Rightarrow> string)
    \<Rightarrow> (string \<Rightarrow> string) \<Rightarrow> Profile \<Rightarrow> Issue list" where
  "ValidateIssues nfkc getenv durErr polErr quoted p =
     (if pf_MerchantID p = '''' then [FAIL ''merchant_id'' ''merchant_id is required''] else [])
     @ extractorIssues getenv (pf_Identity p)
     @ (if pf_Mode p \<noteq> '''' \<and> \<not> EqualFold (pf_Mode p) ''enforce'' \<and> \<not> EqualFold (pf_Mode p) ''dry-run''
        then [FAIL ''mode'' ''mode must be enforce or dry-run''] else [])
     @ concat (map routeIssues (pf_Routes p))
     @ (if \<not> list_ex Controlled (pf_Routes p)
        then [FAIL ''routes'' ''no protected allocation routes (set resource or resource_from on hold/purchase paths)''] else [])
     @ (if EqualFold (pf_Unmatched p) ''allow''
        then [WARN ''unmatched'' ''unmatched allow is fail-open for unlisted routes; production requires BRUISER_ALLOW_UNSAFE_MODES=1''] else [])
     @ policyIssues durErr polErr p
     @ resourceIssues nfkc quoted 0 (pf_Resources p)
     @ (if length (pf_Resources p) = 0
        then [WARN ''resources'' ''empty catalogue: inbound IDs fold only; set resources: to a merchant-scoped allowlist''] else [])"

definition Validate :: "(string \<Rightarrow> string) \<Rightarrow> (string \<Rightarrow> string) \<Rightarrow> (string \<Rightarrow> string) \<Rightarrow> (policy_error \<Rightarrow> string)
    \<Rightarrow> (string \<Rightarrow> string) \<Rightarrow> Profile \<Rightarrow> string option" where
  "Validate nfkc getenv durErr polErr quoted p =
     map_option IssueString (find (\<lambda>i. is_Level i = ''FAIL'') (ValidateIssues nfkc getenv durErr polErr quoted p))"

end
