(* ===== verification/Identity_Extract.thy ===== *)
theory Identity_Extract
  imports Merchant Tokens
begin

text \<open>
  \<open>internal/identity\<close>: the customer of a request, from a signed cookie or bearer token, a signed or trusted
  header, an introspection endpoint or an OIDC provider. The JWT library, HMAC-SHA256 (in hexadecimal)
  and the network are parameters: \<open>fetch\<close> is the answer of the key endpoint and \<open>introspect\<close> that of the
  introspection endpoint, each to its n-th call. The global cache of key sets is explicit state.
\<close>

section \<open>Base64\<close>

text \<open>\<open>base64.RawURLEncoding.DecodeString\<close>: line breaks are skipped, there is no padding.\<close>

definition b64_value :: "char \<Rightarrow> nat option" where
  "b64_value c =
     (if in_range 65 90 c then Some (byte c - 65)
      else if in_range 97 122 c then Some (byte c - 97 + 26)
      else if in_range 48 57 c then Some (byte c - 48 + 52)
      else if c = CHR ''-'' then Some 62
      else if c = CHR ''_'' then Some 63
      else None)"

fun b64_groups :: "nat list \<Rightarrow> string option" where
  "b64_groups [] = Some []"
| "b64_groups [a] = None"
| "b64_groups [a, b] = Some [char_of (a * 4 + b div 16)]"
| "b64_groups [a, b, c] = Some [char_of (a * 4 + b div 16), char_of (b mod 16 * 16 + c div 4)]"
| "b64_groups (a # b # c # d # r) =
     map_option (\<lambda>s. char_of (a * 4 + b div 16) # char_of (b mod 16 * 16 + c div 4) # char_of (c mod 4 * 64 + d) # s) (b64_groups r)"

definition RawURLDecode :: "string \<Rightarrow> string option" where
  "RawURLDecode s =
     (let vs = map b64_value (filter (\<lambda>c. byte c \<noteq> 10 \<and> byte c \<noteq> 13) s) in
      if list_ex (\<lambda>v. v = None) vs then None else b64_groups (map the vs))"

section \<open>Key sets\<close>

record jwk =
  jk_Kty :: string
  jk_Kid :: string
  jk_Alg :: string
  jk_Crv :: string
  jk_N :: string
  jk_E :: string
  jk_X :: string
  jk_Y :: string

type_synonym jwksDoc = "jwk list"

datatype public_key = RSAKey nat nat | EdKey string | ECKey nat nat

definition SetBytes :: "string \<Rightarrow> nat" where
  "SetBytes b = foldl (\<lambda>n c. 256 * n + byte c) 0 b"

definition b64int :: "string \<Rightarrow> nat option" where
  "b64int s = map_option SetBytes (RawURLDecode s)"

definition rsaFromJWK :: "jwk \<Rightarrow> public_key option" where
  "rsaFromJWK k =
     (case b64int (jk_N k) of
        None \<Rightarrow> None
      | Some n \<Rightarrow> (case b64int (jk_E k) of None \<Rightarrow> None | Some e \<Rightarrow> if e < 2 ^ 63 then Some (RSAKey n e) else None))"

definition edFromJWK :: "jwk \<Rightarrow> public_key option" where
  "edFromJWK k =
     (case RawURLDecode (jk_X k) of None \<Rightarrow> None | Some b \<Rightarrow> if length b \<noteq> 32 then None else Some (EdKey b))"

definition ecFromJWK :: "jwk \<Rightarrow> public_key option" where
  "ecFromJWK k =
     (case b64int (jk_X k) of
        None \<Rightarrow> None
      | Some x \<Rightarrow> (case b64int (jk_Y k) of None \<Rightarrow> None | Some y \<Rightarrow> Some (ECKey x y)))"

fun matchJWK :: "jwksDoc \<Rightarrow> string \<Rightarrow> string \<Rightarrow> public_key option" where
  "matchJWK [] kid al = None"
| "matchJWK (k # ks) kid al =
     (if kid \<noteq> '''' \<and> jk_Kid k \<noteq> '''' \<and> jk_Kid k \<noteq> kid then matchJWK ks kid al
      else if jk_Alg k \<noteq> '''' \<and> al \<noteq> '''' \<and> jk_Alg k \<noteq> al then matchJWK ks kid al
      else if jk_Kty k = ''RSA'' then rsaFromJWK k
      else if jk_Kty k = ''OKP'' \<and> (jk_Crv k = ''Ed25519'' \<or> al = ''EdDSA'') then edFromJWK k
      else if jk_Kty k = ''EC'' \<and> jk_Crv k = ''P-256'' then ecFromJWK k
      else matchJWK ks kid al)"

section \<open>Inputs and the world\<close>

record Customer =
  cu_CustomerID :: string
  cu_PrincipalID :: string
  cu_Anchors :: "(string \<times> string) list"

record Input =
  in_Identity :: Identity
  in_Secret :: string
  in_EdgeSecret :: string
  in_Cookie :: string
  in_Bearer :: string
  in_Header :: string
  in_Principal :: string
  in_Introspect :: string
  in_MerchantID :: string
  in_AllowDevAssertions :: bool
  in_AllowUnsignedHeader :: bool
  in_TrustedEdge :: bool
  in_RequireIssuer :: bool
  in_RequireAudience :: bool

text \<open>
  \<open>wd_parseKeys\<close> is \<open>ParseWithClaims\<close> into \<open>MapClaims\<close> with a key function of the key identifier and the
  method, for RS256, EdDSA and ES256; \<open>wd_fetch\<close> decodes the body of an answer with status 200;
  \<open>wd_introspect\<close> is the decoded object the endpoint answers, for its URL, the token and the secret sent.
\<close>

record world =
  wd_jwt :: jwt
  wd_parseKeys :: "(string \<Rightarrow> string \<Rightarrow> public_key option) \<Rightarrow> duration \<Rightarrow> time \<Rightarrow> string \<Rightarrow> payload option"
  wd_hmac :: "string \<Rightarrow> string \<Rightarrow> string"
  wd_fetch :: "nat \<Rightarrow> string \<Rightarrow> jwksDoc option"
  wd_introspect :: "string \<Rightarrow> string \<Rightarrow> string \<Rightarrow> payload option"

record jwksCache =
  jc_keys :: "string \<rightharpoonup> jwksDoc"
  jc_fetched :: "string \<rightharpoonup> time"
  jc_calls :: nat

definition invalidate :: "string \<Rightarrow> jwksCache \<Rightarrow> jwksCache" where
  "invalidate url c = c\<lparr>jc_keys := (jc_keys c)(url := None), jc_fetched := (jc_fetched c)(url := None)\<rparr>"

definition cacheGet :: "world \<Rightarrow> time \<Rightarrow> string \<Rightarrow> jwksCache \<Rightarrow> jwksDoc option \<times> jwksCache" where
  "cacheGet W now url c =
     (let fetched = (case jc_fetched c url of Some t \<Rightarrow> now - t < 5 * minute | None \<Rightarrow> False) in
      case (jc_keys c url, fetched) of
        (Some doc, True) \<Rightarrow> (Some doc, c)
      | _ \<Rightarrow>
          (case wd_fetch W (jc_calls c) url of
             None \<Rightarrow> (None, c\<lparr>jc_calls := Suc (jc_calls c)\<rparr>)
           | Some doc \<Rightarrow>
               if length doc = 0 then (None, c\<lparr>jc_calls := Suc (jc_calls c)\<rparr>)
               else (Some doc, c\<lparr>jc_keys := (jc_keys c)(url \<mapsto> doc), jc_fetched := (jc_fetched c)(url \<mapsto> now),
                                 jc_calls := Suc (jc_calls c)\<rparr>)))"

section \<open>Extractors\<close>

definition claim :: "Identity \<Rightarrow> string" where
  "claim i = (if mi_SubjectClaim i \<noteq> '''' then mi_SubjectClaim i else if mi_Claim i \<noteq> '''' then mi_Claim i else ''sub'')"

definition merchantSource :: "string \<Rightarrow> string" where
  "merchantSource src =
     (let s = ToLower src in
      if s = ''jwt'' then ''jwt'' else if s = ''cookie'' then ''cookie-jwt''
      else if s \<in> {''oidc'', ''jwks''} then ''oidc'' else src)"

definition fromJWT :: "world \<Rightarrow> time \<Rightarrow> Input \<Rightarrow> string \<Rightarrow> Customer option" where
  "fromJWT W now inp raw =
     (if raw = '''' \<or> \<not> in_AllowDevAssertions inp then None
      else
        let opts = \<lparr>ao_Issuer = mi_Issuer (in_Identity inp), ao_Audience = mi_Audience (in_Identity inp),
                    ao_MerchantID = in_MerchantID inp, ao_Claim = claim (in_Identity inp)\<rparr>;
            parse = (\<lambda>opts. ParseAssertion (wd_jwt W) now raw (in_Secret inp) opts)
        in if in_RequireIssuer inp \<and> ao_Issuer opts = '''' then None
           else if in_RequireAudience inp \<and> ao_Audience opts = '''' then None
           else
             let a = parse opts in
             if a = None \<and> ao_Claim opts \<noteq> ''sub'' \<and> ao_Claim opts \<noteq> ''customer_id'' then None
             else
               let a = (case a of None \<Rightarrow> parse (opts\<lparr>ao_Claim := ''customer_id''\<rparr>) | Some x \<Rightarrow> Some x);
                   a = (case a of None \<Rightarrow> parse (opts\<lparr>ao_Claim := ''sub''\<rparr>) | Some x \<Rightarrow> Some x)
               in case a of
                    None \<Rightarrow> None
                  | Some a \<Rightarrow>
                      if in_MerchantID inp \<noteq> '''' \<and> ca_MerchantID a \<noteq> '''' \<and> ca_MerchantID a \<noteq> in_MerchantID inp then None
                      else Some \<lparr>cu_CustomerID = ca_CustomerID a, cu_PrincipalID = ca_JTI a, cu_Anchors = ca_Anchors a\<rparr>)"

definition fromHeader :: "Input \<Rightarrow> Customer option" where
  "fromHeader inp =
     (if \<not> in_TrustedEdge inp \<and> \<not> in_AllowUnsignedHeader inp then None
      else
        let customer = TrimSpace (in_Header inp) in
        if customer = '''' then None
        else Some \<lparr>cu_CustomerID = customer, cu_PrincipalID = TrimSpace (in_Principal inp), cu_Anchors = []\<rparr>)"

definition edgeMAC :: "world \<Rightarrow> string \<Rightarrow> string \<Rightarrow> string \<Rightarrow> string" where
  "edgeMAC W secret customer exp = wd_hmac W secret (''v1'' @ [CHR 0x0A] @ customer @ [CHR 0x0A] @ exp)"

definition SignEdgeIdentity :: "world \<Rightarrow> time \<Rightarrow> string \<Rightarrow> string \<Rightarrow> duration \<Rightarrow> string" where
  "SignEdgeIdentity W now secret customerID ttl0 =
     (let ttl = (if ttl0 \<le> 0 then 60 * minute else ttl0);
          expS = FormatInt ((now + ttl) div second)
      in ''v1:'' @ customerID @ '':'' @ expS @ '':'' @ edgeMAC W secret customerID expS)"

definition fromEdgeSigned :: "world \<Rightarrow> time \<Rightarrow> string \<Rightarrow> string \<Rightarrow> Customer option" where
  "fromEdgeSigned W now raw0 secret =
     (let raw = TrimSpace raw0 in
      if raw = '''' \<or> secret = '''' then None
      else
        case SplitByte raw (CHR '':'') of
          [v, customer, expS, sig] \<Rightarrow>
            if v \<noteq> ''v1'' then None
            else if customer = '''' then None
            else
              (case Atoi expS of
                 None \<Rightarrow> None
               | Some exp \<Rightarrow>
                   if now div second > exp then None
                   else if sig \<noteq> edgeMAC W secret customer expS then None
                   else Some \<lparr>cu_CustomerID = customer, cu_PrincipalID = '''', cu_Anchors = []\<rparr>)
        | _ \<Rightarrow> None)"

fun firstString :: "payload \<Rightarrow> string list \<Rightarrow> string option" where
  "firstString doc [] = None"
| "firstString doc (k # ks) = (if map_str doc k \<noteq> '''' then Some (map_str doc k) else firstString doc ks)"

definition fromIntrospect :: "world \<Rightarrow> Input \<Rightarrow> Customer option" where
  "fromIntrospect W inp =
     (let url = (if mi_IntrospectURL (in_Identity inp) = '''' then in_Introspect inp else mi_IntrospectURL (in_Identity inp));
          tok = (if in_Bearer inp = '''' then in_Cookie inp else in_Bearer inp)
      in if url = '''' \<or> tok = '''' then None
         else case wd_introspect W url tok (in_Secret inp) of
           None \<Rightarrow> None
         | Some doc \<Rightarrow>
             if map_member doc ''active'' = Some (JBool False) then None
             else map_option (\<lambda>s. \<lparr>cu_CustomerID = s, cu_PrincipalID = '''', cu_Anchors = []\<rparr>)
                    (firstString doc [''customer_id'', ''sub'', ''username'']))"

text \<open>The claims of an OIDC token that verified: issuer, audience, merchant and subject.\<close>

definition oidcCustomer :: "world \<Rightarrow> Input \<Rightarrow> payload \<Rightarrow> Customer option" where
  "oidcCustomer W inp claims =
     (let J = wd_jwt W;
          issWant = TrimSpace (mi_Issuer (in_Identity inp));
          audWant = TrimSpace (mi_Audience (in_Identity inp));
          mid = map_str claims ''mid'';
          sub = map_str claims (claim (in_Identity inp));
          sub = (if sub = '''' then map_str claims ''customer_id'' else sub);
          sub = (if sub = '''' then map_str claims ''sub'' else sub)
      in if in_RequireIssuer inp \<and> issWant = '''' then None
         else if issWant \<noteq> '''' \<and> jw_issuer J claims \<noteq> issWant then None
         else if in_RequireAudience inp \<and> audWant = '''' then None
         else if audWant \<noteq> '''' \<and> \<not> audienceOK J claims audWant then None
         else if mid = '''' \<and> in_MerchantID inp \<noteq> '''' \<and> map_str claims ''merchant_id'' \<noteq> ''''
                 \<and> map_str claims ''merchant_id'' \<noteq> in_MerchantID inp then None
         else if mid \<noteq> '''' \<and> in_MerchantID inp \<noteq> '''' \<and> mid \<noteq> in_MerchantID inp then None
         else if sub = '''' then None
         else Some \<lparr>cu_CustomerID = sub, cu_PrincipalID = map_str claims ''jti'', cu_Anchors = []\<rparr>)"

definition fromOIDC :: "world \<Rightarrow> time \<Rightarrow> Input \<Rightarrow> jwksCache \<Rightarrow> Customer option \<times> jwksCache" where
  "fromOIDC W now inp c =
     (let tok = (if in_Bearer inp = '''' then in_Cookie inp else in_Bearer inp);
          url = mi_JWKSURL (in_Identity inp);
          parse = (\<lambda>doc. wd_parseKeys W (matchJWK doc) Skew now tok)
      in if url = '''' \<or> tok = '''' then (None, c)
         else
           (case cacheGet W now url c of
              (None, c) \<Rightarrow> (None, c)
            | (Some doc, c) \<Rightarrow>
                (case parse doc of
                   Some claims \<Rightarrow> (oidcCustomer W inp claims, c)
                 | None \<Rightarrow>
                     (case cacheGet W now url (invalidate url c) of
                        (None, c) \<Rightarrow> (None, c)
                      | (Some doc, c) \<Rightarrow>
                          (case parse doc of
                             None \<Rightarrow> (None, c)
                           | Some claims \<Rightarrow> (oidcCustomer W inp claims, c))))))"

definition extractorMode :: "Identity \<Rightarrow> string" where
  "extractorMode i =
     (let m = ToLower (TrimSpace (mi_Extractor i));
          m = (if m = '''' \<and> mi_Source i \<noteq> '''' then merchantSource (mi_Source i) else m)
      in if m = '''' then ''auto'' else m)"

text \<open>The mode \<open>auto\<close> tries the cookie, the bearer token in three ways, and the header.\<close>

definition autoHeader :: "world \<Rightarrow> time \<Rightarrow> Input \<Rightarrow> Customer option" where
  "autoHeader W now inp =
     (if in_Header inp \<noteq> '''' then
        (case fromEdgeSigned W now (in_Header inp) (firstNonEmpty (in_EdgeSecret inp) (in_Secret inp)) of
           Some c \<Rightarrow> Some c
         | None \<Rightarrow> fromHeader inp)
      else None)"

definition autoBearer :: "world \<Rightarrow> time \<Rightarrow> Input \<Rightarrow> jwksCache \<Rightarrow> Customer option \<times> jwksCache" where
  "autoBearer W now inp jc =
     (if in_Bearer inp \<noteq> '''' then
        (let (r, jc) = (if mi_JWKSURL (in_Identity inp) \<noteq> '''' then fromOIDC W now inp jc else (None, jc)) in
         case r of
           Some c \<Rightarrow> (Some c, jc)
         | None \<Rightarrow>
             (case fromJWT W now inp (in_Bearer inp) of
                Some c \<Rightarrow> (Some c, jc)
              | None \<Rightarrow> (fromIntrospect W inp, jc)))
      else (None, jc))"

definition ExtractInput :: "world \<Rightarrow> time \<Rightarrow> Input \<Rightarrow> jwksCache \<Rightarrow> Customer option \<times> jwksCache" where
  "ExtractInput W now inp jc =
     (let mode = extractorMode (in_Identity inp) in
      if mode \<in> {''cookie-jwt'', ''cookie''} then (fromJWT W now inp (in_Cookie inp), jc)
      else if mode \<in> {''bearer-jwt'', ''bearer'', ''jwt''} then (fromJWT W now inp (in_Bearer inp), jc)
      else if mode = ''header'' then (fromHeader inp, jc)
      else if mode \<in> {''edge-signed'', ''signed-header''} then
        (fromEdgeSigned W now (in_Header inp) (firstNonEmpty (in_EdgeSecret inp) (in_Secret inp)), jc)
      else if mode \<in> {''introspect'', ''introspection''} then (fromIntrospect W inp, jc)
      else if mode \<in> {''oidc'', ''jwks''} then fromOIDC W now inp jc
      else if mode = ''auto'' then
        (case (if in_Cookie inp \<noteq> '''' then fromJWT W now inp (in_Cookie inp) else None) of
           Some c \<Rightarrow> (Some c, jc)
         | None \<Rightarrow>
             (case autoBearer W now inp jc of
                (Some c, jc) \<Rightarrow> (Some c, jc)
              | (None, jc) \<Rightarrow> (autoHeader W now inp, jc)))
      else (None, jc))"

end
