(* ===== verification/Gateway.thy ===== *)
theory Gateway
  imports Cache Config Identity_Extract Limit
begin

text \<open>
  The state of a gateway process and the helpers its HTTP handlers share (\<open>internal/api/public\<close>:
  \<open>server.go\<close>, \<open>rc1.go\<close>, \<open>policy.go\<close>, and the helpers of \<open>authorize.go\<close>). A handler runs in the monad of the
  store on the state of the gateway, which contains the database: the schedule of connection faults
  covers every statement a request makes. \<open>E\<close> is what is fixed for the process (its configuration and the
  functions outside the program: \<open>gw_unmarshal\<close> reads YAML, \<open>gw_authority\<close> says whether the URL parser accepts
  the host part of an address, \<open>gw_origin\<close> is the answer of the merchant's origin to a forwarded request, \<open>gw_hash\<close> the
  digest of a policy document), \<open>C\<close> what one request
  draws from outside: \<open>now C i\<close> is its i-th reading of a clock (the process' or the database's),
  \<open>draw C i\<close> the bytes of its i-th random identifier, \<open>left C i\<close> whether the client has gone when the handler
  looks for the i-th time, and \<open>probe C\<close> the outcome of a request to the origin. Prometheus counters and
  the log are left out.
\<close>

section \<open>State\<close>

text \<open>Counts of requests per resource; the customers seen are a set.\<close>

record eafAcc =
  ea_attempts :: "(string \<times> int) list"
  ea_forwarded :: "(string \<times> int) list"
  ea_customers :: "(string \<times> string list) list"

record rateGuards =
  rg_sessions :: Keyed
  rg_acquire :: Keyed
  rg_renew :: Keyed
  rg_release :: Keyed
  rg_authorize :: Keyed
  rg_merchant :: Keyed
  rg_customer :: Keyed
  rg_principal :: Keyed
  rg_ip :: Keyed

record server =
  sv_db :: db
  sv_cache :: BusyCache
  sv_jwks :: jwksCache
  sv_rates :: rateGuards
  sv_limit :: PerExecution
  sv_eaf :: eafAcc
  sv_compiled :: Compiled
  sv_policyVer :: int
  sv_controls :: controls

record gateway =
  gw_cfg :: Config
  gw_signer :: Signer
  gw_profile :: Profile
  gw_world :: world
  gw_nfkc :: "string \<Rightarrow> string"
  gw_unmarshal :: "string \<Rightarrow> Document option"
  gw_authority :: "string \<Rightarrow> bool"
  gw_origin :: "request \<Rightarrow> response"
  gw_hash :: "string \<Rightarrow> string"

record call =
  now :: "nat \<Rightarrow> time"
  draw :: "nat \<Rightarrow> string"
  left :: "nat \<Rightarrow> bool"
  probe :: "string \<Rightarrow> string"

type_synonym 'a handler = "(server, 'a) dbop"

abbreviation merchantOf :: "gateway \<Rightarrow> string" where
  "merchantOf E \<equiv> cf_MerchantID (gw_cfg E)"

text \<open>An operation of the store, an operation through the busy cache, and a step in the process.\<close>

definition onDB :: "'a db_op \<Rightarrow> 'a handler" where
  "onDB m s fs = (case m (sv_db s) fs of (r, d, fs') \<Rightarrow> (r, s\<lparr>sv_db := d\<rparr>, fs'))"

definition onLeases :: "(db, 'a) cached \<Rightarrow> 'a handler" where
  "onLeases m s fs = (case m (sv_cache s, sv_db s) fs of (r, (c, d), fs') \<Rightarrow> (r, s\<lparr>sv_cache := c, sv_db := d\<rparr>, fs'))"

definition locally :: "(server \<Rightarrow> 'a \<times> server) \<Rightarrow> 'a handler" where
  "locally f s fs = (case f s of (a, s') \<Rightarrow> (Inr a, s', fs))"

definition reading :: "(server \<Rightarrow> 'a) \<Rightarrow> 'a handler" where
  "reading f = locally (\<lambda>s. (f s, s))"

definition ignoring :: "'a handler \<Rightarrow> 'b handler \<Rightarrow> 'b handler" where
  "ignoring m k = attempt m (\<lambda>_. k)"

section \<open>Process-local counters\<close>

definition newEAFAcc :: eafAcc where
  "newEAFAcc = \<lparr>ea_attempts = [], ea_forwarded = [], ea_customers = []\<rparr>"

definition eafCount :: "(string \<times> int) list \<Rightarrow> string \<Rightarrow> int" where
  "eafCount xs k = (case map_of xs k of None \<Rightarrow> 0 | Some n \<Rightarrow> n)"

definition eafSeen :: "eafAcc \<Rightarrow> string \<Rightarrow> string list" where
  "eafSeen a res = (case map_of (ea_customers a) res of None \<Rightarrow> [] | Some cs \<Rightarrow> cs)"

definition eafRecord :: "string \<Rightarrow> string \<Rightarrow> string \<Rightarrow> eafAcc \<Rightarrow> eafAcc" where
  "eafRecord res customer outcome a =
     (if res = '''' then a
      else
        let a = a\<lparr>ea_attempts := AList.update res (eafCount (ea_attempts a) res + 1) (ea_attempts a)\<rparr>;
            a = (if outcome = ''allow''
                 then a\<lparr>ea_forwarded := AList.update res (eafCount (ea_forwarded a) res + 1) (ea_forwarded a)\<rparr> else a)
        in if customer \<noteq> ''''
           then a\<lparr>ea_customers := AList.update res (List.insert customer (eafSeen a res)) (ea_customers a)\<rparr> else a)"

definition eafSnapshot :: "eafAcc \<Rightarrow> string \<Rightarrow> int \<times> int \<times> int" where
  "eafSnapshot a res = (eafCount (ea_attempts a) res, eafCount (ea_forwarded a) res, int (length (eafSeen a res)))"

definition eafHeadline :: "eafAcc \<Rightarrow> rat \<times> rat \<times> int \<times> int" where
  "eafHeadline a =
     (let attempts = sum_list (map snd (ea_attempts a));
          forwarded = sum_list (map (\<lambda>(res, _). eafCount (ea_forwarded a) res) (ea_attempts a));
          observed = (if forwarded > 0 then of_int attempts / of_int forwarded else 0);
          n = length (remdups (concat (map snd (ea_customers a))))
      in (observed, if n > 0 \<and> forwarded > 0 then of_int forwarded / of_nat n else 0, attempts, forwarded))"

definition eafStep :: "string \<Rightarrow> string \<Rightarrow> string \<Rightarrow> unit handler" where
  "eafStep res customer outcome = locally (\<lambda>s. ((), s\<lparr>sv_eaf := eafRecord res customer outcome (sv_eaf s)\<rparr>))"

section \<open>Rate guards\<close>

definition newRateGuards :: "Config \<Rightarrow> rateGuards" where
  "newRateGuards c =
     \<lparr>rg_sessions = NewKeyed (cf_RateSessions c) 0, rg_acquire = NewKeyed (cf_RateAcquire c) 0,
      rg_renew = NewKeyed (cf_RateRenew c) 0, rg_release = NewKeyed (cf_RateRelease c) 0,
      rg_authorize = NewKeyed (cf_RateAuthorize c) 0, rg_merchant = NewKeyed (cf_RateMerchant c) 0,
      rg_customer = NewKeyed (cf_RateCustomer c) 0, rg_principal = NewKeyed (cf_RatePrincipal c) 0,
      rg_ip = NewKeyed (cf_RateIP c) 0\<rparr>"

text \<open>\<open>check\<close>: the handler goes on when the bucket allows the key.\<close>

definition guarded :: "(rateGuards \<Rightarrow> Keyed) \<Rightarrow> ((Keyed \<Rightarrow> Keyed) \<Rightarrow> rateGuards \<Rightarrow> rateGuards) \<Rightarrow> time \<Rightarrow> string
    \<Rightarrow> response handler \<Rightarrow> response handler" where
  "guarded bucket update t key next =
     andThen (locally (\<lambda>s. case Allow key t (bucket (sv_rates s)) of
        (ok, b) \<Rightarrow> (ok, s\<lparr>sv_rates := update (\<lambda>_. b) (sv_rates s)\<rparr>))) (\<lambda>ok.
     if ok then next
     else ret (writeErr (hdrSet ''Retry-After'' ''1'' []) StatusTooManyRequests ''rate limited''))"

section \<open>Errors\<close>

definition storeError :: "store_error \<Rightarrow> response" where
  "storeError err =
     (case err of
        ErrNotFound \<Rightarrow> writeErr [] StatusNotFound ''not found''
      | ErrInvalidInput \<Rightarrow> writeErr [] StatusBadRequest ''invalid input''
      | ErrUnavailable \<Rightarrow> writeErr (hdrSet ''Retry-After'' ''2'' []) StatusServiceUnavailable ''store unavailable''
      | _ \<Rightarrow> writeErr [] StatusInternalServerError ''internal error'')"

definition mutationError :: "store_error \<Rightarrow> response" where
  "mutationError err =
     (case err of
        GoneError reason succ_id exe \<Rightarrow> writeJSON [] StatusGone
          [(''error'', JStr ''gone''), (''reason'', JStr reason), (''execution_id'', JStr exe), (''successor_id'', JStr succ_id)]
      | ErrNotHolder \<Rightarrow> writeErr [] StatusForbidden ''not holder''
      | ErrPrecedence \<Rightarrow> writeErr [] StatusForbidden ''cannot preempt''
      | _ \<Rightarrow> storeError err)"

section \<open>Replay protection\<close>

definition replayKey :: "request \<Rightarrow> string" where
  "replayKey r =
     (let h = hdrGet (rq_Headers r) in
      if h ''Idempotency-Key'' \<noteq> '''' then ''idem:'' @ h ''Idempotency-Key''
      else if h ''X-Bruiser-Nonce'' \<noteq> '''' then ''nonce:'' @ h ''X-Bruiser-Nonce''
      else if h ''X-Request-Id'' \<noteq> '''' then ''rid:'' @ h ''X-Request-Id''
      else '''')"

definition claimReplay :: "gateway \<Rightarrow> time \<Rightarrow> time \<Rightarrow> request \<Rightarrow> string \<Rightarrow> response handler \<Rightarrow> response handler" where
  "claimReplay E t1 t2 r kind next =
     (if replayKey r = '''' then next
      else attempt (onDB (ClaimReplay t1 t2 (merchantOf E) (replayKey r) kind (10 * minute))) (\<lambda>res.
        case res of
          Inr _ \<Rightarrow> next
        | Inl err \<Rightarrow>
            if err = ErrReplay then ret (writeErr [] StatusConflict ''replayed request'')
            else ret (storeError err)))"

section \<open>Identity\<close>

definition requestID :: "string \<Rightarrow> request \<Rightarrow> string" where
  "requestID rnd r = (if rq_ReqID r \<noteq> '''' then rq_ReqID r else id_Request rnd)"

definition edgeAuthorized :: "gateway \<Rightarrow> request \<Rightarrow> bool" where
  "edgeAuthorized E r =
     (if cf_EdgeSecret (gw_cfg E) = '''' then False
      else subtleEqual (hdrGet (rq_Headers r) ''X-Bruiser-Edge-Secret'') (cf_EdgeSecret (gw_cfg E)))"

definition identityInput :: "gateway \<Rightarrow> request \<Rightarrow> bool \<Rightarrow> Input" where
  "identityInput E r trustedEdge =
     (let c = gw_cfg E; i = pf_Identity (gw_profile E);
          i' = i\<lparr>mi_JWKSURL := (if mi_JWKSURL i = '''' then cf_JWKSURL c else mi_JWKSURL i),
                 mi_Issuer := (if mi_Issuer i = '''' then cf_Issuer c else mi_Issuer i),
                 mi_Audience := (if mi_Audience i = '''' then cf_Audience c else mi_Audience i)\<rparr>
      in \<lparr>in_Identity = i', in_Secret = cf_DevHMACSecret c, in_EdgeSecret = cf_EdgeSecret c,
          in_Cookie = cookieValue r (firstNonEmpty (mi_Cookie i) ''boxoffice_session''),
          in_Bearer = bearer r, in_Header = headerValue r (mi_Header i), in_Principal = headerValue r (mi_PrincipalHeader i),
          in_Introspect = firstNonEmpty (mi_IntrospectURL i) (cf_IntrospectURL c), in_MerchantID = cf_MerchantID c,
          in_AllowDevAssertions = (cf_DevAssertions c \<and> \<not> Production c), in_AllowUnsignedHeader = False,
          in_TrustedEdge = trustedEdge, in_RequireIssuer = Production c, in_RequireAudience = Production c\<rparr>)"

definition extractCustomer :: "gateway \<Rightarrow> time \<Rightarrow> Input \<Rightarrow> Customer option handler" where
  "extractCustomer E t inp = locally (\<lambda>s. case ExtractInput (gw_world E) t inp (sv_jwks s) of (c, jc) \<Rightarrow> (c, s\<lparr>sv_jwks := jc\<rparr>))"

definition canonicalizeResource :: "gateway \<Rightarrow> string \<Rightarrow> resource_error + string" where
  "canonicalizeResource E raw = CatalogueCanonical (gw_nfkc E) (ProfileCatalogue (gw_nfkc E) (gw_profile E)) raw"

section \<open>Policy and controls\<close>

definition compiledDefault :: "string \<Rightarrow> Compiled" where
  "compiledDefault m = (case Compile (DefaultDocument m) of
     Inr c \<Rightarrow> c
   | Inl _ \<Rightarrow> \<lparr>cp_Doc = DefaultDocument m, cp_ttl = 0, cp_lifetime = 0, cp_rules = [], cp_fallback = '''', cp_precedence = []\<rparr>)"

definition loadPolicy :: "gateway \<Rightarrow> unit handler" where
  "loadPolicy E =
     (let c = (case Compile (PolicyDocument (gw_profile E)) of Inr c \<Rightarrow> c | Inl _ \<Rightarrow> compiledDefault (merchantOf E)) in
      attempt (onDB (ActivePolicy (merchantOf E))) (\<lambda>res. locally (\<lambda>s.
        case res of
          Inl _ \<Rightarrow> ((), s\<lparr>sv_compiled := c\<rparr>)
        | Inr row \<Rightarrow>
            (case CompileYAML (gw_unmarshal E) (pr_YAML row) of
               Inl _ \<Rightarrow> ((), s\<lparr>sv_compiled := c\<rparr>)
             | Inr loaded \<Rightarrow> ((), s\<lparr>sv_compiled := loaded, sv_policyVer := pr_Version row\<rparr>)))))"

definition CheckPolicySafety :: "gateway \<Rightarrow> server \<Rightarrow> string list option" where
  "CheckPolicySafety E s =
     (let unsafe = cf_AllowUnsafeModes (gw_cfg E) in
      if ValidateProductionPolicy (gw_profile E) unsafe \<noteq> None \<and> Production (gw_cfg E)
      then ValidateProductionPolicy (gw_profile E) unsafe
      else if Production (gw_cfg E) then CheckProductionSafety (cp_Doc (sv_compiled s)) unsafe
      else None)"

definition applyStorePolicy :: "gateway \<Rightarrow> unit handler" where
  "applyStorePolicy E =
     attempt (onDB (ActivePolicy (merchantOf E))) (\<lambda>res. locally (\<lambda>s.
       case res of
         Inl _ \<Rightarrow> ((), s)
       | Inr row \<Rightarrow>
           if pr_Version row = sv_policyVer s then ((), s)
           else (case CompileYAML (gw_unmarshal E) (pr_YAML row) of
             Inl _ \<Rightarrow> ((), s)
           | Inr loaded \<Rightarrow> ((), s\<lparr>sv_compiled := loaded, sv_policyVer := pr_Version row, sv_cache := Reset (sv_cache s)\<rparr>))))"

definition evaluate :: "gateway \<Rightarrow> server \<Rightarrow> string \<Rightarrow> string \<Rightarrow> string \<Rightarrow> string \<Rightarrow> string \<Rightarrow> (string \<times> string) list \<Rightarrow> Decision" where
  "evaluate E s merchantID customerID ptype res action anchors =
     Evaluate (gw_nfkc E) (sv_compiled s)
       \<lparr>pq_MerchantID = merchantID, pq_CustomerID = customerID, pq_PrincipalType = ptype, pq_Resource = res,
        pq_Action = action, pq_Anchors = map_of anchors\<rparr>"

definition envControls :: "Config \<Rightarrow> controls" where
  "envControls c =
     (FromEnv (cf_Mode c) (cf_Enforcement c) (cf_QueueEnabled c) (cf_EnforcePercent c))\<lparr>c_FailClosed := cf_FailClosed c\<rparr>"

definition initControls :: "gateway \<Rightarrow> unit handler" where
  "initControls E =
     attempt (onDB (GetControls (merchantOf E))) (\<lambda>res. locally (\<lambda>s.
       case res of
         Inr (c, True) \<Rightarrow> ((), s\<lparr>sv_controls := c\<rparr>)
       | _ \<Rightarrow> ((), s\<lparr>sv_controls := envControls (gw_cfg E)\<rparr>)))"

definition applyControls :: "controls \<Rightarrow> Decision \<Rightarrow> string \<Rightarrow> Decision" where
  "applyControls c d action =
     (let d = d\<lparr>dc_MaxWaiters := EffectiveWaiters c (dc_MaxWaiters d)\<rparr>;
          d = (if c_LeaseTTLSeconds c > 0 then d\<lparr>dc_TTL := c_LeaseTTLSeconds c * second\<rparr> else d)
      in if ActionDisabled c action then d\<lparr>dc_ControlNone := True\<rparr> else d)"

definition failOpen :: "controls \<Rightarrow> bool" where
  "failOpen c \<longleftrightarrow> \<not> c_FailClosed c \<or> PassThrough c"

definition rampInput :: "gateway \<Rightarrow> string \<Rightarrow> string \<Rightarrow> string \<Rightarrow> string \<Rightarrow> string \<Rightarrow> string \<Rightarrow> (string \<times> string) list \<Rightarrow> ramp_input" where
  "rampInput E customer res action rule event path anchors =
     (let anchor = (\<lambda>k. case map_of anchors k of None \<Rightarrow> '''' | Some v \<Rightarrow> v) in
      \<lparr>ri_CustomerID = customer, ri_Resource = res, ri_Action = action, ri_RuleName = rule,
       ri_EventID = (if event = '''' then
           (case LastIndexByte res (CHR '':'') of
              Some i \<Rightarrow> if i + 1 < length res then drop (i + 1) res else event
            | None \<Rightarrow> event)
         else event),
       ri_Path = path, ri_Pool = anchor ''pool'', ri_Cohort = anchor ''cohort'', ri_Env = cf_Environment (gw_cfg E)\<rparr>)"

end
