(* ===== verification/Public_Api.thy ===== *)
theory Public_Api
  imports Gateway
begin

text \<open>
  The session and execution endpoints of the public API (\<open>internal/api/public/server.go\<close>). A panic (the
  dereference of a nil pointer) is answered by the \<open>Recoverer\<close> middleware with status 500.
\<close>

section \<open>Responses\<close>

definition panicked :: response where
  "panicked = \<lparr>rs_status = StatusInternalServerError, rs_headers = [], rs_body = None\<rparr>"

definition principal_json :: "principal \<Rightarrow> json" where
  "principal_json p = JObj [(''type'', JStr (p_Type p)), (''id'', JStr (p_ID p))]"

definition executionBody :: "gateway \<Rightarrow> execution \<Rightarrow> (string \<times> json) list" where
  "executionBody E e =
     [(''execution_id'', JStr (e_ID e)), (''status'', JStr (state_name (e_State e))), (''domain'', JStr (e_DomainKey e)),
      (''resource'', JStr (e_Resource e)), (''action'', JStr (e_Action e)), (''customer_id'', JStr (e_CustomerID e)),
      (''principal'', principal_json (e_Principal e)), (''fence'', JNum (e_Fence e)),
      (''granted_at'', JStr (RFC3339Nano (e_GrantedAt e))), (''expires_at'', JStr (RFC3339Nano (e_ExpiresAt e))),
      (''max_lifetime_at'', JStr (RFC3339Nano (e_MaxLifetimeAt e))), (''renew_count'', JNum (e_RenewCount e)),
      (''rule_name'', JStr (e_RuleName e))]
     @ (if e_State e = StateActive then [(''heartbeat_after_ms'', JNum (milliseconds (cf_HeartbeatInterval (gw_cfg E))))] else [])
     @ (if e_State e = StateQueued \<and> e_QueuePosition e > 0 then [(''position'', JNum (e_QueuePosition e))] else [])
     @ (if e_EndReason e \<noteq> '''' then [(''end_reason'', JStr (e_EndReason e))] else [])
     @ (if e_SuccessorID e \<noteq> '''' then [(''successor_id'', JStr (e_SuccessorID e))] else [])"

definition writeExecution :: "gateway \<Rightarrow> time \<Rightarrow> string \<Rightarrow> headers \<Rightarrow> int \<Rightarrow> execution \<Rightarrow> bool \<Rightarrow> response" where
  "writeExecution E t rnd h status e includeToken =
     writeJSON h status (executionBody E e @
       (if includeToken \<and> e_State e = StateActive
        then (case SignExecution (wd_jwt (gw_world E)) t rnd (gw_signer E) e of
                Some tok \<Rightarrow> [(''execution_token'', JStr tok)] | None \<Rightarrow> [])
        else []))"

definition retryAfter :: "time \<Rightarrow> time \<Rightarrow> duration" where
  "retryAfter t expires = (let retry = expires - t in if retry < 0 then second else retry)"

definition writeQueued :: "time \<Rightarrow> headers \<Rightarrow> string \<Rightarrow> string \<Rightarrow> acquire_result \<Rightarrow> response" where
  "writeQueued t h domain rule res =
     (case (r_Busy res, r_Queue res) of
        (Some b, Some q) \<Rightarrow> writeJSON h StatusAccepted
          [(''status'', JStr ''QUEUED''), (''domain'', JStr domain), (''rule_name'', JStr rule),
           (''execution_id'', JStr (qi_WaiterID q)), (''position'', JNum (qi_Position q)),
           (''active_execution_id'', JStr (qi_ActiveExecutionID q)), (''expires_at'', JStr (RFC3339Nano (qi_ExpiresAt q))),
           (''retry_after_ms'', JNum (milliseconds (retryAfter t (b_ExpiresAt b)))),
           (''watch'', JStr (''/v1/executions/'' @ qi_WaiterID q @ ''/watch'')), (''holder'', principal_json (b_Holder b))]
      | _ \<Rightarrow> panicked)"

definition writeBusy :: "time \<Rightarrow> headers \<Rightarrow> string \<Rightarrow> string \<Rightarrow> busy_info \<Rightarrow> response" where
  "writeBusy t h domain rule b = writeJSON h StatusConflict
     [(''status'', JStr ''BUSY''), (''domain'', JStr domain), (''rule_name'', JStr rule),
      (''active_execution_id'', JStr (b_ActiveExecutionID b)), (''holder'', principal_json (b_Holder b)),
      (''expires_at'', JStr (RFC3339Nano (b_ExpiresAt b))),
      (''retry_after_ms'', JNum (milliseconds (retryAfter t (b_ExpiresAt b)))),
      (''watch'', JStr (''/v1/executions/'' @ b_ActiveExecutionID b @ ''/watch'')), (''can_preempt'', JBool (b_CanPreempt b))]"

section \<open>Decisions in the dry-run log\<close>

type_synonym verdict = string

definition recordDecision :: "gateway \<Rightarrow> time \<Rightarrow> bool \<Rightarrow> string \<Rightarrow> string \<Rightarrow> string \<Rightarrow> string \<Rightarrow> string \<Rightarrow> verdict \<Rightarrow> string
    \<Rightarrow> string \<Rightarrow> string \<Rightarrow> 'a handler \<Rightarrow> 'a handler" where
  "recordDecision E t enforced customer pid res action rule would reason reqID errText next =
     ignoring (onDB (RecordDecision t (merchantOf E)
       \<lparr>de_Would = would, de_Reason = reason, de_CustomerID = customer, de_PrincipalID = pid, de_Resource = res,
        de_Action = action, de_RuleName = rule, de_RequestID = reqID, de_Enforced = enforced, de_Error = errText\<rparr>)) next"

definition acquireVerdict :: "acquire_result \<Rightarrow> string \<times> string" where
  "acquireVerdict acq =
     (case r_Status acq of
        StatusGranted \<Rightarrow> (''ALLOW'', ''GRANTED'')
      | StatusAlreadyHeld \<Rightarrow> (''ALLOW'', ''ALREADY_HELD'')
      | StatusQueued \<Rightarrow> (''QUEUE'', ''queued'')
      | StatusBusy \<Rightarrow> (''REJECT'', ''busy'')
      | StatusDenied \<Rightarrow> (''REJECT'', r_Reason acq))"

definition recordAcquire :: "gateway \<Rightarrow> time \<Rightarrow> bool \<Rightarrow> string \<Rightarrow> string \<Rightarrow> string \<Rightarrow> string \<Rightarrow> string \<Rightarrow> acquire_result
    \<Rightarrow> string \<Rightarrow> 'a handler \<Rightarrow> 'a handler" where
  "recordAcquire E t enforced customer pid res action rule acq reqID next =
     (case acquireVerdict acq of (would, reason) \<Rightarrow>
        recordDecision E t enforced customer pid res action rule would reason reqID '''' next)"

section \<open>Sessions\<close>

text \<open>\<open>decodeJSON\<close> into a struct whose fields are strings, possibly in an object of its own.\<close>

definition obj_field :: "(string \<times> json) list \<Rightarrow> string \<Rightarrow> (string \<times> json) list option" where
  "obj_field ms k = (case member ms k of None \<Rightarrow> Some [] | Some (JObj xs) \<Rightarrow> Some xs | Some _ \<Rightarrow> None)"

definition lax_obj :: "json option \<Rightarrow> string \<Rightarrow> json option" where
  "lax_obj b k = (case objectOf b of None \<Rightarrow> None | Some ms \<Rightarrow> member ms k)"

definition decodeSession :: "json option \<Rightarrow> principal option" where
  "decodeSession b =
     Option.bind (objectOf b) (\<lambda>ms.
     Option.bind (obj_field ms ''principal'') (\<lambda>p.
     Option.bind (str_field p ''type'') (\<lambda>ty.
     Option.bind (str_field p ''id'') (\<lambda>i.
     Option.bind (str_field p ''vendor'') (\<lambda>_. Some \<lparr>p_Type = ty, p_ID = i\<rparr>)))))"

definition sessionClaims :: "session_row \<Rightarrow> time \<Rightarrow> time \<Rightarrow> SessionClaims" where
  "sessionClaims row expiry iat =
     \<lparr>sc_MerchantID = s_MerchantID row, sc_CustomerID = s_CustomerID row, sc_PrincipalType = s_PrincipalType row,
      sc_PrincipalID = s_PrincipalID row, sc_SessionID = s_ID row, sc_Version = s_Version row, sc_Anchors = s_Anchors row,
      sc_Registered = \<lparr>rc_Issuer = '''', rc_Subject = s_CustomerID row, rc_ExpiresAt = Some expiry, rc_NotBefore = None,
        rc_IssuedAt = Some iat, rc_ID = ''''\<rparr>\<rparr>"

definition openSession :: "gateway \<Rightarrow> call \<Rightarrow> Customer \<Rightarrow> principal \<Rightarrow> response handler" where
  "openSession E C cust p =
     (let expiry = now C 4 + cf_SessionTTL (gw_cfg E);
          row = \<lparr>s_ID = id_Session (draw C 0), s_MerchantID = merchantOf E, s_CustomerID = cu_CustomerID cust,
                 s_Anchors = cu_Anchors cust, s_PrincipalType = p_Type p, s_PrincipalID = p_ID p, s_ExpiresAt = expiry,
                 s_RevokedAt = None, s_Version = 1\<rparr>
      in attempt (onDB (InsertSession row)) (\<lambda>res.
           case res of
             Inl err \<Rightarrow> ret (storeError err)
           | Inr _ \<Rightarrow>
               (case SignSession (wd_jwt (gw_world E)) (draw C 1) (gw_signer E) (sessionClaims row expiry (now C 5)) of
                  None \<Rightarrow> ret (writeErr [] StatusInternalServerError ''sign session'')
                | Some token \<Rightarrow> ret (writeJSON [] StatusCreated
                    [(''session_id'', JStr (s_ID row)), (''session_token'', JStr token), (''expires_at'', JStr (RFC3339Nano expiry)),
                     (''customer_id'', JStr (cu_CustomerID cust)), (''anchors'', JArr (map (JStr \<circ> fst) (cu_Anchors cust)))]))))"

definition createSession :: "gateway \<Rightarrow> call \<Rightarrow> request \<Rightarrow> response handler" where
  "createSession E C r =
     guarded rg_sessions rg_sessions_update (now C 0) (clientIP r) (
     guarded rg_merchant rg_merchant_update (now C 1) (merchantOf E) (
     guarded rg_ip rg_ip_update (now C 2) (clientIP r) (
     let inp = identityInput E r (edgeAuthorized E r) in
     andThen (extractCustomer E (now C 3) (inp\<lparr>in_Identity := (in_Identity inp)\<lparr>mi_Extractor := ''auto''\<rparr>\<rparr>)) (\<lambda>cust.
     case cust of
       None \<Rightarrow> ret (writeErr [] StatusUnauthorized ''invalid customer assertion'')
     | Some cust \<Rightarrow>
         if cu_CustomerID cust = '''' then ret (writeErr [] StatusUnauthorized ''invalid customer assertion'')
         else
           (case decodeSession (rq_Body r) of
              None \<Rightarrow> ret (writeErr [] StatusBadRequest ''invalid json'')
            | Some p \<Rightarrow>
                let p = (if p_Type p = '''' then p\<lparr>p_Type := ''agent''\<rparr> else p) in
                if p_Type p \<noteq> ''agent'' \<and> p_Type p \<noteq> ''browser''
                then ret (writeErr [] StatusForbidden ''principal type not allowed'')
                else if p_ID p = '''' then ret (writeErr [] StatusBadRequest ''principal.id required'')
                else openSession E C cust p)))))"

definition logoutSession :: "gateway \<Rightarrow> call \<Rightarrow> request \<Rightarrow> response handler" where
  "logoutSession E C r =
     (if bearer r = '''' then ret (writeErr [] StatusUnauthorized ''missing session token'')
      else case ParseSession (wd_jwt (gw_world E)) (now C 0) (bearer r) (sg_Public (gw_signer E)) of
        None \<Rightarrow> ret (writeErr [] StatusUnauthorized ''invalid session token'')
      | Some claims \<Rightarrow>
          if sc_MerchantID claims \<noteq> merchantOf E then ret (writeErr [] StatusUnauthorized ''invalid session token'')
          else attempt (onDB (RevokeSession (now C 1) (merchantOf E) (sc_SessionID claims))) (\<lambda>res.
            case res of
              Inl err \<Rightarrow> ret (storeError err)
            | Inr _ \<Rightarrow> ret (writeJSON [] StatusOK [(''status'', JStr ''REVOKED''), (''session_id'', JStr (sc_SessionID claims))])))"

definition refreshSession :: "gateway \<Rightarrow> call \<Rightarrow> request \<Rightarrow> response handler" where
  "refreshSession E C r =
     (if bearer r = '''' then ret (writeErr [] StatusUnauthorized ''missing session token'')
      else case ParseSession (wd_jwt (gw_world E)) (now C 0) (bearer r) (sg_Public (gw_signer E)) of
        None \<Rightarrow> ret (writeErr [] StatusUnauthorized ''invalid session token'')
      | Some claims \<Rightarrow>
          if sc_MerchantID claims \<noteq> merchantOf E then ret (writeErr [] StatusUnauthorized ''invalid session token'')
          else attempt (onDB (LiveSession (now C 1) (merchantOf E) (sc_SessionID claims))) (\<lambda>res.
            case res of
              Inl _ \<Rightarrow> ret (writeErr [] StatusUnauthorized ''session revoked'')
            | Inr sess \<Rightarrow>
                let expiry = now C 2 + cf_SessionTTL (gw_cfg E) in
                (case SignSession (wd_jwt (gw_world E)) (draw C 0) (gw_signer E) (sessionClaims sess expiry (now C 3)) of
                   None \<Rightarrow> ret (writeErr [] StatusInternalServerError ''sign session'')
                 | Some token \<Rightarrow> ret (writeJSON [] StatusOK
                     [(''session_id'', JStr (s_ID sess)), (''session_token'', JStr token),
                      (''expires_at'', JStr (RFC3339Nano expiry)), (''status'', JStr ''ALLOW'')]))))"

text \<open>The middleware in front of the execution endpoints.\<close>

definition sessionAuth :: "gateway \<Rightarrow> call \<Rightarrow> (SessionClaims \<Rightarrow> request \<Rightarrow> response handler) \<Rightarrow> request \<Rightarrow> response handler" where
  "sessionAuth E C next r =
     (if bearer r = '''' then ret (writeErr [] StatusUnauthorized ''missing session token'')
      else case ParseSession (wd_jwt (gw_world E)) (now C 0) (bearer r) (sg_Public (gw_signer E)) of
        None \<Rightarrow> ret (writeErr [] StatusUnauthorized ''invalid session token'')
      | Some claims \<Rightarrow>
          if sc_MerchantID claims \<noteq> merchantOf E then ret (writeErr [] StatusUnauthorized ''wrong merchant'')
          else if sc_SessionID claims \<noteq> '''' then
            attempt (onDB (LiveSession (now C 1) (merchantOf E) (sc_SessionID claims))) (\<lambda>res.
              case res of
                Inr _ \<Rightarrow> next claims r
              | Inl err \<Rightarrow>
                  if err = ErrUnavailable then
                    andThen (reading sv_controls) (\<lambda>c. if failOpen c then next claims r else ret (storeError err))
                  else ret (writeErr [] StatusUnauthorized ''session revoked''))
          else next claims r)"

section \<open>Executions\<close>

definition decodeAcquire :: "json option \<Rightarrow> (string \<times> string) option" where
  "decodeAcquire b =
     Option.bind (objectOf b) (\<lambda>ms.
     Option.bind (str_field ms ''resource'') (\<lambda>res.
     Option.bind (str_field ms ''action'') (\<lambda>action. Some (res, action))))"

text \<open>The part of a dry run that both ways to ask for an execution share.\<close>

definition dryVerdict :: "store_error + dry_event \<Rightarrow> string \<times> string" where
  "dryVerdict res = (case res of Inr ev \<Rightarrow> (''WOULD_'' @ de_Would ev, de_Reason ev) | Inl _ \<Rightarrow> (''WOULD_UNKNOWN'', ''store_unavailable''))"

definition dryOutcome :: "string \<Rightarrow> string" where
  "dryOutcome would = ''would_'' @ ToLower (TrimPrefix would ''WOULD_'')"

definition dryHeaders :: "string \<Rightarrow> string \<Rightarrow> int \<Rightarrow> headers \<Rightarrow> headers" where
  "dryHeaders would reason percent h =
     hdrSet ''X-Bruiser-Ramp'' (FormatInt percent) (hdrSet ''X-Bruiser-Enforced'' ''0''
       (hdrSet ''X-Bruiser-Dry-Run-Reason'' reason (hdrSet ''X-Bruiser-Dry-Run'' would
         (hdrSet ''X-Bruiser-Control'' ''observe'' h))))"

definition writeAcquireDryRun :: "gateway \<Rightarrow> call \<Rightarrow> SessionClaims \<Rightarrow> string \<Rightarrow> string \<Rightarrow> Decision \<Rightarrow> int \<Rightarrow> string \<Rightarrow> response handler" where
  "writeAcquireDryRun E C sess res action d percent reqID =
     attempt (onDB (ShadowDecide (now C 7) (draw C 1) (sc_MerchantID sess) (dc_DomainKey d) (sc_CustomerID sess)
       (sc_PrincipalID sess) res action (dc_RuleName d) (dc_MaxActive d) (dc_MaxWaiters d) (dc_TTL d) reqID)) (\<lambda>ev.
     case dryVerdict ev of (would, reason) \<Rightarrow>
     andThen (eafStep res (sc_CustomerID sess) (dryOutcome would)) (\<lambda>_.
     ret (writeJSON (dryHeaders would reason percent []) StatusOK
       [(''status'', JStr ''ALLOW''), (''would'', JStr would), (''reason'', JStr reason), (''rule_name'', JStr (dc_RuleName d)),
        (''customer_id'', JStr (sc_CustomerID sess)), (''enforced'', JBool False), (''enforce_percent'', JNum percent)])))"

definition acquireRequest :: "SessionClaims \<Rightarrow> string \<Rightarrow> string \<Rightarrow> Decision \<Rightarrow> string \<Rightarrow> acquire_request" where
  "acquireRequest sess res action d reqID =
     \<lparr>q_MerchantID = sc_MerchantID sess, q_DomainKey = dc_DomainKey d, q_CustomerID = sc_CustomerID sess,
      q_Principal = \<lparr>p_Type = sc_PrincipalType sess, p_ID = sc_PrincipalID sess\<rparr>, q_SessionID = sc_SessionID sess,
      q_Resource = res, q_Action = action, q_RuleName = dc_RuleName d, q_MaxActive = dc_MaxActive d, q_TTL = dc_TTL d,
      q_MaxLifetime = dc_MaxLifetime d, q_Precedence = dc_Precedence d, q_MaxWaiters = dc_MaxWaiters d,
      q_MaxOps = dc_MaxOps d, q_RequestID = reqID\<rparr>"

definition enforcedHeaders :: "int \<Rightarrow> headers" where
  "enforcedHeaders percent = hdrSet ''X-Bruiser-Ramp'' (FormatInt percent) (hdrSet ''X-Bruiser-Enforced'' ''1'' [])"

text \<open>The \<open>switch\<close> on the status of the acquisition.\<close>

definition acquireAnswer :: "gateway \<Rightarrow> call \<Rightarrow> SessionClaims \<Rightarrow> string \<Rightarrow> Decision \<Rightarrow> headers \<Rightarrow> acquire_result \<Rightarrow> response handler" where
  "acquireAnswer E C sess resource d h res =
     (let seen = eafStep resource (sc_CustomerID sess);
          granted = (\<lambda>status. case r_Execution res of
             Some e \<Rightarrow> ret (writeExecution E (now C 12) (draw C 2) h status e True) | None \<Rightarrow> ret panicked)
      in case r_Status res of
           StatusGranted \<Rightarrow> andThen (seen ''allow'') (\<lambda>_. granted StatusCreated)
         | StatusAlreadyHeld \<Rightarrow> andThen (seen ''resume'') (\<lambda>_. granted StatusOK)
         | StatusQueued \<Rightarrow> andThen (seen ''queued'') (\<lambda>_. ret (writeQueued (now C 11) h (dc_DomainKey d) (dc_RuleName d) res))
         | StatusBusy \<Rightarrow> andThen (seen ''busy'') (\<lambda>_.
             case r_Busy res of
               Some b \<Rightarrow> ret (writeBusy (now C 11) h (dc_DomainKey d) (dc_RuleName d) b)
             | None \<Rightarrow> ret panicked)
         | StatusDenied \<Rightarrow> ret (writeErr h StatusForbidden (r_Reason res)))"

definition acquireEnforced :: "gateway \<Rightarrow> call \<Rightarrow> SessionClaims \<Rightarrow> string \<Rightarrow> string \<Rightarrow> Decision \<Rightarrow> controls \<Rightarrow> string \<Rightarrow> response handler" where
  "acquireEnforced E C sess resource action d ctl reqID =
     (let req = acquireRequest sess resource action d reqID in
      attempt (onLeases (CacheAcquire (now C 7) (now C 9) (Acquire (now C 8) (draw C 1) req) req)) (\<lambda>out.
        case out of
          Inl err \<Rightarrow>
            if failOpen ctl then ret (writeJSON [] StatusOK
              [(''status'', JStr ''ALLOW''), (''control'', JStr ''fail-open''), (''rule_name'', JStr (dc_RuleName d))])
            else ret (storeError err)
        | Inr res \<Rightarrow>
            ignoring (case r_Execution res of
                Some e \<Rightarrow> onDB (EnsureBudget (merchantOf E) (e_ID e) (dc_MaxOps d)) | None \<Rightarrow> ret ())
           (recordAcquire E (now C 10) True (sc_CustomerID sess) (sc_PrincipalID sess) resource action (dc_RuleName d) res reqID
             (acquireAnswer E C sess resource d (enforcedHeaders (EffectivePercent ctl)) res))))"

definition acquireDecided :: "gateway \<Rightarrow> call \<Rightarrow> SessionClaims \<Rightarrow> request \<Rightarrow> string \<Rightarrow> string \<Rightarrow> response handler" where
  "acquireDecided E C sess r resource action =
     andThen (reading (\<lambda>s. (applyControls (sv_controls s)
        (evaluate E s (sc_MerchantID sess) (sc_CustomerID sess) (sc_PrincipalType sess) resource action (sc_Anchors sess)) action,
        sv_controls s))) (\<lambda>(d, ctl).
     if dc_Denied d \<or> dc_ControlNone d
     then ret (writeJSON [] StatusForbidden
       [(''error'', JStr ''DENIED''), (''reason'', JStr (firstNonEmpty (dc_Reason d) ''denied'')), (''rule_name'', JStr (dc_RuleName d))])
     else if \<not> ShouldEnforce ctl (rampInput E (sc_CustomerID sess) resource action (dc_RuleName d) '''' '''' (sc_Anchors sess))
     then writeAcquireDryRun E C sess resource action d (EffectivePercent ctl) (requestID (draw C 0) r)
     else acquireEnforced E C sess resource action d ctl (requestID (draw C 0) r))"

definition acquire :: "gateway \<Rightarrow> call \<Rightarrow> SessionClaims \<Rightarrow> request \<Rightarrow> response handler" where
  "acquire E C sess r =
     guarded rg_acquire rg_acquire_update (now C 2) (sc_CustomerID sess) (
     guarded rg_customer rg_customer_update (now C 3) (sc_CustomerID sess) (
     guarded rg_principal rg_principal_update (now C 4) (sc_PrincipalID sess) (
     claimReplay E (now C 5) (now C 6) r ''acquire'' (
     case decodeAcquire (rq_Body r) of
       None \<Rightarrow> ret (writeErr [] StatusBadRequest ''invalid json'')
     | Some (resource, action) \<Rightarrow>
         if resource = '''' then ret (writeErr [] StatusBadRequest ''resource required'')
         else case canonicalizeResource E resource of
           Inl ErrUnknownResource \<Rightarrow> ret (writeErr [] StatusBadRequest ''unknown resource'')
         | Inl _ \<Rightarrow> ret (writeErr [] StatusBadRequest ''malformed resource'')
         | Inr canon \<Rightarrow> acquireDecided E C sess r canon (if action = '''' then ''purchase'' else action)))))"

definition renew :: "gateway \<Rightarrow> call \<Rightarrow> string \<Rightarrow> SessionClaims \<Rightarrow> request \<Rightarrow> response handler" where
  "renew E C exeID sess r =
     attempt (onLeases (CacheRenew (Renew (now C 2) (sc_MerchantID sess) exeID (sc_SessionID sess) (requestID (draw C 0) r)
       (cf_LeaseTTL (gw_cfg E))) (sc_MerchantID sess))) (\<lambda>res.
     case res of
       Inl err \<Rightarrow> ret (mutationError err)
     | Inr e \<Rightarrow> ret (writeExecution E (now C 3) (draw C 1) [] StatusOK e True))"

definition endedBody :: "execution \<Rightarrow> response" where
  "endedBody e = writeJSON [] StatusOK
     [(''execution_id'', JStr (e_ID e)), (''state'', JStr (state_name (e_State e))), (''end_reason'', JStr (e_EndReason e))]"

definition releaseHandler :: "gateway \<Rightarrow> call \<Rightarrow> string \<Rightarrow> SessionClaims \<Rightarrow> request \<Rightarrow> response handler" where
  "releaseHandler E C exeID sess r =
     attempt (onLeases (CacheRelease (Release (now C 2) (now C 3) (now C 4) (sc_MerchantID sess) exeID (sc_SessionID sess)
       (requestID (draw C 0) r)) (sc_MerchantID sess))) (\<lambda>res.
     case res of Inl err \<Rightarrow> ret (mutationError err) | Inr e \<Rightarrow> ret (endedBody e))"

definition handoff :: "gateway \<Rightarrow> call \<Rightarrow> string \<Rightarrow> SessionClaims \<Rightarrow> request \<Rightarrow> response handler" where
  "handoff E C exeID sess r =
     (let to = lax_obj (rq_Body r) ''to'' in
      attempt (onLeases (CacheGet (Get (now C 2) (sc_MerchantID sess) exeID))) (\<lambda>got.
      andThen (reading sv_compiled) (\<lambda>c.
      let prec = (case got of Inr e \<Rightarrow> Precedence c (e_RuleName e) | Inl _ \<Rightarrow> []);
          req = \<lparr>h_MerchantID = sc_MerchantID sess, h_ExecutionID = exeID, h_SessionID = sc_SessionID sess,
                 h_To = \<lparr>p_Type = lax_str to ''type'', p_ID = lax_str to ''id''\<rparr>, h_Mode = lax_str (rq_Body r) ''mode'',
                 h_TTL = cf_LeaseTTL (gw_cfg E), h_Precedence = prec, h_RequestID = requestID (draw C 0) r\<rparr>
      in attempt (onLeases (CacheHandoff (Handoff (now C 3) (draw C 1) (draw C 2) req) req)) (\<lambda>res.
      case res of
        Inl err \<Rightarrow> ret (mutationError err)
      | Inr hr \<Rightarrow> ret (writeExecution E (now C 4) (draw C 3) [] StatusCreated (hr_Successor hr) True)))))"

definition revoke :: "gateway \<Rightarrow> call \<Rightarrow> string \<Rightarrow> SessionClaims \<Rightarrow> request \<Rightarrow> response handler" where
  "revoke E C exeID sess r =
     attempt (onLeases (CacheRevoke (Revoke (now C 2) (now C 3) (sc_MerchantID sess) exeID (sc_SessionID sess)
       (requestID (draw C 0) r) (lax_str (rq_Body r) ''reason'')) (sc_MerchantID sess))) (\<lambda>res.
     case res of Inl err \<Rightarrow> ret (mutationError err) | Inr e \<Rightarrow> ret (endedBody e))"

definition getExecution :: "gateway \<Rightarrow> call \<Rightarrow> string \<Rightarrow> SessionClaims \<Rightarrow> request \<Rightarrow> response handler" where
  "getExecution E C exeID sess r =
     attempt (onLeases (CacheGet (Get (now C 2) (sc_MerchantID sess) exeID))) (\<lambda>res.
     case res of
       Inl err \<Rightarrow> ret (storeError err)
     | Inr e \<Rightarrow>
         if e_CustomerID e \<noteq> sc_CustomerID sess then ret (writeErr [] StatusNotFound ''not found'')
         else ret (writeExecution E (now C 3) (draw C 0) [] StatusOK e False))"

text \<open>
  \<open>watch\<close> polls every 200 ms for at most 25 seconds. \<open>fuel\<close> counts the rounds: \<open>None\<close> means that there
  were more of them than expected, which \<open>watch_answers\<close> excludes.
\<close>

fun watchLoop :: "call \<Rightarrow> string \<Rightarrow> string \<Rightarrow> execution \<Rightarrow> time \<Rightarrow> nat \<Rightarrow> nat \<Rightarrow> execution \<Rightarrow> execution option handler" where
  "watchLoop C m exeID initial deadline 0 i cur = ret None"
| "watchLoop C m exeID initial deadline (Suc fuel) i cur =
     (if \<not> now C (4 + 2 * i) < deadline \<or> left C i then ret (Some cur)
      else attempt (onLeases (CacheGet (Get (now C (5 + 2 * i)) m exeID))) (\<lambda>res.
        case res of
          Inl _ \<Rightarrow> ret (Some cur)
        | Inr e \<Rightarrow>
            if e_State e \<noteq> e_State initial \<or> e_ExpiresAt e \<noteq> e_ExpiresAt initial then ret (Some e)
            else watchLoop C m exeID initial deadline fuel (Suc i) e))"

definition watch :: "gateway \<Rightarrow> call \<Rightarrow> string \<Rightarrow> SessionClaims \<Rightarrow> request \<Rightarrow> response option handler" where
  "watch E C exeID sess r =
     attempt (onLeases (CacheGet (Get (now C 2) (sc_MerchantID sess) exeID))) (\<lambda>res.
     case res of
       Inl err \<Rightarrow> ret (Some (storeError err))
     | Inr initial \<Rightarrow>
         if e_CustomerID initial \<noteq> sc_CustomerID sess then ret (Some (writeErr [] StatusNotFound ''not found''))
         else andThen (watchLoop C (sc_MerchantID sess) exeID initial (now C 3 + 25 * second) 126 0 initial) (\<lambda>out.
           ret (map_option (\<lambda>e. writeExecution E (now C 3) (draw C 0) [] StatusOK e False) out)))"

section \<open>Health\<close>

definition healthz :: "response handler" where
  "healthz = ret (writeJSON [] StatusOK [(''status'', JStr ''ok'')])"

definition readyBody :: "controls \<Rightarrow> string \<Rightarrow> string \<Rightarrow> string \<Rightarrow> string \<Rightarrow> string \<Rightarrow> (string \<times> json) list \<Rightarrow> (string \<times> json) list" where
  "readyBody ctl status store key upstream secret extra =
     [(''status'', JStr status), (''store'', JStr store), (''mode'', JStr (c_Mode ctl)), (''enforcement'', JBool (c_Enforcement ctl)),
      (''enforce_percent'', JNum (EffectivePercent ctl)), (''signing_key'', JStr key), (''upstream'', JStr upstream),
      (''admin_secret'', JStr secret)] @ extra"

definition Ping :: "unit db_op" where
  "Ping = attempt (query (\<lambda>_. ())) (\<lambda>r. case r of Inr _ \<Rightarrow> ret () | Inl _ \<Rightarrow> throw ErrUnavailable)"

definition TrimRight :: "string \<Rightarrow> string \<Rightarrow> string" where
  "TrimRight s cutset = rev (dropWhile (\<lambda>c. c \<in> set cutset) (rev s))"

definition upstreamHealth :: "gateway \<Rightarrow> call \<Rightarrow> string" where
  "upstreamHealth E C =
     (if cf_OriginURL (gw_cfg E) = '''' then ''skipped''
      else probe C (TrimRight (cf_OriginURL (gw_cfg E)) ''/'' @ ''/healthz''))"

definition readyz :: "gateway \<Rightarrow> call \<Rightarrow> response handler" where
  "readyz E C =
     andThen (reading sv_controls) (\<lambda>ctl.
     case ValidateSecrets (gw_cfg E) of
       Some err \<Rightarrow> ret (writeJSON [] StatusServiceUnavailable
         (readyBody ctl ''not_ready'' ''ok'' ''unknown'' ''skipped'' ''invalid'' [(''config'', JStr err)]))
     | None \<Rightarrow>
         attempt (onDB Ping) (\<lambda>p.
         case p of
           Inl _ \<Rightarrow> ret (writeJSON [] StatusServiceUnavailable
             (readyBody ctl ''not_ready'' ''unavailable'' ''unknown'' ''skipped'' ''ok'' []))
         | Inr _ \<Rightarrow>
             attempt (onDB (ActiveSigningKeys (merchantOf E))) (\<lambda>keys.
             let ready = (\<lambda>key. ret (writeJSON [] StatusOK (readyBody ctl ''ready'' ''ok'' key (upstreamHealth E C) ''ok'' []))) in
             case keys of
               Inl _ \<Rightarrow> ready ''error''
             | Inr [] \<Rightarrow> ret (writeJSON [] StatusServiceUnavailable
                 (readyBody ctl ''not_ready'' ''ok'' ''missing'' ''skipped'' ''ok'' []))
             | Inr (_ # _) \<Rightarrow> ready ''ok'')))"

end
