(* ===== verification/Authorize.thy ===== *)
theory Authorize
  imports Public_Api
begin

text \<open>
  Admission of requests for the merchant's origin (\<open>internal/api/public/authorize.go\<close>), the introspection
  of execution tokens (\<open>introspect.go\<close>) and the reverse proxy (\<open>proxy.go\<close>). The origin behind the proxy is
  a parameter: the response it gives to the forwarded request.
\<close>

section \<open>Admission\<close>

record admitResult =
  ad_status :: int
  ad_allow :: bool
  ad_headers :: headers
  ad_body :: "(string \<times> json) list"
  ad_exeID :: string

definition refused :: "int \<Rightarrow> headers \<Rightarrow> (string \<times> json) list \<Rightarrow> admitResult" where
  "refused status h body = \<lparr>ad_status = status, ad_allow = False, ad_headers = h, ad_body = body, ad_exeID = ''''\<rparr>"

definition letThrough :: "headers \<Rightarrow> string \<Rightarrow> (string \<times> json) list \<Rightarrow> admitResult" where
  "letThrough h exeID body = \<lparr>ad_status = StatusOK, ad_allow = True, ad_headers = h, ad_body = body, ad_exeID = exeID\<rparr>"

definition controlHeader :: "string \<Rightarrow> headers" where
  "controlHeader v = hdrSet ''X-Bruiser-Control'' v []"

definition resourceOrPath :: "gateway \<Rightarrow> Route \<Rightarrow> (string \<times> string) list \<Rightarrow> string \<Rightarrow> string" where
  "resourceOrPath E route params eventID =
     (let res = ResourceFor (gw_nfkc E) route params eventID in if res \<noteq> '''' then res else mm_Path (rt_Match route))"

definition admitStoreError :: "controls \<Rightarrow> store_error \<Rightarrow> admitResult" where
  "admitStoreError ctl err =
     (if failOpen ctl then letThrough (controlHeader ''fail-open'') '''' [(''status'', JStr ''ALLOW''), (''control'', JStr ''fail-open'')]
      else
        let resp = storeError err;
            ra = hdrGet (rs_headers resp) ''Retry-After''
        in refused (rs_status resp) (if ra \<noteq> '''' then hdrSet ''Retry-After'' ra [] else [])
             (case rs_body resp of Some (JObj ms) \<Rightarrow> ms | _ \<Rightarrow> [(''error'', JStr ''internal error'')]))"

definition unaware :: "string \<Rightarrow> string \<Rightarrow> string" where
  "unaware rnd pid = ''unaware:'' @ (if pid = '''' then id_New ''p'' rnd else pid)"

definition admitDryRun :: "gateway \<Rightarrow> call \<Rightarrow> Customer \<Rightarrow> string \<Rightarrow> string \<Rightarrow> Decision \<Rightarrow> string \<Rightarrow> int \<Rightarrow> admitResult handler" where
  "admitDryRun E C cust resource action d reqID percent =
     attempt (onDB (ShadowDecide (now C 6) (draw C 2) (merchantOf E) (dc_DomainKey d) (cu_CustomerID cust)
       (unaware (draw C 1) (cu_PrincipalID cust)) resource action (dc_RuleName d) (dc_MaxActive d) (dc_MaxWaiters d) (dc_TTL d) reqID)) (\<lambda>ev.
     case dryVerdict ev of (would, reason) \<Rightarrow>
     andThen (eafStep resource (cu_CustomerID cust) (dryOutcome would)) (\<lambda>_.
     ret (letThrough (dryHeaders would reason percent []) ''''
       [(''status'', JStr ''ALLOW''), (''would'', JStr would), (''reason'', JStr reason), (''action'', JStr action),
        (''customer_id'', JStr (cu_CustomerID cust)), (''rule_name'', JStr (dc_RuleName d)), (''enforced'', JBool False),
        (''enforce_percent'', JNum percent)])))"

text \<open>The request of an admitted call: a session of its own, as a principal of type agent.\<close>

definition admitSession :: "gateway \<Rightarrow> call \<Rightarrow> Customer \<Rightarrow> session_row" where
  "admitSession E C cust =
     \<lparr>s_ID = id_Session (draw C 2), s_MerchantID = merchantOf E, s_CustomerID = cu_CustomerID cust, s_Anchors = cu_Anchors cust,
      s_PrincipalType = ''agent'', s_PrincipalID = unaware (draw C 1) (cu_PrincipalID cust),
      s_ExpiresAt = now C 6 + cf_SessionTTL (gw_cfg E), s_RevokedAt = None, s_Version = 0\<rparr>"

definition admitRequest :: "gateway \<Rightarrow> session_row \<Rightarrow> string \<Rightarrow> string \<Rightarrow> Decision \<Rightarrow> string \<Rightarrow> acquire_request" where
  "admitRequest E sess resource action d reqID =
     \<lparr>q_MerchantID = merchantOf E, q_DomainKey = dc_DomainKey d, q_CustomerID = s_CustomerID sess,
      q_Principal = \<lparr>p_Type = ''agent'', p_ID = s_PrincipalID sess\<rparr>, q_SessionID = s_ID sess, q_Resource = resource,
      q_Action = action, q_RuleName = dc_RuleName d, q_MaxActive = dc_MaxActive d, q_TTL = dc_TTL d,
      q_MaxLifetime = dc_MaxLifetime d, q_Precedence = dc_Precedence d, q_MaxWaiters = dc_MaxWaiters d,
      q_MaxOps = dc_MaxOps d, q_RequestID = reqID\<rparr>"

definition admitHeld :: "gateway \<Rightarrow> call \<Rightarrow> Customer \<Rightarrow> string \<Rightarrow> string \<Rightarrow> Decision \<Rightarrow> headers \<Rightarrow> string \<Rightarrow> acquire_result \<Rightarrow> execution
    \<Rightarrow> admitResult handler" where
  "admitHeld E C cust resource action d h reqID acq e =
     andThen (eafStep resource (cu_CustomerID cust) (if r_Status acq = StatusAlreadyHeld then ''resume'' else ''allow'')) (\<lambda>_.
     case SignExecution (wd_jwt (gw_world E)) (now C 11) (draw C 4) (gw_signer E) e of
       None \<Rightarrow> ret (refused StatusInternalServerError [] [(''error'', JStr ''sign'')])
     | Some tok \<Rightarrow>
         let h = hdrSet ''X-Bruiser-Customer'' (cu_CustomerID cust) (hdrSet ''X-Bruiser-Fence'' (FormatInt (e_Fence e))
               (hdrSet ''X-Bruiser-Execution'' tok h)) in
         ignoring (onDB (EnsureBudget (merchantOf E) (e_ID e) (dc_MaxOps d)))
        (attempt (onDB (ConsumeOp (merchantOf E) (e_ID e))) (\<lambda>used.
         case used of
           Inl _ \<Rightarrow> ret (refused StatusConflict [] [(''status'', JStr ''DENIED''), (''error'', JStr ''BUDGET'')])
         | Inr _ \<Rightarrow>
             ignoring (onDB (WriteAudit (now C 12) (merchantOf E) ''AUTHORIZE'' (snd (acquireVerdict acq)) reqID
               [(''customer_id'', JStr (cu_CustomerID cust)), (''execution_id'', JStr (e_ID e)), (''resource'', JStr resource),
                (''action'', JStr action)]))
            (ret (letThrough h (e_ID e)
               [(''status'', JStr ''ALLOW''), (''execution_id'', JStr (e_ID e)), (''fence'', JNum (e_Fence e)),
                (''customer_id'', JStr (cu_CustomerID cust)), (''expires_at'', JStr (RFC3339Nano (e_ExpiresAt e))),
                (''heartbeat_after_ms'', JNum (milliseconds (cf_HeartbeatInterval (gw_cfg E))))])))))"

definition admitRetry :: "time \<Rightarrow> time \<Rightarrow> int" where
  "admitRetry t expires = (let retry = milliseconds (expires - t) in if retry < 0 then 1000 else retry)"

text \<open>A nil pointer in the result of the store would be a panic: status 500, and nothing is let through.\<close>

definition admitAnswer :: "gateway \<Rightarrow> call \<Rightarrow> Customer \<Rightarrow> string \<Rightarrow> string \<Rightarrow> Decision \<Rightarrow> headers \<Rightarrow> string \<Rightarrow> acquire_result
    \<Rightarrow> admitResult handler" where
  "admitAnswer E C cust resource action d h reqID acq =
     (let seen = eafStep resource (cu_CustomerID cust);
          crash = ret (refused StatusInternalServerError [] []);
          h' = hdrSet ''Retry-After'' ''2'' h;
          held = (case r_Execution acq of
             Some e \<Rightarrow> admitHeld E C cust resource action d h reqID acq e
           | None \<Rightarrow> crash)
      in case r_Status acq of
           StatusGranted \<Rightarrow> held
         | StatusAlreadyHeld \<Rightarrow> held
         | StatusQueued \<Rightarrow> andThen (seen ''queued'') (\<lambda>_.
             case (r_Busy acq, r_Queue acq) of
               (Some b, Some q) \<Rightarrow> ret (refused StatusAccepted h'
                 [(''status'', JStr ''QUEUED''), (''execution_id'', JStr (qi_WaiterID q)), (''position'', JNum (qi_Position q)),
                  (''active_execution_id'', JStr (qi_ActiveExecutionID q)), (''expires_at'', JStr (RFC3339Nano (qi_ExpiresAt q))),
                  (''retry_after_ms'', JNum (admitRetry (now C 11) (b_ExpiresAt b)))])
             | _ \<Rightarrow> crash)
         | StatusBusy \<Rightarrow> andThen (seen ''busy'') (\<lambda>_.
             case r_Busy acq of
               Some b \<Rightarrow> ret (refused StatusConflict h'
                 [(''status'', JStr ''BUSY''), (''active_execution_id'', JStr (b_ActiveExecutionID b)),
                  (''holder'', principal_json (b_Holder b)), (''expires_at'', JStr (RFC3339Nano (b_ExpiresAt b))),
                  (''retry_after_ms'', JNum (admitRetry (now C 11) (b_ExpiresAt b)))])
             | None \<Rightarrow> crash)
         | StatusDenied \<Rightarrow> andThen (seen ''denied'') (\<lambda>_. ret (refused StatusForbidden [] [(''error'', JStr (r_Reason acq))])))"

definition admitEnforced :: "gateway \<Rightarrow> call \<Rightarrow> Customer \<Rightarrow> string \<Rightarrow> string \<Rightarrow> Decision \<Rightarrow> controls \<Rightarrow> string \<Rightarrow> admitResult handler" where
  "admitEnforced E C cust resource action d ctl reqID =
     (let sess = admitSession E C cust;
          req = admitRequest E sess resource action d reqID
      in attempt (onDB (InsertSession sess)) (\<lambda>ins.
         case ins of
           Inl err \<Rightarrow> ret (admitStoreError ctl err)
         | Inr _ \<Rightarrow>
             attempt (onLeases (CacheAcquire (now C 7) (now C 9) (Acquire (now C 8) (draw C 3) req) req)) (\<lambda>out.
             case out of
               Inl err \<Rightarrow> ret (admitStoreError ctl err)
             | Inr acq \<Rightarrow>
                 recordAcquire E (now C 10) True (cu_CustomerID cust) (s_PrincipalID sess) resource action (dc_RuleName d) acq reqID
                   (admitAnswer E C cust resource action d (enforcedHeaders (EffectivePercent ctl)) reqID acq))))"

definition admitDecided :: "gateway \<Rightarrow> call \<Rightarrow> Customer \<Rightarrow> string \<Rightarrow> string \<Rightarrow> string \<Rightarrow> string \<Rightarrow> string \<Rightarrow> admitResult handler" where
  "admitDecided E C cust resource action path eventID reqID =
     andThen (reading (\<lambda>s. (applyControls (sv_controls s)
        (evaluate E s (merchantOf E) (cu_CustomerID cust) ''agent'' resource action (cu_Anchors cust)) action, sv_controls s))) (\<lambda>(d, ctl).
     if dc_ControlNone d
     then ret (letThrough (controlHeader ''none'') ''''
       [(''status'', JStr ''ALLOW''), (''action'', JStr action), (''rule_name'', JStr (dc_RuleName d))])
     else if dc_Denied d
     then andThen (eafStep resource (cu_CustomerID cust) ''denied'') (\<lambda>_.
       let reason = firstNonEmpty (dc_Reason d) ''denied'' in
       recordDecision E (now C 6) False (cu_CustomerID cust) '''' resource action (dc_RuleName d) ''DENIED'' reason reqID ''''
        (ret (refused StatusForbidden []
          [(''error'', JStr ''DENIED''), (''reason'', JStr reason), (''rule_name'', JStr (dc_RuleName d))])))
     else if \<not> ShouldEnforce ctl (rampInput E (cu_CustomerID cust) resource action (dc_RuleName d) eventID path (cu_Anchors cust))
     then admitDryRun E C cust resource action d reqID (EffectivePercent ctl)
     else admitEnforced E C cust resource action d ctl reqID)"

definition admit :: "gateway \<Rightarrow> call \<Rightarrow> string \<Rightarrow> string \<Rightarrow> string \<Rightarrow> request \<Rightarrow> string \<Rightarrow> admitResult handler" where
  "admit E C method path eventID r reqID =
     (case MatchRoute (gw_profile E) method path of
        None \<Rightarrow>
          if UnmatchedAllow (gw_profile E)
          then ret (letThrough (controlHeader ''none'') '''' [(''status'', JStr ''ALLOW''), (''action'', JStr ''unmatched'')])
          else ret (refused StatusForbidden [] [(''error'', JStr ''unrouted''), (''path'', JStr path)])
      | Some (route, params) \<Rightarrow>
          if \<not> Controlled route
          then ret (letThrough (controlHeader ''none'') '''' [(''status'', JStr ''ALLOW''), (''action'', JStr (rt_Action route))])
          else
            andThen (extractCustomer E (now C 5) (identityInput E r True)) (\<lambda>c.
            case c of
              None \<Rightarrow>
                andThen (eafStep (resourceOrPath E route params eventID) '''' ''unauthorized'') (\<lambda>_.
                ret (refused StatusUnauthorized [] [(''error'', JStr ''missing merchant session'')]))
            | Some cust \<Rightarrow>
                let resource = ResourceFor (gw_nfkc E) route params eventID in
                if resource = '''' then ret (refused StatusBadRequest [] [(''error'', JStr ''could not derive resource'')])
                else case canonicalizeResource E resource of
                  Inl err \<Rightarrow> ret (refused StatusBadRequest []
                    [(''error'', JStr (if err = ErrUnknownResource then ''unknown resource'' else ''malformed resource''))])
                | Inr canon \<Rightarrow>
                    admitDecided E C cust (firstNonEmpty canon resource) (rt_Action route) path eventID reqID))"

section \<open>The authorize endpoint\<close>

text \<open>\<open>strings.Cut\<close> at a byte, and the path of \<open>url.Parse\<close>: without fragment, query, scheme and host, and unescaped.\<close>

definition CutByte :: "string \<Rightarrow> char \<Rightarrow> string \<times> string" where
  "CutByte s c = (takeWhile (\<lambda>x. x \<noteq> c) s, drop 1 (dropWhile (\<lambda>x. x \<noteq> c) s))"

definition scheme_byte :: "char \<Rightarrow> bool" where
  "scheme_byte c \<longleftrightarrow> in_range 97 122 c \<or> in_range 65 90 c \<or> in_range 48 57 c \<or> c \<in> set ''+-.''"

definition getScheme :: "string \<Rightarrow> (string \<times> string) option" where
  "getScheme s =
     (let (a, b) = (takeWhile scheme_byte s, dropWhile scheme_byte s) in
      if a \<noteq> '''' \<and> \<not> (in_range 97 122 (hd a) \<or> in_range 65 90 (hd a)) then Some ('''', s)
      else case b of
        c # rest \<Rightarrow> if c = CHR '':'' then (if a = '''' then None else Some (a, rest)) else Some ('''', s)
      | [] \<Rightarrow> Some ('''', s))"

definition urlPath :: "(string \<Rightarrow> bool) \<Rightarrow> string \<Rightarrow> string option" where
  "urlPath authority raw =
     (case CutByte raw (CHR ''#'') of (u, frag) \<Rightarrow>
      if PathUnescape frag = None \<or> list_ex (\<lambda>c. byte c < 32 \<or> byte c = 127) u then None
      else if u = ''*'' then Some ''*''
      else Option.bind (getScheme u) (\<lambda>(scheme, afterScheme).
        let rest = fst (CutByte afterScheme (CHR ''?'')) in
        if \<not> HasPrefix rest ''/'' \<and> scheme \<noteq> '''' then Some ''''
        else if \<not> HasPrefix rest ''/'' \<and> CHR '':'' \<in> set (fst (CutByte rest (CHR ''/''))) then None
        else if (scheme \<noteq> '''' \<or> \<not> HasPrefix rest ''///'') \<and> HasPrefix rest ''//'' then
          let host = takeWhile (\<lambda>c. c \<noteq> CHR ''/'') (drop 2 rest) in
          if authority host then PathUnescape (dropWhile (\<lambda>c. c \<noteq> CHR ''/'') (drop 2 rest)) else None
        else PathUnescape rest))"

definition writeAdmit :: "admitResult \<Rightarrow> response" where
  "writeAdmit res = writeJSON (ad_headers res) (ad_status res) (ad_body res)"

definition authorizeTarget :: "gateway \<Rightarrow> request \<Rightarrow> string \<times> string \<times> string" where
  "authorizeTarget E r =
     (let h = hdrGet (rq_Headers r);
          given = h ''X-Original-Method'' \<noteq> '''' \<and> h ''X-Original-URI'' \<noteq> '''';
          pick = (\<lambda>k hdr. if \<not> given \<and> lax_str (rq_Body r) k \<noteq> '''' then lax_str (rq_Body r) k else h hdr);
          method = pick ''method'' ''X-Original-Method'';
          path = pick ''path'' ''X-Original-URI'';
          eventID = pick ''event_id'' ''X-Bruiser-Event-Id'';
          path = (case urlPath (gw_authority E) path of Some p \<Rightarrow> if path \<noteq> '''' then p else path | None \<Rightarrow> path)
      in (if method = '''' then rq_Method r else method, path, eventID))"

definition authorize :: "gateway \<Rightarrow> call \<Rightarrow> request \<Rightarrow> response handler" where
  "authorize E C r =
     (if cf_EdgeSecret (gw_cfg E) = '''' \<or> \<not> edgeAuthorized E r
      then ret (writeErr [] StatusUnauthorized ''bad edge secret'')
      else
        guarded rg_authorize rg_authorize_update (now C 0) (clientIP r) (
        guarded rg_merchant rg_merchant_update (now C 1) (merchantOf E) (
        claimReplay E (now C 2) (now C 3) r ''authorize'' (
        case authorizeTarget E r of (method, path, eventID) \<Rightarrow>
        andThen (admit E C method path eventID r (requestID (draw C 0) r)) (\<lambda>res. ret (writeAdmit res))))))"

section \<open>Introspection\<close>

text \<open>Only the token of the bearer header keeps the body from being read.\<close>

definition introspectAnswer :: "gateway \<Rightarrow> call \<Rightarrow> ExecutionClaims \<Rightarrow> bool \<Rightarrow> execution \<Rightarrow> response handler" where
  "introspectAnswer E C claims consume e =
     (let inactive = (\<lambda>reason rest. ret (writeJSON [] StatusOK
            ([(''active'', JBool False), (''status'', JStr ''DENIED''), (''reason'', JStr reason)] @ rest)));
          active = IsActive e (now C 2);
          answer = ret (writeJSON [] StatusOK
            [(''active'', JBool active), (''status'', JStr (if active then ''ALLOW'' else ''DENIED'')),
             (''execution_id'', JStr (ec_ExecutionID claims)), (''customer_id'', JStr (ec_CustomerID claims)),
             (''merchant_id'', JStr (ec_MerchantID claims)), (''resource'', JStr (ec_Resource claims)),
             (''action'', JStr (ec_Action claims)), (''fence'', JNum (ec_Fence claims)), (''domain'', JStr (ec_Domain claims)),
             (''state'', JStr (state_name (e_State e)))])
      in if e_Fence e > ec_Fence claims then inactive ''stale_fence'' [(''fence'', JNum (e_Fence e))]
         else if e_State e = StateRevoked \<or> e_State e = StateHandedOff
         then inactive (state_name (e_State e)) [(''execution_id'', JStr (e_ID e))]
         else if active \<and> consume then
           attempt (onDB (ConsumeOp (merchantOf E) (e_ID e))) (\<lambda>res.
             if res = Inl ErrBudget then inactive ''BUDGET'' [] else answer)
         else answer)"

definition introspect :: "gateway \<Rightarrow> call \<Rightarrow> request \<Rightarrow> response handler" where
  "introspect E C r =
     (let inHeader = bearer r \<noteq> '''';
          raw = (if inHeader then bearer r else lax_str (rq_Body r) ''token'');
          resource = (if inHeader then '''' else lax_str (rq_Body r) ''resource'');
          consume = (\<not> inHeader \<and> lax_bool (rq_Body r) ''consume'')
      in if raw = '''' then ret (writeErr [] StatusUnauthorized ''missing execution token'')
         else case ParseExecution (wd_jwt (gw_world E)) (now C 0) raw (sg_Public (gw_signer E)) of
           None \<Rightarrow> ret (writeErr [] StatusUnauthorized ''invalid execution token'')
         | Some claims \<Rightarrow>
             if ec_MerchantID claims \<noteq> merchantOf E then ret (writeErr [] StatusUnauthorized ''wrong merchant'')
             else if resource \<noteq> '''' \<and> (case (canonicalizeResource E resource, canonicalizeResource E (ec_Resource claims)) of
                 (Inr want, Inr got) \<Rightarrow> want \<noteq> got | _ \<Rightarrow> True)
             then ret (writeErr [] StatusForbidden ''resource mismatch'')
             else attempt (onLeases (CacheGet (Get (now C 1) (merchantOf E) (ec_ExecutionID claims)))) (\<lambda>res.
               case res of
                 Inl _ \<Rightarrow> ret (writeJSON [] StatusOK
                   [(''active'', JBool False), (''status'', JStr ''DENIED''), (''reason'', JStr ''not_found'')])
               | Inr e \<Rightarrow> introspectAnswer E C claims consume e))"

section \<open>The reverse proxy\<close>

definition eventIDFromBody :: "json option \<Rightarrow> string" where
  "eventIDFromBody b = (case b of
     Some (JObj ms) \<Rightarrow> (case map_member ms ''event_id'' of Some (JStr v) \<Rightarrow> v | _ \<Rightarrow> '''')
   | _ \<Rightarrow> '''')"

text \<open>
  The headers of the request for the origin: the markers of the client are removed, those of the
  admission and the origin's secret are set.
\<close>

definition withoutBruiser :: "headers \<Rightarrow> headers" where
  "withoutBruiser h = filter (\<lambda>(k, _). \<not> HasPrefix (CanonicalHeaderKey k) ''X-Bruiser-'') h"

definition stampHeader :: "headers \<Rightarrow> string \<Rightarrow> headers \<Rightarrow> headers" where
  "stampHeader from k h = (if hdrGet from k \<noteq> '''' then hdrSet k (hdrGet from k) h else h)"

definition forwarded :: "gateway \<Rightarrow> admitResult \<Rightarrow> request \<Rightarrow> request" where
  "forwarded E res r =
     (let h = fold (stampHeader (ad_headers res)) [''X-Bruiser-Execution'', ''X-Bruiser-Fence'', ''X-Bruiser-Customer''] (rq_Headers r);
          h = (if cf_OriginSecret (gw_cfg E) \<noteq> '''' then hdrSet ''X-Bruiser-Origin-Secret'' (cf_OriginSecret (gw_cfg E)) h else h)
      in r\<lparr>rq_Headers := h\<rparr>)"

definition ProxyHandler :: "gateway \<Rightarrow> call \<Rightarrow> request \<Rightarrow> response handler" where
  "ProxyHandler E C r0 =
     (let r = r0\<lparr>rq_Headers := withoutBruiser (rq_Headers r0)\<rparr> in
      andThen (admit E C (rq_Method r) (rq_Path r) (eventIDFromBody (rq_Body r)) r (requestID (draw C 0) r)) (\<lambda>res.
      if \<not> ad_allow res then ret (writeAdmit res)
      else if ad_exeID res = '''' then ret (gw_origin E (forwarded E res r))
      else andThen (locally (\<lambda>s. case Take (ad_exeID res) (now C 13) (sv_limit s) of (t, l) \<Rightarrow> (t, s\<lparr>sv_limit := l\<rparr>))) (\<lambda>t.
        case t of
          Refused \<Rightarrow> ret (writeJSON (hdrSet ''Retry-After'' ''1'' []) StatusTooManyRequests [(''error'', JStr ''execution throttled'')])
        | Allowed slot \<Rightarrow>
            let resp = gw_origin E (forwarded E res r);
                free = (case slot of Some a \<Rightarrow> Limit.release (ad_exeID res) a | None \<Rightarrow> (\<lambda>l. l))
            in andThen (locally (\<lambda>s. ((), s\<lparr>sv_limit := free (sv_limit s)\<rparr>))) (\<lambda>_. ret resp))))"

end
