(* ===== verification/Admin_Api.thy ===== *)
theory Admin_Api
  imports Authorize Store_Policy
begin

text \<open>
  The administrator's API (\<open>internal/api/public/admin_auth.go\<close>, \<open>admin.go\<close> and the handlers of \<open>policy.go\<close>):
  who may call it, and every endpoint that changes the state. The reports (status, stream, audit search
  and export, dry-run report) and the HTML pages are left out.
\<close>

section \<open>Roles\<close>

record adminActor =
  aA_Role :: string
  aA_Actor :: string
  aA_Source :: string

definition nobody :: adminActor where
  "nobody = \<lparr>aA_Role = '''', aA_Actor = '''', aA_Source = ''''\<rparr>"

definition actorOK :: "adminActor \<Rightarrow> bool" where
  "actorOK a \<longleftrightarrow> aA_Role a = RoleAdmin \<or> aA_Role a = RoleOperator"

definition roleAtLeast :: "string \<Rightarrow> string \<Rightarrow> bool" where
  "roleAtLeast have need = (if have = RoleAdmin then True else have = need)"

text \<open>\<open>subtle.ConstantTimeCompare\<close> is equality.\<close>

definition secretMatch :: "string \<Rightarrow> string \<Rightarrow> bool" where
  "secretMatch got want = (if want = '''' \<or> got = '''' then False else got = want)"

definition accessActor :: "gateway \<Rightarrow> time \<Rightarrow> string \<Rightarrow> (AccessClaims \<Rightarrow> string) \<Rightarrow> string \<Rightarrow> adminActor option" where
  "accessActor E t source anonymous raw =
     (case ParseAccess (wd_jwt (gw_world E)) t raw (sg_Public (gw_signer E)) of
        Some claims \<Rightarrow>
          if ac_MerchantID claims = merchantOf E
          then Some \<lparr>aA_Role = ac_Role claims, aA_Actor = firstNonEmpty (ac_Actor claims) (anonymous claims), aA_Source = source\<rparr>
          else None
      | None \<Rightarrow> None)"

definition identifyAdmin :: "gateway \<Rightarrow> call \<Rightarrow> request \<Rightarrow> adminActor" where
  "identifyAdmin E C r =
     (case (if bearer r \<noteq> '''' then accessActor E (now C 0) ''token'' (\<lambda>c. ''token:'' @ rc_ID (ac_Registered c)) (bearer r) else None) of
        Some a \<Rightarrow> a
      | None \<Rightarrow>
          if secretMatch (hdrGet (rq_Headers r) ''X-Bruiser-Admin-Secret'') (cf_AdminSecret (gw_cfg E))
          then \<lparr>aA_Role = RoleAdmin, aA_Actor = ''admin-secret'', aA_Source = ''secret''\<rparr>
          else if secretMatch (hdrGet (rq_Headers r) ''X-Bruiser-Operator-Secret'') (cf_OperatorSecret (gw_cfg E))
          then \<lparr>aA_Role = RoleOperator, aA_Actor = ''operator-secret'', aA_Source = ''secret''\<rparr>
          else case (if cookieValue r ''bruiser_admin'' \<noteq> ''''
                     then accessActor E (now C 1) ''cookie'' (\<lambda>_. ''cookie'') (cookieValue r ''bruiser_admin'') else None) of
            Some a \<Rightarrow> a
          | None \<Rightarrow> nobody)"

definition requireRole :: "gateway \<Rightarrow> call \<Rightarrow> request \<Rightarrow> string \<Rightarrow> (adminActor \<Rightarrow> response handler) \<Rightarrow> response handler" where
  "requireRole E C r need next =
     (let actor = identifyAdmin E C r in
      if \<not> actorOK actor then ret (writeErr [] StatusUnauthorized ''unauthorized'')
      else if \<not> roleAtLeast (aA_Role actor) need then ret (writeErr [] StatusForbidden ''insufficient role'')
      else next actor)"

definition mintAccess :: "gateway \<Rightarrow> time \<Rightarrow> string \<Rightarrow> string \<Rightarrow> string \<Rightarrow> duration \<Rightarrow> string option" where
  "mintAccess E t rnd role actor ttl = SignAccess (wd_jwt (gw_world E)) t rnd (gw_signer E) role actor ttl"

section \<open>Audit\<close>

definition actorAudit :: "string \<Rightarrow> request \<Rightarrow> adminActor \<Rightarrow> AdminAudit" where
  "actorAudit rnd r actor =
     \<lparr>aa_Actor = aA_Actor actor, aa_Role = aA_Role actor, aa_IP = clientIP r, aa_Auth = aA_Source actor,
      aa_Before = '''', aa_After = '''', aa_RequestID = requestID rnd r\<rparr>"

definition writeAdminAudit :: "gateway \<Rightarrow> time \<Rightarrow> string \<Rightarrow> request \<Rightarrow> adminActor \<Rightarrow> string \<Rightarrow> string \<Rightarrow> (string \<times> json) list
    \<Rightarrow> response handler \<Rightarrow> response handler" where
  "writeAdminAudit E t rnd r actor ty reason attrs next =
     ignoring (onDB (WriteActorAudit t (merchantOf E) ty (aA_Role actor) (aA_Actor actor) reason (requestID rnd r)
       (set_attr ''ip'' (JStr (clientIP r)) (set_attr ''auth'' (JStr (aA_Source actor))
         (set_attr ''role'' (JStr (aA_Role actor)) (set_attr ''actor'' (JStr (aA_Actor actor)) attrs)))))) next"

section \<open>Tokens\<close>

text \<open>\<open>time.Duration(n) * time.Second\<close> wraps at 64 bits.\<close>

definition secondsOf :: "int \<Rightarrow> duration" where
  "secondsOf n = sint (word_of_int (n * second) :: 64 word)"

definition adminMintToken :: "gateway \<Rightarrow> call \<Rightarrow> request \<Rightarrow> response handler" where
  "adminMintToken E C r =
     requireRole E C r RoleAdmin (\<lambda>actor.
     let role = ToLower (TrimSpace (lax_str (rq_Body r) ''role''));
         role = (if role = '''' then RoleOperator else role);
         ttl = secondsOf (lax_int (rq_Body r) ''ttl_seconds'');
         ttl = (if ttl \<le> 0 then 5 * minute else ttl)
     in if role \<noteq> RoleAdmin \<and> role \<noteq> RoleOperator then ret (writeErr [] StatusBadRequest ''role must be admin or operator'')
        else case mintAccess E (now C 2) (draw C 0) role (aA_Actor actor) ttl of
          None \<Rightarrow> ret (writeErr [] StatusInternalServerError ''sign token'')
        | Some tok \<Rightarrow>
            writeAdminAudit E (now C 3) (draw C 1) r actor ''ADMIN_TOKEN_MINTED'' role [(''minted_role'', JStr role)]
             (ret (writeJSON [] StatusOK
               [(''token'', JStr tok), (''role'', JStr role), (''token_type'', JStr ''Bearer''), (''expires_in'', JNum (go_quot ttl second))])))"

text \<open>The login form of \<open>adminPage\<close>: the token of the cookie it sets, if any.\<close>

definition adminLogin :: "gateway \<Rightarrow> call \<Rightarrow> string \<Rightarrow> string option" where
  "adminLogin E C secret =
     (if secretMatch secret (cf_AdminSecret (gw_cfg E)) then mintAccess E (now C 0) (draw C 0) RoleAdmin ''admin-secret'' (8 * 60 * minute)
      else if secretMatch secret (cf_OperatorSecret (gw_cfg E))
      then mintAccess E (now C 0) (draw C 0) RoleOperator ''operator-secret'' (8 * 60 * minute)
      else None)"

section \<open>Policy\<close>

definition ruleNames :: "Compiled \<Rightarrow> json" where
  "ruleNames c = JArr (map (JStr \<circ> ru_Name) (do_Domains (cp_Doc c)))"

definition getPolicy :: "gateway \<Rightarrow> call \<Rightarrow> request \<Rightarrow> response handler" where
  "getPolicy E C r =
     requireRole E C r RoleOperator (\<lambda>_.
     andThen (reading (\<lambda>s. (sv_compiled s, sv_policyVer s))) (\<lambda>(c, ver).
     attempt (onDB (ActivePolicy (merchantOf E))) (\<lambda>res.
     let body = (\<lambda>v. [(''version'', JNum v), (''merchant'', JStr (merchantOf E)), (''rule_names'', ruleNames c),
           (''fallback'', JStr (do_Fallback (cp_Doc c)))]) in
     ret (writeJSON [] StatusOK (case res of
       Inr row \<Rightarrow> body (pr_Version row) @ [(''yaml'', JStr (pr_YAML row))] | Inl _ \<Rightarrow> body ver)))))"

text \<open>\<open>raw\<close> is the body of the request as text; \<open>detail\<close> the text of a policy error.\<close>

definition putPolicy :: "gateway \<Rightarrow> (policy_error \<Rightarrow> string) \<Rightarrow> call \<Rightarrow> string \<Rightarrow> request \<Rightarrow> response handler" where
  "putPolicy E detail C raw r =
     requireRole E C r RoleAdmin (\<lambda>actor.
     let bad = (\<lambda>msg d. ret (writeJSON [] StatusBadRequest [(''error'', JStr msg), (''detail'', JStr d)])) in
     if raw = '''' then ret (writeErr [] StatusBadRequest ''empty policy'')
     else case CompileYAML (gw_unmarshal E) raw of
       Inl err \<Rightarrow> bad ''invalid policy'' (detail err)
     | Inr c \<Rightarrow>
         (case (if Production (gw_cfg E) then CheckProductionSafety (cp_Doc c) (cf_AllowUnsafeModes (gw_cfg E)) else None) of
            Some reasons \<Rightarrow> bad ''fail-open policy''
              (''production policy is fail-open ('' @ JoinComma reasons @ ''); set BRUISER_ALLOW_UNSAFE_MODES=1 to acknowledge'')
          | None \<Rightarrow>
              attempt (onDB (ActivePolicy (merchantOf E))) (\<lambda>prev.
              let beforeHash = gw_hash E (case prev of Inr row \<Rightarrow> pr_YAML row | Inl _ \<Rightarrow> '''');
                  afterHash = gw_hash E raw;
                  audit = (actorAudit (draw C 1) r actor)\<lparr>aa_Before := beforeHash, aa_After := afterHash\<rparr>
              in attempt (onDB (PutPolicy (gw_unmarshal E) (now C 2) (merchantOf E) raw (requestID (draw C 0) r) audit)) (\<lambda>res.
                case res of
                  Inl err \<Rightarrow> ret (storeError err)
                | Inr row \<Rightarrow>
                    andThen (locally (\<lambda>s. ((), s\<lparr>sv_compiled := c, sv_policyVer := pr_Version row, sv_cache := Reset (sv_cache s)\<rparr>))) (\<lambda>_.
                    ret (writeJSON [] StatusOK
                      [(''version'', JNum (pr_Version row)), (''rule_names'', ruleNames c), (''status'', JStr ''active''),
                       (''before_hash'', JStr beforeHash), (''after_hash'', JStr afterHash)]))))))"

definition policyHistory :: "gateway \<Rightarrow> call \<Rightarrow> request \<Rightarrow> response handler" where
  "policyHistory E C r =
     requireRole E C r RoleOperator (\<lambda>_.
     attempt (onDB (PolicyHistory (merchantOf E) 20)) (\<lambda>res.
     case res of
       Inl err \<Rightarrow> ret (storeError err)
     | Inr rows \<Rightarrow> ret (writeJSON [] StatusOK
         [(''history'', JArr (map (\<lambda>row. JObj [(''version'', JNum (pr_Version row)), (''active'', JBool (pr_Active row))]) rows))])))"

section \<open>Controls\<close>

definition controls_json :: "controls \<Rightarrow> (string \<times> json) list" where
  "controls_json c =
     [(''mode'', JStr (c_Mode c)), (''enforcement'', JBool (c_Enforcement c)), (''enforce_percent'', JNum (c_EnforcePercent c))]
     @ (if c_RampSalt c \<noteq> '''' then [(''ramp_salt'', JStr (c_RampSalt c))] else [])
     @ [(''scope'', scope_json (c_Scope c)), (''queue_enabled'', JBool (c_QueueEnabled c)), (''max_waiters'', JNum (c_MaxWaiters c)),
        (''lease_ttl_seconds'', JNum (c_LeaseTTLSeconds c)), (''fail_closed'', JBool (c_FailClosed c))]
     @ (if c_DisabledActions c \<noteq> [] then [(''disabled_actions'', JArr (map JStr (c_DisabledActions c)))] else [])
     @ (if c_UpdatedBy c \<noteq> '''' then [(''updated_by'', JStr (c_UpdatedBy c))] else [])"

definition adminGetControls :: "gateway \<Rightarrow> call \<Rightarrow> request \<Rightarrow> response handler" where
  "adminGetControls E C r =
     requireRole E C r RoleOperator (\<lambda>_.
     andThen (reading sv_controls) (\<lambda>c. ret (writeJSON [] StatusOK (controls_json c))))"

text \<open>A pointer field is nil when the member is missing or null.\<close>

definition pointer :: "(json option \<Rightarrow> 'a option) \<Rightarrow> (string \<times> json) list \<Rightarrow> string \<Rightarrow> 'a option option" where
  "pointer read ms k = (case member ms k of None \<Rightarrow> Some None | Some v \<Rightarrow> map_option Some (read (Some v)))"

fun as_strings :: "json list \<Rightarrow> string list option" where
  "as_strings [] = Some []"
| "as_strings (v # vs) = Option.bind (as_str (non_null (Some v))) (\<lambda>s. map_option ((#) s) (as_strings vs))"

definition as_list :: "json option \<Rightarrow> string list option" where
  "as_list v = (case v of None \<Rightarrow> Some [] | Some (JArr vs) \<Rightarrow> as_strings vs | _ \<Rightarrow> None)"

definition as_scope :: "json option \<Rightarrow> ramp_scope option" where
  "as_scope v =
     (case v of
        Some (JObj ms) \<Rightarrow>
          Option.bind (as_list (member ms ''events'')) (\<lambda>ev.
          Option.bind (as_list (member ms ''routes'')) (\<lambda>ro.
          Option.bind (as_list (member ms ''pools'')) (\<lambda>po.
          Option.bind (as_list (member ms ''cohorts'')) (\<lambda>co.
          Option.bind (as_list (member ms ''environments'')) (\<lambda>en.
          Option.bind (as_list (member ms ''policies'')) (\<lambda>pl.
          Some \<lparr>sc_Events = ev, sc_Routes = ro, sc_Pools = po, sc_Cohorts = co, sc_Environments = en, sc_Policies = pl\<rparr>))))))
      | _ \<Rightarrow> None)"

record controlsPatch =
  pa_Mode :: "string option"
  pa_Enforcement :: "bool option"
  pa_EnforcePercent :: "int option"
  pa_RampSalt :: "string option"
  pa_Scope :: "ramp_scope option"
  pa_QueueEnabled :: "bool option"
  pa_MaxWaiters :: "int option"
  pa_LeaseTTLSeconds :: "int option"
  pa_FailClosed :: "bool option"
  pa_DisabledActions :: "string list option"
  pa_UpdatedBy :: string

definition decodePatch :: "json option \<Rightarrow> controlsPatch option" where
  "decodePatch b =
     Option.bind (objectOf b) (\<lambda>ms.
     Option.bind (pointer as_str ms ''mode'') (\<lambda>mo.
     Option.bind (pointer as_bool ms ''enforcement'') (\<lambda>en.
     Option.bind (pointer as_int ms ''enforce_percent'') (\<lambda>pc.
     Option.bind (pointer as_str ms ''ramp_salt'') (\<lambda>sa.
     Option.bind (pointer as_scope ms ''scope'') (\<lambda>sc.
     Option.bind (pointer as_bool ms ''queue_enabled'') (\<lambda>qe.
     Option.bind (pointer as_int ms ''max_waiters'') (\<lambda>mw.
     Option.bind (pointer as_int ms ''lease_ttl_seconds'') (\<lambda>lt.
     Option.bind (pointer as_bool ms ''fail_closed'') (\<lambda>fc.
     Option.bind (pointer as_list ms ''disabled_actions'') (\<lambda>da.
     Option.bind (str_field ms ''updated_by'') (\<lambda>ub.
     Some \<lparr>pa_Mode = mo, pa_Enforcement = en, pa_EnforcePercent = pc, pa_RampSalt = sa, pa_Scope = sc, pa_QueueEnabled = qe,
       pa_MaxWaiters = mw, pa_LeaseTTLSeconds = lt, pa_FailClosed = fc, pa_DisabledActions = da, pa_UpdatedBy = ub\<rparr>))))))))))))"

definition given :: "'a option \<Rightarrow> ('a \<Rightarrow> controls \<Rightarrow> controls) \<Rightarrow> controls \<Rightarrow> controls" where
  "given v f c = (case v of Some x \<Rightarrow> f x c | None \<Rightarrow> c)"

definition patchPercent :: "int \<Rightarrow> controls \<Rightarrow> controls" where
  "patchPercent n c =
     (let c = c\<lparr>c_EnforcePercent := n\<rparr> in
      if n = 0 then c\<lparr>c_Mode := ModeDryRun\<rparr>
      else if c_Mode c = ModeDryRun then c\<lparr>c_Mode := ModeEnforce, c_Enforcement := True\<rparr> else c)"

definition applyPatch :: "controlsPatch \<Rightarrow> string \<Rightarrow> controls \<Rightarrow> controls" where
  "applyPatch p actor c0 =
     (let c = given (pa_Mode p) (\<lambda>x c. c\<lparr>c_Mode := x\<rparr>) c0;
          c = given (pa_Enforcement p) (\<lambda>x c. c\<lparr>c_Enforcement := x\<rparr>) c;
          c = given (pa_EnforcePercent p) patchPercent c;
          c = given (pa_RampSalt p) (\<lambda>x c. c\<lparr>c_RampSalt := x\<rparr>) c;
          c = given (pa_Scope p) (\<lambda>x c. c\<lparr>c_Scope := x\<rparr>) c;
          c = given (pa_QueueEnabled p) (\<lambda>x c. c\<lparr>c_QueueEnabled := x\<rparr>) c;
          c = given (pa_MaxWaiters p) (\<lambda>x c. c\<lparr>c_MaxWaiters := x\<rparr>) c;
          c = given (pa_LeaseTTLSeconds p) (\<lambda>x c. c\<lparr>c_LeaseTTLSeconds := x\<rparr>) c;
          c = given (pa_FailClosed p) (\<lambda>x c. c\<lparr>c_FailClosed := x\<rparr>) c;
          c = given (pa_DisabledActions p) (\<lambda>x c. c\<lparr>c_DisabledActions := x\<rparr>) c
      in Normalize (c\<lparr>c_UpdatedBy := firstNonEmpty (pa_UpdatedBy p) actor\<rparr>))"

definition adminPutControls :: "gateway \<Rightarrow> call \<Rightarrow> request \<Rightarrow> response handler" where
  "adminPutControls E C r =
     requireRole E C r RoleOperator (\<lambda>actor.
     case decodePatch (rq_Body r) of
       None \<Rightarrow> ret (writeErr [] StatusBadRequest ''invalid json'')
     | Some patch \<Rightarrow>
         andThen (reading sv_controls) (\<lambda>c.
         attempt (onDB (PutControls (now C 2) (draw C 1) (merchantOf E) (applyPatch patch (aA_Actor actor) c) (actorAudit (draw C 0) r actor))) (\<lambda>res.
         case res of
           Inl err \<Rightarrow> ret (storeError err)
         | Inr saved \<Rightarrow>
             andThen (locally (\<lambda>s. ((), s\<lparr>sv_controls := saved\<rparr>))) (\<lambda>_. ret (writeJSON [] StatusOK (controls_json saved))))))"

section \<open>Emergency actions\<close>

definition adminRevoke :: "gateway \<Rightarrow> call \<Rightarrow> string \<Rightarrow> request \<Rightarrow> response handler" where
  "adminRevoke E C exeID r =
     requireRole E C r RoleAdmin (\<lambda>actor.
     let reason = firstNonEmpty (lax_str (rq_Body r) ''reason'') ''admin'' in
     attempt (onLeases (CacheRevoke (Revoke (now C 2) (now C 3) (merchantOf E) exeID '''' (requestID (draw C 0) r) reason) (merchantOf E))) (\<lambda>res.
     case res of
       Inl err \<Rightarrow> ret (mutationError err)
     | Inr e \<Rightarrow> writeAdminAudit E (now C 4) (draw C 1) r actor ''ADMIN_REVOKE'' reason [(''execution_id'', JStr (e_ID e))]
         (ret (endedBody e))))"

definition adminDrain :: "gateway \<Rightarrow> call \<Rightarrow> request \<Rightarrow> response handler" where
  "adminDrain E C r =
     requireRole E C r RoleOperator (\<lambda>actor.
     andThen (onDB (DrainWaiters (now C 2) (merchantOf E) (requestID (draw C 0) r) (actorAudit (draw C 1) r actor))) (\<lambda>res.
     case res of
       (_, Some err) \<Rightarrow> ret (storeError err)
     | (n, None) \<Rightarrow> ret (writeJSON [] StatusOK [(''drained'', JNum n)])))"

definition adminRevokeAll :: "gateway \<Rightarrow> call \<Rightarrow> request \<Rightarrow> response handler" where
  "adminRevokeAll E C r =
     requireRole E C r RoleAdmin (\<lambda>actor.
     andThen (onDB (RevokeActive (\<lambda>i. now C (2 + i)) (merchantOf E) (requestID (draw C 0) r) ''emergency'' (actorAudit (draw C 1) r actor))) (\<lambda>res.
     case res of
       (_, Some err) \<Rightarrow> ret (storeError err)
     | (n, None) \<Rightarrow>
         andThen (locally (\<lambda>s. ((), s\<lparr>sv_cache := Reset (sv_cache s)\<rparr>))) (\<lambda>_.
         ret (writeJSON [] StatusOK [(''revoked'', JNum n)]))))"

section \<open>Authority checks\<close>

definition adminLastCheck :: "gateway \<Rightarrow> call \<Rightarrow> request \<Rightarrow> response handler" where
  "adminLastCheck E C r =
     requireRole E C r RoleOperator (\<lambda>_.
     attempt (onDB (LastAudit (merchantOf E) ''AUTHORITY_CHECK'')) (\<lambda>res.
     case res of
       Inl err \<Rightarrow> if err = ErrNotFound then ret (writeJSON [] StatusOK [(''last'', JNull)]) else ret (storeError err)
     | Inr ev \<Rightarrow> ret (writeJSON [] StatusOK
         [(''at'', JStr (RFC3339Nano (a_At ev))), (''reason'', JStr (case a_Reason ev of Some x \<Rightarrow> x | None \<Rightarrow> '''')),
          (''report'', JObj (a_Attrs ev))])))"

text \<open>\<open>report\<close> holds the attributes of the report of the check, whose \<open>overall\<close> verdict is the reason.\<close>

definition PersistAuthorityCheck :: "gateway \<Rightarrow> time \<Rightarrow> string \<Rightarrow> string \<Rightarrow> (string \<times> json) list \<Rightarrow> string \<Rightarrow> unit handler" where
  "PersistAuthorityCheck E t rnd overall report reqID =
     onDB (WriteAudit t (merchantOf E) ''AUTHORITY_CHECK'' overall (if reqID = '''' then id_Request rnd else reqID) report)"

end
