(* ===== verification/Gateway_Steps.thy ===== *)
theory Gateway_Steps
  imports Admin_Api
begin

text \<open>
  What the requests of a gateway do to the store. \<open>conducts\<close> says that a handler changes the database by
  operations of the store alone, made at the times the handler reads; a set of rules, one for every way
  to compose handlers and one for every operation, proves it of each endpoint. A request runs here
  without others in between; the interleavings of store operations are those of \<open>Store_Steps\<close>.
\<close>

named_theorems conducts_intro \<open>handlers that change the database by steps of the store\<close>

section \<open>Endpoints\<close>

text \<open>\<open>publicMux\<close> and \<open>adminMux\<close>, with the middleware, and the reverse proxy; \<open>watch\<close> only reads.\<close>

datatype endpoint =
    Healthz | Readyz | CreateSession | LogoutSession | RefreshSession | PostAuthorize | PostIntrospect
  | PostAcquire | PostRenew string | PostRelease string | PostHandoff string | PostRevoke string | GetExecution string
  | Proxied
  | GetPolicy | PutPolicyText string | GetPolicyHistory | AdminRevoke string | GetControlsE | PutControlsE
  | PostDrain | PostRevokeAll | PostToken | GetLastCheck

definition serveHTTP :: "gateway \<Rightarrow> (policy_error \<Rightarrow> string) \<Rightarrow> call \<Rightarrow> endpoint \<Rightarrow> request \<Rightarrow> response handler" where
  "serveHTTP E detail C ep r0 =
     (let r = stripInboundBruiser r0 in
      case ep of
        Healthz \<Rightarrow> healthz
      | Readyz \<Rightarrow> readyz E C
      | CreateSession \<Rightarrow> createSession E C r
      | LogoutSession \<Rightarrow> logoutSession E C r
      | RefreshSession \<Rightarrow> refreshSession E C r
      | PostAuthorize \<Rightarrow> authorize E C r
      | PostIntrospect \<Rightarrow> introspect E C r
      | PostAcquire \<Rightarrow> sessionAuth E C (acquire E C) r
      | PostRenew i \<Rightarrow> sessionAuth E C (renew E C i) r
      | PostRelease i \<Rightarrow> sessionAuth E C (releaseHandler E C i) r
      | PostHandoff i \<Rightarrow> sessionAuth E C (handoff E C i) r
      | PostRevoke i \<Rightarrow> sessionAuth E C (revoke E C i) r
      | GetExecution i \<Rightarrow> sessionAuth E C (getExecution E C i) r
      | Proxied \<Rightarrow> ProxyHandler E C r0
      | GetPolicy \<Rightarrow> getPolicy E C r
      | PutPolicyText raw \<Rightarrow> putPolicy E detail C raw r
      | GetPolicyHistory \<Rightarrow> policyHistory E C r
      | AdminRevoke i \<Rightarrow> adminRevoke E C i r
      | GetControlsE \<Rightarrow> adminGetControls E C r
      | PutControlsE \<Rightarrow> adminPutControls E C r
      | PostDrain \<Rightarrow> adminDrain E C r
      | PostRevokeAll \<Rightarrow> adminRevokeAll E C r
      | PostToken \<Rightarrow> adminMintToken E C r
      | GetLastCheck \<Rightarrow> adminLastCheck E C r)"

section \<open>Policies and capacities\<close>

text \<open>A policy fits the capacities when no decision of it allows more executions in its domain.\<close>

definition fits :: "(domain \<Rightarrow> nat) \<Rightarrow> gateway \<Rightarrow> Compiled \<Rightarrow> bool" where
  "fits cap E c \<longleftrightarrow> (\<forall>req. let d = Evaluate (gw_nfkc E) c req in
     dc_Denied d \<or> dc_ControlNone d \<or> max 1 (dc_MaxActive d) \<le> int (cap (pq_MerchantID req, dc_DomainKey d)))"

lemma evaluateRules_cases:
  "evaluateRules cs req = Some d \<Longrightarrow> dc_Denied d \<or> dc_ControlNone d \<or> (\<exists>c \<in> set cs. dc_MaxActive d = ru_MaxActive (cr_Rule c))"
  by (induction cs) (auto simp: Let_def granted_def split: if_splits option.splits)

lemma Evaluate_outcomes:
  "dc_Denied (Evaluate nfkc c req) \<or> dc_ControlNone (Evaluate nfkc c req)
   \<or> (\<exists>r \<in> set (cp_rules c). dc_MaxActive (Evaluate nfkc c req) = ru_MaxActive (cr_Rule r))"
  by (auto simp: Evaluate_def Let_def fallbackDecision_def split: sum.splits option.splits dest: evaluateRules_cases)

lemma fits_uniform:
  assumes "\<And>r. r \<in> set (cp_rules c) \<Longrightarrow> ru_MaxActive (cr_Rule r) \<le> int n" "1 \<le> n"
  shows "fits (\<lambda>_. n) E c"
  unfolding fits_def Let_def
proof
  fix req
  show "dc_Denied (Evaluate (gw_nfkc E) c req) \<or> dc_ControlNone (Evaluate (gw_nfkc E) c req)
      \<or> max 1 (dc_MaxActive (Evaluate (gw_nfkc E) c req)) \<le> int n"
    using Evaluate_outcomes [of "gw_nfkc E" c req] assms by force
qed

section \<open>Handlers and the store\<close>

definition conducts :: "(domain \<Rightarrow> nat) \<Rightarrow> gateway \<Rightarrow> call \<Rightarrow> nat \<Rightarrow> nat \<Rightarrow> 'a handler \<Rightarrow> bool" where
  "conducts cap E C i j m \<longleftrightarrow> (\<forall>s s'. mono (now C) \<longrightarrow> fits cap E (sv_compiled s) \<longrightarrow> ends m s s' \<longrightarrow>
     fits cap E (sv_compiled s') \<and> store_run cap (now C i) (sv_db s) (now C j) (sv_db s'))"

lemma conductsI:
  "(\<And>s s'. mono (now C) \<Longrightarrow> fits cap E (sv_compiled s) \<Longrightarrow> ends m s s' \<Longrightarrow>
     fits cap E (sv_compiled s') \<and> store_run cap (now C i) (sv_db s) (now C j) (sv_db s')) \<Longrightarrow> conducts cap E C i j m"
  by (auto simp: conducts_def)

lemma conductsD:
  assumes "conducts cap E C i j m" "mono (now C)" "fits cap E (sv_compiled s)" "ends m s s'"
  shows "fits cap E (sv_compiled s')" "store_run cap (now C i) (sv_db s) (now C j) (sv_db s')"
  using assms by (auto simp: conducts_def)

lemma store_run_idle: "t \<le> t' \<Longrightarrow> store_run cap t d t' d"
  by (rule store_run.there [OF store_run.here]) (simp_all add: store_step_idle)

lemma store_run_trans: "store_run cap t' d' t'' d'' \<Longrightarrow> store_run cap t d t' d' \<Longrightarrow> store_run cap t d t'' d''"
  by (induction rule: store_run.induct) (auto intro: store_run.there)

lemma conducts_ret [conducts_intro]: "i \<le> j \<Longrightarrow> conducts cap E C i j (ret a)"
  by (rule conductsI) (auto intro: store_run_idle monoD)

lemma conducts_mono:
  assumes "conducts cap E C i k m" "k \<le> j"
  shows "conducts cap E C i j m"
proof (rule conductsI)
  fix s s'
  assume a: "mono (now C)" "fits cap E (sv_compiled s)" "ends m s s'"
  note b = conductsD [OF assms(1) a]
  show "fits cap E (sv_compiled s') \<and> store_run cap (now C i) (sv_db s) (now C j) (sv_db s')"
    by (rule conjI [OF b(1) store_run_trans [OF store_run_idle [OF monoD [OF a(1) assms(2)]] b(2)]])
qed

lemma conducts_andThen [conducts_intro]:
  assumes m: "conducts cap E C i k m" and "k \<le> j" and f: "\<And>a. conducts cap E C k j (f a)"
  shows "conducts cap E C i j (andThen m f)"
proof (rule conductsI)
  fix s s'
  assume a: "mono (now C)" "fits cap E (sv_compiled s)" and "ends (andThen m f) s s'"
  from this(3) show "fits cap E (sv_compiled s') \<and> store_run cap (now C i) (sv_db s) (now C j) (sv_db s')"
  proof (cases rule: ends_andThenE)
    case 1
    then obtain e where "fails m s e s'" ..
    note b = conductsD [OF conducts_mono [OF m \<open>k \<le> j\<close>] a ends_fails [OF this]]
    show ?thesis by (rule conjI [OF b])
  next
    case (2 x t)
    note b = conductsD [OF m a runs_ends [OF 2(1)]]
    note c = conductsD [OF f a(1) b(1) 2(2)]
    show ?thesis by (rule conjI [OF c(1) store_run_trans [OF c(2) b(2)]])
  qed
qed

lemma conducts_attempt [conducts_intro]:
  assumes m: "conducts cap E C i k m" and f: "\<And>a. conducts cap E C k j (f a)"
  shows "conducts cap E C i j (attempt m f)"
proof (rule conductsI)
  fix s s'
  assume a: "mono (now C)" "fits cap E (sv_compiled s)" and "ends (attempt m f) s s'"
  from this(3) obtain r t where e: "ends m s t" "ends (f r) t s'" by (rule ends_attemptE)
  note b = conductsD [OF m a e(1)]
  note c = conductsD [OF f a(1) b(1) e(2)]
  show "fits cap E (sv_compiled s') \<and> store_run cap (now C i) (sv_db s) (now C j) (sv_db s')"
    by (rule conjI [OF c(1) store_run_trans [OF c(2) b(2)]])
qed

lemma conducts_ignoring [conducts_intro]:
  "conducts cap E C i k m \<Longrightarrow> conducts cap E C k j f \<Longrightarrow> conducts cap E C i j (ignoring m f)"
  unfolding ignoring_def by (rule conducts_attempt)

lemma conducts_if [conducts_intro]:
  "(b \<Longrightarrow> conducts cap E C i j m) \<Longrightarrow> (\<not> b \<Longrightarrow> conducts cap E C i j m') \<Longrightarrow> conducts cap E C i j (if b then m else m')"
  by simp

lemma conducts_option [conducts_intro]:
  "(x = None \<Longrightarrow> conducts cap E C i j m) \<Longrightarrow> (\<And>v. x = Some v \<Longrightarrow> conducts cap E C i j (f v))
   \<Longrightarrow> conducts cap E C i j (case x of None \<Rightarrow> m | Some v \<Rightarrow> f v)"
  by (cases x) simp_all

lemma conducts_sum [conducts_intro]:
  "(\<And>v. x = Inl v \<Longrightarrow> conducts cap E C i j (f v)) \<Longrightarrow> (\<And>v. x = Inr v \<Longrightarrow> conducts cap E C i j (g v))
   \<Longrightarrow> conducts cap E C i j (case x of Inl v \<Rightarrow> f v | Inr v \<Rightarrow> g v)"
  by (cases x) simp_all

lemma conducts_prod [conducts_intro]:
  "(\<And>v w. x = (v, w) \<Longrightarrow> conducts cap E C i j (f v w)) \<Longrightarrow> conducts cap E C i j (case x of (v, w) \<Rightarrow> f v w)"
  by (cases x) simp

lemma conducts_list [conducts_intro]:
  "(x = [] \<Longrightarrow> conducts cap E C i j m) \<Longrightarrow> (\<And>v w. x = v # w \<Longrightarrow> conducts cap E C i j (f v w))
   \<Longrightarrow> conducts cap E C i j (case x of [] \<Rightarrow> m | v # w \<Rightarrow> f v w)"
  by (cases x) simp_all

lemma conducts_status [conducts_intro]:
  "conducts cap E C i j a \<Longrightarrow> conducts cap E C i j b \<Longrightarrow> conducts cap E C i j c \<Longrightarrow> conducts cap E C i j d \<Longrightarrow> conducts cap E C i j e
   \<Longrightarrow> conducts cap E C i j (case x of StatusGranted \<Rightarrow> a | StatusAlreadyHeld \<Rightarrow> b | StatusBusy \<Rightarrow> c | StatusQueued \<Rightarrow> d | StatusDenied \<Rightarrow> e)"
  by (cases x) simp_all

lemma conducts_resource_error [conducts_intro]:
  "conducts cap E C i j m \<Longrightarrow> conducts cap E C i j m' \<Longrightarrow>
   conducts cap E C i j (case x of ErrMalformed \<Rightarrow> m | ErrUnknownResource \<Rightarrow> m')"
  by (cases x) simp_all

lemma conducts_taken [conducts_intro]:
  "conducts cap E C i j m \<Longrightarrow> (\<And>v. conducts cap E C i j (f v)) \<Longrightarrow> conducts cap E C i j (case x of Refused \<Rightarrow> m | Allowed v \<Rightarrow> f v)"
  by (cases x) simp_all

lemma ends_locally: "ends (locally f) s s' \<Longrightarrow> s' = snd (f s)"
  by (auto simp: ends_def locally_def case_prod_beta)

lemma conducts_locally:
  assumes "\<And>s. sv_db (snd (f s)) = sv_db s" "\<And>s. fits cap E (sv_compiled s) \<Longrightarrow> fits cap E (sv_compiled (snd (f s)))"
  shows "conducts cap E C i i (locally f)"
proof (rule conductsI)
  fix s s'
  assume "fits cap E (sv_compiled s)" "ends (locally f) s s'"
  then show "fits cap E (sv_compiled s') \<and> store_run cap (now C i) (sv_db s) (now C i) (sv_db s')"
    using assms by (auto dest!: ends_locally intro: store_run.here)
qed

lemma conducts_reading [conducts_intro]: "conducts cap E C i i (reading f)"
  unfolding reading_def by (rule conducts_locally) simp_all

text \<open>What a handler reads of the server belongs to a server whose policy fits.\<close>

lemma conducts_read:
  assumes f: "\<And>s. fits cap E (sv_compiled s) \<Longrightarrow> conducts cap E C i j (f (g s))"
  shows "conducts cap E C i j (andThen (reading g) f)"
proof (rule conductsI)
  fix s s'
  assume a: "mono (now C)" "fits cap E (sv_compiled s)" and e: "ends (andThen (reading g) f) s s'"
  then have "ends (f (g s)) s s'"
    by (auto simp: ends_def andThen_def reading_def locally_def)
  note b = conductsD [OF f [OF a(2)] a this]
  show "fits cap E (sv_compiled s') \<and> store_run cap (now C i) (sv_db s) (now C j) (sv_db s')"
    by (rule conjI [OF b])
qed

lemma conducts_eafStep [conducts_intro]: "conducts cap E C i i (eafStep res c x)"
  unfolding eafStep_def by (rule conducts_locally) simp_all

lemma conducts_extractCustomer [conducts_intro]: "conducts cap E C i i (extractCustomer E' t inp)"
  unfolding extractCustomer_def by (rule conducts_locally) (simp_all split: prod.split)

section \<open>Operations of the store\<close>

lemma ends_onDB: "ends (onDB m) s s' \<Longrightarrow> \<exists>d. s' = s\<lparr>sv_db := d\<rparr> \<and> ends m (sv_db s) d"
  by (auto simp: ends_def onDB_def case_prod_beta)

lemma ends_onLeases: "ends (onLeases m) s s' \<Longrightarrow> \<exists>c d. s' = s\<lparr>sv_cache := c, sv_db := d\<rparr> \<and> ends m (sv_cache s, sv_db s) (c, d)"
  by (auto simp: ends_def onLeases_def case_prod_beta) (metis prod.collapse)

lemma store_run_step:
  assumes "d' = d \<or> store_step cap t' d d'" "t \<le> t'"
  shows "store_run cap t d t' d'"
  using assms store_run_idle [of t t' cap d] store_run.there [OF store_run.here [of cap t d]] by blast

lemma conducts_onDB:
  assumes "\<And>d d'. ends m d d' \<Longrightarrow> d' = d \<or> store_step cap (now C j) d d'" "i \<le> j"
  shows "conducts cap E C i j (onDB m)"
proof (rule conductsI)
  fix s s'
  assume a: "mono (now C)" "fits cap E (sv_compiled s)" and "ends (onDB m) s s'"
  from ends_onDB [OF this(3)] obtain d where d: "s' = s\<lparr>sv_db := d\<rparr>" "ends m (sv_db s) d" by blast
  show "fits cap E (sv_compiled s') \<and> store_run cap (now C i) (sv_db s) (now C j) (sv_db s')"
    using a(2) store_run_step [OF assms(1) [OF d(2)] monoD [OF a(1) assms(2)]] by (simp add: d(1))
qed

lemma conducts_onLeases:
  assumes "\<And>c d c' d'. ends m (c, d) (c', d') \<Longrightarrow> d' = d \<or> store_step cap (now C j) d d'" "i \<le> j"
  shows "conducts cap E C i j (onLeases m)"
proof (rule conductsI)
  fix s s'
  assume a: "mono (now C)" "fits cap E (sv_compiled s)" and "ends (onLeases m) s s'"
  from ends_onLeases [OF this(3)] obtain c d where d: "s' = s\<lparr>sv_cache := c, sv_db := d\<rparr>" "ends m (sv_cache s, sv_db s) (c, d)" by blast
  show "fits cap E (sv_compiled s') \<and> store_run cap (now C i) (sv_db s) (now C j) (sv_db s')"
    using a(2) store_run_step [OF assms(1) [OF d(2)] monoD [OF a(1) assms(2)]] by (simp add: d(1))
qed

lemma conducts_query: "keeps (\<lambda>s. s) m \<Longrightarrow> conducts cap E C i i (onDB m)"
  by (rule conducts_onDB) (auto dest: keepsD)

lemma conducts_reads [conducts_intro]:
  "conducts cap E C i i (onDB (LiveSession t m sid))" "conducts cap E C i i (onDB (ActivePolicy m))"
  "conducts cap E C i i (onDB (PolicyHistory m k))" "conducts cap E C i i (onDB (LastAudit m ty))"
  "conducts cap E C i i (onDB (ActiveSigningKeys m))" "conducts cap E C i i (onDB Ping)"
  unfolding LiveSession_def ActivePolicy_def PolicyHistory_def LastAudit_def ActiveSigningKeys_def Ping_def
  by (intro conducts_query frame_intro)+

lemma conducts_Get [conducts_intro]: "conducts cap E C i i (onLeases (CacheGet (Get t m k)))"
  unfolding CacheGet_def by (rule conducts_onLeases) (auto dest!: ends_afterwards keepsD [OF keeps_Get, where v = "\<lambda>s. s"])

lemma conducts_writes [conducts_intro]:
  "conducts cap E C i i (onDB (InsertSession row))" "conducts cap E C i i (onDB (EnsureBudget m x n))"
  "conducts cap E C i i (onDB (ConsumeOp m x))"
  by (rule conducts_onDB; blast intro: store_step.session store_step.budget store_step.consume)+

lemma conducts_timed [conducts_intro]:
  "i \<le> j \<Longrightarrow> conducts cap E C i j (onDB (ClaimReplay t (now C j) m k knd w))"
  "i \<le> j \<Longrightarrow> conducts cap E C i j (onDB (RevokeSession (now C j) m sid))"
  "i \<le> j \<Longrightarrow> conducts cap E C i j (onDB (RecordDecision (now C j) m ev))"
  "i \<le> j \<Longrightarrow> conducts cap E C i j (onDB (ShadowDecide (now C j) rnd m k c p re ac ru ma mw ttl rq))"
  "i \<le> j \<Longrightarrow> conducts cap E C i j (onDB (WriteActorAudit (now C j) m ty ro ac re rq attrs))"
  "i \<le> j \<Longrightarrow> conducts cap E C i j (onDB (PutControls (now C j) rnd m ctl au))"
  "i \<le> j \<Longrightarrow> conducts cap E C i j (onDB (DrainWaiters (now C j) m rq au))"
  "i \<le> j \<Longrightarrow> conducts cap E C i j (onDB (PutPolicy u (now C j) m y rq au))"
  by (rule conducts_onDB; blast intro: store_step.intros)+

lemma conducts_WriteAudit [conducts_intro]: "i \<le> j \<Longrightarrow> conducts cap E C i j (onDB (WriteAudit (now C j) m ty re rq attrs))"
  unfolding WriteAudit_def by (rule conducts_timed)

lemma conducts_leases [conducts_intro]:
  "i \<le> j \<Longrightarrow> conducts cap E C i j (onLeases (CacheRenew (Renew (now C j) m x sid rq ttl) m))"
  "i \<le> j \<Longrightarrow> conducts cap E C i j (onLeases (CacheRelease (Release t (now C j) t' m x sid rq) m))"
  "i \<le> j \<Longrightarrow> conducts cap E C i j (onLeases (CacheRevoke (Revoke t (now C j) m x sid rq re) m))"
  "i \<le> j \<Longrightarrow> conducts cap E C i j (onLeases (CacheHandoff (Handoff (now C j) r1 r2 hreq) hreq))"
  by (rule conducts_onLeases; blast dest: pg.cached_ops)+

lemma conducts_acquire:
  "i \<le> j \<Longrightarrow> q_MaxActive (acquireDefaults req) \<le> int (cap (q_MerchantID req, q_DomainKey req)) \<Longrightarrow>
   conducts cap E C i j (onLeases (CacheAcquire t t' (Acquire (now C j) rnd req) req))"
  by (rule conducts_onLeases) (blast dest: pg.cached_acquire)

section \<open>Every endpoint\<close>

lemma conducts_guarded [conducts_intro]:
  "i \<le> j \<Longrightarrow> conducts cap E C i j next \<Longrightarrow> conducts cap E C i j (guarded b u t key next)"
  unfolding guarded_def by (rule conducts_andThen [OF conducts_locally]) (auto split: prod.split intro: conducts_intro)

lemma conducts_claimReplay [conducts_intro]:
  "i \<le> k \<Longrightarrow> k \<le> j \<Longrightarrow> conducts cap E C k j next \<Longrightarrow> conducts cap E C i j next
   \<Longrightarrow> conducts cap E C i j (claimReplay E' t (now C k) r knd next)"
  unfolding claimReplay_def by (rule conducts_intro | simp)+

lemma conducts_recordAcquire [conducts_intro]:
  "i \<le> k \<Longrightarrow> conducts cap E C k j next \<Longrightarrow> conducts cap E C i j (recordAcquire E' (now C k) en cu pid re ac ru acq rq next)"
  unfolding recordAcquire_def recordDecision_def by (rule conducts_intro | simp)+

lemma conducts_recordDecision [conducts_intro]:
  "i \<le> k \<Longrightarrow> conducts cap E C k j next \<Longrightarrow> conducts cap E C i j (recordDecision E' (now C k) en cu pid re ac ru wo rs rq er next)"
  unfolding recordDecision_def by (rule conducts_intro | simp)+

lemma conducts_createSession: "conducts cap E C 0 20 (createSession E C r)"
  unfolding createSession_def openSession_def Let_def by (rule conducts_intro | simp)+

lemma conducts_logoutSession: "conducts cap E C 0 20 (logoutSession E C r)"
  unfolding logoutSession_def by (rule conducts_intro | simp)+

lemma conducts_refreshSession: "conducts cap E C 0 20 (refreshSession E C r)"
  unfolding refreshSession_def Let_def by (rule conducts_intro | simp)+

lemma conducts_sessionAuth [conducts_intro]:
  "(\<And>claims. conducts cap E C 0 20 (next claims r)) \<Longrightarrow> conducts cap E C 0 20 (sessionAuth E' C next r)"
  unfolding sessionAuth_def by (rule conducts_intro | simp)+

lemma fits_decision:
  assumes "fits cap E (sv_compiled s)" "d = applyControls (sv_controls s) (evaluate E s m cu pt re ac an) ac"
    "\<not> dc_Denied d" "\<not> dc_ControlNone d"
  shows "max 1 (dc_MaxActive d) \<le> int (cap (m, dc_DomainKey d))"
proof -
  let ?req = "\<lparr>pq_MerchantID = m, pq_CustomerID = cu, pq_PrincipalType = pt, pq_Resource = re, pq_Action = ac, pq_Anchors = map_of an\<rparr>"
  let ?e = "Evaluate (gw_nfkc E) (sv_compiled s) ?req"
  have "dc_Denied ?e \<or> dc_ControlNone ?e \<or> max 1 (dc_MaxActive ?e) \<le> int (cap (m, dc_DomainKey ?e))"
    using assms(1) unfolding fits_def Let_def by (metis PolicyRequest.select_convs(1))
  with assms(2-4) show ?thesis
    by (simp add: applyControls_def evaluate_def Let_def split: if_splits)
qed

lemma conducts_budget [conducts_intro]:
  "conducts cap E C i i (case x of None \<Rightarrow> ret () | Some e \<Rightarrow> onDB (EnsureBudget m (f e) n))"
  by (rule conducts_intro | simp)+

lemma conducts_acquireEnforced:
  "max 1 (dc_MaxActive d) \<le> int (cap (sc_MerchantID sess, dc_DomainKey d)) \<Longrightarrow> i \<le> 6 \<Longrightarrow>
   conducts cap E C i 20 (acquireEnforced E C sess re ac d ctl rq)"
  unfolding acquireEnforced_def acquireAnswer_def Let_def
  by (rule conducts_intro conducts_acquire | simp add: acquireRequest_def acquireDefaults_def max_def split: if_splits)+

lemma conducts_acquireDecided [conducts_intro]: "i \<le> 6 \<Longrightarrow> conducts cap E C i 20 (acquireDecided E C sess r re ac)"
  unfolding acquireDecided_def writeAcquireDryRun_def
  by (rule conducts_read) (auto intro!: conducts_intro conducts_acquireEnforced dest: fits_decision)

lemma conducts_acquire_handler: "conducts cap E C 0 20 (acquire E C sess r)"
  unfolding acquire_def by (rule conducts_intro | simp)+

lemma conducts_renew: "conducts cap E C 0 20 (renew E C x sess r)"
  unfolding renew_def by (rule conducts_intro | simp)+

lemma conducts_release: "conducts cap E C 0 20 (releaseHandler E C x sess r)"
  unfolding releaseHandler_def by (rule conducts_intro | simp)+

lemma conducts_handoff: "conducts cap E C 0 20 (handoff E C x sess r)"
  unfolding handoff_def Let_def by (rule conducts_intro | simp)+

lemma conducts_revoke: "conducts cap E C 0 20 (revoke E C x sess r)"
  unfolding revoke_def by (rule conducts_intro | simp)+

lemma conducts_getExecution: "conducts cap E C 0 20 (getExecution E C x sess r)"
  unfolding getExecution_def by (rule conducts_intro | simp)+

lemma conducts_readyz: "conducts cap E C 0 20 (readyz E C)"
  unfolding readyz_def Let_def by (rule conducts_intro | simp)+


lemma conducts_admitEnforced:
  "max 1 (dc_MaxActive d) \<le> int (cap (merchantOf E, dc_DomainKey d)) \<Longrightarrow> i \<le> 5 \<Longrightarrow>
   conducts cap E C i 12 (admitEnforced E C cust re ac d ctl rq)"
  unfolding admitEnforced_def admitAnswer_def admitHeld_def Let_def
  by (rule conducts_intro conducts_acquire | simp add: admitRequest_def acquireDefaults_def max_def split: if_splits)+

lemma conducts_admitDecided [conducts_intro]: "i \<le> 5 \<Longrightarrow> conducts cap E C i 12 (admitDecided E C cust re ac path ev rq)"
  unfolding admitDecided_def admitDryRun_def Let_def
  by (rule conducts_read, clarsimp, safe, (rule conducts_intro conducts_admitEnforced fits_decision [OF _ refl] | assumption | simp)+)

lemma conducts_admit [conducts_intro]: "i \<le> 5 \<Longrightarrow> conducts cap E C i 12 (admit E C method path ev r rq)"
  unfolding admit_def Let_def by (rule conducts_intro | simp)+

lemma conducts_authorize: "conducts cap E C 0 20 (authorize E C r)"
  unfolding authorize_def by (rule conducts_intro | simp)+

lemma conducts_introspect: "conducts cap E C 0 20 (introspect E C r)"
  unfolding introspect_def introspectAnswer_def Let_def by (rule conducts_intro | simp)+

lemma conducts_ProxyHandler: "conducts cap E C 0 20 (ProxyHandler E C r)"
  unfolding ProxyHandler_def Let_def
  by (rule conducts_intro conducts_locally | simp split: prod.split option.split)+

lemma conducts_requireRole [conducts_intro]:
  "i \<le> j \<Longrightarrow> (\<And>a. conducts cap E C i j (next a)) \<Longrightarrow> conducts cap E C i j (requireRole E' C r need next)"
  unfolding requireRole_def Let_def by (rule conducts_intro | simp)+

lemma conducts_writeAdminAudit [conducts_intro]:
  "i \<le> k \<Longrightarrow> conducts cap E C k j next \<Longrightarrow> conducts cap E C i j (writeAdminAudit E' (now C k) rnd r actor ty re attrs next)"
  unfolding writeAdminAudit_def by (rule conducts_intro | simp)+

lemma conducts_admin:
  "conducts cap E C 0 20 (adminMintToken E C r)" "conducts cap E C 0 20 (getPolicy E C r)"
  "conducts cap E C 0 20 (policyHistory E C r)" "conducts cap E C 0 20 (adminGetControls E C r)"
  "conducts cap E C 0 20 (adminRevoke E C x r)" "conducts cap E C 0 20 (adminDrain E C r)"
  "conducts cap E C 0 20 (adminLastCheck E C r)"
  unfolding adminMintToken_def getPolicy_def policyHistory_def adminGetControls_def adminRevoke_def adminDrain_def
    adminLastCheck_def Let_def
  by (rule conducts_intro | simp)+

lemma conducts_adminPutControls: "conducts cap E C 0 20 (adminPutControls E C r)"
  unfolding adminPutControls_def by (rule conducts_intro conducts_locally | simp)+

lemma conducts_putPolicy:
  "(\<And>c. CompileYAML (gw_unmarshal E) raw = Inr c \<Longrightarrow> fits cap E c) \<Longrightarrow> conducts cap E C 0 20 (putPolicy E detail C raw r)"
  unfolding putPolicy_def Let_def by (rule conducts_intro conducts_locally | simp)+

text \<open>\<open>RevokeActive\<close> makes a transaction per execution, so that its end depends on their number.\<close>

lemma revokeEach_run:
  assumes "mono clk"
  shows "ends (revokeEach clk (Suc i) m rq re es n) d d' \<Longrightarrow> store_run cap (clk i) d (clk (i + length es)) d'"
proof (induction es arbitrary: i n d)
  case Nil
  then show ?case by (auto intro: store_run.here)
next
  case (Cons e es)
  from Cons.prems [unfolded revokeEach.simps] obtain r :: "store_error + execution" and t where t: "ends (Revoke (clk (Suc i)) (clk (Suc i)) m (e_ID e) '''' rq re) d t"
    and rest: "ends (revokeEach clk (Suc (Suc i)) m rq re es (case r of Inr _ \<Rightarrow> n + 1 | Inl _ \<Rightarrow> n)) t d'"
    by (rule ends_attemptE)
  have "store_run cap (clk i) d (clk (Suc i)) t"
    using pg.revoke_step [OF t, of cap] monoD [OF assms, of i "Suc i"] by (intro store_run_step) auto
  with Cons.IH [OF rest] show ?case by (simp add: store_run_trans)
qed

lemma RevokeActive_run:
  assumes mono: "mono clk" and "ends (RevokeActive clk m rq re au) d d'"
  shows "\<exists>j. store_run cap (clk 0) d (clk j) d'"
proof -
  have keep: "keeps (\<lambda>s. s) (ListActive (clk 0) m '''' 10000)"
    unfolding ListActive_def Let_def by (intro frame_intro)
  let ?reason = "if re = '''' then ''emergency'' else re"
  let ?rest = "\<lambda>es. andThen (revokeEach clk 1 m rq ?reason es 0) (\<lambda>n.
      attempt (writeAdminAction (clk (Suc (length es))) m ''EMERGENCY_REVOKE'' ?reason rq au [(''count'', JNum n)])
        (\<lambda>w. ret (n, case w of Inl err \<Rightarrow> Some err | Inr _ \<Rightarrow> None)))"
  from read_attempt [OF assms(2) [unfolded RevokeActive_def Let_def] keep] obtain r where
    r: "ends (case r of Inl err \<Rightarrow> ret (0, Some err) | Inr es \<Rightarrow> ?rest es) d d'" by blast
  have "d' = d \<or> (\<exists>es. ends (?rest es) d d')" using r by (cases r) auto
  then consider "d' = d" | es where "ends (?rest es) d d'" by blast
  then show ?thesis
  proof cases
    case 1
    then show ?thesis using store_run.here by blast
  next
    case (2 es)
    then show ?thesis
    proof (cases rule: ends_andThenE)
      case 1
      then show ?thesis using revokeEach_run [OF mono, of 0] ends_fails by fastforce
    next
      case (2 n t)
      have a: "store_run cap (clk 0) d (clk (length es)) t"
        using revokeEach_run [OF mono, of 0] runs_ends [OF 2(1)] by fastforce
      from 2(2) have "ends (writeAdminAction (clk (Suc (length es))) m ''EMERGENCY_REVOKE'' ?reason rq au [(''count'', JNum n)]) t d'"
        by (elim ends_attemptE) simp
      then have "store_step cap (clk (Suc (length es))) t d'"
        unfolding writeAdminAction_def Let_def by (rule store_step.audit)
      then have "store_run cap (clk (length es)) t (clk (Suc (length es))) d'"
        using monoD [OF mono, of "length es"] by (intro store_run_step) auto
      with a show ?thesis using store_run_trans by blast
    qed
  qed
qed

lemma conducts_revokeAll:
  assumes "mono (now C)" "fits cap E (sv_compiled s)" "ends (adminRevokeAll E C r) s s'"
  shows "fits cap E (sv_compiled s') \<and> (\<exists>j. store_run cap (now C 0) (sv_db s) (now C j) (sv_db s'))"
proof -
  let ?clk = "\<lambda>i. now C (2 + i)"
  have mono: "mono ?clk" using assms(1) by (simp add: mono_def)
  have start: "store_run cap (now C 0) d (?clk 0) d" for d
    using monoD [OF assms(1), of 0 2] by (auto intro: store_run_idle)
  have "s' = s \<or> (\<exists>rq au t. ends (onDB (RevokeActive ?clk (merchantOf E) rq ''emergency'' au)) s t
      \<and> sv_db s' = sv_db t \<and> sv_compiled s' = sv_compiled t)"
    using assms(3) unfolding adminRevokeAll_def requireRole_def Let_def
    by (auto elim!: ends_andThenE split: if_splits option.splits dest!: ends_fails runs_ends ends_locally) blast+
  then show ?thesis
  proof
    assume "s' = s"
    then show ?thesis using assms(2) store_run.here by blast
  next
    assume "\<exists>rq au t. ends (onDB (RevokeActive ?clk (merchantOf E) rq ''emergency'' au)) s t
      \<and> sv_db s' = sv_db t \<and> sv_compiled s' = sv_compiled t"
    then obtain rq au d where d: "ends (RevokeActive ?clk (merchantOf E) rq ''emergency'' au) (sv_db s) d"
      "sv_db s' = d" "sv_compiled s' = sv_compiled s" by (auto dest!: ends_onDB)
    from RevokeActive_run [OF mono d(1), of cap] obtain j where "store_run cap (?clk 0) (sv_db s) (?clk j) d" by blast
    with start have "store_run cap (now C 0) (sv_db s) (?clk j) d" by (rule store_run_trans [rotated])
    with assms(2) d show ?thesis by auto
  qed
qed

theorem serveHTTP_conducts:
  assumes "mono (now C)" "fits cap E (sv_compiled s)" "ends (serveHTTP E detail C ep r) s s'"
    and put: "\<And>raw c. ep = PutPolicyText raw \<Longrightarrow> CompileYAML (gw_unmarshal E) raw = Inr c \<Longrightarrow> fits cap E c"
  shows "fits cap E (sv_compiled s') \<and> (\<exists>j. store_run cap (now C 0) (sv_db s) (now C j) (sv_db s'))"
proof (cases "ep = PostRevokeAll")
  case True
  with assms show ?thesis unfolding serveHTTP_def Let_def by (auto dest: conducts_revokeAll)
next
  case False
  have "conducts cap E C 0 20 (serveHTTP E detail C ep r)"
    using False put unfolding serveHTTP_def Let_def healthz_def
    by (cases ep) (auto intro!: conducts_createSession conducts_logoutSession conducts_refreshSession conducts_sessionAuth
      conducts_acquire_handler conducts_renew conducts_release conducts_handoff conducts_revoke conducts_getExecution
      conducts_readyz conducts_authorize conducts_introspect conducts_ProxyHandler conducts_admin conducts_adminPutControls
      conducts_putPolicy conducts_ret)
  from conductsD [OF this assms(1-3)] show ?thesis by blast
qed

section \<open>The life of a gateway\<close>

text \<open>\<open>New\<close>: the server before the controls and the policy are loaded, and the start.\<close>

definition blankServer :: "gateway \<Rightarrow> db \<Rightarrow> server" where
  "blankServer E d =
     (let c = gw_cfg E; l = New (cf_MaxInFlight c) (cf_RatePerSec c) in
      \<lparr>sv_db = d, sv_cache = NewBusyCache 50, sv_jwks = \<lparr>jc_keys = Map.empty, jc_fetched = Map.empty, jc_calls = 0\<rparr>,
       sv_rates = newRateGuards c, sv_limit = (if cf_Burst c > 0 then l\<lparr>pe_Burst := cf_Burst c\<rparr> else l), sv_eaf = newEAFAcc,
       sv_compiled = compiledDefault (cf_MerchantID c), sv_policyVer = 0, sv_controls = envControls c\<rparr>)"

definition boot :: "gateway \<Rightarrow> unit handler" where
  "boot E = andThen (initControls E) (\<lambda>_. loadPolicy E)"

text \<open>
  A gateway starts on a store in use, serves requests, reloads the policy when it is told, while others
  use the same store. The administrator only activates policies that fit the capacities.
\<close>

inductive gateway_reach :: "(domain \<Rightarrow> nat) \<Rightarrow> gateway \<Rightarrow> (policy_error \<Rightarrow> string) \<Rightarrow> time \<Rightarrow> server \<Rightarrow> bool"
  for cap E detail where
  started: "\<lbrakk>reachable cap t d; ends (boot E) (blankServer E d) s; fits cap E (sv_compiled s)\<rbrakk> \<Longrightarrow> gateway_reach cap E detail t s"
| served: "\<lbrakk>gateway_reach cap E detail t s; mono (now C); t \<le> now C 0; \<forall>j. now C j \<le> t';
    \<forall>raw c. ep = PutPolicyText raw \<longrightarrow> CompileYAML (gw_unmarshal E) raw = Inr c \<longrightarrow> fits cap E c;
    ends (serveHTTP E detail C ep r) s s'\<rbrakk> \<Longrightarrow> gateway_reach cap E detail t' s'"
| reloaded: "\<lbrakk>gateway_reach cap E detail t s; ends (applyStorePolicy E) s s'; fits cap E (sv_compiled s')\<rbrakk>
    \<Longrightarrow> gateway_reach cap E detail t s'"
| others: "\<lbrakk>gateway_reach cap E detail t s; t \<le> t'; store_step cap t' (sv_db s) d\<rbrakk> \<Longrightarrow> gateway_reach cap E detail t' (s\<lparr>sv_db := d\<rparr>)"

lemma keeps_locally [frame_intro]: "(\<And>s. v (snd (f s)) = v s) \<Longrightarrow> keeps v (locally f)"
  unfolding keeps_def by (auto dest!: ends_locally)

lemma keeps_onDB: "keeps (\<lambda>d. d) m \<Longrightarrow> keeps sv_db (onDB m)"
  unfolding keeps_def by (auto dest!: ends_onDB)

lemma keeps_ActivePolicy [frame_intro]: "keeps v (ActivePolicy m)"
  unfolding ActivePolicy_def by (intro frame_intro)

lemma keeps_GetControls [frame_intro]: "keeps v (GetControls m)"
  unfolding GetControls_def by (intro frame_intro)

lemma keeps_boot: "keeps sv_db (boot E)"
  unfolding boot_def initControls_def loadPolicy_def Let_def
  by (intro frame_intro keeps_onDB) (auto split: sum.split bool.split)

lemma keeps_applyStorePolicy: "keeps sv_db (applyStorePolicy E)"
  unfolding applyStorePolicy_def by (intro frame_intro keeps_onDB) (auto split: sum.split)

lemma reachable_later: "reachable cap t d \<Longrightarrow> t \<le> t' \<Longrightarrow> reachable cap t' d"
  by (erule timed_reach.later) (simp_all add: store_step_idle)

theorem gateway_store:
  "gateway_reach cap E detail t s \<Longrightarrow> fits cap E (sv_compiled s) \<and> reachable cap t (sv_db s)"
proof (induction rule: gateway_reach.induct)
  case (started t d s)
  then show ?case using keepsD [OF keeps_boot started(2)] by (simp add: blankServer_def Let_def)
next
  case (served t s C t' ep r s')
  from serveHTTP_conducts [OF served(2) _ served(6), of cap] served obtain j
    where f: "fits cap E (sv_compiled s')" and j: "store_run cap (now C 0) (sv_db s) (now C j) (sv_db s')" by blast
  have "reachable cap (now C 0) (sv_db s)"
    using served by (blast intro: reachable_later)
  from store_run_reachable [OF j this] have "reachable cap (now C j) (sv_db s')" .
  moreover have "now C j \<le> t'" using served by blast
  ultimately have "reachable cap t' (sv_db s')" by (rule reachable_later)
  with f show ?case by blast
next
  case (reloaded t s s')
  then show ?case using keepsD [OF keeps_applyStorePolicy reloaded(2)] by simp
next
  case (others t s t' d)
  then show ?case by (auto intro: timed_reach.later)
qed

end
