(* ===== verification/Gateway_Demo.thy ===== *)
theory Gateway_Demo
  imports Gateway_Steps Policy_Props
begin

text \<open>
  A small gateway on which the theorems about gateways are tried: one controlled route, identity from a
  header of the trusted edge, the default policy (one execution per customer and event).
\<close>

definition gd_identity :: Identity where
  "gd_identity = \<lparr>mi_Extractor = ''header'', mi_Source = '''', mi_Cookie = '''', mi_Header = ''X-Customer'', mi_PrincipalHeader = '''',
     mi_SubjectClaim = '''', mi_Claim = '''', mi_HMACSecretEnv = '''', mi_IntrospectURL = '''', mi_JWKSURL = '''', mi_Issuer = '''',
     mi_Audience = '''', mi_AllowUnsignedHeader = False\<rparr>"

definition gd_route :: Route where
  "gd_route = \<lparr>rt_Match = \<lparr>mm_Method = ''POST'', mm_Path = ''/hold''\<rparr>, rt_Action = ''hold'', rt_Resource = ''event:ars-che'',
     rt_ResourceFrom = '''', rt_ResourcePrefix = ''''\<rparr>"

definition gd_profile :: Profile where
  "gd_profile = \<lparr>pf_MerchantID = ''m'', pf_Name = ''M'', pf_ProfileName = ''demo'', pf_Assumptions = '''', pf_Unmatched = ''deny'',
     pf_Mode = '''', pf_Identity = gd_identity, pf_Routes = [gd_route],
     pf_Policy = \<lparr>mp_Version = 1, mp_Defaults = \<lparr>df_LeaseTTL = '''', df_MaxLifetime = '''', df_SessionTTL = '''', df_PrincipalTypes = []\<rparr>,
       mp_Domains = [], mp_Fallback = '''', mp_RuleName = '''', mp_MaxActive = 0, mp_LeaseTTL = '''', mp_MaxLifetime = '''',
       mp_Waiting = \<lparr>wt_Mode = '''', wt_MaxWaiters = 0\<rparr>\<rparr>,
     pf_Resources = []\<rparr>"

definition gd_config :: Config where
  "gd_config = (Load (\<lambda>_. None) (\<lambda>_. ''''))\<lparr>cf_MerchantID := ''m'', cf_Mode := ''enforce'', cf_Enforcement := True,
     cf_EnforcePercent := 100, cf_FailClosed := True, cf_QueueEnabled := False, cf_SessionTTL := 60 * minute,
     cf_HeartbeatInterval := 20 * second\<rparr>"

definition gd_world :: world where
  "gd_world = \<lparr>wd_jwt = (table_jwt [])\<lparr>jw_sign := (\<lambda>_ _ _ _. Some ''tok'')\<rparr>, wd_parseKeys = (\<lambda>_ _ _ _. None), wd_hmac = (\<lambda>_ _. ''''),
     wd_fetch = (\<lambda>_ _. None), wd_introspect = (\<lambda>_ _ _. None)\<rparr>"

definition gd :: gateway where
  "gd = \<lparr>gw_cfg = gd_config, gw_signer = \<lparr>sg_KID = ''kid'', sg_MerchantID = ''m'', sg_Private = ''sk'', sg_Public = ''pk''\<rparr>,
     gw_profile = gd_profile, gw_world = gd_world, gw_nfkc = nfkc_fragment, gw_unmarshal = (\<lambda>_. None), gw_authority = (\<lambda>_. True),
     gw_origin = (\<lambda>_. writeErr [] StatusOK ''''), gw_hash = (\<lambda>_. '''')\<rparr>"

definition gd_call :: call where
  "gd_call = \<lparr>now = (\<lambda>_. 0), draw = (\<lambda>i. replicate i (CHR ''r'')), left = (\<lambda>_. False), probe = (\<lambda>_. '''')\<rparr>"

definition gd_request :: request where
  "gd_request = \<lparr>rq_Method = ''POST'', rq_Path = ''/hold'', rq_Headers = [(''X-Customer'', ''alice'')], rq_Cookies = [],
     rq_RemoteAddr = '''', rq_ReqID = ''q'', rq_Body = None\<rparr>"

definition gd_server :: server where
  "gd_server = (blankServer gd empty_db)\<lparr>sv_controls := envControls gd_config, sv_compiled := default_compiled ''m''\<rparr>"

section \<open>The start\<close>

lemma gd_simps [simp]:
  "gw_cfg gd = gd_config" "gw_profile gd = gd_profile" "gw_world gd = gd_world" "gw_nfkc gd = nfkc_fragment" "cf_MerchantID gd_config = ''m''"
  by (simp_all add: gd_def gd_config_def)

lemma gd_document: "PolicyDocument gd_profile = DefaultDocument ''m''"
  by (simp add: gd_profile_def PolicyDocument_def DefaultDocument_def Let_def)

lemma gd_boot: "boot gd (blankServer gd empty_db) [] = (Inr (), gd_server, [])"
  by (simp add: boot_def initControls_def loadPolicy_def gd_document compile_default onDB_def GetControls_def ActivePolicy_def
      locally_def dbop_simps empty_db_def wrapStore_def gd_server_def blankServer_def Let_def)


lemma gd_fits: "fits (\<lambda>_. 1) gd (sv_compiled gd_server)"
  by (rule fits_uniform) (auto simp: gd_server_def default_compiled_def DefaultDocument_def Rule0_def)

lemma gd_reach: "gateway_reach (\<lambda>_. 1) gd detail 0 gd_server"
proof (rule gateway_reach.started)
  show "reachable (\<lambda>_. 1) 0 empty_db" by (rule timed_reach.start)
  show "ends (boot gd) (blankServer gd empty_db) gd_server" by (rule endsI) (rule gd_boot)
qed (rule gd_fits)

section \<open>A request\<close>

lemma gd_canonical: "Canonical nfkc_fragment ''event:ars-che'' = Inr ''event:ars-che''"
proof -
  have low: "map lower_byte ''event:ars-che'' = ''event:ars-che''" by code_simp
  have "strictID ''event:ars-che''" by code_simp
  then have id: "resource_id (map lower_byte ''event:ars-che'')" by (simp only: strictID_iff low)
  have dots: "\<not> Contains (encode_runes [] @ ''event:ars-che'' @ encode_runes []) ''..''" by code_simp
  from Canonical_cosmetic [OF nfkc_fragment_law id _ _ dots, unfolded low] show ?thesis by (simp add: encode_runes_def)
qed

lemma gd_matched: "MatchRoute gd_profile ''POST'' ''/hold'' = Some (gd_route, [])"
  by (simp add: gd_profile_def gd_route_def MatchRoute_def matchPath_def TrimSuffix_def HasSuffix_def Let_def)

lemma gd_hold: "Controlled gd_route" "rt_Action gd_route = ''hold''"
  by (simp_all add: Controlled_def gd_route_def)

lemma gd_customer:
  "ExtractInput gd_world t (identityInput gd gd_request True) jc = (Some \<lparr>cu_CustomerID = ''alice'', cu_PrincipalID = '''', cu_Anchors = []\<rparr>, jc)"
proof -
  have "TrimSpace ''header'' = ''header''" and a: "TrimSpace ''alice'' = ''alice''"
    by (subst TrimSpace_ascii; simp add: IsSpace_def)+
  moreover have "ToLower ''header'' = ''header''" by (subst ToLower_ascii) (simp_all add: lower_byte_def)
  ultimately have h: "ToLower (TrimSpace ''header'') = ''header''" by simp
  have hd: "hdrGet [(''X-Customer'', ''alice'')] ''X-Customer'' = ''alice''" by code_simp
  show ?thesis
    by (simp add: ExtractInput_def extractorMode_def identityInput_def gd_profile_def gd_identity_def fromHeader_def h a
        headerValue_def hd gd_request_def Let_def)
qed


lemma gd_controls: "sv_controls gd_server = DefaultControls\<lparr>c_EnforcePercent := 100, c_Enforcement := True, c_QueueEnabled := False, c_FailClosed := True\<rparr>"
proof -
  have "\<not> stringsEqual ''enforce'' ModeDryRun" by code_simp
  then show ?thesis by (simp add: gd_server_def envControls_def FromEnv_def gd_config_def ClampPercent_def Let_def)
qed

lemma gd_evaluated:
  "evaluate gd gd_server ''m'' ''alice'' ''agent'' ''event:ars-che'' ''hold'' [] = Decision0\<lparr>dc_RuleName := DefaultRuleName,
      dc_DomainKey := DomainKey nfkc_fragment ''m'' DefaultRuleName ''alice'' ''event:ars-che'',
      dc_MaxActive := 1, dc_TTL := 60 * second, dc_MaxLifetime := 15 * minute, dc_Precedence := [''browser'', ''agent'']\<rparr>"
  unfolding evaluate_def gd_server_def
  by (auto simp: gd_canonical Evaluate_def default_compiled_def DefaultDocument_def Rule0_def Match0_def matchRule_def ControlNone_def
        domainKey_def dimValue_def granted_def DomainKey_def Decision0_def BudgetMax_def Budget0_def Let_def)

lemma Acquire_first:
  assumes "executions d = []" "domains d = Map.empty"
    and "q_MerchantID req \<noteq> ''''" "q_DomainKey req \<noteq> ''''" "q_CustomerID req \<noteq> ''''" "p_ID (q_Principal req) \<noteq> ''''"
  shows "\<exists>e d'. Acquire t rnd req d [] = (Inr \<lparr>r_Status = StatusGranted, r_Execution = Some e, r_Busy = None, r_Queue = None, r_Reason = ''''\<rparr>, d', [])
    \<and> budgets d' = budgets d"
  using assms
  by (simp add: Acquire_def acquireBody_def insertDomain_def lockDomain_def grantNew_def bumpFence_def insertExecution_def insertAudit_def
      dbop_simps run_stmt_def Let_def max_bigint_def acquireDefaults_def)

lemma admitHeld_first:
  assumes "budgets (sv_db s) = Map.empty" "dc_MaxOps d = 0"
  shows "\<exists>res s'. admitHeld gd gd_call cust re ac d h rq acq e s [] = (Inr res, s', []) \<and> ad_allow res"
proof -
  have sign: "SignExecution gd_world_jwt t rnd sg e = Some ''tok''" if "gd_world_jwt = wd_jwt gd_world" for t rnd sg gd_world_jwt
    using that by (simp add: SignExecution_def gd_world_def)
  show ?thesis
    using assms by (simp add: admitHeld_def sign dbop_simps eafStep_def locally_def ignoring_def onDB_def EnsureBudget_def ConsumeOp_def
        run_stmt_def WriteAudit_def WriteActorAudit_def insertAudit_def letThrough_def max_int4_def Let_def)
qed

lemma gd_admitted:
  "\<exists>res s'. admit gd gd_call ''POST'' ''/hold'' '''' gd_request ''q'' gd_server [] = (Inr res, s', []) \<and> ad_allow res"
proof -
  let ?cust = "\<lparr>cu_CustomerID = ''alice'', cu_PrincipalID = '''', cu_Anchors = []\<rparr>"
  have k: "DomainKey nfkc_fragment ''m'' DefaultRuleName ''alice'' ''event:ars-che'' \<noteq> ''''"
    by (simp add: DomainKey_def gd_canonical MustCanonical_def)
  have n: "\<not> stringsEqual ModeEnforce ModeDryRun" by code_simp
  have ramp: "ShouldEnforce (sv_controls gd_server) x" "EffectivePercent (sv_controls gd_server) = 100" for x
    by (simp_all add: gd_controls ShouldEnforce_def EffectivePercent_def DefaultControls_def n ClampPercent_def scopeMatch_def scopeEmpty_def emptyScope_def InRamp_def Let_def)
  have ext: "extractCustomer gd t (identityInput gd gd_request True) gd_server [] = (Inr (Some ?cust), gd_server, [])" for t
    by (simp add: extractCustomer_def locally_def gd_customer)
  have res: "ResourceFor nfkc_fragment gd_route [] '''' = ''event:ars-che''"
    by (simp add: ResourceFor_def gd_route_def MustCanonical_def gd_canonical)
  have can: "canonicalizeResource gd ''event:ars-che'' = Inr ''event:ars-che''"
    by (simp add: canonicalizeResource_def ProfileCatalogue_def CatalogueCanonical_def gd_profile_def gd_canonical)
  define d where "d = applyControls (sv_controls gd_server) (evaluate gd gd_server ''m'' ''alice'' ''agent'' ''event:ars-che'' ''hold'' []) ''hold''"
  have d: "\<not> dc_ControlNone d" "\<not> dc_Denied d" "dc_DomainKey d \<noteq> ''''" "dc_MaxActive d = 1" "dc_MaxOps d = 0" "dc_MaxWaiters d = 0"
    "dc_TTL d = 60 * second" "dc_MaxLifetime d = 15 * minute"
    using k by (simp_all add: d_def gd_evaluated applyControls_def gd_controls DefaultControls_def EffectiveWaiters_def ActionDisabled_def Decision0_def)
  have e: "\<exists>res s'. admitEnforced gd gd_call ?cust ''event:ars-che'' ''hold'' d (sv_controls gd_server) ''q'' gd_server [] = (Inr res, s', []) \<and> ad_allow res"
  proof -
    let ?sess = "admitSession gd gd_call ?cust"
    let ?req = "admitRequest gd ?sess ''event:ars-che'' ''hold'' d ''q''"
    let ?d1 = "empty_db\<lparr>sessions := [?sess\<lparr>s_RevokedAt := None, s_Version := 1\<rparr>]\<rparr>"
    have ins: "onDB (InsertSession ?sess) gd_server [] = (Inr (), gd_server\<lparr>sv_db := ?d1\<rparr>, [])"
      by (simp add: onDB_def InsertSession_def dbop_simps run_stmt_def gd_server_def blankServer_def empty_db_def Let_def)
    have "\<exists>e d'. Acquire t rnd ?req ?d1 [] = (Inr \<lparr>r_Status = StatusGranted, r_Execution = Some e, r_Busy = None, r_Queue = None, r_Reason = ''''\<rparr>, d', [])
        \<and> budgets d' = budgets ?d1" for t rnd
      by (rule Acquire_first) (use d(3) in \<open>simp_all add: admitRequest_def admitSession_def empty_db_def unaware_def\<close>)
    then obtain e d' where acq: "Acquire (now gd_call 8) (draw gd_call 3) ?req ?d1 [] =
        (Inr \<lparr>r_Status = StatusGranted, r_Execution = Some e, r_Busy = None, r_Queue = None, r_Reason = ''''\<rparr>, d', [])"
      and b: "budgets d' = Map.empty" by (metis (no_types, lifting) empty_db_def db.simps db.update_convs)
    have "\<exists>c. onLeases (CacheAcquire (now gd_call 7) (now gd_call 9) (Acquire (now gd_call 8) (draw gd_call 3) ?req) ?req) (gd_server\<lparr>sv_db := ?d1\<rparr>) [] =
        (Inr \<lparr>r_Status = StatusGranted, r_Execution = Some e, r_Busy = None, r_Queue = None, r_Reason = ''''\<rparr>, gd_server\<lparr>sv_cache := c, sv_db := d'\<rparr>, [])"
      by (simp add: onLeases_def CacheAcquire_def acq gd_server_def blankServer_def NewBusyCache_def localBusy_def lookup_def Let_def)
    then obtain c where acq': "onLeases (CacheAcquire (now gd_call 7) (now gd_call 9) (Acquire (now gd_call 8) (draw gd_call 3) ?req) ?req) (gd_server\<lparr>sv_db := ?d1\<rparr>) [] =
        (Inr \<lparr>r_Status = StatusGranted, r_Execution = Some e, r_Busy = None, r_Queue = None, r_Reason = ''''\<rparr>, gd_server\<lparr>sv_cache := c, sv_db := d'\<rparr>, [])" ..
    have rec: "onDB (RecordDecision t m ev) (gd_server\<lparr>sv_cache := c, sv_db := d'\<rparr>) [] =
        (Inr (), gd_server\<lparr>sv_cache := c, sv_db := d'\<lparr>dry_events := dry_events d' @ [\<lparr>der_MerchantID = m, der_At = t, der_Event = ev\<rparr>]\<rparr>\<rparr>, [])" for t m ev
      by (simp add: onDB_def RecordDecision_def insertDryEvent_def dbop_simps)
    show ?thesis
      by (simp only: admitEnforced_def Let_def attempt_eval ins acq' prod.case sum.case recordAcquire_def acquireVerdict_def recordDecision_def
          ignoring_def rec admitAnswer_def acquire_result.simps acquire_status.case option.case, rule admitHeld_first) (use b d in simp_all)
  qed
  have "\<exists>res s'. admitDecided gd gd_call ?cust ''event:ars-che'' ''hold'' ''/hold'' '''' ''q'' gd_server [] = (Inr res, s', []) \<and> ad_allow res"
    using e d by (simp add: admitDecided_def reading_def locally_def dbop_simps d_def [symmetric] ramp)
  then show ?thesis
    by (simp add: admit_def gd_matched dbop_simps ext res can gd_hold firstNonEmpty_def)
qed

end
