(* ===== verification/Gateway_Props.thy ===== *)
theory Gateway_Props
  imports Gateway_Demo Acquire_Props
begin

text \<open>
  Properties of the gateway as a whole: what the store looks like whatever requests it has served, what a
  request had to hold when it was let through to the origin, and what a configuration that passes
  the checks of production guarantees.
\<close>

section \<open>The store behind a gateway\<close>



section \<open>Runs of handlers\<close>

lemma runs_reading: "runs (reading f) s a s' \<Longrightarrow> a = f s \<and> s' = s"
  by (auto simp: runs_def reading_def locally_def)

lemma runs_onLeases: "runs (onLeases m) s a s' \<Longrightarrow> \<exists>c d. s' = s\<lparr>sv_cache := c, sv_db := d\<rparr> \<and> runs m (sv_cache s, sv_db s) a (c, d)"
  by (auto simp: runs_def onLeases_def case_prod_beta) (metis prod.collapse)

text \<open>The lease tables and the controls, which most of a request leaves alone.\<close>

definition lease_rows :: "server \<Rightarrow> (domain \<rightharpoonup> int) \<times> execution list \<times> waiter list" where
  "lease_rows s = lease_view (sv_db s)"

lemma keeps_view_onDB [frame_intro]: "keeps lease_view m \<Longrightarrow> keeps lease_rows (onDB m)"
  unfolding keeps_def lease_rows_def by (auto dest!: ends_onDB)

lemma keeps_eafStep [frame_intro]: "keeps lease_rows (eafStep r c x)"
  unfolding eafStep_def by (intro frame_intro) (simp add: lease_rows_def)

lemma keeps_ignoring [frame_intro]: "keeps v m \<Longrightarrow> keeps v k \<Longrightarrow> keeps v (ignoring m k)"
  unfolding ignoring_def by (intro frame_intro)

lemma runs_ignoring:
  assumes "runs (ignoring m k) s a s'" "keeps v m"
  obtains s1 where "v s1 = v s" "runs k s1 a s'"
  using assms(1) unfolding ignoring_def
proof (cases rule: runs_attemptE)
  case (ok x t)
  then show ?thesis using that keepsD [OF assms(2) runs_ends] by blast
next
  case (err e t)
  then show ?thesis using that keepsD [OF assms(2) ends_fails] by blast
qed

lemmas keeps_store_views [frame_intro] = keeps_InsertSession keeps_EnsureBudget keeps_ConsumeOp keeps_RecordDecision

lemma keeps_WriteAudit [frame_intro]: "keeps lease_view (WriteAudit t m ty re rq attrs)"
  unfolding WriteAudit_def by (rule keeps_WriteActorAudit)

section \<open>Admission\<close>

lemma keeps_admitHeld [frame_intro]: "keeps lease_rows (admitHeld E C cust re ac d h rq acq e)"
  unfolding admitHeld_def Let_def by (intro frame_intro)

text \<open>What the headers of an admitted request say of its execution.\<close>

definition vouches :: "gateway \<Rightarrow> call \<Rightarrow> execution \<Rightarrow> admitResult \<Rightarrow> bool" where
  "vouches E C e res \<longleftrightarrow> ad_exeID res = e_ID e
     \<and> hdrGet (ad_headers res) ''X-Bruiser-Fence'' = FormatInt (e_Fence e)
     \<and> SignExecution (wd_jwt (gw_world E)) (now C 11) (draw C 4) (gw_signer E) e = Some (hdrGet (ad_headers res) ''X-Bruiser-Execution'')"

lemma header_names [simp]:
  "CanonicalHeaderKey ''X-Bruiser-Customer'' = ''X-Bruiser-Customer''"
  "CanonicalHeaderKey ''X-Bruiser-Fence'' = ''X-Bruiser-Fence''"
  "CanonicalHeaderKey ''X-Bruiser-Execution'' = ''X-Bruiser-Execution''"
  by code_simp+

lemma admitHeld_allow:
  assumes "runs (admitHeld E C cust re ac d h rq acq e) s res s'" "ad_allow res"
  shows "vouches E C e res"
  using assms unfolding admitHeld_def Let_def ignoring_def
  by (auto elim!: runs_andThenE runs_attemptE simp: refused_def letThrough_def vouches_def hdrGet_hdrSet split: option.splits)

lemma admitAnswer_allow:
  assumes "runs (admitAnswer E C cust re ac d h rq acq) s res s'" "ad_allow res"
  shows "\<exists>e. r_Execution acq = Some e \<and> r_Status acq \<in> {StatusGranted, StatusAlreadyHeld} \<and> vouches E C e res
    \<and> lease_rows s' = lease_rows s"
proof -
  consider e where "r_Execution acq = Some e" "r_Status acq \<in> {StatusGranted, StatusAlreadyHeld}"
      "runs (admitHeld E C cust re ac d h rq acq e) s res s'"
    using assms unfolding admitAnswer_def Let_def
    by (auto elim!: runs_andThenE simp: refused_def split: acquire_status.splits option.splits)
  then show ?thesis
    using admitHeld_allow [OF _ assms(2)] keepsD [OF keeps_admitHeld runs_ends] by cases metis
qed


lemma Acquire_held:
  assumes run: "runs (Acquire t rnd req) d r d'" and ok: "rows_ok d"
    and e: "r_Execution r = Some e" "r_Status r \<in> {StatusGranted, StatusAlreadyHeld}"
  shows "e \<in> set (executions d') \<and> e_State e = StateActive \<and> dom_of e = (q_MerchantID req, q_DomainKey req)
    \<and> e_Principal e = q_Principal req \<and> e_SessionID e = q_SessionID req"
proof -
  let ?req = "acquireDefaults req"
  let ?d = "opened (q_MerchantID ?req) (q_DomainKey ?req) d"
  have ok': "rows_ok ?d" using lease_steps_rows_ok [OF opened_steps ok] .
  show ?thesis
    using runs_Acquire [OF run] refl
  proof (cases rule: runs_acquireBody)
    case (held a)
    then have a: "a \<in> set (executions ?d)" "e_State a = StateActive" "dom_of a = (q_MerchantID ?req, q_DomainKey ?req)"
      by (auto simp: live_def IsActive_def)
    from runs_resumeHeld [OF held(3) ok' a(1,2)] e(1) have
      "e = extended t (q_TTL ?req) (q_SessionID ?req) a"
      "executions d' = upd (e_ID a) (extended t (q_TTL ?req) (q_SessionID ?req)) (executions ?d)" by auto
    then show ?thesis using a held(2) by (auto simp: update_where_def extended_def acquireDefaults_def dom_of_def)
  next
    case (full h rest)
    then show ?thesis using e by (auto split: if_splits elim!: runs_enqueueWaiter dest!: runs_busyResult)
  next
    case free
    from free(3) show ?thesis
      by (cases rule: runs_grantNew) (use e(1) in \<open>auto simp: grantedExecution_def dom_of_def acquireDefaults_def\<close>)
  qed
qed

lemma CacheAcquire_held:
  assumes "runs (CacheAcquire t t' (Acquire u rnd req) req) (c, d) r (c', d')" "r_Status r \<in> {StatusGranted, StatusAlreadyHeld}"
  shows "runs (Acquire u rnd req) d r d'"
proof -
  from assms(1) obtain fs fs' where "CacheAcquire t t' (Acquire u rnd req) req (c, d) fs = (Inr r, (c', d'), fs')"
    by (auto simp: runs_def)
  then show ?thesis
    using assms(2) by (cases rule: CacheAcquire_cases) (auto simp: runs_def localBusy_def split: option.splits if_splits prod.splits)
qed

lemma admitEnforced_allow:
  assumes run: "runs (admitEnforced E C cust re ac d ctl rq) s res s'" and allow: "ad_allow res"
    and closed: "\<not> failOpen ctl" and ok: "rows_ok (sv_db s)"
  shows "\<exists>e \<in> set (executions (sv_db s')). e_State e = StateActive \<and> dom_of e = (merchantOf E, dc_DomainKey d)
    \<and> e_Principal e = \<lparr>p_Type = ''agent'', p_ID = unaware (draw C 1) (cu_PrincipalID cust)\<rparr> \<and> vouches E C e res"
proof -
  let ?sess = "admitSession E C cust"
  let ?req = "admitRequest E ?sess re ac d rq"
  have closed': "\<not> ad_allow (admitStoreError ctl err)" for err
    using closed by (simp add: admitStoreError_def refused_def Let_def)
  from run obtain s1 where s1: "ends (onDB (InsertSession ?sess)) s s1"
    and "runs (attempt (onLeases (CacheAcquire (now C 7) (now C 9) (Acquire (now C 8) (draw C 3) ?req) ?req)) (\<lambda>out.
             case out of
               Inl err \<Rightarrow> ret (admitStoreError ctl err)
             | Inr acq \<Rightarrow>
                 recordAcquire E (now C 10) True (cu_CustomerID cust) (s_PrincipalID ?sess) re ac (dc_RuleName d) acq rq
                   (admitAnswer E C cust re ac d (enforcedHeaders (EffectivePercent ctl)) rq acq))) s1 res s'"
    unfolding admitEnforced_def Let_def
    by (elim runs_attemptE) (use allow closed' in \<open>auto dest: runs_ends\<close>)
  then obtain acq s2 where s2: "runs (onLeases (CacheAcquire (now C 7) (now C 9) (Acquire (now C 8) (draw C 3) ?req) ?req)) s1 acq s2"
    and rest: "runs (recordAcquire E (now C 10) True (cu_CustomerID cust) (s_PrincipalID ?sess) re ac (dc_RuleName d) acq rq
        (admitAnswer E C cust re ac d (enforcedHeaders (EffectivePercent ctl)) rq acq)) s2 res s'"
    by (elim runs_attemptE) (use allow closed' in auto)
  note rest' = rest [unfolded recordAcquire_def recordDecision_def case_prod_beta]
  from runs_ignoring [OF rest' keeps_view_onDB [OF keeps_RecordDecision]] obtain s3 where s3: "lease_rows s3 = lease_rows s2"
    and ans: "runs (admitAnswer E C cust re ac d (enforcedHeaders (EffectivePercent ctl)) rq acq) s3 res s'"
    by auto
  from admitAnswer_allow [OF ans allow] obtain e where e: "r_Execution acq = Some e" "r_Status acq \<in> {StatusGranted, StatusAlreadyHeld}"
    "vouches E C e res" "lease_rows s' = lease_rows s3" by blast
  from runs_onLeases [OF s2] obtain c' d' where d': "s2 = s1\<lparr>sv_cache := c', sv_db := d'\<rparr>"
    "runs (CacheAcquire (now C 7) (now C 9) (Acquire (now C 8) (draw C 3) ?req) ?req) (sv_cache s1, sv_db s1) acq (c', d')" by blast
  have "rows_ok (sv_db s1)"
    using ok rows_ok_view keepsD [OF keeps_view_onDB [OF keeps_InsertSession] s1] unfolding lease_rows_def by metis
  from Acquire_held [OF CacheAcquire_held [OF d'(2) e(2)] this e(1,2)]
  have "e \<in> set (executions d') \<and> e_State e = StateActive \<and> dom_of e = (merchantOf E, dc_DomainKey d)
    \<and> e_Principal e = \<lparr>p_Type = ''agent'', p_ID = unaware (draw C 1) (cu_PrincipalID cust)\<rparr>"
    by (simp add: admitRequest_def admitSession_def)
  moreover have "executions (sv_db s') = executions d'"
    using e(4) s3 d'(1) by (simp add: lease_rows_def lease_view_def)
  ultimately show ?thesis using e(3) by auto
qed

text \<open>Controls under which every request is enforced, and policies that leave no request for an action alone.\<close>

definition enforcing :: "controls \<Rightarrow> bool" where
  "enforcing c \<longleftrightarrow> c_Enforcement c \<and> \<not> stringsEqual (c_Mode c) ModeDryRun \<and> c_EnforcePercent c \<ge> 100
     \<and> scopeEmpty (c_Scope c) \<and> c_FailClosed c \<and> c_DisabledActions c = []"

lemma enforcing_all: "enforcing c \<Longrightarrow> ShouldEnforce c x \<and> \<not> failOpen c \<and> \<not> ActionDisabled c a"
  by (auto simp: enforcing_def ShouldEnforce_def EffectivePercent_def ClampPercent_def scopeMatch_def InRamp_def failOpen_def
      PassThrough_def ActionDisabled_def Let_def)

definition supervises :: "Compiled \<Rightarrow> string \<Rightarrow> bool" where
  "supervises c action \<longleftrightarrow> cp_fallback c \<noteq> FallbackAllowUncontrolled
     \<and> list_all (\<lambda>x. ru_Control (cr_Rule x) \<noteq> ControlNone
         \<or> mt_Action (ru_Match (cr_Rule x)) \<noteq> [] \<and> action \<notin> set (mt_Action (ru_Match (cr_Rule x)))) (cp_rules c)"

lemma evaluateRules_supervised:
  "list_all (\<lambda>x. ru_Control (cr_Rule x) \<noteq> ControlNone
     \<or> mt_Action (ru_Match (cr_Rule x)) \<noteq> [] \<and> pq_Action q \<notin> set (mt_Action (ru_Match (cr_Rule x)))) cs
   \<Longrightarrow> evaluateRules cs q = Some d \<Longrightarrow> \<not> dc_ControlNone d"
  by (induction cs) (auto simp: Let_def granted_def matchRule_def Decision0_def list_ex_iff split: if_splits option.splits)

lemma supervises_rules:
  assumes "supervises c (pq_Action q)"
  shows "\<not> dc_ControlNone (case evaluateRules (cp_rules c) q of Some d \<Rightarrow> d | None \<Rightarrow> fallbackDecision c)"
proof (cases "evaluateRules (cp_rules c) q")
  case None
  then show ?thesis using assms by (simp add: supervises_def fallbackDecision_def Decision0_def)
next
  case (Some d)
  have "\<not> dc_ControlNone d"
    by (rule evaluateRules_supervised [OF _ Some]) (use assms in \<open>simp add: supervises_def\<close>)
  with Some show ?thesis by simp
qed

lemma supervises_decision:
  assumes "supervises c (pq_Action q)"
  shows "\<not> dc_ControlNone (Evaluate nfkc c q)"
  using supervises_rules [of c q] supervises_rules [of c "q\<lparr>pq_Resource := x\<rparr>" for x] assms
  unfolding Evaluate_def Let_def by (auto simp: Decision0_def split: sum.split)

text \<open>C6. Nothing gets through without a lease: in a gateway whose controls enforce everything and fail
  closed, and whose policy supervises the action of a controlled route, a request for that route is
  let through to the origin only when its customer was identified and an active execution is held in
  the domain the policy gives that customer for the route's canonical resource, by the principal of
  this very request; the fence and the signed token in the response's headers are those of that
  execution.\<close>

theorem admit_enforces:
  assumes "gateway_reach cap E detail t s" "runs (admit E C method path ev r rq) s res s'" "ad_allow res"
    and "MatchRoute (gw_profile E) method path = Some (route, params)" "Controlled route"
    and "enforcing (sv_controls s)" "supervises (sv_compiled s) (rt_Action route)"
  shows "\<exists>cust re e. fst (ExtractInput (gw_world E) (now C 5) (identityInput E r True) (sv_jwks s)) = Some cust
    \<and> map_sum id (\<lambda>canon. firstNonEmpty canon (ResourceFor (gw_nfkc E) route params ev)) (canonicalizeResource E (ResourceFor (gw_nfkc E) route params ev)) = Inr re
    \<and> e \<in> set (executions (sv_db s')) \<and> e_State e = StateActive
    \<and> dom_of e = (merchantOf E, dc_DomainKey (evaluate E s (merchantOf E) (cu_CustomerID cust) ''agent'' re (rt_Action route) (cu_Anchors cust)))
    \<and> e_Principal e = \<lparr>p_Type = ''agent'', p_ID = unaware (draw C 1) (cu_PrincipalID cust)\<rparr> \<and> vouches E C e res"
proof -
  let ?ext = "ExtractInput (gw_world E) (now C 5) (identityInput E r True) (sv_jwks s)"
  let ?s = "s\<lparr>sv_jwks := snd ?ext\<rparr>"
  have no: "\<not> ad_allow (refused st h b)" for st h b by (simp add: refused_def)
  have ext: "runs (extractCustomer E (now C 5) (identityInput E r True)) s x s1 \<Longrightarrow> x = fst ?ext \<and> s1 = ?s" for x s1
    by (auto simp: extractCustomer_def runs_def locally_def case_prod_beta)
  from assms(2-5) obtain cust re where cust: "fst ?ext = Some cust"
      "map_sum id (\<lambda>canon. firstNonEmpty canon (ResourceFor (gw_nfkc E) route params ev)) (canonicalizeResource E (ResourceFor (gw_nfkc E) route params ev)) = Inr re"
    and run: "runs (admitDecided E C cust re (rt_Action route) path ev rq) ?s res s'"
    unfolding admit_def Let_def
    by (auto elim!: runs_andThenE dest!: ext simp: no split: option.splits if_splits sum.splits)
  let ?d = "evaluate E s (merchantOf E) (cu_CustomerID cust) ''agent'' re (rt_Action route) (cu_Anchors cust)"
  let ?d' = "applyControls (sv_controls s) ?d (rt_Action route)"
  have none: "\<not> dc_ControlNone ?d'"
    using supervises_decision [of "sv_compiled s"] assms(7) enforcing_all [OF assms(6)]
    by (simp add: applyControls_def evaluate_def Let_def)
  have same: "evaluate E ?s = evaluate E s" by (simp add: evaluate_def fun_eq_iff)
  have enf: "runs (admitEnforced E C cust re (rt_Action route) ?d' (sv_controls s) rq) ?s res s'"
    using run assms(3) none enforcing_all [OF assms(6)] same unfolding admitDecided_def recordDecision_def ignoring_def Let_def
    by (auto elim!: runs_andThenE runs_attemptE dest!: runs_reading simp: no split: if_splits)
  have "rows_ok (sv_db ?s)"
    using gateway_store [OF assms(1)] store.reach_inv [of cap t "sv_db s"] by (simp add: lease_inv_def)
  moreover have "dc_DomainKey ?d' = dc_DomainKey ?d" by (simp add: applyControls_def Let_def)
  ultimately show ?thesis
    using admitEnforced_allow [OF enf assms(3)] enforcing_all [OF assms(6)] cust by metis
qed


lemma gd_enforcing: "enforcing (sv_controls gd_server)"
proof -
  have "\<not> stringsEqual ModeEnforce ModeDryRun" by code_simp
  then show ?thesis by (simp add: enforcing_def gd_controls DefaultControls_def scopeEmpty_def emptyScope_def)
qed

lemma gd_supervised: "supervises (sv_compiled gd_server) ''hold''"
  by (simp add: supervises_def gd_server_def default_compiled_def DefaultDocument_def Rule0_def Match0_def ControlNone_def
      FallbackDeny_def FallbackAllowUncontrolled_def)

theorem admit_enforces_witness:
  "\<exists>res s' e. admit gd gd_call ''POST'' ''/hold'' '''' gd_request ''q'' gd_server [] = (Inr res, s', []) \<and> ad_allow res
     \<and> e \<in> set (executions (sv_db s')) \<and> e_State e = StateActive \<and> vouches gd gd_call e res"
proof -
  from gd_admitted obtain res s' where
    run: "admit gd gd_call ''POST'' ''/hold'' '''' gd_request ''q'' gd_server [] = (Inr res, s', [])" and allow: "ad_allow res" by blast
  have match: "MatchRoute (gw_profile gd) ''POST'' ''/hold'' = Some (gd_route, [])" by (simp add: gd_matched)
  have hold: "supervises (sv_compiled gd_server) (rt_Action gd_route)" by (simp add: gd_hold gd_supervised)
  from run have "runs (admit gd gd_call ''POST'' ''/hold'' '''' gd_request ''q'') gd_server res s'" by (rule runsI)
  from admit_enforces [OF gd_reach this allow match gd_hold(1) gd_enforcing hold] run allow show ?thesis by blast
qed

end
