(* ===== verification/Config_Props.thy ===== *)
theory Config_Props
  imports Gateway_Props
begin

text \<open>What a configuration guarantees when the checks at start-up accept it in production.\<close>

lemma rune_starts_Cons:
  assumes "byte c < 128"
  shows "rune_starts (c # cs) = 0 # map Suc (rune_starts cs)"
  using assms by (simp add: rune_starts_def Let_def upt_conv_Cons map_Suc_upt [symmetric] comp_def del: upt_Suc)

lemma rune_starts_0: "s \<noteq> '''' \<Longrightarrow> 0 \<in> set (rune_starts s)"
  using utf8_chunks_unfold [of s] by (auto simp: rune_starts_def Let_def intro!: image_eqI [of _ _ 0])

lemma lower_byte_eq: "lower c = lower_byte c"
  by (simp add: lower_def lower_byte_def)

lemma lower_ascii: "byte (lower c) < 128 \<Longrightarrow> byte c < 128"
  by (auto simp: lower_def split: if_splits)

lemma stringsEqual_ascii_left: "stringsEqual a b \<Longrightarrow> ascii b \<Longrightarrow> ascii a"
proof (induction a arbitrary: b)
  case Nil
  then show ?case by (simp add: ascii_def)
next
  case (Cons c cs)
  from Cons.prems(1) obtain c' cs' where b: "b = c' # cs'" by (cases b) (auto simp: stringsEqual_def)
  have "lower c = lower c'"
    using Cons.prems(1) rune_starts_0 [of "c # cs"] b by (fastforce simp: stringsEqual_def list_all_iff split: if_splits)
  moreover have "byte (lower c') < 128"
    using Cons.prems(2) b by (auto simp: ascii_def lower_def of_char_of)
  ultimately have c: "byte c < 128" by (metis lower_ascii)
  have "stringsEqual cs cs'"
    using Cons.prems(1) b by (auto simp: stringsEqual_def rune_starts_Cons [OF c] list_all_iff split: if_splits)
  with Cons.IH [of cs'] Cons.prems(2) b c show ?case by (auto simp: ascii_def)
qed


lemma dropWhile_none: "(\<And>x. x \<in> set xs \<Longrightarrow> \<not> P x) \<Longrightarrow> dropWhile P xs = xs"
  by (cases xs) auto

lemma stringsEqual_dry_run:
  assumes "stringsEqual m ''dry-run''"
  shows "EqualFold (TrimSpace m) ''dry-run''"
proof -
  have dry: "ascii ''dry-run''" by (simp add: ascii_def)
  have m: "ascii m" using stringsEqual_ascii_left [OF assms dry] .
  have low: "map lower m = map lower ''dry-run''" using assms stringsEqual_ascii [OF m] by simp
  have sp: "\<not> IsSpace (byte c)" if "c \<in> set m" for c
  proof -
    from that have "lower c \<in> set (map lower m)" by simp
    then have "byte (lower c) \<in> byte ` set (map lower ''dry-run'')" unfolding low by blast
    then show ?thesis by (auto simp: lower_def IsSpace_def split: if_splits)
  qed
  have "dropWhile (\<lambda>c. IsSpace (byte c)) m = m" "dropWhile (\<lambda>c. IsSpace (byte c)) (rev m) = rev m"
    by (rule dropWhile_none, simp add: sp)+
  then have "TrimSpace m = m" by (simp add: TrimSpace_ascii [OF m])
  with low show ?thesis by (simp add: EqualFold_ascii [OF m dry] lower_byte_eq [abs_def])
qed

lemma firstError_None: "firstError es = None \<longleftrightarrow> list_all (\<lambda>e. e = None) es"
  by (induction es rule: firstError.induct) auto

definition secretsOf :: "Config \<Rightarrow> string list" where
  "secretsOf c = [cf_AdminSecret c, cf_OperatorSecret c, cf_EdgeSecret c, cf_OriginSecret c]"


lemma ascii_literal: "list_all (\<lambda>c. byte c < 128 \<and> \<not> IsSpace (byte c)) s \<Longrightarrow> TrimSpace s = s \<and> ToLower s = map lower_byte s"
proof -
  assume s: "list_all (\<lambda>c. byte c < 128 \<and> \<not> IsSpace (byte c)) s"
  then have a: "ascii s" by (simp add: ascii_def list_all_iff)
  have "dropWhile (\<lambda>c. IsSpace (byte c)) s = s" "dropWhile (\<lambda>c. IsSpace (byte c)) (rev s) = rev s"
    using s by (auto intro!: dropWhile_none simp: list_all_iff)
  then show ?thesis by (simp add: TrimSpace_ascii [OF a] ToLower_ascii [OF a])
qed

definition live_config :: Config where
  "live_config = (Load (\<lambda>_. None) (\<lambda>_. ''''))\<lparr>cf_HTTPAddr := '':8080'', cf_DatabaseURL := ''pg'', cf_DevHMACSecret := ''h1'',
     cf_AdminSecret := ''a1'', cf_OperatorSecret := ''o1'', cf_EdgeSecret := ''e1'', cf_OriginSecret := ''g1'',
     cf_AdminAddr := '':8082'', cf_LeaseTTL := 60 * second, cf_HeartbeatInterval := 20 * second, cf_MaxLifetime := 15 * minute,
     cf_MaxActive := 1, cf_ProxyAddr := '''', cf_Mode := ''enforce'', cf_Enforcement := True, cf_EnforcePercent := 100,
     cf_Environment := ''prod'', cf_DevAssertions := False, cf_JWKSURL := ''j'', cf_Issuer := ''i'', cf_Audience := ''b'',
     cf_FailClosed := True, cf_AllowUnsafeModes := False\<rparr>"

lemma live_strings:
  "TrimSpace '''' = ''''" "TrimSpace ''j'' = ''j''" "TrimSpace ''i'' = ''i''" "TrimSpace ''b'' = ''b''"
  "TrimSpace '':8082'' = '':8082''" "TrimSpace '':8080'' = '':8080''" "TrimSpace ''enforce'' = ''enforce''" "TrimSpace ''prod'' = ''prod''"
  "TrimSpace ''h1'' = ''h1''" "TrimSpace ''a1'' = ''a1''" "TrimSpace ''o1'' = ''o1''" "TrimSpace ''e1'' = ''e1''" "TrimSpace ''g1'' = ''g1''"
  "ToLower ''enforce'' = ''enforce''" "ToLower ''prod'' = ''prod''" "ToLower ''h1'' = ''h1''" "ToLower ''a1'' = ''a1''"
  "ToLower ''o1'' = ''o1''" "ToLower ''e1'' = ''e1''" "ToLower ''g1'' = ''g1''" "ToLower '':8082'' = '':8082''" "ToLower '':8080'' = '':8080''"
  "\<not> EqualFold ''enforce'' ''dry-run''"
  by (simp_all add: ascii_literal IsSpace_def lower_byte_def EqualFold_ascii ascii_def)

lemma live_valid: "ValidateConfig durText live_config = None" "Production live_config" "\<not> cf_AllowUnsafeModes live_config"
proof -
  show prod: "Production live_config" by (simp add: Production_def Lab_def live_config_def live_strings)
  have hits: "labSecretHits live_config = []"
    by (simp add: labSecretHits_def isLabSecret_def live_config_def live_strings HasPrefix_def Let_def)
  have parts: "ValidateEnvironment live_config = None" "ValidateAdminListen live_config = None" "ValidateIdentity live_config = None"
    by (simp_all add: ValidateEnvironment_def ValidateAdminListen_def ValidateIdentity_def sameListenAddr_def canonListen_def
        HasPrefix_def live_config_def live_strings Let_def)
  have "ValidateSecrets live_config = None"
    using prod hits by (simp add: ValidateSecrets_def secretProblems_def) (simp add: live_config_def live_strings)
  moreover have "ValidateUnsafeModes live_config = None"
    by (simp add: ValidateUnsafeModes_def unsafeReasons_def live_config_def live_strings)
  ultimately show "ValidateConfig durText live_config = None"
    using parts by (simp add: ValidateConfig_def) (simp add: live_config_def live_strings)
qed (simp add: live_config_def)


end
