(* ===== verification/Api_Props.thy ===== *)
theory Api_Props
  imports Config_Props
begin

text \<open>Properties of single endpoints of the public interface.\<close>

section \<open>Watching an execution\<close>

lemma watchLoop_answers:
  assumes "deadline \<le> now C (4 + 2 * (i + fuel))"
  shows "\<exists>e s' fs'. watchLoop C m exeID initial deadline (Suc fuel) i cur s fs = (Inr (Some e), s', fs')"
  using assms
proof (induction fuel arbitrary: i cur s fs)
  case 0
  then show ?case by (simp add: dbop_simps)
next
  case (Suc fuel)
  have again: "\<exists>e s' fs'. watchLoop C m exeID initial deadline (Suc fuel) (Suc i) cur' s1 fs1 = (Inr (Some e), s', fs')" for cur' s1 fs1
    using Suc.IH [of "Suc i"] Suc.prems by simp
  obtain r s1 fs1 where get: "onLeases (CacheGet (Get (now C (5 + 2 * i)) m exeID)) s fs = (r, s1, fs1)"
    by (cases "onLeases (CacheGet (Get (now C (5 + 2 * i)) m exeID)) s fs") auto
  show ?case
    using again by (subst watchLoop.simps) (auto simp: dbop_simps get simp del: watchLoop.simps split: sum.split)
qed

lemma clock_advances:
  assumes "\<And>i. now C (4 + 2 * i) + 200 * millisecond \<le> now C (4 + 2 * Suc i)" "now C 3 \<le> now C 4"
  shows "now C 3 + int i * (200 * millisecond) \<le> now C (4 + 2 * i)"
proof (induction i)
  case 0
  then show ?case using assms(2) by simp
next
  case (Suc i)
  then show ?case using assms(1) [of i] by (simp add: algebra_simps)
qed

text \<open>C34. A watch always answers: every round of its loop waits 200 milliseconds, so with a clock that
  advances by that much per round the loop ends by its deadline of 25 seconds, within 126 rounds, and the
  handler returns a response, whatever the store answers and whichever of its statements fail.\<close>

theorem watch_answers:
  assumes "\<And>i. now C (4 + 2 * i) + 200 * millisecond \<le> now C (4 + 2 * Suc i)" "now C 3 \<le> now C 4"
  shows "\<exists>rsp s' fs'. watch E C exeID sess r s fs = (Inr (Some rsp), s', fs')"
proof -
  have "now C 3 + 25 * second \<le> now C (4 + 2 * (0 + 125))"
    using clock_advances [OF assms, of 125] by simp
  note loop = watchLoop_answers [OF this]
  obtain res s1 fs1 where get: "onLeases (CacheGet (Get (now C 2) (sc_MerchantID sess) exeID)) s fs = (res, s1, fs1)"
    by (cases "onLeases (CacheGet (Get (now C 2) (sc_MerchantID sess) exeID)) s fs") auto
  show ?thesis
  proof (cases res)
    case (Inl err)
    with get show ?thesis by (simp add: watch_def dbop_simps)
  next
    case (Inr initial)
    from loop [of "sc_MerchantID sess" exeID initial initial s1 fs1] obtain e s2 fs2 where
      "watchLoop C (sc_MerchantID sess) exeID initial (now C 3 + 25 * second) 126 0 initial s1 fs1 = (Inr (Some e), s2, fs2)"
      by auto
    with get Inr show ?thesis by (simp add: watch_def dbop_simps del: watchLoop.simps)
  qed
qed

definition gd_session :: SessionClaims where
  "gd_session = \<lparr>sc_MerchantID = ''m'', sc_CustomerID = ''alice'', sc_PrincipalType = ''agent'', sc_PrincipalID = ''p'', sc_SessionID = ''s'',
     sc_Version = 1, sc_Anchors = [], sc_Registered = \<lparr>rc_Issuer = '''', rc_Subject = ''alice'', rc_ExpiresAt = None, rc_NotBefore = None,
       rc_IssuedAt = None, rc_ID = ''s''\<rparr>\<rparr>"

theorem watch_answers_witness:
  "\<exists>rsp s' fs'. watch gd (gd_call\<lparr>now := \<lambda>i. int i * (100 * millisecond)\<rparr>) ''x'' gd_session
     gd_request gd_server [] = (Inr (Some rsp), s', fs')"
  by (rule watch_answers) simp_all

end
