(* ===== verification/Sdk.thy ===== *)
theory Sdk
  imports Public_Api
begin

text \<open>
  \<open>sdk/go/protect.go\<close>: the merchant's admission point. \<open>Protect\<close> lets a request through to the merchant's
  handler when it carries an execution token with a valid signature, for the right merchant and
  resource, whose fence is not older than the newest one the fence cache has seen in the domain, and
  which the gateway, when it can be asked, does not report as ended. The answer of the gateway is the
  parameter \<open>pc_Active\<close>; \<open>None\<close> is the error of a partition.
\<close>

definition httpError :: "string \<Rightarrow> int \<Rightarrow> response" where
  "httpError msg status =
     \<lparr>rs_status = status, rs_headers = [(''Content-Type'', ''text/plain; charset=utf-8''), (''X-Content-Type-Options'', ''nosniff'')],
      rs_body = Some (JObj [(''error'', JStr msg)])\<rparr>"

section \<open>The fence cache\<close>

type_synonym FenceCache = "string \<rightharpoonup> int"

definition lastFence :: "FenceCache \<Rightarrow> string \<Rightarrow> int" where
  "lastFence c domain = (case c domain of Some f \<Rightarrow> f | None \<Rightarrow> 0)"

definition staleFence :: "FenceCache \<Rightarrow> string \<Rightarrow> int \<Rightarrow> bool" where
  "staleFence c domain fence \<longleftrightarrow> (case c domain of Some prev \<Rightarrow> fence < prev | None \<Rightarrow> False)"

definition raiseFence :: "FenceCache \<Rightarrow> string \<Rightarrow> int \<Rightarrow> FenceCache" where
  "raiseFence c domain fence = (if fence > lastFence c domain then c(domain \<mapsto> fence) else c)"

text \<open>The cache is a pointer; without one every fence is accepted.\<close>

definition Accept :: "FenceCache option \<Rightarrow> string \<Rightarrow> int \<Rightarrow> bool \<times> FenceCache option" where
  "Accept c domain fence =
     (case c of
        None \<Rightarrow> (True, None)
      | Some l \<Rightarrow> if staleFence l domain fence then (False, Some l) else (True, Some (raiseFence l domain fence)))"

section \<open>Protect\<close>

record ProtectConfig =
  pc_Public :: string
  pc_Header :: string
  pc_MerchantID :: string
  pc_Resource :: string
  pc_Active :: "(time \<Rightarrow> string \<Rightarrow> int \<Rightarrow> bool option) option"

definition TokenFrom :: "request \<Rightarrow> string \<Rightarrow> string" where
  "TokenFrom r header0 =
     (let header = (if header0 = '''' then ''X-Bruiser-Execution'' else header0);
          v = hdrGet (rq_Headers r) header
      in if v \<noteq> '''' then v else bearer r)"

definition sameResource :: "(string \<Rightarrow> string) \<Rightarrow> string \<Rightarrow> string \<Rightarrow> bool" where
  "sameResource nfkc a b =
     (case (Canonical nfkc a, Canonical nfkc b) of (Inr want, Inr got) \<Rightarrow> want = got | _ \<Rightarrow> False)"

definition protectCheck ::
    "jwt \<Rightarrow> (string \<Rightarrow> string) \<Rightarrow> ProtectConfig \<Rightarrow> time \<Rightarrow> request \<Rightarrow> FenceCache option \<Rightarrow> (response + ExecutionClaims) \<times> FenceCache option" where
  "protectCheck J nfkc cfg t r fences =
     (let raw = TokenFrom r (pc_Header cfg) in
      if raw = '''' then (Inl (httpError ''missing execution token'' StatusUnauthorized), fences)
      else case ParseExecution J t raw (pc_Public cfg) of
        None \<Rightarrow> (Inl (httpError ''invalid execution token'' StatusForbidden), fences)
      | Some claims \<Rightarrow>
          if pc_MerchantID cfg \<noteq> '''' \<and> ec_MerchantID claims \<noteq> pc_MerchantID cfg
          then (Inl (httpError ''wrong merchant'' StatusUnauthorized), fences)
          else if pc_Resource cfg \<noteq> '''' \<and> \<not> sameResource nfkc (pc_Resource cfg) (ec_Resource claims)
          then (Inl (httpError ''resource mismatch'' StatusForbidden), fences)
          else case Accept fences (ec_Domain claims) (ec_Fence claims) of
            (False, fences') \<Rightarrow> (Inl (httpError ''stale fence'' StatusForbidden), fences')
          | (True, fences') \<Rightarrow>
              if (case pc_Active cfg of None \<Rightarrow> False | Some active \<Rightarrow> active t (ec_ExecutionID claims) (ec_Fence claims) = Some False)
              then (Inl (httpError ''revoked execution'' StatusForbidden), fences')
              else (Inr claims, fences'))"

definition Protect ::
    "jwt \<Rightarrow> (string \<Rightarrow> string) \<Rightarrow> ProtectConfig \<Rightarrow> (request \<Rightarrow> response) \<Rightarrow> time \<Rightarrow> request \<Rightarrow> FenceCache option
      \<Rightarrow> response \<times> FenceCache option" where
  "Protect J nfkc cfg nxt t r fences =
     (case protectCheck J nfkc cfg t r fences of
        (Inl refusal, fences') \<Rightarrow> (refusal, fences')
      | (Inr _, fences') \<Rightarrow> (nxt r, fences'))"

section \<open>Keys\<close>

text \<open>The first Ed25519 key of a key set; a document or key that does not decode is an error.\<close>

definition okp_key :: "json \<Rightarrow> (string \<times> string \<times> string) option" where
  "okp_key j =
     Option.bind (objectOf (Some j)) (\<lambda>ms.
     Option.bind (str_field ms ''kty'') (\<lambda>kty.
     Option.bind (str_field ms ''crv'') (\<lambda>crv.
     map_option (\<lambda>x. (kty, crv, x)) (str_field ms ''x''))))"

fun first_okp :: "(string \<times> string \<times> string) list \<Rightarrow> string option" where
  "first_okp [] = None"
| "first_okp ((kty, crv, x) # ks) = (if kty = ''OKP'' \<and> crv = ''Ed25519'' \<and> x \<noteq> '''' then RawURLDecode x else first_okp ks)"

definition PublicFromJWKS :: "json option \<Rightarrow> string option" where
  "PublicFromJWKS raw =
     Option.bind (objectOf raw) (\<lambda>ms.
     Option.bind (case member ms ''keys'' of None \<Rightarrow> Some [] | Some (JArr ks) \<Rightarrow> those (map okp_key ks) | Some _ \<Rightarrow> None) first_okp)"

end
