(* ===== verification/Fencing.thy ===== *)
theory Fencing
  imports Sdk Token_Props Store_Props
begin

text \<open>
  Fencing at the merchant: what a guard that remembers the newest fence of each domain promises, and
  that the holder of a lease that was superseded is shut out as soon as its successor has been seen.
\<close>

section \<open>Fence guards\<close>

text \<open>
  A guard decides whether a fence is stale and notes the fences it accepted; \<open>mark\<close> is the newest fence it
  has noted, zero if none. Guards may leave some domains untracked.
\<close>

locale fence_guard =
  fixes stale :: "'s \<Rightarrow> string \<Rightarrow> int \<Rightarrow> bool"
    and raise :: "'s \<Rightarrow> string \<Rightarrow> int \<Rightarrow> 's"
    and mark :: "'s \<Rightarrow> string \<Rightarrow> int"
    and tracked :: "string \<Rightarrow> bool"
  assumes stale_iff: "0 < f \<Longrightarrow> stale s d f \<longleftrightarrow> f < mark s d"
    and mark_raise: "\<not> stale s d f \<Longrightarrow> mark (raise s d f) k = (if tracked d \<and> k = d then max (mark s k) f else mark s k)"
begin

lemma mark_grows: "\<not> stale s d f \<Longrightarrow> mark s k \<le> mark (raise s d f) k"
  by (simp add: mark_raise)

lemma noted: "\<not> stale s d f \<Longrightarrow> tracked d \<Longrightarrow> f \<le> mark (raise s d f) d"
  by (simp add: mark_raise)

lemma shut_out: "f \<le> mark s d \<Longrightarrow> mark s d \<le> mark s' d \<Longrightarrow> 0 < g \<Longrightarrow> g < f \<Longrightarrow> stale s' d g"
  by (simp add: stale_iff)

end

lemma staleFence_iff: "0 < f \<Longrightarrow> staleFence c d f \<longleftrightarrow> f < lastFence c d"
  by (auto simp: staleFence_def lastFence_def split: option.split)

lemma lastFence_raise: "lastFence (raiseFence c d f) k = (if k = d then max (lastFence c k) f else lastFence c k)"
  by (auto simp: raiseFence_def lastFence_def split: option.split)

interpretation sdk: fence_guard staleFence raiseFence lastFence "\<lambda>_. True"
  by unfold_locales (simp_all add: staleFence_iff lastFence_raise)

section \<open>Protect over time\<close>

fun protectRun :: "jwt \<Rightarrow> (string \<Rightarrow> string) \<Rightarrow> ProtectConfig \<Rightarrow> (time \<times> request) list \<Rightarrow> FenceCache option \<Rightarrow> FenceCache option" where
  "protectRun J nfkc cfg [] c = c"
| "protectRun J nfkc cfg ((t, r) # rs) c = protectRun J nfkc cfg rs (snd (protectCheck J nfkc cfg t r c))"

lemma Accept_cases:
  "Accept (Some c) d f = (if staleFence c d f then (False, Some c) else (True, Some (raiseFence c d f)))"
  by (simp add: Accept_def)

lemma protectCheck_shape:
  "(\<exists>rsp. protectCheck J nfkc cfg t r (Some c) = (Inl rsp, Some c) \<and> rs_status rsp \<in> {StatusUnauthorized, StatusForbidden})
   \<or> (\<exists>cl. ParseExecution J t (TokenFrom r (pc_Header cfg)) (pc_Public cfg) = Some cl \<and> \<not> staleFence c (ec_Domain cl) (ec_Fence cl)
        \<and> (\<exists>out. protectCheck J nfkc cfg t r (Some c) = (out, Some (raiseFence c (ec_Domain cl) (ec_Fence cl)))
             \<and> (out = Inr cl \<or> out = Inl (httpError ''revoked execution'' StatusForbidden))))"
proof (cases "ParseExecution J t (TokenFrom r (pc_Header cfg)) (pc_Public cfg)")
  case None
  then show ?thesis by (simp add: protectCheck_def httpError_def Let_def)
next
  case (Some cl)
  then show ?thesis
    by (cases "staleFence c (ec_Domain cl) (ec_Fence cl)") (simp_all add: protectCheck_def Accept_cases httpError_def Let_def)
qed

lemma protectCheck_cases:
  obtains (refused) rsp where "protectCheck J nfkc cfg t r (Some c) = (Inl rsp, Some c)"
      "rs_status rsp = StatusUnauthorized \<or> rs_status rsp = StatusForbidden"
  | (revoked) cl rsp where "ParseExecution J t (TokenFrom r (pc_Header cfg)) (pc_Public cfg) = Some cl" "\<not> staleFence c (ec_Domain cl) (ec_Fence cl)"
      "protectCheck J nfkc cfg t r (Some c) = (Inl rsp, Some (raiseFence c (ec_Domain cl) (ec_Fence cl)))"
  | (passed) cl where "ParseExecution J t (TokenFrom r (pc_Header cfg)) (pc_Public cfg) = Some cl" "\<not> staleFence c (ec_Domain cl) (ec_Fence cl)"
      "protectCheck J nfkc cfg t r (Some c) = (Inr cl, Some (raiseFence c (ec_Domain cl) (ec_Fence cl)))"
  using protectCheck_shape [of J nfkc cfg t r c] by blast

lemma protectCheck_grows: "\<exists>c'. snd (protectCheck J nfkc cfg t r (Some c)) = Some c' \<and> lastFence c k \<le> lastFence c' k"
  by (cases rule: protectCheck_cases [of J nfkc cfg t r c]) (auto intro: sdk.mark_grows)

lemma protectRun_grows: "\<exists>c'. protectRun J nfkc cfg rs (Some c) = Some c' \<and> lastFence c k \<le> lastFence c' k"
proof (induction rs arbitrary: c)
  case Nil
  then show ?case by simp
next
  case (Cons x rs)
  obtain t r where x: "x = (t, r)" by force
  from protectCheck_grows [of J nfkc cfg t r c k] obtain c1 where
    c1: "snd (protectCheck J nfkc cfg t r (Some c)) = Some c1" "lastFence c k \<le> lastFence c1 k" by blast
  with Cons.IH [of c1] x show ?case by force
qed

lemma protect_shuts_out:
  assumes "protectCheck J nfkc cfg t r (Some c) = (Inr cl, Some c')"
    and "\<And>u cl'. ParseExecution J u tok (pc_Public cfg) = Some cl' \<Longrightarrow> ec_Domain cl' = ec_Domain cl \<and> 0 < ec_Fence cl' \<and> ec_Fence cl' < ec_Fence cl"
    and "TokenFrom r' (pc_Header cfg) = tok"
  shows "\<exists>rsp. fst (protectCheck J nfkc cfg u r' (protectRun J nfkc cfg rs (Some c'))) = Inl rsp
    \<and> (rs_status rsp = StatusUnauthorized \<or> rs_status rsp = StatusForbidden)"
proof -
  have noted: "ec_Fence cl \<le> lastFence c' (ec_Domain cl)"
    using assms(1) by (cases rule: protectCheck_cases [of J nfkc cfg t r c]) (auto intro: sdk.noted)
  from protectRun_grows obtain c2 where c2: "protectRun J nfkc cfg rs (Some c') = Some c2" "lastFence c' (ec_Domain cl) \<le> lastFence c2 (ec_Domain cl)"
    by blast
  have "staleFence c2 (ec_Domain cl') (ec_Fence cl')" if "ParseExecution J u tok (pc_Public cfg) = Some cl'" for cl'
    using assms(2) [OF that] sdk.shut_out [OF noted c2(2)] by simp
  then show ?thesis unfolding c2(1)
    by (cases rule: protectCheck_cases [of J nfkc cfg u r' c2]) (use assms(3) in auto)
qed

section \<open>Superseded leases\<close>

lemma ParseExecution_signed_claims:
  assumes "jwt_law J (sg_Private s) (sg_Public s)" "SignExecution J t rnd s e = Some tok"
    and "0 \<le> e_Fence e" "e_Fence e \<le> max_bigint" "ParseExecution J u tok (sg_Public s) = Some c"
  shows "ec_Domain c = e_DomainKey e \<and> ec_Fence c = e_Fence e"
proof -
  let ?c = "executionClaims t rnd e"
  from assms(5) obtain p where p: "jw_parse J EdDSA (sg_Public s) Skew u tok = Some p" "read_execution p = Some c"
    unfolding ParseExecution_def by (auto split: Option.bind_splits if_splits)
  have "p = execution_payload J ?c"
    using jwt_parse [OF assms(1) assms(2) [unfolded SignExecution_def], of Skew u] p(1) by (simp split: if_splits)
  moreover have "read_execution (execution_payload J ?c) = Some (?c\<lparr>ec_Registered := (written J (ec_Registered ?c))\<lparr>rc_Subject := ''''\<rparr>\<rparr>)"
    using assms(3,4) by (intro read_execution_payload) (simp_all add: max_bigint_def)
  ultimately show ?thesis using p(2) by auto
qed

lemma reachable_fence: "reachable cap t d \<Longrightarrow> e \<in> set (executions d) \<Longrightarrow> 1 \<le> e_Fence e"
  using store.reach_inv [of cap t d] by (auto simp: lease_inv_def rows_ok_def row_ok_def)

text \<open>C7. Fenced out, from the store to the merchant: when an execution was granted in a domain after another
  one of the same domain, and the merchant's admission point has let one request with the token of the
  later one through, then whatever requests come in between, a request with the token of the earlier
  one is refused, whether or not the gateway can be reached.\<close>

theorem fenced_out:
  assumes "reachable cap t d" "store_run cap t d t' d'" "old \<in> set (executions d)" "new \<in> set (executions d')"
    and "e_ID new \<notin> e_ID ` set (executions d)" "dom_of new = dom_of old" "e_Fence new \<le> max_bigint"
    and "jwt_law J (sg_Private s) (sg_Public s)" "pc_Public cfg = sg_Public s"
    and "SignExecution J t1 rnd1 s old = Some (TokenFrom r1 (pc_Header cfg))"
    and "SignExecution J t2 rnd2 s new = Some (TokenFrom r2 (pc_Header cfg))"
    and "protectCheck J nfkc cfg u r2 (Some fences) = (Inr claims, Some fences')"
  shows "\<exists>rsp. fst (protectCheck J nfkc cfg w r1 (protectRun J nfkc cfg rs (Some fences'))) = Inl rsp
    \<and> (rs_status rsp = StatusUnauthorized \<or> rs_status rsp = StatusForbidden)"
proof (rule protect_shuts_out [OF assms(12) _ refl])
  have less: "e_Fence old < e_Fence new" by (rule later_fence [OF assms(1-6)])
  have one: "1 \<le> e_Fence old" by (rule reachable_fence [OF assms(1,3)])
  have parsed: "ParseExecution J u (TokenFrom r2 (pc_Header cfg)) (sg_Public s) = Some claims"
    using assms(9,12) by (cases rule: protectCheck_cases [of J nfkc cfg u r2 fences]) auto
  have new: "ec_Domain claims = e_DomainKey new \<and> ec_Fence claims = e_Fence new"
    by (rule ParseExecution_signed_claims [OF assms(8,11) _ assms(7) parsed]) (use less one in simp)
  fix v cl
  assume "ParseExecution J v (TokenFrom r1 (pc_Header cfg)) (pc_Public cfg) = Some cl"
  then have parsed1: "ParseExecution J v (TokenFrom r1 (pc_Header cfg)) (sg_Public s) = Some cl" by (simp add: assms(9))
  have "ec_Domain cl = e_DomainKey old \<and> ec_Fence cl = e_Fence old"
    by (rule ParseExecution_signed_claims [OF assms(8,10) _ _ parsed1]) (use less one assms(7) in simp_all)
  with new less one assms(6) show "ec_Domain cl = ec_Domain claims \<and> 0 < ec_Fence cl \<and> ec_Fence cl < ec_Fence claims"
    by (simp add: dom_of_def)
qed

definition older :: execution where "older = hd (executions demo2)"
definition newer :: execution where "newer = last (executions demo3)"

definition two_tokens :: jwt where
  "two_tokens = table_jwt [(''t1'', execution_payload (table_jwt []) (executionClaims 0 ''j'' older)),
     (''t2'', execution_payload (table_jwt []) (executionClaims 0 ''j'' newer))]"

definition carrying :: "string \<Rightarrow> request" where
  "carrying tok = \<lparr>rq_Method = ''POST'', rq_Path = ''/'', rq_Headers = [(''X-Bruiser-Execution'', tok)], rq_Cookies = [],
     rq_RemoteAddr = '''', rq_ReqID = '''', rq_Body = None\<rparr>"

definition shop :: ProtectConfig where
  "shop = \<lparr>pc_Public = ''pk'', pc_Header = '''', pc_MerchantID = '''', pc_Resource = '''', pc_Active = None\<rparr>"

lemma newer_ok: "e_Fence newer = 2" "e_ID newer \<noteq> ''''" "e_CustomerID newer \<noteq> ''''" "e_MerchantID newer \<noteq> ''''"
   "e_ExpiresAt newer > 3 * second" "e_Fence older = 1" "e_ID older \<noteq> e_ID newer"
  unfolding newer_def older_def by code_simp+

lemma payload_fence:
  assumes "0 \<le> e_Fence e" "e_Fence e \<le> 2"
  shows "map_option ec_Fence (read_execution (execution_payload J (executionClaims t rnd e))) = Some (e_Fence e)"
proof -
  have "read_execution (execution_payload J (executionClaims t rnd e)) =
      Some ((executionClaims t rnd e)\<lparr>ec_Registered := (written J (ec_Registered (executionClaims t rnd e)))\<lparr>rc_Subject := ''''\<rparr>\<rparr>)"
    by (rule read_execution_payload) (use assms in simp_all)
  then show ?thesis by simp
qed

lemma two_payloads:
  "execution_payload J (executionClaims 0 ''j'' older) \<noteq> execution_payload J (executionClaims 0 ''j'' newer)"
proof
  assume eq: "execution_payload J (executionClaims 0 ''j'' older) = execution_payload J (executionClaims 0 ''j'' newer)"
  show False
    using payload_fence [of older J 0 "''j''"] payload_fence [of newer J 0 "''j''"] newer_ok(1,6) unfolding eq by simp
qed

lemma payload_table: "execution_payload (table_jwt tbl) c = execution_payload (table_jwt []) c"
  by (simp add: execution_payload_def registered_members_def omit_date_def table_jwt_def split: option.splits)

lemma two_tokens_law: "jwt_law two_tokens (sg_Private demo_signer) (sg_Public demo_signer)"
  unfolding two_tokens_def demo_signer_def using two_payloads by (simp add: table_jwt_law)

lemma table_sign: "jw_sign (table_jwt tbl) EdDSA ''sk'' kid p = map_of (map prod.swap tbl) p"
  by (simp add: table_jwt_def)

lemma payload_two: "execution_payload two_tokens c = execution_payload (table_jwt []) c"
  unfolding two_tokens_def by (rule payload_table)

lemma two_signed: "SignExecution two_tokens 0 ''j'' demo_signer older = Some ''t1''" "SignExecution two_tokens 0 ''j'' demo_signer newer = Some ''t2''"
proof -
  have sk: "sg_Private demo_signer = ''sk''" by (simp add: demo_signer_def)
  show "SignExecution two_tokens 0 ''j'' demo_signer older = Some ''t1''" "SignExecution two_tokens 0 ''j'' demo_signer newer = Some ''t2''"
    unfolding SignExecution_def sk payload_two unfolding two_tokens_def table_sign
    using two_payloads [of "table_jwt []"] by simp_all
qed

lemma carrying_token: "tok \<noteq> '''' \<Longrightarrow> TokenFrom (carrying tok) (pc_Header shop) = tok"
proof -
  have "CanonicalHeaderKey ''X-Bruiser-Execution'' = ''X-Bruiser-Execution''" by code_simp
  then show "tok \<noteq> '''' \<Longrightarrow> TokenFrom (carrying tok) (pc_Header shop) = tok"
    by (simp add: TokenFrom_def carrying_def shop_def hdrGet_def Let_def)
qed

lemma newer_passes:
  "\<exists>claims fences. protectCheck two_tokens id shop (2 * second) (carrying ''t2'') (Some Map.empty) = (Inr claims, Some fences)"
proof -
  have pk: "sg_Public demo_signer = ''pk''" by (simp add: demo_signer_def)
  have "2 * second < (e_ExpiresAt newer div second) * second + Skew" using newer_ok(5) by (simp add: Skew_def)
  then obtain claims where "ParseExecution two_tokens (2 * second) ''t2'' ''pk'' = Some claims"
    using ParseExecution_signed [OF two_tokens_law two_signed(2) _ _ newer_ok(2-4), of "2 * second"] newer_ok(1) pk
    by (simp add: max_bigint_def)
  moreover have "\<not> staleFence Map.empty k f" for k f by (simp add: staleFence_def)
  moreover have "TokenFrom (carrying ''t2'') (pc_Header shop) = ''t2''" by (rule carrying_token) simp
  ultimately show ?thesis
    unfolding protectCheck_def Let_def Accept_cases by (simp add: shop_def)
qed

theorem fenced_out_witness:
  "\<exists>claims fences rsp. protectCheck two_tokens id shop (2 * second) (carrying ''t2'') (Some Map.empty) = (Inr claims, Some fences)
     \<and> fst (protectCheck two_tokens id shop (3 * second) (carrying ''t1'') (protectRun two_tokens id shop [(2 * second, carrying ''t2'')] (Some fences))) = Inl rsp"
proof -
  from newer_passes obtain claims fences where
    passed: "protectCheck two_tokens id shop (2 * second) (carrying ''t2'') (Some Map.empty) = (Inr claims, Some fences)" by blast
  have max: "e_Fence newer \<le> max_bigint" by (simp add: newer_ok max_bigint_def)
  have pk: "pc_Public shop = sg_Public demo_signer" by (simp add: shop_def demo_signer_def)
  have t1: "SignExecution two_tokens 0 ''j'' demo_signer older = Some (TokenFrom (carrying ''t1'') (pc_Header shop))"
    and t2: "SignExecution two_tokens 0 ''j'' demo_signer newer = Some (TokenFrom (carrying ''t2'') (pc_Header shop))"
    by (simp_all only: two_signed carrying_token list.distinct(2) not_False_eq_True)
  from fenced_out [OF reach2 run23 demo23_rows [folded older_def newer_def] max two_tokens_law pk t1 t2 passed] passed
  show ?thesis by blast
qed

end
