(* ===== verification/Origin.thy ===== *)
theory Origin
  imports Sdk
begin

text \<open>
  \<open>internal/simtix\<close>: the box-office origin behind the gateway. It allocates seats of one event: a hold
  takes seats for two minutes, an order sells the seats of a hold. Allocation requires the origin's
  secret (path trust) and an execution token (authorisation). Each handler is a function of the origin's
  state; the mutex makes the part of a handler that touches the event and the holds one step. The
  answer of the gateway's introspection endpoint is the parameter \<open>os_ask\<close>: the status, the text and
  the decoded body, or \<open>None\<close> when the gateway cannot be reached.
\<close>

section \<open>State\<close>

datatype originError = ErrStaleFence | ErrWrongMerchant | ErrWrongResource | ErrWrongCustomer | ErrRevoked | ErrMissingToken
  | ErrNoVerifier | ErrInvalidToken | ErrVerifier string

record originConfig =
  oc_HMACSecret :: string
  oc_OriginSecret :: string
  oc_Seats :: int
  oc_MerchantID :: string
  oc_Public :: string
  oc_IntrospectURL :: string
  oc_RequireExecution :: bool
  oc_AllowOriginSecretOnly :: bool
  oc_Environment :: string
  oc_VerifyExecution :: "(string \<Rightarrow> originError option) option"
  oc_CustomerID :: string

record event =
  ev_ID :: string
  ev_Name :: string
  ev_Seats :: int
  ev_Held :: int
  ev_Sold :: int

record hold =
  ho_ID :: string
  ho_EventID :: string
  ho_MembershipNo :: string
  ho_Seats :: int
  ho_ExpiresAt :: time

record origin =
  or_cfg :: originConfig
  or_event :: event
  or_holds :: "hold list"
  or_seq :: int
  or_fences :: FenceCache

text \<open>What the origin finds around it: the token library, normalisation, the gateway's introspection and
  the clock, read several times by one handler.\<close>

record outside =
  os_jwt :: jwt
  os_nfkc :: "string \<Rightarrow> string"
  os_ask :: "string \<Rightarrow> string \<Rightarrow> (int \<times> string \<times> json option) option"
  os_now :: "nat \<Rightarrow> time"
  os_draw :: string

definition CookieName :: string where "CookieName = ''boxoffice_session''"
definition DefaultEvent :: string where "DefaultEvent = ''ars-che''"

definition Available :: "event \<Rightarrow> int" where
  "Available e = ev_Seats e - ev_Held e - ev_Sold e"

definition productionEnv :: "string \<Rightarrow> bool" where
  "productionEnv e \<longleftrightarrow> ToLower (TrimSpace e) \<notin> {''lab'', ''dev'', ''test''}"

definition LabOrigin :: "(string \<Rightarrow> string) \<Rightarrow> string \<Rightarrow> string \<Rightarrow> string \<Rightarrow> string \<Rightarrow> string \<Rightarrow> int \<Rightarrow> originConfig" where
  "LabOrigin getenv hmac originSecret merchantID pub controlURL seats =
     \<lparr>oc_HMACSecret = hmac, oc_OriginSecret = originSecret, oc_Seats = seats, oc_MerchantID = merchantID, oc_Public = pub,
      oc_IntrospectURL = (if controlURL \<noteq> '''' then TrimRight controlURL ''/'' @ ''/v1/introspect'' else ''''),
      oc_RequireExecution = False, oc_AllowOriginSecretOnly = False, oc_Environment = env getenv ''BRUISER_ENV'' ''lab'',
      oc_VerifyExecution = None, oc_CustomerID = ''''\<rparr>"

definition originDefaults :: "(string \<Rightarrow> string) \<Rightarrow> originConfig \<Rightarrow> originConfig" where
  "originDefaults getenv c0 =
     (let c = c0\<lparr>oc_HMACSecret := (if oc_HMACSecret c0 = '''' then getenv ''BRUISER_DEV_HMAC_SECRET'' else oc_HMACSecret c0),
            oc_Seats := (if oc_Seats c0 \<le> 0 then 50 else oc_Seats c0),
            oc_Environment := (if oc_Environment c0 = '''' then getenv ''BRUISER_ENV'' else oc_Environment c0)\<rparr>;
          c = c\<lparr>oc_AllowOriginSecretOnly := oc_AllowOriginSecretOnly c \<and> \<not> productionEnv (oc_Environment c)\<rparr>
      in c\<lparr>oc_RequireExecution := (if oc_AllowOriginSecretOnly c then oc_RequireExecution c else True)\<rparr>)"

definition NewOrigin :: "(string \<Rightarrow> string) \<Rightarrow> originConfig \<Rightarrow> origin" where
  "NewOrigin getenv c0 =
     (let c = originDefaults getenv c0 in
      \<lparr>or_cfg = c,
       or_event = \<lparr>ev_ID = DefaultEvent, ev_Name = ''Arsenal v Chelsea'', ev_Seats = oc_Seats c, ev_Held = 0, ev_Sold = 0\<rparr>,
       or_holds = [], or_seq = 0, or_fences = Map.empty\<rparr>)"

section \<open>Authorisation\<close>

definition membershipFrom :: "outside \<Rightarrow> nat \<Rightarrow> request \<Rightarrow> string \<Rightarrow> string" where
  "membershipFrom W i r secret =
     (case map_of (rq_Cookies r) CookieName of
        None \<Rightarrow> ''''
      | Some v \<Rightarrow> (case ParseAssertionHS256 (os_jwt W) (os_now W i) v secret of None \<Rightarrow> '''' | Some a \<Rightarrow> ca_CustomerID a))"

definition authDenied :: "string \<Rightarrow> originError" where
  "authDenied body = (if Contains body ''stale_fence'' then ErrStaleFence else ErrRevoked)"

definition introspectLive :: "outside \<Rightarrow> originConfig \<Rightarrow> string \<Rightarrow> originError option" where
  "introspectLive W cfg token =
     (if oc_IntrospectURL cfg = '''' then None
      else case os_ask W (oc_IntrospectURL cfg) token of
        None \<Rightarrow> None
      | Some (status, text, body) \<Rightarrow>
          if status = StatusUnauthorized \<or> status = StatusForbidden then Some (authDenied text)
          else if status \<noteq> StatusOK then None
          else
            case Option.bind (objectOf body) (\<lambda>ms. Option.bind (bool_field ms ''active'') (\<lambda>a.
                   Option.bind (str_field ms ''reason'') (\<lambda>re. map_option (\<lambda>_. (a, re)) (str_field ms ''state'')))) of
              None \<Rightarrow> Some ErrNoVerifier
            | Some (active, reason) \<Rightarrow>
                if active then None else if reason = ''stale_fence'' then Some ErrStaleFence else Some ErrRevoked)"

definition checkClaims :: "outside \<Rightarrow> originConfig \<Rightarrow> FenceCache \<Rightarrow> ExecutionClaims \<Rightarrow> string \<Rightarrow> string \<Rightarrow> string \<Rightarrow> originError option" where
  "checkClaims W cfg fences claims fenceHdr wantResource customerID =
     (let wantCust = (if customerID = '''' then oc_CustomerID cfg else customerID) in
      if oc_MerchantID cfg \<noteq> '''' \<and> ec_MerchantID claims \<noteq> oc_MerchantID cfg then Some ErrWrongMerchant
      else if wantResource \<noteq> '''' \<and> \<not> sameResource (os_nfkc W) wantResource (ec_Resource claims) then Some ErrWrongResource
      else if wantCust \<noteq> '''' \<and> ec_CustomerID claims \<noteq> '''' \<and> ec_CustomerID claims \<noteq> wantCust then Some ErrWrongCustomer
      else if fenceHdr \<noteq> '''' \<and> Atoi fenceHdr \<noteq> Some (ec_Fence claims) then Some ErrStaleFence
      else if staleFence fences (ec_Domain claims) (ec_Fence claims) then Some ErrStaleFence
      else None)"

definition rememberFence :: "string \<Rightarrow> int \<Rightarrow> FenceCache \<Rightarrow> FenceCache" where
  "rememberFence domain fence fences =
     (if domain = '''' \<or> staleFence fences domain fence then fences else raiseFence fences domain fence)"

definition verifyExecution ::
    "outside \<Rightarrow> originConfig \<Rightarrow> string \<Rightarrow> string \<Rightarrow> string \<Rightarrow> string \<Rightarrow> FenceCache \<Rightarrow> originError option \<times> FenceCache" where
  "verifyExecution W cfg tok fenceHdr wantResource customerID fences =
     (let parsed = ParseExecution (os_jwt W) (os_now W 1) tok (oc_Public cfg) in
      case oc_VerifyExecution cfg of
        Some verify \<Rightarrow>
          (case verify tok of
             Some err \<Rightarrow> (Some err, fences)
           | None \<Rightarrow>
               if fenceHdr \<noteq> '''' \<and> length (oc_Public cfg) > 0 then
                 (case parsed of
                    None \<Rightarrow> (Some ErrInvalidToken, fences)
                  | Some claims \<Rightarrow>
                      (case checkClaims W cfg fences claims fenceHdr wantResource customerID of
                         Some err \<Rightarrow> (Some err, fences)
                       | None \<Rightarrow> (None, rememberFence (ec_Domain claims) (ec_Fence claims) fences)))
               else (introspectLive W cfg tok, fences))
      | None \<Rightarrow>
          if length (oc_Public cfg) = 0 then (Some ErrNoVerifier, fences)
          else case parsed of
            None \<Rightarrow> (Some ErrInvalidToken, fences)
          | Some claims \<Rightarrow>
              (case checkClaims W cfg fences claims fenceHdr wantResource customerID of
                 Some err \<Rightarrow> (Some err, fences)
               | None \<Rightarrow>
                   (case introspectLive W cfg tok of
                      Some err \<Rightarrow> (Some err, fences)
                    | None \<Rightarrow> (None, rememberFence (ec_Domain claims) (ec_Fence claims) fences))))"

definition errorText :: "originError \<Rightarrow> string" where
  "errorText err =
     (case err of ErrWrongResource \<Rightarrow> ''resource mismatch'' | ErrRevoked \<Rightarrow> ''revoked execution'' | ErrWrongCustomer \<Rightarrow> ''customer mismatch''
      | ErrStaleFence \<Rightarrow> ''stale fence'' | ErrMissingToken \<Rightarrow> ''missing execution token'' | _ \<Rightarrow> ''invalid execution token'')"

definition originToken :: "request \<Rightarrow> string" where
  "originToken r =
     (let tok = hdrGet (rq_Headers r) ''X-Bruiser-Execution''; h = hdrGet (rq_Headers r) ''Authorization'' in
      if tok \<noteq> '''' then tok
      else if length h > 7 \<and> (take 7 h = ''Bearer '' \<or> take 7 h = ''bearer '') then drop 7 h else '''')"

text \<open>\<open>None\<close> when the execution is accepted, otherwise the response.\<close>

definition executionOK :: "outside \<Rightarrow> request \<Rightarrow> string \<Rightarrow> origin \<Rightarrow> response option \<times> origin" where
  "executionOK W r wantResource s =
     (if oc_AllowOriginSecretOnly (or_cfg s) then (None, s)
      else
        let tok = originToken r in
        if tok = '''' then (Some (writeErr [] StatusUnauthorized ''missing execution token''), s)
        else
          case verifyExecution W (or_cfg s) tok (hdrGet (rq_Headers r) ''X-Bruiser-Fence'') wantResource
                 (membershipFrom W 0 r (oc_HMACSecret (or_cfg s))) (or_fences s) of
            (None, fences) \<Rightarrow> (None, s\<lparr>or_fences := fences\<rparr>)
          | (Some err, fences) \<Rightarrow>
              (Some (writeErr [] (if err = ErrMissingToken then StatusUnauthorized else StatusForbidden) (errorText err)), s\<lparr>or_fences := fences\<rparr>))"

definition originOK :: "request \<Rightarrow> origin \<Rightarrow> response option" where
  "originOK r s =
     (if oc_OriginSecret (or_cfg s) = '''' \<or> hdrGet (rq_Headers r) ''X-Bruiser-Origin-Secret'' = oc_OriginSecret (or_cfg s) then None
      else Some (writeJSON [] StatusForbidden
        [(''error'', JStr ''origin lockdown''), (''detail'', JStr ''allocation requires X-Bruiser-Origin-Secret from the enforcement front'')]))"

section \<open>Handlers\<close>

fun expireHolds :: "time \<Rightarrow> hold list \<Rightarrow> event \<Rightarrow> hold list \<times> event" where
  "expireHolds t [] e = ([], e)"
| "expireHolds t (h # hs) e =
     (if \<not> ho_ExpiresAt h > t
      then expireHolds t hs (e\<lparr>ev_Held := (if ev_Held e - ho_Seats h < 0 then 0 else ev_Held e - ho_Seats h)\<rparr>)
      else case expireHolds t hs e of (kept, e') \<Rightarrow> (h # kept, e'))"

definition expireHoldsLocked :: "time \<Rightarrow> origin \<Rightarrow> origin" where
  "expireHoldsLocked t s = (case expireHolds t (or_holds s) (or_event s) of (hs, e) \<Rightarrow> s\<lparr>or_holds := hs, or_event := e\<rparr>)"

definition event_json :: "event \<Rightarrow> (string \<times> json) list" where
  "event_json ev = [(''id'', JStr (ev_ID ev)), (''name'', JStr (ev_Name ev)), (''available'', JNum (Available ev)),
     (''held'', JNum (ev_Held ev)), (''sold'', JNum (ev_Sold ev)), (''seats'', JNum (ev_Seats ev))]"

definition login :: "outside \<Rightarrow> request \<Rightarrow> origin \<Rightarrow> response \<times> origin" where
  "login W r s =
     (let m = lax_str (rq_Body r) ''membership_no'' in
      if m = '''' then (writeErr [] StatusBadRequest ''membership_no required'', s)
      else case IssueBoxOfficeSession (os_jwt W) (os_now W 0) (os_draw W) (oc_HMACSecret (or_cfg s)) m (60 * minute) of
        None \<Rightarrow> (writeErr [] StatusInternalServerError ''session'', s)
      | Some tok \<Rightarrow>
          (writeJSON [(''Set-Cookie'', CookieName @ ''='' @ tok @ ''; Path=/; HttpOnly; SameSite=Lax'')] StatusOK
            [(''membership_no'', JStr m), (''cookie'', JStr CookieName)], s))"

definition listEvents :: "outside \<Rightarrow> origin \<Rightarrow> response \<times> origin" where
  "listEvents W s0 =
     (let s = expireHoldsLocked (os_now W 0) s0 in
      (writeJSON [] StatusOK [(''events'', JArr [JObj (event_json (or_event s))])], s))"

definition getEvent :: "outside \<Rightarrow> string \<Rightarrow> origin \<Rightarrow> response \<times> origin" where
  "getEvent W eventID s0 =
     (let s = expireHoldsLocked (os_now W 0) s0 in
      if eventID \<noteq> ev_ID (or_event s) then (writeErr [] StatusNotFound ''unknown event'', s)
      else (writeJSON [] StatusOK (event_json (or_event s)), s))"

definition holdName :: "int \<Rightarrow> string" where
  "holdName n = ''hld_'' @ FormatInt n"

definition takeHold :: "outside \<Rightarrow> string \<Rightarrow> string \<Rightarrow> int \<Rightarrow> origin \<Rightarrow> response \<times> origin" where
  "takeHold W eventID membership seats s0 =
     (let s = expireHoldsLocked (os_now W 3) s0; ev = or_event s in
      if eventID \<noteq> ev_ID ev then (writeErr [] StatusNotFound ''unknown event'', s)
      else if Available ev < seats then (writeErr [] StatusConflict ''sold out'', s)
      else
        let h = \<lparr>ho_ID = holdName (or_seq s + 1), ho_EventID = eventID, ho_MembershipNo = membership, ho_Seats = seats,
                 ho_ExpiresAt = os_now W 4 + 120 * second\<rparr>
        in (writeJSON [] StatusCreated
              [(''hold_id'', JStr (ho_ID h)), (''event_id'', JStr eventID), (''membership_no'', JStr membership), (''seats'', JNum seats),
               (''expires_at'', JStr (RFC3339Nano (ho_ExpiresAt h)))],
            s\<lparr>or_seq := or_seq s + 1, or_holds := filter (\<lambda>x. ho_ID x \<noteq> ho_ID h) (or_holds s) @ [h],
              or_event := ev\<lparr>ev_Held := ev_Held ev + seats\<rparr>\<rparr>))"

definition createHold :: "outside \<Rightarrow> string \<Rightarrow> request \<Rightarrow> origin \<Rightarrow> response \<times> origin" where
  "createHold W eventID r s0 =
     (case originOK r s0 of
        Some resp \<Rightarrow> (resp, s0)
      | None \<Rightarrow>
          (case executionOK W r (''event:'' @ eventID) s0 of
             (Some resp, s) \<Rightarrow> (resp, s)
           | (None, s) \<Rightarrow>
               takeHold W eventID (membershipFrom W 2 r (oc_HMACSecret (or_cfg s))) (max 1 (lax_int (rq_Body r) ''seats'')) s))"

definition sellHold :: "outside \<Rightarrow> string \<Rightarrow> string \<Rightarrow> origin \<Rightarrow> response \<times> origin" where
  "sellHold W eventID holdID s0 =
     (let s = expireHoldsLocked (os_now W 3) s0 in
      case find (\<lambda>h. ho_ID h = holdID) (or_holds s) of
        None \<Rightarrow> (writeErr [] StatusNotFound ''hold not found'', s)
      | Some h \<Rightarrow>
          if eventID \<noteq> '''' \<and> ho_EventID h \<noteq> eventID then (writeErr [] StatusNotFound ''hold not found'', s)
          else
            let ev = or_event s in
            (writeJSON [] StatusCreated
               [(''order_id'', JStr (''ord_'' @ FormatInt (or_seq s))), (''event_id'', JStr (ho_EventID h)), (''seats'', JNum (ho_Seats h)),
                (''customer'', JStr (ho_MembershipNo h))],
             s\<lparr>or_holds := filter (\<lambda>x. ho_ID x \<noteq> ho_ID h) (or_holds s),
               or_event := ev\<lparr>ev_Held := ev_Held ev - ho_Seats h, ev_Sold := ev_Sold ev + ho_Seats h\<rparr>\<rparr>))"

definition createOrder :: "outside \<Rightarrow> request \<Rightarrow> origin \<Rightarrow> response \<times> origin" where
  "createOrder W r s0 =
     (case Option.bind (objectOf (rq_Body r)) (\<lambda>ms. Option.bind (str_field ms ''event_id'') (\<lambda>e.
             map_option (\<lambda>h. (e, h)) (str_field ms ''hold_id''))) of
        None \<Rightarrow> (writeErr [] StatusBadRequest ''invalid json'', s0)
      | Some (eventID, holdID) \<Rightarrow>
          (case originOK r s0 of
             Some resp \<Rightarrow> (resp, s0)
           | None \<Rightarrow>
               (case executionOK W r (if eventID \<noteq> '''' then ''event:'' @ eventID else '''') s0 of
                  (Some resp, s) \<Rightarrow> (resp, s)
                | (None, s) \<Rightarrow> sellHold W eventID holdID s)))"

definition reset :: "origin \<Rightarrow> response \<times> origin" where
  "reset s =
     (writeJSON [] StatusOK [(''status'', JStr ''reset'')],
      s\<lparr>or_event := (or_event s)\<lparr>ev_Held := 0, ev_Sold := 0\<rparr>, or_holds := [], or_seq := 0\<rparr>)"

datatype originRequest = Login request | ListEvents | GetEvent string | CreateHold string request | CreateOrder request | ResetAll

fun originHandler :: "outside \<Rightarrow> originRequest \<Rightarrow> origin \<Rightarrow> response \<times> origin" where
  "originHandler W (Login r) s = login W r s"
| "originHandler W ListEvents s = listEvents W s"
| "originHandler W (GetEvent e) s = getEvent W e s"
| "originHandler W (CreateHold e r) s = createHold W e r s"
| "originHandler W (CreateOrder r) s = createOrder W r s"
| "originHandler W ResetAll s = reset s"

end
