(* ===== verification/Origin_Props.thy ===== *)
theory Origin_Props
  imports Origin Fencing Config_Props
begin

text \<open>Properties of the box-office origin: it never sells more seats than there are, and in production it
  allocates seats only for an execution.\<close>

section \<open>The fences of the origin\<close>

interpretation box_office: fence_guard staleFence "\<lambda>c d f. rememberFence d f c" lastFence "\<lambda>d. d \<noteq> ''''"
  by unfold_locales (auto simp: staleFence_iff lastFence_raise rememberFence_def)

section \<open>Reachable states\<close>

inductive origin_reach :: "(string \<Rightarrow> string) \<Rightarrow> originConfig \<Rightarrow> origin \<Rightarrow> bool" for getenv cfg where
  opened: "origin_reach getenv cfg (NewOrigin getenv cfg)"
| served: "origin_reach getenv cfg s \<Longrightarrow> originHandler W q s = (resp, s') \<Longrightarrow> origin_reach getenv cfg s'"

text \<open>The books of the box office: what is held is what the holds say, every hold has its own number, and
  held and sold seats fit the house.\<close>

definition numbered :: "int \<Rightarrow> hold \<Rightarrow> bool" where
  "numbered n h \<longleftrightarrow> (\<exists>k. 1 \<le> k \<and> k \<le> n \<and> ho_ID h = holdName k)"

definition seats_ok :: "origin \<Rightarrow> bool" where
  "seats_ok s \<longleftrightarrow> ev_Held (or_event s) = sum_list (map ho_Seats (or_holds s))
     \<and> list_all (\<lambda>h. 1 \<le> ho_Seats h \<and> numbered (or_seq s) h) (or_holds s) \<and> distinct (map ho_ID (or_holds s))
     \<and> 0 \<le> or_seq s \<and> 0 \<le> ev_Sold (or_event s) \<and> ev_Held (or_event s) + ev_Sold (or_event s) \<le> ev_Seats (or_event s)"

lemma FormatInt_inj: "0 \<le> m \<Longrightarrow> 0 \<le> n \<Longrightarrow> FormatInt m = FormatInt n \<longleftrightarrow> m = n"
proof -
  have dv: "0 \<le> k \<Longrightarrow> digits_value (FormatInt k) = k" for k by (simp add: FormatInt_def nat_digits_value)
  show "0 \<le> m \<Longrightarrow> 0 \<le> n \<Longrightarrow> FormatInt m = FormatInt n \<longleftrightarrow> m = n" by (metis dv)
qed

lemma seats_nonneg: "list_all (\<lambda>h. 1 \<le> ho_Seats h \<and> P h) hs \<Longrightarrow> 0 \<le> sum_list (map ho_Seats hs)"
  by (induction hs) auto

lemma expireHolds_spec:
  assumes "list_all (\<lambda>h. 1 \<le> ho_Seats h \<and> P h) hs" "0 \<le> n" "ev_Held e = n + sum_list (map ho_Seats hs)"
  shows "expireHolds t hs e = (filter (\<lambda>h. ho_ExpiresAt h > t) hs,
    e\<lparr>ev_Held := n + sum_list (map ho_Seats (filter (\<lambda>h. ho_ExpiresAt h > t) hs))\<rparr>)"
  using assms
proof (induction hs arbitrary: n e)
  case (Cons h hs)
  have rest: "0 \<le> sum_list (map ho_Seats hs)" using Cons.prems(1) seats_nonneg [of P hs] by simp
  show ?case
  proof (cases "ho_ExpiresAt h > t")
    case True
    with Cons.prems Cons.IH [of "n + ho_Seats h" e] show ?thesis by (simp add: algebra_simps)
  next
    case False
    with Cons.prems rest Cons.IH [of n "e\<lparr>ev_Held := ev_Held e - ho_Seats h\<rparr>"] show ?thesis by simp
  qed
qed simp

lemma sum_filter_le: "list_all (\<lambda>h. 1 \<le> ho_Seats h \<and> P h) hs \<Longrightarrow> sum_list (map ho_Seats (filter Q hs)) \<le> sum_list (map ho_Seats hs)"
  by (induction hs) auto

lemma seats_ok_expire: "seats_ok s \<Longrightarrow> seats_ok (expireHoldsLocked t s)"
proof -
  assume ok: "seats_ok s"
  let ?hs = "filter (\<lambda>h. ho_ExpiresAt h > t) (or_holds s)"
  have hs: "list_all (\<lambda>h. 1 \<le> ho_Seats h \<and> numbered (or_seq s) h) (or_holds s)" using ok by (simp add: seats_ok_def)
  have "expireHolds t (or_holds s) (or_event s) = (?hs, (or_event s)\<lparr>ev_Held := 0 + sum_list (map ho_Seats ?hs)\<rparr>)"
    by (rule expireHolds_spec [OF hs]) (use ok in \<open>simp_all add: seats_ok_def\<close>)
  then have "expireHoldsLocked t s = s\<lparr>or_holds := ?hs, or_event := (or_event s)\<lparr>ev_Held := sum_list (map ho_Seats ?hs)\<rparr>\<rparr>"
    by (simp add: expireHoldsLocked_def)
  then show ?thesis
    using ok sum_filter_le [OF hs, of "\<lambda>h. ho_ExpiresAt h > t"] by (auto simp: seats_ok_def list_all_iff distinct_map inj_on_def)
qed

lemma expire_cfg [simp]: "or_cfg (expireHoldsLocked t s) = or_cfg s" "or_fences (expireHoldsLocked t s) = or_fences s"
  by (simp_all add: expireHoldsLocked_def split: prod.split)

lemma seats_ok_fences: "seats_ok (s\<lparr>or_fences := f\<rparr>) = seats_ok s"
  by (simp add: seats_ok_def)

lemma numbered_later: "numbered n h \<Longrightarrow> numbered (n + 1) h"
  unfolding numbered_def by force

lemma numbered_fresh: "0 \<le> n \<Longrightarrow> numbered n h \<Longrightarrow> ho_ID h \<noteq> holdName (n + 1)"
  unfolding numbered_def by (auto simp: holdName_def FormatInt_inj)

lemma seats_ok_hold:
  assumes "seats_ok s" "1 \<le> ho_Seats h" "ho_Seats h \<le> Available (or_event s)" "ho_ID h = holdName (or_seq s + 1)"
  shows "seats_ok (s\<lparr>or_seq := or_seq s + 1, or_holds := or_holds s @ [h], or_event := (or_event s)\<lparr>ev_Held := ev_Held (or_event s) + ho_Seats h\<rparr>\<rparr>)"
proof -
  have ok: "0 \<le> or_seq s" "list_all (\<lambda>h. 1 \<le> ho_Seats h \<and> numbered (or_seq s) h) (or_holds s)" "distinct (map ho_ID (or_holds s))"
    using assms(1) by (simp_all add: seats_ok_def)
  have new: "numbered (or_seq s + 1) h" unfolding numbered_def by (rule exI [of _ "or_seq s + 1"]) (use assms(4) ok(1) in simp)
  have "list_all (\<lambda>x. 1 \<le> ho_Seats x \<and> numbered (or_seq s + 1) x) (or_holds s @ [h])"
    using ok(2) new assms(2) by (auto simp: list_all_iff intro: numbered_later)
  moreover have "distinct (map ho_ID (or_holds s @ [h]))"
    using ok assms(4) numbered_fresh by (fastforce simp: list_all_iff)
  ultimately show ?thesis using assms(1,3) ok(1) by (simp add: seats_ok_def Available_def)
qed

lemma seats_ok_takeHold:
  assumes "seats_ok s" "1 \<le> seats" "takeHold W ev m seats s = (resp, s')"
  shows "seats_ok s'"
proof -
  let ?s = "expireHoldsLocked (os_now W 3) s"
  have ok: "seats_ok ?s" by (rule seats_ok_expire [OF assms(1)])
  then have fresh: "filter (\<lambda>x. ho_ID x \<noteq> holdName (or_seq ?s + 1)) (or_holds ?s) = or_holds ?s"
    by (intro filter_True) (auto simp: seats_ok_def list_all_iff dest: numbered_fresh)
  let ?h = "\<lparr>ho_ID = holdName (or_seq ?s + 1), ho_EventID = ev, ho_MembershipNo = m, ho_Seats = seats, ho_ExpiresAt = os_now W 4 + 120 * second\<rparr>"
  show ?thesis
    using assms(3) ok assms(2) fresh seats_ok_hold [OF ok, of ?h] unfolding takeHold_def Let_def
    by (simp split: if_splits)
qed

lemma sum_remove: "distinct (map ho_ID hs) \<Longrightarrow> h \<in> set hs \<Longrightarrow>
   sum_list (map ho_Seats (filter (\<lambda>x. ho_ID x \<noteq> ho_ID h) hs)) = sum_list (map ho_Seats hs) - ho_Seats h"
proof (induction hs)
  case (Cons a hs)
  show ?case
  proof (cases "ho_ID a = ho_ID h")
    case True
    with Cons.prems have "h = a" by (metis image_eqI distinct.simps(2) list.set_map list.simps(9) set_ConsD)
    moreover have "filter (\<lambda>x. ho_ID x \<noteq> ho_ID a) hs = hs"
      using Cons.prems(1) by (intro filter_True ballI) (metis distinct.simps(2) image_eqI list.set_map list.simps(9))
    ultimately show ?thesis by simp
  next
    case False
    with Cons show ?thesis by auto
  qed
qed simp

lemma seats_ok_sellHold:
  assumes "seats_ok s" "sellHold W ev hid s = (resp, s')"
  shows "seats_ok s'"
proof -
  let ?s = "expireHoldsLocked (os_now W 3) s"
  have ok: "seats_ok ?s" by (rule seats_ok_expire [OF assms(1)])
  show ?thesis
  proof (cases "find (\<lambda>h. ho_ID h = hid) (or_holds ?s)")
    case None
    with assms(2) ok show ?thesis by (simp add: sellHold_def Let_def)
  next
    case (Some h)
    then have h: "h \<in> set (or_holds ?s)" "ho_ID h = hid" by (auto simp: find_Some_iff)
    from sum_remove [OF _ h(1)] ok have
      sum: "sum_list (map ho_Seats (filter (\<lambda>x. ho_ID x \<noteq> ho_ID h) (or_holds ?s))) = ev_Held (or_event ?s) - ho_Seats h"
      by (simp add: seats_ok_def)
    from ok h have "1 \<le> ho_Seats h" by (auto simp: seats_ok_def list_all_iff)
    with assms(2) Some ok sum show ?thesis
      by (auto simp: sellHold_def Let_def seats_ok_def list_all_iff distinct_map inj_on_def split: if_splits)
  qed
qed

lemma same_fences: "\<exists>f. s = s\<lparr>or_fences := f\<rparr>"
  by (rule exI [of _ "or_fences s"]) simp

lemma executionOK_frame:
  assumes "executionOK W r want s = (out, s')"
  shows "\<exists>f. s' = s\<lparr>or_fences := f\<rparr>"
  using assms same_fences [of s] by (auto simp: executionOK_def Let_def split: if_splits prod.splits option.splits)

text \<open>Both allocating handlers check the secret and the execution before they touch the books.\<close>

lemma createHold_cases:
  assumes "createHold W e r s = (resp, s')"
  obtains (lockdown) "originOK r s = Some resp" "s' = s"
  | (refused) "executionOK W r (''event:'' @ e) s = (Some resp, s')"
  | (taken) s1 where "originOK r s = None" "executionOK W r (''event:'' @ e) s = (None, s1)"
      "takeHold W e (membershipFrom W 2 r (oc_HMACSecret (or_cfg s1))) (max 1 (lax_int (rq_Body r) ''seats'')) s1 = (resp, s')"
  using assms by (auto simp: createHold_def split: option.splits prod.splits)

definition orderResource :: "request \<Rightarrow> string" where
  "orderResource r = (let e = lax_str (rq_Body r) ''event_id'' in if e \<noteq> '''' then ''event:'' @ e else '''')"

lemma createOrder_cases:
  assumes "createOrder W r s = (resp, s')"
  obtains (early) "s' = s" "rs_status resp \<noteq> StatusCreated"
  | (refused) want where "executionOK W r want s = (Some resp, s')"
  | (sold) e h s1 where "originOK r s = None" "executionOK W r (orderResource r) s = (None, s1)" "sellHold W e h s1 = (resp, s')"
  using assms by (auto simp: createOrder_def originOK_def writeErr_def writeJSON_def orderResource_def lax_str_def Let_def
      split: option.splits prod.splits if_splits Option.bind_splits)

lemma executionOK_ok: "seats_ok s \<Longrightarrow> executionOK W r want s = (out, s') \<Longrightarrow> seats_ok s'"
  using executionOK_frame seats_ok_fences by metis

lemma originHandler_ok:
  assumes "seats_ok s" "originHandler W q s = (resp, s')"
  shows "seats_ok s'"
proof (cases q)
  case (CreateHold e r)
  with assms(2) have "createHold W e r s = (resp, s')" by simp
  then show ?thesis
    by (cases rule: createHold_cases) (use assms(1) in \<open>auto intro: executionOK_ok seats_ok_takeHold [rotated 2]\<close>)
next
  case (CreateOrder r)
  with assms(2) have "createOrder W r s = (resp, s')" by simp
  then show ?thesis
    by (cases rule: createOrder_cases) (use assms(1) in \<open>auto intro: executionOK_ok seats_ok_sellHold [rotated]\<close>)
next
  case ResetAll
  with assms seats_nonneg [of _ "or_holds s"] show ?thesis by (fastforce simp: reset_def seats_ok_def)
qed (use assms in \<open>auto simp: login_def listEvents_def getEvent_def Let_def split: if_splits option.splits intro: seats_ok_expire\<close>)

lemma originHandler_cfg: "originHandler W q s = (resp, s') \<Longrightarrow> or_cfg s' = or_cfg s"
proof (cases q)
  case (CreateHold e r)
  then show "originHandler W q s = (resp, s') \<Longrightarrow> or_cfg s' = or_cfg s"
    by (auto simp: takeHold_def Let_def elim!: createHold_cases dest!: executionOK_frame split: if_splits)
next
  case (CreateOrder r)
  then show "originHandler W q s = (resp, s') \<Longrightarrow> or_cfg s' = or_cfg s"
    by (auto simp: sellHold_def Let_def elim!: createOrder_cases dest!: executionOK_frame split: if_splits option.splits)
qed (auto simp: login_def listEvents_def getEvent_def reset_def Let_def split: if_splits option.splits)

lemma origin_reach_cfg: "origin_reach getenv cfg s \<Longrightarrow> or_cfg s = originDefaults getenv cfg"
  by (induction rule: origin_reach.induct) (simp_all add: NewOrigin_def Let_def originHandler_cfg)

lemma origin_reach_ok: "origin_reach getenv cfg s \<Longrightarrow> seats_ok s"
proof (induction rule: origin_reach.induct)
  case opened
  then show ?case by (simp add: NewOrigin_def seats_ok_def originDefaults_def Let_def)
next
  case (served s W q resp s')
  then show ?case using originHandler_ok by blast
qed

text \<open>C35. The box office never oversells: whatever requests it serves, with whatever tokens and at whatever
  times, the seats held are exactly those of the open holds, every hold has its own identifier, and
  held and sold seats together never exceed the seats of the house.\<close>

theorem origin_never_oversells:
  assumes "origin_reach getenv cfg s"
  shows "ev_Held (or_event s) = sum_list (map ho_Seats (or_holds s)) \<and> distinct (map ho_ID (or_holds s))
    \<and> 0 \<le> ev_Sold (or_event s) \<and> ev_Held (or_event s) + ev_Sold (or_event s) \<le> ev_Seats (or_event s)
    \<and> 0 \<le> Available (or_event s)"
  using origin_reach_ok [OF assms] by (auto simp: seats_ok_def Available_def)

section \<open>Authorised allocation\<close>

lemma checkClaims_None:
  "checkClaims W cfg fences cl hdr want cust = None \<longleftrightarrow>
     (oc_MerchantID cfg = '''' \<or> ec_MerchantID cl = oc_MerchantID cfg)
     \<and> (want = '''' \<or> sameResource (os_nfkc W) want (ec_Resource cl))
     \<and> (firstNonEmpty cust (oc_CustomerID cfg) = '''' \<or> ec_CustomerID cl = '''' \<or> ec_CustomerID cl = firstNonEmpty cust (oc_CustomerID cfg))
     \<and> (hdr = '''' \<or> Atoi hdr = Some (ec_Fence cl)) \<and> \<not> staleFence fences (ec_Domain cl) (ec_Fence cl)"
  by (auto simp: checkClaims_def firstNonEmpty_def Let_def)

text \<open>What an accepted execution token shows, for a request, a resource and the fences seen so far.\<close>

definition authorised :: "outside \<Rightarrow> originConfig \<Rightarrow> FenceCache \<Rightarrow> request \<Rightarrow> string \<Rightarrow> ExecutionClaims \<Rightarrow> bool" where
  "authorised W cfg fences r want cl \<longleftrightarrow>
     ParseExecution (os_jwt W) (os_now W 1) (originToken r) (oc_Public cfg) = Some cl
     \<and> (oc_MerchantID cfg = '''' \<or> ec_MerchantID cl = oc_MerchantID cfg)
     \<and> (want = '''' \<or> sameResource (os_nfkc W) want (ec_Resource cl))
     \<and> \<not> staleFence fences (ec_Domain cl) (ec_Fence cl)
     \<and> introspectLive W cfg (originToken r) = None"

lemma ParseExecution_customer: "ParseExecution J t tok pub = Some cl \<Longrightarrow> ec_CustomerID cl \<noteq> ''''"
  by (auto simp: ParseExecution_def split: Option.bind_splits if_splits)

lemma executionOK_authorised:
  assumes "executionOK W r want s = (None, s')" "\<not> oc_AllowOriginSecretOnly (or_cfg s)" "oc_VerifyExecution (or_cfg s) = None"
  shows "\<exists>cl. authorised W (or_cfg s) (or_fences s) r want cl \<and> or_fences s' = rememberFence (ec_Domain cl) (ec_Fence cl) (or_fences s)"
  using assms ParseExecution_customer
  by (auto simp: executionOK_def verifyExecution_def authorised_def checkClaims_None Let_def
      split: if_splits option.splits prod.splits)

lemma production_no_hatch:
  "productionEnv (oc_Environment (originDefaults getenv cfg)) \<Longrightarrow> \<not> oc_AllowOriginSecretOnly (originDefaults getenv cfg)"
  by (simp add: originDefaults_def Let_def)

lemma execution_refused: "executionOK W r want s = (Some out, s1) \<Longrightarrow> rs_status out \<noteq> StatusCreated"
  by (auto simp: executionOK_def writeErr_def writeJSON_def Let_def split: if_splits option.splits prod.splits)

lemma originOK_refused: "originOK r s = Some out \<Longrightarrow> rs_status out \<noteq> StatusCreated"
  by (auto simp: originOK_def writeJSON_def split: if_splits)

lemma originOK_secret:
  "originOK r s = None \<Longrightarrow>
   oc_OriginSecret (or_cfg s) = '''' \<or> hdrGet (rq_Headers r) ''X-Bruiser-Origin-Secret'' = oc_OriginSecret (or_cfg s)"
  by (auto simp: originOK_def split: if_splits)


section \<open>A box office in production\<close>

definition bo_lease :: execution where "bo_lease = demo_lease\<lparr>e_Resource := ''event:ars-che''\<rparr>"

definition bo_jwt :: jwt where
  "bo_jwt = table_jwt [(''tok'', execution_payload (table_jwt []) (executionClaims 0 ''j'' bo_lease))]"

definition bo_cfg :: originConfig where
  "bo_cfg = \<lparr>oc_HMACSecret = ''h1'', oc_OriginSecret = ''g1'', oc_Seats = 10, oc_MerchantID = ''m'', oc_Public = ''pk'', oc_IntrospectURL = '''',
     oc_RequireExecution = False, oc_AllowOriginSecretOnly = True, oc_Environment = ''prod'', oc_VerifyExecution = None, oc_CustomerID = ''''\<rparr>"

definition bo_world :: outside where
  "bo_world = \<lparr>os_jwt = bo_jwt, os_nfkc = nfkc_fragment, os_ask = (\<lambda>_ _. None), os_now = (\<lambda>_. 0), os_draw = ''''\<rparr>"

definition bo_request :: request where
  "bo_request = (carrying ''tok'')\<lparr>rq_Headers := [(''X-Bruiser-Execution'', ''tok''), (''X-Bruiser-Origin-Secret'', ''g1'')]\<rparr>"

definition bo_origin :: origin where "bo_origin = NewOrigin (\<lambda>_. '''') bo_cfg"

lemma bo_parsed: "\<exists>cl. ParseExecution bo_jwt 0 ''tok'' ''pk'' = Some cl \<and> ec_Resource cl = ''event:ars-che'' \<and> ec_MerchantID cl = ''m''"
proof -
  have keys: "sg_Private demo_signer = ''sk''" "sg_Public demo_signer = ''pk''" by (simp_all add: demo_signer_def)
  have law: "jwt_law bo_jwt (sg_Private demo_signer) (sg_Public demo_signer)" unfolding bo_jwt_def keys by (simp add: table_jwt_law)
  have pay: "execution_payload bo_jwt c = execution_payload (table_jwt []) c" for c unfolding bo_jwt_def by (rule payload_table)
  have sign: "SignExecution bo_jwt 0 ''j'' demo_signer bo_lease = Some ''tok''"
    unfolding SignExecution_def keys pay unfolding bo_jwt_def table_sign by simp
  have ok: "0 \<le> e_Fence bo_lease" "e_Fence bo_lease \<le> max_bigint" "e_ID bo_lease \<noteq> ''''" "e_CustomerID bo_lease \<noteq> ''''" "e_MerchantID bo_lease \<noteq> ''''"
    by (simp_all add: bo_lease_def demo_lease_def max_bigint_def)
  show ?thesis
    using ParseExecution_signed [OF law sign ok, of 0, unfolded keys] by (simp add: bo_lease_def demo_lease_def Skew_def)
qed

lemma bo_headers:
  "hdrGet (rq_Headers bo_request) ''X-Bruiser-Execution'' = ''tok''" "hdrGet (rq_Headers bo_request) ''X-Bruiser-Origin-Secret'' = ''g1''"
  "hdrGet (rq_Headers bo_request) ''X-Bruiser-Fence'' = ''''" "rq_Cookies bo_request = []" "rq_Body bo_request = None"
proof -
  have keys: "CanonicalHeaderKey ''X-Bruiser-Origin-Secret'' = ''X-Bruiser-Origin-Secret''" by code_simp
  show "hdrGet (rq_Headers bo_request) ''X-Bruiser-Execution'' = ''tok''" "hdrGet (rq_Headers bo_request) ''X-Bruiser-Origin-Secret'' = ''g1''"
    "hdrGet (rq_Headers bo_request) ''X-Bruiser-Fence'' = ''''" "rq_Cookies bo_request = []" "rq_Body bo_request = None"
    by (simp_all add: bo_request_def carrying_def hdrGet_def keys)
qed

lemma bo_production: "productionEnv ''prod''"
  by (simp add: productionEnv_def live_strings)

lemma bo_config: "or_cfg bo_origin = bo_cfg\<lparr>oc_AllowOriginSecretOnly := False, oc_RequireExecution := True\<rparr>"
  "or_holds bo_origin = []" "or_fences bo_origin = Map.empty" "or_seq bo_origin = 0"
  "or_event bo_origin = \<lparr>ev_ID = ''ars-che'', ev_Name = ''Arsenal v Chelsea'', ev_Seats = 10, ev_Held = 0, ev_Sold = 0\<rparr>"
  by (simp_all add: bo_origin_def NewOrigin_def originDefaults_def bo_cfg_def bo_production DefaultEvent_def Let_def)

lemma bo_held: "\<exists>resp s'. originHandler bo_world (CreateHold ''ars-che'' bo_request) bo_origin = (resp, s') \<and> rs_status resp = StatusCreated
    \<and> ev_Held (or_event s') = 1"
proof -
  from bo_parsed obtain cl where cl: "ParseExecution bo_jwt 0 ''tok'' ''pk'' = Some cl" "ec_Resource cl = ''event:ars-che''" "ec_MerchantID cl = ''m''" by blast
  have w: "os_jwt bo_world = bo_jwt" "os_nfkc bo_world = nfkc_fragment" "os_now bo_world i = 0" for i by (simp_all add: bo_world_def)
  have member: "membershipFrom bo_world i bo_request h = ''''" for i h by (simp add: membershipFrom_def bo_headers)
  have check: "checkClaims bo_world (or_cfg bo_origin) (or_fences bo_origin) cl '''' ''event:ars-che'' '''' = None"
    by (simp add: checkClaims_None cl bo_config sameResource_def w gd_canonical staleFence_def firstNonEmpty_def) (simp add: bo_cfg_def)
  have ask: "introspectLive bo_world (or_cfg bo_origin) tok = None" for tok by (simp add: introspectLive_def bo_config bo_cfg_def)
  have secret: "originOK bo_request bo_origin = None" by (simp add: originOK_def bo_config bo_headers) (simp add: bo_cfg_def)
  have "\<exists>f. executionOK bo_world bo_request ''event:ars-che'' bo_origin = (None, bo_origin\<lparr>or_fences := f\<rparr>)"
    using cl(1) check ask
    by (simp add: executionOK_def verifyExecution_def originToken_def bo_headers member w bo_config Let_def) (simp add: bo_cfg_def, blast)
  then obtain f where ex: "executionOK bo_world bo_request ''event:ars-che'' bo_origin = (None, bo_origin\<lparr>or_fences := f\<rparr>)" ..
  have seats: "max 1 (lax_int (rq_Body bo_request) ''seats'') = 1" by (simp add: bo_headers lax_int_def objectOf_def)
  show ?thesis
    by (simp add: createHold_def secret ex seats member takeHold_def expireHoldsLocked_def bo_config Available_def writeJSON_def w Let_def)
qed


theorem origin_never_oversells_witness:
  "\<exists>resp s. originHandler bo_world (CreateHold ''ars-che'' bo_request) bo_origin = (resp, s)
     \<and> ev_Held (or_event s) = 1 \<and> sum_list (map ho_Seats (or_holds s)) = 1 \<and> ev_Held (or_event s) + ev_Sold (or_event s) \<le> ev_Seats (or_event s)"
proof -
  from bo_held obtain resp s where run: "originHandler bo_world (CreateHold ''ars-che'' bo_request) bo_origin = (resp, s)"
    "ev_Held (or_event s) = 1" by blast
  have "origin_reach (\<lambda>_. '''') bo_cfg bo_origin" unfolding bo_origin_def by (rule origin_reach.opened)
  from origin_never_oversells [OF origin_reach.served [OF this run(1)]] run show ?thesis by auto
qed

end
