(* ===== verification/Edge.thy ===== *)
theory Edge
  imports Authorize
begin

text \<open>
  \<open>internal/edge/proxy.go\<close>: the edge in front of the origin. It asks the gateway's authorize endpoint and
  forwards the request, stamped with the answer's markers and the origin's secret, or returns the
  refusal. The gateway and the origin are reached over HTTP: \<open>ed_authorize\<close> is the gateway's answer (\<open>None\<close>
  when it cannot be reached) and \<open>ed_origin\<close> the origin's. The state is the limiter of requests per execution.
\<close>

record edgeConfig =
  eg_OriginURL :: string
  eg_BruiserURL :: string
  eg_EdgeSecret :: string
  eg_OriginSecret :: string
  eg_MaxInFlight :: int
  eg_RatePerSec :: rat
  eg_AuthorizePath :: string
  eg_Mode :: string
  eg_ModeFn :: "(request \<Rightarrow> string) option"

record outer =
  ed_requestOK :: "string \<Rightarrow> bool"
  ed_requestURI :: "request \<Rightarrow> string"
  ed_authorize :: "request \<Rightarrow> response option"
  ed_origin :: "request \<Rightarrow> response"
  ed_now :: time

definition EdgeOff :: string where "EdgeOff = ''off''"

definition HeaderDecision :: string where "HeaderDecision = ''X-Bruiser-Lab-Decision''"
definition HeaderForwarded :: string where "HeaderForwarded = ''X-Bruiser-Lab-Forwarded''"
definition HeaderWouldBlock :: string where "HeaderWouldBlock = ''X-Bruiser-Would-Block''"

text \<open>The defaults of \<open>New\<close>; the base of the gateway's address and the limiter.\<close>

definition edgeDefaults :: "edgeConfig \<Rightarrow> edgeConfig" where
  "edgeDefaults c =
     c\<lparr>eg_AuthorizePath := firstNonEmpty (eg_AuthorizePath c) ''/v1/authorize'',
       eg_MaxInFlight := (if eg_MaxInFlight c \<le> 0 then 2 else eg_MaxInFlight c),
       eg_Mode := firstNonEmpty (eg_Mode c) ModeEnforce,
       eg_OriginURL := firstNonEmpty (eg_OriginURL c) ''http://origin.internal''\<rparr>"

definition bruiserBase :: "edgeConfig \<Rightarrow> string" where
  "bruiserBase c = firstNonEmpty (TrimRight (eg_BruiserURL c) ''/'') ''http://bruiser.internal''"

definition edgeLimiter :: "edgeConfig \<Rightarrow> PerExecution" where
  "edgeLimiter c = New (eg_MaxInFlight (edgeDefaults c)) (eg_RatePerSec c)"

definition edgeMode :: "edgeConfig \<Rightarrow> request \<Rightarrow> string" where
  "edgeMode c r =
     (let m = (case eg_ModeFn c of Some f \<Rightarrow> f r | None \<Rightarrow> '''') in
      if m \<noteq> '''' then m else if eg_Mode c = '''' then ModeEnforce else eg_Mode c)"

definition authorizeBody :: "request \<Rightarrow> json" where
  "authorizeBody r =
     JObj ([(''method'', JStr (rq_Method r)), (''path'', JStr (rq_Path r))]
       @ (let eid = eventIDFromBody (rq_Body r) in if eid \<noteq> '''' then [(''event_id'', JStr eid)] else []))"

definition copyHeader :: "request \<Rightarrow> string \<Rightarrow> headers \<Rightarrow> headers" where
  "copyHeader r k h = (let v = hdrGet (rq_Headers r) k in if v \<noteq> '''' then hdrSet k v h else h)"

definition authRequest :: "outer \<Rightarrow> edgeConfig \<Rightarrow> request \<Rightarrow> request" where
  "authRequest W c r =
     (let h = hdrSet ''Content-Type'' ''application/json'' [];
          h = hdrSet ''X-Original-Method'' (rq_Method r) h;
          h = hdrSet ''X-Original-Uri'' (ed_requestURI W r) h;
          h = hdrSet ''X-Bruiser-Edge-Secret'' (eg_EdgeSecret c) h;
          h = fold (copyHeader r) [''Authorization'', ''X-Customer-Id'', ''X-User-Id'', ''X-Principal-Id'', ''X-Bruiser-Customer'', ''X-Bruiser-Identity''] h;
          eid = eventIDFromBody (rq_Body r);
          h = (if eid \<noteq> '''' then hdrSet ''X-Bruiser-Event-Id'' eid h else h)
      in \<lparr>rq_Method = ''POST'', rq_Path = eg_AuthorizePath c, rq_Headers = h, rq_Cookies = rq_Cookies r, rq_RemoteAddr = '''', rq_ReqID = '''',
          rq_Body = Some (authorizeBody r)\<rparr>)"

definition decisionFrom :: "int \<Rightarrow> json option \<Rightarrow> string" where
  "decisionFrom status body =
     (let ms = (case body of Some (JObj ms) \<Rightarrow> ms | _ \<Rightarrow> []);
          st = (case map_member ms ''status'' of Some (JStr v) \<Rightarrow> v | _ \<Rightarrow> '''');
          er = (case map_member ms ''error'' of Some (JStr v) \<Rightarrow> v | _ \<Rightarrow> '''')
      in if st \<noteq> '''' then ToUpper st
         else if status \<ge> 400 \<and> er \<noteq> '''' then ''DENIED''
         else if status = StatusOK then ''ALLOW''
         else if status = StatusConflict then ''BUSY''
         else ''DENIED'')"

text \<open>What the edge does with a request: answer it, or forward it with a decision to report.\<close>

datatype edgeVerdict = Reply response | Forward request string bool

definition blocks :: "response \<Rightarrow> bool" where
  "blocks a \<longleftrightarrow> (let d = decisionFrom (rs_status a) (rs_body a) in
     d = ''BUSY'' \<or> d = ''DENIED'' \<or> rs_status a \<noteq> StatusOK \<and> d \<noteq> ''ALLOW'')"

definition edgeRefusal :: "response \<Rightarrow> response" where
  "edgeRefusal a =
     (let h = filter (\<lambda>(k, _). EqualFold k ''Content-Type'' \<or> EqualFold k ''Retry-After'') (rs_headers a);
          h = (if hdrGet h ''Content-Type'' = '''' then hdrSet ''Content-Type'' ''application/json'' h else h);
          h = hdrSet HeaderDecision (decisionFrom (rs_status a) (rs_body a)) h;
          h = hdrSet HeaderForwarded ''0'' h;
          h = (if blocks a then hdrSet HeaderWouldBlock ''1'' h else h)
      in a\<lparr>rs_headers := h\<rparr>)"

definition stampOrigin :: "edgeConfig \<Rightarrow> headers \<Rightarrow> headers" where
  "stampOrigin c h = (if eg_OriginSecret c \<noteq> '''' then hdrSet ''X-Bruiser-Origin-Secret'' (eg_OriginSecret c) h else h)"

definition edgeStamp :: "edgeConfig \<Rightarrow> response \<Rightarrow> request \<Rightarrow> request" where
  "edgeStamp c a r =
     r\<lparr>rq_Headers := stampOrigin c (fold (\<lambda>k. hdrSet k (hdrGet (rs_headers a) k))
        [''X-Bruiser-Execution'', ''X-Bruiser-Fence'', ''X-Bruiser-Customer''] (rq_Headers r))\<rparr>"

definition edgeAnswered :: "edgeConfig \<Rightarrow> string \<Rightarrow> response \<Rightarrow> request \<Rightarrow> edgeVerdict" where
  "edgeAnswered c mode a r =
     (if rs_status a \<noteq> StatusOK \<and> mode \<noteq> ModeDryRun then Reply (edgeRefusal a)
      else Forward (edgeStamp c a r) (decisionFrom (rs_status a) (rs_body a)) (blocks a))"

definition edgeDecide :: "outer \<Rightarrow> edgeConfig \<Rightarrow> request \<Rightarrow> edgeVerdict" where
  "edgeDecide W c r0 =
     (let r = r0\<lparr>rq_Headers := withoutBruiser (rq_Headers r0)\<rparr>; mode = edgeMode c r in
      if mode = EdgeOff then Forward r '''' False
      else if \<not> ed_requestOK W (bruiserBase c @ eg_AuthorizePath c)
      then Reply \<lparr>rs_status = 502, rs_headers = [(''Content-Type'', ''text/plain; charset=utf-8'')], rs_body = Some (JObj [(''error'', JStr ''authorize'')])\<rparr>
      else case ed_authorize W (authRequest W c r) of
        None \<Rightarrow> Reply \<lparr>rs_status = 502, rs_headers = [(''Content-Type'', ''text/plain; charset=utf-8'')],
                 rs_body = Some (JObj [(''error'', JStr ''authorize unavailable'')])\<rparr>
      | Some a \<Rightarrow> edgeAnswered c mode a r)"

definition edgeForward :: "outer \<Rightarrow> edgeConfig \<Rightarrow> request \<Rightarrow> string \<Rightarrow> bool \<Rightarrow> response" where
  "edgeForward W c r decision0 wouldBlock =
     (let decision = firstNonEmpty decision0 ''ALLOW'';
          r = (if hdrGet (rq_Headers r) ''X-Bruiser-Origin-Secret'' = '''' then r\<lparr>rq_Headers := stampOrigin c (rq_Headers r)\<rparr> else r);
          resp = ed_origin W r;
          h = hdrSet HeaderForwarded ''1'' (hdrSet HeaderDecision decision (rs_headers resp));
          h = (if wouldBlock then hdrSet HeaderWouldBlock ''1'' h else h)
      in resp\<lparr>rs_headers := h\<rparr>)"

definition edgeThrottled :: response where
  "edgeThrottled = \<lparr>rs_status = StatusTooManyRequests,
     rs_headers = [(''Retry-After'', ''1''), (HeaderDecision, ''THROTTLED''), (HeaderForwarded, ''0''), (''Content-Type'', ''text/plain; charset=utf-8'')],
     rs_body = Some (JObj [(''error'', JStr ''execution throttled'')])\<rparr>"

definition edgeHandler :: "outer \<Rightarrow> edgeConfig \<Rightarrow> request \<Rightarrow> PerExecution \<Rightarrow> response \<times> PerExecution" where
  "edgeHandler W c r0 l =
     (case edgeDecide W c r0 of
        Reply resp \<Rightarrow> (resp, l)
      | Forward r decision wouldBlock \<Rightarrow>
          let exe = hdrGet (rq_Headers r) ''X-Bruiser-Execution'';
              mode = edgeMode c (r0\<lparr>rq_Headers := withoutBruiser (rq_Headers r0)\<rparr>) in
          if exe \<noteq> '''' \<and> mode = ModeEnforce then
            (case Take exe (ed_now W) l of
               (Refused, l') \<Rightarrow> (edgeThrottled, l')
             | (Allowed slot, l') \<Rightarrow>
                 (edgeForward W c r decision wouldBlock, (case slot of Some a \<Rightarrow> Limit.release exe a l' | None \<Rightarrow> l')))
          else (edgeForward W c r decision wouldBlock, l))"

end
