(* ===== verification/Edge_Props.thy ===== *)
theory Edge_Props
  imports Edge Api_Props
begin

text \<open>What the two front doors, the edge and the gateway's own reverse proxy, pass on to the origin.\<close>

section \<open>Canonical header names\<close>

lemma byte_char_of: "n < 256 \<Longrightarrow> byte (char_of n) = n"
  by (simp add: of_char_of take_bit_eq_mod)

lemma byte_upper: "byte (upper_byte c) = (if 97 \<le> byte c \<and> byte c \<le> 122 then byte c - 32 else byte c)"
  by (auto simp: upper_byte_def byte_char_of)

lemma byte_lower: "byte (lower_byte c) = (if 65 \<le> byte c \<and> byte c \<le> 90 then byte c + 32 else byte c)"
  by (auto simp: lower_byte_def byte_char_of)

lemma byte_eq: "c = d \<longleftrightarrow> byte c = byte d"
  by simp

lemma hyphen: "byte (CHR ''-'') = 45"
  by simp

lemma upper_byte_simps: "upper_byte (upper_byte c) = upper_byte c" "upper_byte c = CHR ''-'' \<longleftrightarrow> c = CHR ''-''"
  "token_byte c \<Longrightarrow> token_byte (upper_byte c)"
proof -
  show "upper_byte (upper_byte c) = upper_byte c" unfolding byte_eq byte_upper by auto
  show "upper_byte c = CHR ''-'' \<longleftrightarrow> c = CHR ''-''" unfolding byte_eq byte_upper hyphen by auto
  have "in_range 65 90 (upper_byte c) \<or> upper_byte c = c" by (auto simp: in_range_def upper_byte_def byte_char_of)
  then show "token_byte c \<Longrightarrow> token_byte (upper_byte c)" unfolding token_byte_def by metis
qed

lemma lower_byte_simps: "lower_byte (lower_byte c) = lower_byte c" "lower_byte c = CHR ''-'' \<longleftrightarrow> c = CHR ''-''"
  "token_byte c \<Longrightarrow> token_byte (lower_byte c)"
proof -
  show "lower_byte (lower_byte c) = lower_byte c" unfolding byte_eq byte_lower by auto
  show "lower_byte c = CHR ''-'' \<longleftrightarrow> c = CHR ''-''" unfolding byte_eq byte_lower hyphen by auto
  have "in_range 97 122 (lower_byte c) \<or> lower_byte c = c" by (auto simp: in_range_def lower_byte_def byte_char_of)
  then show "token_byte c \<Longrightarrow> token_byte (lower_byte c)" unfolding token_byte_def by metis
qed

lemma canonical_bytes_idem: "canonical_bytes up (canonical_bytes up s) = canonical_bytes up s"
  by (induction up s rule: canonical_bytes.induct) (auto simp: upper_byte_simps lower_byte_simps)

lemma canonical_bytes_token: "list_all token_byte s \<Longrightarrow> list_all token_byte (canonical_bytes up s)"
  by (induction up s rule: canonical_bytes.induct) (auto simp: upper_byte_simps lower_byte_simps)

lemma CanonicalHeaderKey_idem: "CanonicalHeaderKey (CanonicalHeaderKey s) = CanonicalHeaderKey s"
  by (simp add: CanonicalHeaderKey_def canonical_bytes_idem canonical_bytes_token)

lemma hdrGet_withoutBruiser:
  assumes "HasPrefix (CanonicalHeaderKey k) ''X-Bruiser-''"
  shows "hdrGet (withoutBruiser h) k = ''''"
proof -
  have "map_of (withoutBruiser h) (CanonicalHeaderKey k) = None"
    using assms by (auto simp: map_of_eq_None_iff withoutBruiser_def CanonicalHeaderKey_idem)
  then show ?thesis by (simp add: hdrGet_def)
qed

lemma origin_header: "CanonicalHeaderKey ''X-Bruiser-Origin-Secret'' = ''X-Bruiser-Origin-Secret''"
  by code_simp

section \<open>The edge\<close>

definition markers :: "string list" where
  "markers = [''X-Bruiser-Execution'', ''X-Bruiser-Fence'', ''X-Bruiser-Customer'']"

lemma edgeStamp_headers:
  fixes r :: request
  assumes "HasPrefix (CanonicalHeaderKey k) ''X-Bruiser-''"
  shows "hdrGet (rq_Headers (edgeStamp c a (r\<lparr>rq_Headers := withoutBruiser h\<rparr>))) k =
    (if CanonicalHeaderKey k = ''X-Bruiser-Origin-Secret'' then eg_OriginSecret c
     else if CanonicalHeaderKey k \<in> set markers then hdrGet (rs_headers a) k else '''')"
proof -
  have get: "CanonicalHeaderKey k = k' \<Longrightarrow> CanonicalHeaderKey k' = k' \<Longrightarrow> hdrGet h' k' = hdrGet h' k" for h' k' by (simp add: hdrGet_def)
  show ?thesis
    by (auto simp: edgeStamp_def stampOrigin_def hdrGet_hdrSet hdrGet_withoutBruiser [OF assms] origin_header markers_def get)
qed

lemma edgeForward_headers:
  "hdrGet (rq_Headers r) ''X-Bruiser-Origin-Secret'' = eg_OriginSecret c \<Longrightarrow>
   edgeForward W c r d b = (let resp = ed_origin W r; h = hdrSet HeaderForwarded ''1'' (hdrSet HeaderDecision (firstNonEmpty d ''ALLOW'') (rs_headers resp))
     in resp\<lparr>rs_headers := (if b then hdrSet HeaderWouldBlock ''1'' h else h)\<rparr>)"
  by (auto simp: edgeForward_def stampOrigin_def Let_def)

text \<open>C37. An enforcing edge forwards only admitted requests: a request reaches the origin only when the gateway's
  authorize endpoint answered 200 to it, and of all the markers the origin trusts - every header whose
  canonical name starts with \<open>X-Bruiser-\<close> - it carries exactly the execution token, the fence and the
  customer of that answer and the configured origin secret; nothing of that kind a client sent survives.\<close>

theorem edge_forwards_admitted:
  assumes "edgeMode c (r0\<lparr>rq_Headers := withoutBruiser (rq_Headers r0)\<rparr>) \<notin> {EdgeOff, ModeDryRun}"
    and "edgeDecide W c r0 = Forward r decision blocked"
  shows "\<exists>a. ed_authorize W (authRequest W c (r0\<lparr>rq_Headers := withoutBruiser (rq_Headers r0)\<rparr>)) = Some a \<and> rs_status a = StatusOK
    \<and> (\<forall>k. HasPrefix (CanonicalHeaderKey k) ''X-Bruiser-'' \<longrightarrow> hdrGet (rq_Headers r) k =
        (if CanonicalHeaderKey k = ''X-Bruiser-Origin-Secret'' then eg_OriginSecret c
         else if CanonicalHeaderKey k \<in> set markers then hdrGet (rs_headers a) k else ''''))"
proof -
  let ?r = "r0\<lparr>rq_Headers := withoutBruiser (rq_Headers r0)\<rparr>"
  from assms obtain a where a: "ed_authorize W (authRequest W c ?r) = Some a" "rs_status a = StatusOK" "r = edgeStamp c a ?r"
    by (auto simp: edgeDecide_def edgeAnswered_def Let_def split: if_splits option.splits)
  with edgeStamp_headers [where r = r0 and c = c and a = a] show ?thesis by blast
qed

section \<open>An edge before the demo gateway\<close>

definition ed_config :: edgeConfig where
  "ed_config = \<lparr>eg_OriginURL = ''o'', eg_BruiserURL = ''b'', eg_EdgeSecret = ''e1'', eg_OriginSecret = ''g1'', eg_MaxInFlight = 2, eg_RatePerSec = 0,
     eg_AuthorizePath = ''/v1/authorize'', eg_Mode = ModeEnforce, eg_ModeFn = None\<rparr>"

definition ed_world :: outer where
  "ed_world = \<lparr>ed_requestOK = (\<lambda>_. True), ed_requestURI = rq_Path,
     ed_authorize = (\<lambda>_. Some \<lparr>rs_status = StatusOK, rs_headers = [(''X-Bruiser-Fence'', ''7'')], rs_body = None\<rparr>),
     ed_origin = (\<lambda>_. writeErr [] StatusOK ''''), ed_now = 0\<rparr>"

definition ed_request :: request where
  "ed_request = gd_request\<lparr>rq_Headers := [(''X-Bruiser-Fence'', ''99''), (''X-Bruiser-Execution'', ''forged'')]\<rparr>"

theorem edge_forwards_admitted_witness:
  "\<exists>r decision blocked. edgeDecide ed_world ed_config ed_request = Forward r decision blocked
     \<and> hdrGet (rq_Headers r) ''X-Bruiser-Fence'' = ''7'' \<and> hdrGet (rq_Headers r) ''X-Bruiser-Execution'' = ''''"
proof -
  have mode: "edgeMode ed_config r = ModeEnforce" "ModeEnforce \<noteq> EdgeOff" "ModeEnforce \<noteq> ModeDryRun" for r
    by (simp_all add: edgeMode_def ed_config_def ModeEnforce_def EdgeOff_def ModeDryRun_def Let_def)
  then obtain r d b where run: "edgeDecide ed_world ed_config ed_request = Forward r d b"
    by (simp add: edgeDecide_def edgeAnswered_def ed_world_def Let_def)
  have enf: "edgeMode ed_config (ed_request\<lparr>rq_Headers := withoutBruiser (rq_Headers ed_request)\<rparr>) \<notin> {EdgeOff, ModeDryRun}"
    using mode by auto
  from edge_forwards_admitted [OF enf run]
  obtain a where a: "a = \<lparr>rs_status = StatusOK, rs_headers = [(''X-Bruiser-Fence'', ''7'')], rs_body = None\<rparr>"
    and h: "\<And>k. HasPrefix (CanonicalHeaderKey k) ''X-Bruiser-'' \<Longrightarrow> hdrGet (rq_Headers r) k =
        (if CanonicalHeaderKey k = ''X-Bruiser-Origin-Secret'' then eg_OriginSecret ed_config
         else if CanonicalHeaderKey k \<in> set markers then hdrGet (rs_headers a) k else '''')"
    by (auto simp: ed_world_def)
  have "hdrGet (rq_Headers r) ''X-Bruiser-Fence'' = ''7''" "hdrGet (rq_Headers r) ''X-Bruiser-Execution'' = ''''"
    by (simp_all add: h HasPrefix_def markers_def a) (simp_all add: hdrGet_def)
  with run show ?thesis by blast
qed

end
