(* ===== verification/Gateway_Findings.thy ===== *)
theory Gateway_Findings
  imports Findings Token_Props Api_Props
begin

text \<open>Behaviour of the gateway that its documentation and its callers do not expect.\<close>

text \<open>
  The execution token that a client receives with its lease is signed with the same key as the session
  tokens and has all the claims \<open>ParseSession\<close> asks for. It passes for a session without an identifier; the
  check that the session is live is then skipped, and \<open>Revoke\<close> takes the missing identifier for the
  administrator: the holder of any lease can revoke every execution of the merchant.
\<close>

lemma ParseSession_execution:
  assumes "jwt_law J (sg_Private s) (sg_Public s)" "SignExecution J t rnd s e = Some tok"
    and "u < (e_ExpiresAt e div second) * second"
  shows "\<exists>claims. ParseSession J u tok (sg_Public s) = Some claims \<and> sc_MerchantID claims = e_MerchantID e \<and> sc_SessionID claims = ''''"
proof -
  let ?c = "executionClaims t rnd e"
  have d: "jw_date J x = x div second" for x using assms(1) by (simp add: jwt_law_def)
  have "jw_parse J EdDSA (sg_Public s) 0 u tok = Some (execution_payload J ?c)"
    using jwt_parse [OF assms(1) assms(2) [unfolded SignExecution_def], of 0 u] assms(3) by (simp add: in_time_execution d)
  then show ?thesis
    using assms(3) by (simp add: ParseSession_def read_session_execution expired_by_def written_def seconds_of_def d)
qed

text \<open>C40. Authority of an execution token: presented as a session token at the revocation endpoint before its
  expiry, it is accepted, no session is looked up, and the named execution, whoever's it is, is ended as
  if an administrator had revoked it, without a check of ownership, customer or precedence.\<close>

theorem execution_token_revokes_anything:
  assumes "jwt_law (wd_jwt (gw_world E)) (sg_Private (gw_signer E)) (sg_Public (gw_signer E))"
    and "SignExecution (wd_jwt (gw_world E)) t rnd (gw_signer E) e = Some (bearer r)" "bearer r \<noteq> ''''"
    and "now C 0 < (e_ExpiresAt e div second) * second" "e_MerchantID e = merchantOf E"
  shows "sessionAuth E C (revoke E C victim) r =
    attempt (onLeases (CacheRevoke (endExecution (now C 3) (merchantOf E) victim '''' (requestID (draw C 0) r) StateRevoked
        (firstNonEmpty (lax_str (rq_Body r) ''reason'') ReasonRevoked) False) (merchantOf E)))
      (\<lambda>res. case res of Inl err \<Rightarrow> ret (mutationError err) | Inr x \<Rightarrow> ret (endedBody x))"
proof -
  from ParseSession_execution [OF assms(1,2,4)] assms(5) obtain claims where
    "ParseSession (wd_jwt (gw_world E)) (now C 0) (bearer r) (sg_Public (gw_signer E)) = Some claims"
    "sc_MerchantID claims = merchantOf E" "sc_SessionID claims = ''''" by metis
  with assms(3) show ?thesis by (simp add: sessionAuth_def revoke_def Revoke_def firstNonEmpty_def Let_def if_distrib cong: if_cong)
qed

definition leak_gateway :: gateway where
  "leak_gateway = gd\<lparr>gw_world := gd_world\<lparr>wd_jwt := demo_jwt\<rparr>, gw_signer := demo_signer\<rparr>"

definition leak_request :: request where
  "leak_request = gd_request\<lparr>rq_Headers := [(''Authorization'', ''bearer tok'')]\<rparr>"

lemma leak_bearer: "bearer leak_request = ''tok''"
proof -
  have k: "CanonicalHeaderKey ''Authorization'' = ''Authorization''" by code_simp
  have "ToLower ''bearer tok'' = ''bearer tok''" by (subst ToLower_ascii) (simp_all add: ascii_def lower_byte_def)
  moreover have "TrimSpace ''tok'' = ''tok''" by (simp add: ascii_literal IsSpace_def)
  ultimately show ?thesis by (simp add: bearer_def leak_request_def hdrGet_def k HasPrefix_def Let_def)
qed

theorem execution_token_revokes_anything_witness:
  "sessionAuth leak_gateway gd_call (revoke leak_gateway gd_call ''exe_victim'') leak_request =
    attempt (onLeases (CacheRevoke (endExecution 0 ''m'' ''exe_victim'' '''' (requestID (draw gd_call 0) leak_request) StateRevoked
        (firstNonEmpty (lax_str (rq_Body leak_request) ''reason'') ReasonRevoked) False) ''m''))
      (\<lambda>res. case res of Inl err \<Rightarrow> ret (mutationError err) | Inr x \<Rightarrow> ret (endedBody x))"
proof -
  have w: "wd_jwt (gw_world leak_gateway) = demo_jwt" "gw_signer leak_gateway = demo_signer" "merchantOf leak_gateway = ''m''" "now gd_call i = 0" for i
    by (simp_all add: leak_gateway_def gd_call_def)
  have lease: "now gd_call 0 < (e_ExpiresAt demo_lease div second) * second" "e_MerchantID demo_lease = merchantOf leak_gateway"
    by (simp_all add: w demo_lease_def)
  have signed: "SignExecution (wd_jwt (gw_world leak_gateway)) 0 ''j'' (gw_signer leak_gateway) demo_lease = Some (bearer leak_request)"
    by (simp only: w demo_signed leak_bearer)
  have tok: "bearer leak_request \<noteq> ''''" by (simp add: leak_bearer)
  from execution_token_revokes_anything [OF _ signed tok lease, of "''exe_victim''"] demo_jwt_law show ?thesis
    by (simp only: w)
qed

text \<open>
  Whether a lease is already held is decided by the principal alone. In a domain that several customers
  share (a household), another customer whose agent has the same identifier resumes the lease of the first.
\<close>

theorem other_customer_resumes:
  "(case fst (Acquire second ''b'' ((demo_req ''p'')\<lparr>q_CustomerID := ''other''\<rparr>) demo1 []) of
      Inr res \<Rightarrow> r_Status res = StatusAlreadyHeld \<and> map_option e_CustomerID (r_Execution res) \<noteq> Some ''other''
    | Inl _ \<Rightarrow> False)"
  by code_simp

text \<open>
  A mode with spaces around it is dry-run for the validation and the banner, but enforced by the controls.
\<close>

theorem padded_mode_enforces: "effectiveMode (c\<lparr>cf_Mode := '' dry-run''\<rparr>) = ''dry-run'' \<and> \<not> stringsEqual '' dry-run'' ModeDryRun"
proof -
  have "TrimSpace '' dry-run'' = ''dry-run''" by (subst TrimSpace_ascii) (simp_all add: IsSpace_def)
  moreover have "EqualFold ''dry-run'' ''dry-run''" by (simp add: EqualFold_def)
  moreover have "\<not> stringsEqual '' dry-run'' ModeDryRun" by code_simp
  ultimately show ?thesis by (simp add: effectiveMode_def)
qed

text \<open>A misspelt value of \<open>unmatched\<close> lets every unlisted route through.\<close>

theorem misspelt_unmatched_allows: "UnmatchedAllow (p\<lparr>pf_Unmatched := ''denied''\<rparr>)"
  by (simp add: UnmatchedAllow_def EqualFold_ascii ascii_def)

end
