(* ===== verification/Evidence.thy ===== *)
theory Evidence
  imports Config "HOL-Library.State_Monad"
begin

text \<open>
  The verdicts of the deployment checker, \<open>internal/check\<close>: exchanges and evidence (\<open>evidence.go\<close>), the
  contracts a passing probe has to honour (\<open>contracts.go\<close>, \<open>contract_check.go\<close>), probes and reports
  (\<open>check.go\<close>) and the certificate (\<open>certificate.go\<close>). \<open>quoted\<close> is the verb \<open>%q\<close>.
\<close>

section \<open>Evidence\<close>

record Exchange =
  ex_Method :: string
  ex_URL :: string
  ex_Headers :: "(string \<times> string) list"
  ex_Body :: string
  ex_Status :: int
  ex_Response :: string

record Evidence =
  ev_Exchanges :: "Exchange list"
  ev_Sent :: "string list"

definition headerPresent :: "Evidence \<Rightarrow> string \<Rightarrow> bool" where
  "headerPresent e name =
     list_ex (\<lambda>x. list_ex (\<lambda>(k, v). ToLower k = ToLower name \<and> v \<noteq> '''' \<and> v \<noteq> ''<empty>'') (ex_Headers x)) (ev_Exchanges e)"

definition anyContains :: "Evidence \<Rightarrow> string \<Rightarrow> bool" where
  "anyContains e substr =
     (if substr = '''' then False
      else list_ex (\<lambda>s. Contains s substr) (ev_Sent e)
        \<or> list_ex (\<lambda>x. Contains (ex_URL x) substr \<or> Contains (ex_Body x) substr \<or> Contains (ex_Response x) substr
                      \<or> list_ex (\<lambda>(_, v). Contains v substr) (ex_Headers x)) (ev_Exchanges e))"

definition statuses :: "Evidence \<Rightarrow> int list" where
  "statuses e = map ex_Status (ev_Exchanges e)"

definition adversarialToken :: "string \<Rightarrow> bool" where
  "adversarialToken v =
     (let s = ToLower v in
      Contains s ''forged'' \<or> Contains s ''not.signed'' \<or> Contains s ''not-a-jwt'' \<or> Contains s ''garbage'')"

text \<open>One header of \<open>redactHeaders\<close>; a nil map and an empty one are both the empty list.\<close>

definition redactHeader :: "string \<Rightarrow> string \<Rightarrow> string" where
  "redactHeader k v =
     (if Contains (ToLower k) ''secret'' then (if TrimSpace v = '''' then ''<empty>'' else ''<present>'')
      else if EqualFold k ''Authorization'' \<and> HasPrefix (ToLower v) ''bearer '' then
        (let tok = TrimSpace (drop 7 v) in if adversarialToken tok then ''Bearer '' @ tok else ''Bearer <redacted>'')
      else if EqualFold k ''X-Bruiser-Execution'' then (if adversarialToken v then v else ''<jwt>'')
      else if EqualFold k ''Cookie'' \<and> \<not> Contains v ''forged'' then ''<cookie>''
      else v)"

definition redactHeaders :: "(string \<times> string) list \<Rightarrow> (string \<times> string) list" where
  "redactHeaders h = map (\<lambda>(k, v). (k, redactHeader k v)) h"

section \<open>Contracts\<close>

record Contract =
  ct_Name :: string
  ct_RequireHeaderPresent :: "string list"
  ct_RequireSentContains :: "string list"
  ct_RequireAnyContains :: "string list"
  ct_RequireStatus :: "int list"
  ct_MinExchanges :: int

definition Contracts :: "Contract list" where
  "Contracts =
     [\<lparr>ct_Name = ''Forged execution rejected at origin'', ct_RequireHeaderPresent = [''X-Bruiser-Origin-Secret''],
       ct_RequireSentContains = [], ct_RequireAnyContains = [''forged.not.signed''], ct_RequireStatus = [403], ct_MinExchanges = 1\<rparr>,
      \<lparr>ct_Name = ''Stale fence rejected at origin'', ct_RequireHeaderPresent = [''X-Bruiser-Origin-Secret''],
       ct_RequireSentContains = [''stale-fence-token''], ct_RequireAnyContains = [], ct_RequireStatus = [403], ct_MinExchanges = 1\<rparr>,
      \<lparr>ct_Name = ''Resource variants share one domain'', ct_RequireHeaderPresent = [],
       ct_RequireSentContains = [''ticket:cupfinal'', ''ticket:cupfinal.'', ''ticket:cupfinal'' @ encode_rune 0x2010,
         ''ticket:cupfinal'' @ encode_rune 0x2013],
       ct_RequireAnyContains = [], ct_RequireStatus = [], ct_MinExchanges = 9\<rparr>,
      \<lparr>ct_Name = ''Identity forgery rejected (dev assertions off)'', ct_RequireHeaderPresent = [],
       ct_RequireSentContains = [], ct_RequireAnyContains = [''not-a-jwt''], ct_RequireStatus = [], ct_MinExchanges = 1\<rparr>,
      \<lparr>ct_Name = ''Session revocation takes effect'', ct_RequireHeaderPresent = [],
       ct_RequireSentContains = [''revoked-session''], ct_RequireAnyContains = [], ct_RequireStatus = [], ct_MinExchanges = 1\<rparr>,
      \<lparr>ct_Name = ''Replay rejected'', ct_RequireHeaderPresent = [],
       ct_RequireSentContains = [], ct_RequireAnyContains = [''authority-check-nonce''], ct_RequireStatus = [409], ct_MinExchanges = 2\<rparr>,
      \<lparr>ct_Name = ''Budget enforced'', ct_RequireHeaderPresent = [],
       ct_RequireSentContains = [''budget''], ct_RequireAnyContains = [], ct_RequireStatus = [], ct_MinExchanges = 2\<rparr>,
      \<lparr>ct_Name = ''Admin surface not on public listener'', ct_RequireHeaderPresent = [],
       ct_RequireSentContains = [], ct_RequireAnyContains = [''/v1/admin/status''], ct_RequireStatus = [], ct_MinExchanges = 1\<rparr>,
      \<lparr>ct_Name = ''Fail-closed on store outage'', ct_RequireHeaderPresent = [],
       ct_RequireSentContains = [''store-down''], ct_RequireAnyContains = [], ct_RequireStatus = [], ct_MinExchanges = 1\<rparr>,
      \<lparr>ct_Name = ''Production secret validation'', ct_RequireHeaderPresent = [],
       ct_RequireSentContains = [''validate-secrets''], ct_RequireAnyContains = [], ct_RequireStatus = [], ct_MinExchanges = 1\<rparr>]"

definition statusAllowed :: "int \<Rightarrow> int list \<Rightarrow> bool" where
  "statusAllowed got allow = (if length allow = 0 then True else list_ex (\<lambda>a. got = a) allow)"

section \<open>Probes and reports\<close>

record Probe =
  pr_Name :: string
  pr_Pass :: bool
  pr_Status :: string
  pr_Detail :: string
  pr_Blocking :: bool
  pr_Evidence :: "Evidence option"

record Certificate =
  cc_Issued :: bool
  cc_Title :: string
  cc_CommitSHA :: string
  cc_CorpusVersion :: string
  cc_IssuedAt :: string
  cc_Production :: bool
  cc_Reason :: string
  cc_Probes :: "Probe list"

record Report =
  rp_Probes :: "Probe list"
  rp_Overall :: string
  rp_Covered :: "string list"
  rp_CommitSHA :: string
  rp_CorpusVersion :: string
  rp_Production :: bool
  rp_Certificate :: "Certificate option"

definition CorpusVersion :: string where "CorpusVersion = ''1''"

definition noProbe :: Probe where
  "noProbe = \<lparr>pr_Name = '''', pr_Pass = False, pr_Status = '''', pr_Detail = '''', pr_Blocking = False, pr_Evidence = None\<rparr>"

definition normalizeProbe :: "Probe \<Rightarrow> Probe" where
  "normalizeProbe p =
     (let p = (if pr_Status p = '''' then p\<lparr>pr_Status := (if pr_Pass p then ''PASS'' else ''FAIL'')\<rparr> else p)
      in p\<lparr>pr_Pass := (pr_Status p = ''PASS'')\<rparr>)"

definition pass :: "string \<Rightarrow> Probe" where
  "pass detail = noProbe\<lparr>pr_Status := ''PASS'', pr_Pass := True, pr_Detail := detail\<rparr>"

definition fail :: "string \<Rightarrow> Probe" where
  "fail detail = noProbe\<lparr>pr_Status := ''FAIL'', pr_Pass := False, pr_Detail := detail\<rparr>"

definition inconclusive :: "string \<Rightarrow> Probe" where
  "inconclusive detail = noProbe\<lparr>pr_Status := ''INCONCLUSIVE'', pr_Pass := False, pr_Detail := detail\<rparr>"

definition failProbe :: "string \<Rightarrow> string \<Rightarrow> Probe" where
  "failProbe name detail =
     normalizeProbe (noProbe\<lparr>pr_Name := name, pr_Status := ''FAIL'', pr_Pass := False, pr_Detail := detail\<rparr>)"

definition probed :: "string \<Rightarrow> ('w, Probe) state \<Rightarrow> ('w, Probe) state" where
  "probed name fn = do { p \<leftarrow> fn; State_Monad.return (normalizeProbe (p\<lparr>pr_Name := name\<rparr>)) }"

definition Passed :: "Report \<Rightarrow> bool" where
  "Passed r \<longleftrightarrow> rp_Overall r = ''PASS''"

definition CertificateIssued :: "Report \<Rightarrow> bool" where
  "CertificateIssued r = (case rp_Certificate r of None \<Rightarrow> False | Some c \<Rightarrow> cc_Issued c)"

section \<open>The certificate\<close>

definition issueCertificate :: "time \<Rightarrow> Report \<Rightarrow> Certificate" where
  "issueCertificate now rep =
     (let c = \<lparr>cc_Issued = False, cc_Title = ''Bruiser Authority Certificate'', cc_CommitSHA = rp_CommitSHA rep,
               cc_CorpusVersion = rp_CorpusVersion rep, cc_IssuedAt = '''', cc_Production = rp_Production rep,
               cc_Reason = '''', cc_Probes = rp_Probes rep\<rparr> in
      if rp_CommitSHA rep = '''' \<or> rp_CommitSHA rep = ''unknown'' then
        c\<lparr>cc_Reason := ''commit SHA is unknown; certificate requires a VCS-stamped binary''\<rparr>
      else if \<not> rp_Production rep then
        c\<lparr>cc_Reason := ''instance is not production-configured; lab/dev checks cannot issue a certificate''\<rparr>
      else if rp_Overall rep \<noteq> ''PASS'' then c\<lparr>cc_Reason := ''overall result is '' @ rp_Overall rep\<rparr>
      else (case find (\<lambda>p. pr_Status p \<noteq> ''PASS'') (rp_Probes rep) of
              Some p \<Rightarrow> c\<lparr>cc_Reason := ''probe '' @ pr_Name p @ '' is '' @ pr_Status p @ '' (certificate requires every probe to PASS)''\<rparr>
            | None \<Rightarrow> c\<lparr>cc_Issued := True, cc_IssuedAt := RFC3339Nano now\<rparr>))"

text \<open>The environment variable, then the revision stamped into the binary.\<close>

definition resolveCommitSHA :: "(string \<Rightarrow> string) \<Rightarrow> string option \<Rightarrow> string \<Rightarrow> string" where
  "resolveCommitSHA getenv revision explicit =
     (if explicit \<noteq> '''' then explicit
      else if getenv ''BRUISER_COMMIT_SHA'' \<noteq> '''' then getenv ''BRUISER_COMMIT_SHA''
      else case revision of Some v \<Rightarrow> v | None \<Rightarrow> ''unknown'')"

definition finalize :: "time \<Rightarrow> Report \<Rightarrow> Report" where
  "finalize now rep0 =
     (let ps = map normalizeProbe (rp_Probes rep0);
          failN = count_where (\<lambda>p. pr_Status p = ''FAIL'') ps;
          blockWarn = count_where (\<lambda>p. pr_Status p = ''WARN'' \<and> pr_Blocking p) ps;
          rep = rep0\<lparr>rp_Probes := ps, rp_Overall := (if failN > 0 then ''FAIL'' else if blockWarn > 0 then ''WARN'' else ''PASS'')\<rparr>
      in rep\<lparr>rp_Certificate := Some (issueCertificate now rep)\<rparr>)"

section \<open>The contract check\<close>

fun JoinSpace :: "string list \<Rightarrow> string" where
  "JoinSpace [] = ''''"
| "JoinSpace [s] = s"
| "JoinSpace (s # ss) = s @ '' '' @ JoinSpace ss"

definition fmtInts :: "int list \<Rightarrow> string" where
  "fmtInts ns = ''['' @ JoinSpace (map FormatInt ns) @ '']''"

definition ContractViolation :: "(string \<Rightarrow> string) \<Rightarrow> Probe \<Rightarrow> Contract \<Rightarrow> string" where
  "ContractViolation quoted p c =
     (if pr_Status p \<noteq> ''PASS'' then ''''
      else case pr_Evidence p of
        None \<Rightarrow> pr_Name p @ '': PASS without evidence''
      | Some ev \<Rightarrow>
          if ct_MinExchanges c > 0 \<and> int (length (ev_Exchanges ev)) < ct_MinExchanges c then
            pr_Name p @ '': PASS with '' @ FormatInt (int (length (ev_Exchanges ev))) @ '' exchanges, want ''
            @ encode_rune 0x2265 @ FormatInt (ct_MinExchanges c)
          else case find (\<lambda>h. \<not> headerPresent ev h) (ct_RequireHeaderPresent c) of
            Some h \<Rightarrow> pr_Name p @ '': PASS without sending '' @ h
          | None \<Rightarrow>
          (case find (\<lambda>s. \<not> list_ex (\<lambda>got. Contains got s) (ev_Sent ev)) (ct_RequireSentContains c) of
            Some s \<Rightarrow> pr_Name p @ '': PASS without adversarial input '' @ quoted s @ '' in sent corpus''
          | None \<Rightarrow>
          (case find (\<lambda>s. \<not> anyContains ev s) (ct_RequireAnyContains c) of
            Some s \<Rightarrow> pr_Name p @ '': PASS without '' @ quoted s @ '' in request/response evidence''
          | None \<Rightarrow>
            if length (ct_RequireStatus c) > 0 \<and> \<not> list_ex (\<lambda>st. statusAllowed st (ct_RequireStatus c)) (statuses ev) then
              pr_Name p @ '': PASS without expected status '' @ fmtInts (ct_RequireStatus c) @ '' (got '' @ fmtInts (statuses ev) @ '')''
            else '''')))"

section \<open>The printed report\<close>

abbreviation newline :: string where "newline \<equiv> [CHR 0x0A]"

definition probeLines :: "Probe \<Rightarrow> string" where
  "probeLines p =
     (let mark = (if pr_Status p = '''' then (if pr_Pass p then ''PASS'' else ''FAIL'') else pr_Status p) in
      ''  '' @ mark @ '' '' @ em_dash @ '' '' @ pr_Name p @ newline
      @ (if pr_Detail p \<noteq> '''' then ''         '' @ pr_Detail p @ newline else ''''))"

definition reportString :: "Report \<Rightarrow> string" where
  "reportString r =
     ''Bruiser Authority Check'' @ newline @ newline
     @ concat (map probeLines (rp_Probes r))
     @ newline @ ''  Overall Result: '' @ rp_Overall r @ newline
     @ ''  Commit: '' @ rp_CommitSHA r @ newline @ ''  Corpus: '' @ rp_CorpusVersion r @ newline
     @ ''  Production: '' @ (if rp_Production r then ''true'' else ''false'') @ newline
     @ (case rp_Certificate r of
          None \<Rightarrow> ''''
        | Some c \<Rightarrow>
            if cc_Issued c then newline @ ''  Certificate: ISSUED'' @ newline
            else newline @ ''  Certificate: NOT ISSUED '' @ em_dash @ '' '' @ cc_Reason c @ newline)
     @ (if length (rp_Covered r) > 0 then
          newline @ ''  Covered paths (lab; replace from discovery):'' @ newline
          @ concat (map (\<lambda>c. ''    - '' @ c @ newline) (rp_Covered r))
        else '''')"

end
