(* ===== verification/Check.thy ===== *)
theory Check
  imports Evidence Tokens Merchant Origin "HOL-Library.AList"
begin

text \<open>
  \<open>internal/check/check.go\<close> and \<open>invariants.go\<close>: the authority check against a live deployment. The deployment
  is outside: \<open>nt_Do\<close> is the HTTP client with a timeout, which answers an error's text or a reply and changes
  the world \<open>'w\<close>; \<open>nt_Now\<close> and \<open>nt_Rand\<close> are the clock in nanoseconds and the random source. \<open>nt_Marshal\<close> and
  \<open>nt_Unmarshal\<close> are the text of a JSON value and the value a text spells, \<open>nt_Quote\<close> the verb \<open>%q\<close> and
  \<open>nt_Revision\<close> the revision stamped into the binary. A probe is a state transformer over the world.
\<close>

section \<open>The network\<close>

record outgoing =
  og_Method :: string
  og_URL :: string
  og_Host :: string
  og_Header :: headers
  og_Body :: "string option"

record reply =
  ry_Status :: int
  ry_Header :: headers
  ry_Body :: string

record 'w net =
  nt_Do :: "duration \<Rightarrow> outgoing \<Rightarrow> 'w \<Rightarrow> (string + reply) \<times> 'w"
  nt_Now :: "'w \<Rightarrow> time \<times> 'w"
  nt_Rand :: "'w \<Rightarrow> string \<times> 'w"
  nt_JWT :: jwt
  nt_SignError :: string
  nt_Marshal :: "json \<Rightarrow> string"
  nt_Unmarshal :: "string \<Rightarrow> json option"
  nt_Quote :: "string \<Rightarrow> string"
  nt_Getenv :: "string \<Rightarrow> string"
  nt_Revision :: "string option"

abbreviation answer :: "'a \<Rightarrow> ('w, 'a) state" where "answer \<equiv> State_Monad.return"

record CheckConfig =
  ck_EdgeURL :: string
  ck_OriginURL :: string
  ck_ControlURL :: string
  ck_AdminURL :: string
  ck_HMACSecret :: string
  ck_EdgeSecret :: string
  ck_OriginSecret :: string
  ck_AdminSecret :: string
  ck_OperatorSecret :: string
  ck_Membership :: string
  ck_EventID :: string
  ck_Timeout :: duration
  ck_StoreDownURL :: string
  ck_StoreDownEdgeSecret :: string
  ck_StoreDownHMAC :: string
  ck_CommitSHA :: string
  ck_Production :: bool
  ck_detectedProduction :: bool

record runner =
  rn_cfg :: CheckConfig
  rn_origin :: string
  rn_control :: string
  rn_admin :: string

section \<open>Requests\<close>

definition jsonPOST :: "string \<Rightarrow> (string \<times> string) list \<Rightarrow> string option \<Rightarrow> outgoing" where
  "jsonPOST url hdrs body =
     \<lparr>og_Method = ''POST'', og_URL = url, og_Host = '''',
      og_Header = fold (\<lambda>(k, v). hdrSet k v) hdrs (hdrSet ''Content-Type'' ''application/json'' []), og_Body = body\<rparr>"

definition readReply :: "nat \<Rightarrow> reply \<Rightarrow> string" where
  "readReply n r = TrimSpace (take n (ry_Body r))"

definition capturePOST :: "'w net \<Rightarrow> duration \<Rightarrow> string \<Rightarrow> (string \<times> string) list \<Rightarrow> json option \<Rightarrow> ('w, Exchange) state" where
  "capturePOST N tmo url hdrs body = State (\<lambda>w.
     (let raw = map_option (nt_Marshal N) body;
          ex = \<lparr>ex_Method = ''POST'', ex_URL = url, ex_Headers = redactHeaders hdrs,
                ex_Body = (case raw of None \<Rightarrow> '''' | Some s \<Rightarrow> s), ex_Status = 0, ex_Response = ''''\<rparr>
      in case nt_Do N tmo (jsonPOST url hdrs raw) w of
           (Inl err, w) \<Rightarrow> (ex\<lparr>ex_Response := err\<rparr>, w)
         | (Inr r, w) \<Rightarrow> (ex\<lparr>ex_Status := ry_Status r, ex_Response := readReply 4096 r\<rparr>, w)))"

definition captureGET :: "'w net \<Rightarrow> duration \<Rightarrow> string \<Rightarrow> (string \<times> string) list \<Rightarrow> ('w, Exchange) state" where
  "captureGET N tmo url hdrs = State (\<lambda>w.
     (let ex = \<lparr>ex_Method = ''GET'', ex_URL = url, ex_Headers = redactHeaders hdrs, ex_Body = '''', ex_Status = 0, ex_Response = ''''\<rparr>
      in case nt_Do N tmo \<lparr>og_Method = ''GET'', og_URL = url, og_Host = '''', og_Header = fold (\<lambda>(k, v). hdrSet k v) hdrs [], og_Body = None\<rparr> w of
           (Inl err, w) \<Rightarrow> (ex\<lparr>ex_Response := err\<rparr>, w)
         | (Inr r, w) \<Rightarrow> (ex\<lparr>ex_Status := ry_Status r, ex_Response := readReply 4096 r\<rparr>, w)))"

definition postJSONHdr :: "'w net \<Rightarrow> duration \<Rightarrow> string \<Rightarrow> (string \<times> string) list \<Rightarrow> json option \<Rightarrow> ('w, int \<times> string \<times> headers) state" where
  "postJSONHdr N tmo url hdrs body = State (\<lambda>w.
     (case nt_Do N tmo (jsonPOST url hdrs (map_option (nt_Marshal N) body)) w of
        (Inl err, w) \<Rightarrow> ((0, err, []), w)
      | (Inr r, w) \<Rightarrow> ((ry_Status r, readReply 4096 r, ry_Header r), w)))"

definition postJSON :: "'w net \<Rightarrow> duration \<Rightarrow> string \<Rightarrow> (string \<times> string) list \<Rightarrow> json option \<Rightarrow> ('w, int \<times> string) state" where
  "postJSON N tmo url hdrs body = State (\<lambda>w.
     (case nt_Do N tmo (jsonPOST url hdrs (map_option (nt_Marshal N) body)) w of
        (Inl err, w) \<Rightarrow> ((0, err), w)
      | (Inr r, w) \<Rightarrow> ((ry_Status r, readReply 4096 r), w)))"

text \<open>A request the code builds by hand: the status and the untrimmed body of the reply, or the error.\<close>

definition send :: "'w net \<Rightarrow> duration \<Rightarrow> outgoing \<Rightarrow> ('w, string + int \<times> string) state" where
  "send N tmo req = State (\<lambda>w.
     (case nt_Do N tmo req w of
        (Inl err, w) \<Rightarrow> (Inl err, w)
      | (Inr r, w) \<Rightarrow> (Inr (ry_Status r, take 2048 (ry_Body r)), w)))"

definition success :: "int \<Rightarrow> bool" where "success code \<longleftrightarrow> 200 \<le> code \<and> code < 300"

definition looksLikeSearch :: "string \<Rightarrow> bool" where
  "looksLikeSearch body \<longleftrightarrow>
     Contains body ([CHR 0x22] @ ''events'' @ [CHR 0x22])
     \<or> Contains body ([CHR 0x22] @ ''available'' @ [CHR 0x22]) \<and> \<not> Contains body ([CHR 0x22] @ ''hold_id'' @ [CHR 0x22])"

definition cookieHeader :: "string \<Rightarrow> (string \<times> string) list" where
  "cookieHeader tok = [(''Cookie'', CookieName @ ''='' @ tok)]"

definition oneSeat :: json where "oneSeat = JObj [(''seats'', JNum 1)]"

definition authorizeJSON :: "string \<Rightarrow> json" where
  "authorizeJSON path = JObj [(''method'', JStr ''POST''), (''path'', JStr path)]"

definition acquireJSON :: "string \<Rightarrow> json" where
  "acquireJSON res = JObj [(''action'', JStr ''hold''), (''resource'', JStr res)]"

section \<open>Sessions and executions\<close>

definition unixNano :: "'w net \<Rightarrow> ('w, time) state" where
  "unixNano N = State (nt_Now N)"

definition boxOfficeSession :: "'w net \<Rightarrow> string \<Rightarrow> string \<Rightarrow> duration \<Rightarrow> ('w, string option) state" where
  "boxOfficeSession N secret membership ttl = do {
     now \<leftarrow> unixNano N; rnd \<leftarrow> State (nt_Rand N);
     answer (IssueBoxOfficeSession (nt_JWT N) now rnd secret membership ttl) }"

definition devAssertion :: "'w net \<Rightarrow> string \<Rightarrow> string \<Rightarrow> duration \<Rightarrow> ('w, string option) state" where
  "devAssertion N secret customer ttl = do {
     now \<leftarrow> unixNano N; rnd \<leftarrow> State (nt_Rand N);
     answer (IssueDevAssertion (nt_JWT N) now rnd secret customer ttl []) }"

definition numbered :: "'w net \<Rightarrow> string \<Rightarrow> ('w, string) state" where
  "numbered N prefix = do { n \<leftarrow> unixNano N; answer (prefix @ FormatInt n) }"

record mintedExecution =
  me_Token :: string
  me_Fence :: string
  me_ID :: string

abbreviation hour :: duration where "hour \<equiv> 60 * minute"

definition mintPathExecution :: "'w net \<Rightarrow> duration \<Rightarrow> string \<Rightarrow> CheckConfig \<Rightarrow> string \<Rightarrow> string \<Rightarrow> ('w, string + mintedExecution) state" where
  "mintPathExecution N tmo control cfg membership path = do {
     tok \<leftarrow> boxOfficeSession N (ck_HMACSecret cfg) membership hour;
     case tok of
       None \<Rightarrow> answer (Inl (nt_SignError N))
     | Some tok \<Rightarrow> do {
         (code, body, hdr) \<leftarrow> postJSONHdr N tmo (control @ ''/v1/authorize'')
           [(''Cookie'', CookieName @ ''='' @ tok), (''X-Bruiser-Edge-Secret'', ck_EdgeSecret cfg)] (Some (authorizeJSON path));
         answer (
           if code \<noteq> StatusOK then Inl (''authorize '' @ FormatInt code @ '' '' @ body)
           else
             let json = nt_Unmarshal N body;
                 fence = lax_int json ''fence'';
                 exe = \<lparr>me_Token = hdrGet hdr ''X-Bruiser-Execution'', me_Fence = hdrGet hdr ''X-Bruiser-Fence'',
                        me_ID = lax_str json ''execution_id''\<rparr> in
             if me_Token exe = '''' then Inl (''authorize did not return an execution token: '' @ body)
             else Inr (if me_Fence exe = '''' \<and> fence \<noteq> 0 then exe\<lparr>me_Fence := FormatInt fence\<rparr> else exe)) } }"

definition holdPath :: "CheckConfig \<Rightarrow> string" where
  "holdPath cfg = ''/api/events/'' @ ck_EventID cfg @ ''/holds''"

definition mintHoldExecution :: "'w net \<Rightarrow> duration \<Rightarrow> string \<Rightarrow> CheckConfig \<Rightarrow> string \<Rightarrow> ('w, string + mintedExecution) state" where
  "mintHoldExecution N tmo control cfg membership = mintPathExecution N tmo control cfg membership (holdPath cfg)"

definition originSecretHdr :: "runner \<Rightarrow> (string \<times> string) list \<Rightarrow> (string \<times> string) list" where
  "originSecretHdr r extra =
     fold (\<lambda>(k, v). AList.update k v) extra [(''X-Bruiser-Origin-Secret'', ck_OriginSecret (rn_cfg r))]"

definition bearerHdr :: "string \<Rightarrow> (string \<times> string) list" where
  "bearerHdr tok = [(''Authorization'', ''Bearer '' @ tok)]"

definition adminHeaders :: "runner \<Rightarrow> (string \<times> string) list" where
  "adminHeaders r =
     (if ck_AdminSecret (rn_cfg r) \<noteq> '''' then [(''X-Bruiser-Admin-Secret'', ck_AdminSecret (rn_cfg r))]
      else if ck_OperatorSecret (rn_cfg r) \<noteq> '''' then [(''X-Bruiser-Operator-Secret'', ck_OperatorSecret (rn_cfg r))]
      else [])"

definition principalJSON :: "string \<Rightarrow> json" where
  "principalJSON p = JObj [(''principal'', JObj [(''id'', JStr p), (''type'', JStr ''agent'')])]"

definition mintAgentSession :: "'w net \<Rightarrow> runner \<Rightarrow> string \<Rightarrow> string \<Rightarrow> ('w, string + string) state" where
  "mintAgentSession N r customer agent =
     (if TrimSpace (ck_HMACSecret (rn_cfg r)) = '''' then answer (Inl ''HMAC secret not provided'')
      else do {
        assertion \<leftarrow> devAssertion N (ck_HMACSecret (rn_cfg r)) customer hour;
        case assertion of
          None \<Rightarrow> answer (Inl (nt_SignError N))
        | Some a \<Rightarrow> do {
            ex \<leftarrow> capturePOST N (ck_Timeout (rn_cfg r)) (rn_control r @ ''/v1/sessions'') (bearerHdr a) (Some (principalJSON agent));
            answer (
              if ex_Status ex \<noteq> StatusOK \<and> ex_Status ex \<noteq> StatusCreated
              then Inl (''sessions '' @ FormatInt (ex_Status ex) @ '' '' @ ex_Response ex)
              else case Option.bind (objectOf (nt_Unmarshal N (ex_Response ex))) (\<lambda>ms. str_field ms ''session_token'') of
                     Some tok \<Rightarrow> if tok = '''' then Inl (''session token missing: '' @ ex_Response ex) else Inr tok
                   | None \<Rightarrow> Inl (''session token missing: '' @ ex_Response ex)) } })"

definition runnerAcquire :: "'w net \<Rightarrow> runner \<Rightarrow> string \<Rightarrow> string \<Rightarrow> ('w, string + mintedExecution) state" where
  "runnerAcquire N r sess resourceID = do {
     ex \<leftarrow> capturePOST N (ck_Timeout (rn_cfg r)) (rn_control r @ ''/v1/executions/acquire'') (bearerHdr sess) (Some (acquireJSON resourceID));
     answer (
       if ex_Status ex \<noteq> StatusCreated \<and> ex_Status ex \<noteq> StatusOK
       then Inl (''acquire '' @ FormatInt (ex_Status ex) @ '' '' @ ex_Response ex)
       else
         let json = nt_Unmarshal N (ex_Response ex);
             exe = \<lparr>me_Token = lax_str json ''execution_token'', me_Fence = FormatInt (lax_int json ''fence''),
                    me_ID = lax_str json ''execution_id''\<rparr> in
         if me_Token exe = '''' then Inl (''acquire returned no token: '' @ ex_Response ex) else Inr exe) }"

definition runnerRelease :: "'w net \<Rightarrow> runner \<Rightarrow> string \<Rightarrow> string \<Rightarrow> ('w, string option) state" where
  "runnerRelease N r sess i =
     (if i = '''' then answer (Some ''missing execution id'')
      else do {
        ex \<leftarrow> capturePOST N (ck_Timeout (rn_cfg r)) (rn_control r @ ''/v1/executions/'' @ i @ ''/release'') (bearerHdr sess) None;
        answer (if ex_Status ex \<ge> 400 then Some (''release '' @ FormatInt (ex_Status ex) @ '' '' @ ex_Response ex) else None) })"

end
