(* ===== verification/Check_Probes.thy ===== *)
theory Check_Probes
  imports Check
begin

text \<open>
  The probes of \<open>internal/check/invariants.go\<close>: each makes its requests and gives a verdict with the evidence
  it rests on.
\<close>

definition judged :: "Evidence \<Rightarrow> string \<Rightarrow> string \<Rightarrow> Probe" where
  "judged ev status detail =
     noProbe\<lparr>pr_Evidence := Some ev, pr_Status := status, pr_Pass := (status = ''PASS''), pr_Detail := detail\<rparr>"

definition codeAndBody :: "int \<Rightarrow> string \<Rightarrow> string" where
  "codeAndBody code body = ''('' @ FormatInt code @ '') '' @ body"

definition gotBody :: "Exchange \<Rightarrow> string" where
  "gotBody ex = FormatInt (ex_Status ex) @ '' '' @ ex_Response ex"

definition arrow :: string where "arrow = encode_rune 0x2192"

section \<open>The origin\<close>

definition originPOST :: "'w net \<Rightarrow> runner \<Rightarrow> string \<Rightarrow> string \<Rightarrow> ('w, Exchange) state" where
  "originPOST N r tok fence =
     capturePOST N (ck_Timeout (rn_cfg r)) (rn_origin r @ holdPath (rn_cfg r))
       (originSecretHdr r [(''X-Bruiser-Execution'', tok), (''X-Bruiser-Fence'', fence)]) (Some oneSeat)"

definition forgedOrigin :: "'w net \<Rightarrow> runner \<Rightarrow> ('w, Probe) state" where
  "forgedOrigin N r =
     (if rn_origin r = '''' then answer (fail ''--origin is required'')
      else if TrimSpace (ck_OriginSecret (rn_cfg r)) = '''' then
        answer (inconclusive ''origin secret not provided; refusing to PASS a forged-token probe that cannot send it'')
      else do {
        ex \<leftarrow> originPOST N r ''forged.not.signed'' ''1'';
        let p = judged \<lparr>ev_Exchanges = [ex], ev_Sent = [''forged.not.signed'', ''X-Bruiser-Origin-Secret'']\<rparr>;
        answer (
          if success (ex_Status ex) then
            p ''FAIL'' (''origin accepted forged execution with a valid origin secret '' @ codeAndBody (ex_Status ex) (ex_Response ex))
          else if ex_Status ex \<noteq> StatusForbidden then
            p ''FAIL'' (''forged execution + origin secret want 403 got '' @ gotBody ex)
          else p ''PASS'' (''forged execution + valid origin secret rejected ('' @ FormatInt (ex_Status ex) @ '')'')) })"

definition parsedFence :: "string \<Rightarrow> int" where
  "parsedFence s = (case Atoi s of None \<Rightarrow> 0 | Some n \<Rightarrow> n)"

definition staleVerdict :: "mintedExecution \<Rightarrow> mintedExecution \<Rightarrow> Exchange \<Rightarrow> Exchange \<Rightarrow> Exchange \<Rightarrow> Probe" where
  "staleVerdict first again firstHit secondHit stale =
     (let p = judged \<lparr>ev_Exchanges = [firstHit, secondHit, stale],
                      ev_Sent = [''stale-fence-token'', ''X-Bruiser-Origin-Secret'', me_Fence first, me_Fence again]\<rparr> in
      if success (ex_Status stale) then
        p ''FAIL'' (''origin accepted a stale-fence token with a valid origin secret '' @ codeAndBody (ex_Status stale) (ex_Response stale))
      else if ex_Status stale \<noteq> StatusForbidden then
        p ''FAIL'' (''stale-fence token + origin secret want 403 got '' @ gotBody stale)
      else p ''PASS'' (''stale-fence token (fence '' @ me_Fence first @ '' after '' @ me_Fence again @ '') + origin secret rejected (''
                       @ FormatInt (ex_Status stale) @ '')''))"

definition secondPresentation :: "'w net \<Rightarrow> runner \<Rightarrow> string \<Rightarrow> string \<Rightarrow> mintedExecution \<Rightarrow> Exchange \<Rightarrow> ('w, Probe) state" where
  "secondPresentation N r sess res first firstHit = do {
     again \<leftarrow> runnerAcquire N r sess res;
     case again of
       Inl err \<Rightarrow> answer (fail (''second acquire: '' @ err))
     | Inr again \<Rightarrow>
         if parsedFence (me_Fence again) \<le> parsedFence (me_Fence first) then
           answer (fail (''fence did not advance ('' @ me_Fence first @ '' '' @ arrow @ '' '' @ me_Fence again @ ''); cannot prove a stale-fence token''))
         else do {
           secondHit \<leftarrow> originPOST N r (me_Token again) (me_Fence again);
           stale \<leftarrow> originPOST N r (me_Token first) (me_Fence first);
           answer (staleVerdict first again firstHit secondHit stale) } }"

definition staleFenceOrigin :: "'w net \<Rightarrow> runner \<Rightarrow> ('w, Probe) state" where
  "staleFenceOrigin N r =
     (if rn_origin r = '''' \<or> rn_control r = '''' then answer (fail ''--origin and --control are required'')
      else if TrimSpace (ck_OriginSecret (rn_cfg r)) = '''' then
        answer (inconclusive ''origin secret not provided; refusing to PASS a stale-fence probe that cannot send it'')
      else do {
        cust \<leftarrow> numbered N ''stale-'';
        sess \<leftarrow> mintAgentSession N r cust ''stale-agent'';
        case sess of
          Inl err \<Rightarrow> answer (inconclusive (''cannot mint a session to produce a stale-fence token: '' @ err))
        | Inr sess \<Rightarrow> do {
            let res = ''event:'' @ ck_EventID (rn_cfg r);
            first \<leftarrow> runnerAcquire N r sess res;
            case first of
              Inl err \<Rightarrow> answer (fail (''first acquire: '' @ err))
            | Inr first \<Rightarrow> do {
                firstHit \<leftarrow> originPOST N r (me_Token first) (me_Fence first);
                if ex_Status firstHit \<ge> 400 \<and> ex_Status firstHit \<noteq> StatusConflict then
                  answer (fail (''could not present the live token to origin '' @ codeAndBody (ex_Status firstHit) (ex_Response firstHit)))
                else do {
                  rel \<leftarrow> runnerRelease N r sess (me_ID first);
                  case rel of
                    Some err \<Rightarrow> answer (fail (''release: '' @ err))
                  | None \<Rightarrow> secondPresentation N r sess res first firstHit } } } })"

section \<open>Resource variants\<close>

definition executionID :: "json option \<Rightarrow> string" where
  "executionID body =
     (case objectOf body of
        None \<Rightarrow> ''''
      | Some ms \<Rightarrow> (case map_member ms ''execution_id'' of Some (JStr s) \<Rightarrow> s | _ \<Rightarrow> ''''))"

definition notedID :: "string \<Rightarrow> string list \<Rightarrow> string list" where
  "notedID i ids = (if i \<noteq> '''' then List.insert i ids else ids)"

text \<open>The loop over the corpus: an early verdict, or the exchanges, the identifiers seen and the number created.\<close>

fun tryVariants :: "'w net \<Rightarrow> runner \<Rightarrow> string \<Rightarrow> nat \<Rightarrow> string list \<Rightarrow> Exchange list \<Rightarrow> string list \<Rightarrow> int
    \<Rightarrow> ('w, Probe + Exchange list \<times> string list \<times> int) state" where
  "tryVariants N r cust i [] exchanges ids created = answer (Inr (exchanges, ids, created))"
| "tryVariants N r cust i (res # rest) exchanges ids created = do {
     sess \<leftarrow> mintAgentSession N r cust (''v-'' @ FormatInt (int i));
     case sess of
       Inl err \<Rightarrow> answer (Inl (inconclusive (''cannot mint a session for the nine-variant corpus: '' @ err)))
     | Inr sess \<Rightarrow> do {
         ex \<leftarrow> capturePOST N (ck_Timeout (rn_cfg r)) (rn_control r @ ''/v1/executions/acquire'') (bearerHdr sess) (Some (acquireJSON res));
         let i' = executionID (nt_Unmarshal N (ex_Response ex));
         if ex_Status ex = StatusBadRequest then
           answer (Inl (fail (''variant '' @ nt_Quote N res @ '' rejected instead of folding '' @ codeAndBody (ex_Status ex) (ex_Response ex))))
         else if ex_Status ex = StatusCreated then
           tryVariants N r cust (Suc i) rest (exchanges @ [ex]) (notedID i' ids) (created + 1)
         else if ex_Status ex \<in> {StatusOK, StatusConflict, StatusForbidden} then
           tryVariants N r cust (Suc i) rest (exchanges @ [ex]) (notedID i' ids) created
         else answer (Inl (fail (''variant '' @ nt_Quote N res @ '' '' @ arrow @ '' '' @ gotBody ex))) } }"

definition resourceVariants :: "'w net \<Rightarrow> runner \<Rightarrow> ('w, Probe) state" where
  "resourceVariants N r =
     (if rn_control r = '''' then answer (fail ''--control is required to prove canonical resource domains'')
      else do {
        cust \<leftarrow> numbered N ''canon-'';
        out \<leftarrow> tryVariants N r cust 0 CupfinalCorpus [] [] 0;
        case out of
          Inl p \<Rightarrow> answer p
        | Inr (exchanges, ids, created) \<Rightarrow>
            (let p = judged \<lparr>ev_Exchanges = exchanges, ev_Sent = [''max_active=1''] @ CupfinalCorpus\<rparr> in
             answer (
               if created \<noteq> 1 \<or> length ids \<noteq> 1 then
                 p ''FAIL'' (''nine-variant corpus minted '' @ FormatInt created @ '' CREATED and '' @ FormatInt (int (length ids))
                             @ '' distinct executions (want 1 ACTIVE domain under max_active=1)'')
               else p ''PASS'' ''nine-variant + Unicode corpus stayed on one ACTIVE domain'')) })"

section \<open>Identity and sessions\<close>

definition forgeryVerdict :: "Exchange \<Rightarrow> Exchange option \<Rightarrow> Probe" where
  "forgeryVerdict forged hmacEx =
     (let p = judged \<lparr>ev_Exchanges = forged # (case hmacEx of None \<Rightarrow> [] | Some ex \<Rightarrow> [ex]),
                      ev_Sent = ''not-a-jwt'' # (case hmacEx of None \<Rightarrow> [] | Some _ \<Rightarrow> [''hmac-dev-assertion''])\<rparr> in
      if ex_Status forged \<noteq> StatusUnauthorized then p ''FAIL'' (''forged assertion want 401 got '' @ gotBody forged)
      else case hmacEx of
        Some ex \<Rightarrow>
          if success (ex_Status ex) then
            p ''INCONCLUSIVE'' ''HMAC lab assertions are still accepted; not proving production identity (dev assertions off)''
          else p ''PASS'' ''forged assertion and HMAC lab assertion both rejected''
      | None \<Rightarrow> p ''INCONCLUSIVE'' ''HMAC secret not provided; forged assertion was 401 but production HMAC-off was not exercised'')"

definition identityForgeryDevAssertionsOff :: "'w net \<Rightarrow> runner \<Rightarrow> ('w, Probe) state" where
  "identityForgeryDevAssertionsOff N r =
     (if rn_control r = '''' then answer (fail ''--control is required'')
      else do {
        let sessions = rn_control r @ ''/v1/sessions'';
        forged \<leftarrow> capturePOST N (ck_Timeout (rn_cfg r)) sessions (bearerHdr ''not-a-jwt'') (Some (JObj [(''principal'', JStr ''forged'')]));
        if TrimSpace (ck_HMACSecret (rn_cfg r)) = '''' then answer (forgeryVerdict forged None)
        else do {
          tok \<leftarrow> devAssertion N (ck_HMACSecret (rn_cfg r)) ''forged-alice'' hour;
          case tok of
            None \<Rightarrow> answer (forgeryVerdict forged None)
          | Some tok \<Rightarrow> do {
              ex \<leftarrow> capturePOST N (ck_Timeout (rn_cfg r)) sessions (bearerHdr tok) (Some (principalJSON ''hmac-probe''));
              answer (forgeryVerdict forged (Some ex)) } } })"

definition sessionRevocation :: "'w net \<Rightarrow> runner \<Rightarrow> ('w, Probe) state" where
  "sessionRevocation N r =
     (if rn_control r = '''' then answer (fail ''--control is required'')
      else do {
        cust \<leftarrow> numbered N ''rev-'';
        sess \<leftarrow> mintAgentSession N r cust ''revoke-agent'';
        case sess of
          Inl err \<Rightarrow> answer (inconclusive (''cannot mint a session to prove revocation: '' @ err))
        | Inr sess \<Rightarrow> do {
            logout \<leftarrow> capturePOST N (ck_Timeout (rn_cfg r)) (rn_control r @ ''/v1/sessions/logout'') (bearerHdr sess) None;
            after \<leftarrow> capturePOST N (ck_Timeout (rn_cfg r)) (rn_control r @ ''/v1/executions/acquire'') (bearerHdr sess)
              (Some (acquireJSON (''event:'' @ ck_EventID (rn_cfg r))));
            let p = judged \<lparr>ev_Exchanges = [logout, after], ev_Sent = [''revoked-session'', ''/v1/sessions/logout'']\<rparr>;
            answer (
              if ex_Status logout \<noteq> StatusOK then p ''FAIL'' (''logout '' @ gotBody logout)
              else if ex_Status after \<noteq> StatusUnauthorized then
                p ''FAIL'' (''revoked session still acquired '' @ codeAndBody (ex_Status after) (ex_Response after))
              else p ''PASS'' (''logout then acquire '' @ arrow @ '' 401'')) } })"

section \<open>Replay and budget\<close>

definition replayRejected :: "'w net \<Rightarrow> runner \<Rightarrow> ('w, Probe) state" where
  "replayRejected N r =
     (if rn_control r = '''' then answer (fail ''--control is required'')
      else do {
        cust \<leftarrow> numbered N ''replay-'';
        sess \<leftarrow> mintAgentSession N r cust ''replay-agent'';
        case sess of
          Inl err \<Rightarrow> answer (inconclusive (''cannot mint a session to prove replay rejection: '' @ err))
        | Inr sess \<Rightarrow> do {
            nonce \<leftarrow> numbered N ''authority-check-nonce-'';
            let acquire = capturePOST N (ck_Timeout (rn_cfg r)) (rn_control r @ ''/v1/executions/acquire'')
                  (bearerHdr sess @ [(''X-Bruiser-Nonce'', nonce)]) (Some (acquireJSON (''event:'' @ ck_EventID (rn_cfg r))));
            first \<leftarrow> acquire;
            again \<leftarrow> acquire;
            let p = judged \<lparr>ev_Exchanges = [first, again], ev_Sent = [''authority-check-nonce'', nonce]\<rparr>;
            answer (
              if ex_Status first \<noteq> StatusCreated \<and> ex_Status first \<noteq> StatusOK then p ''FAIL'' (''first acquire '' @ gotBody first)
              else if ex_Status again \<noteq> StatusConflict then p ''FAIL'' (''replay want 409 got '' @ gotBody again)
              else p ''PASS'' (''duplicate X-Bruiser-Nonce '' @ arrow @ '' 409'')) } })"

definition budgetEnforced :: "'w net \<Rightarrow> runner \<Rightarrow> ('w, Probe) state" where
  "budgetEnforced N r =
     (if rn_control r = '''' then answer (fail ''--control is required'')
      else do {
        cust \<leftarrow> numbered N ''budget-'';
        cookie \<leftarrow> boxOfficeSession N (ck_HMACSecret (rn_cfg r)) cust hour;
        case cookie of
          None \<Rightarrow> answer (fail (nt_SignError N))
        | Some cookie \<Rightarrow> do {
            let authorize = capturePOST N (ck_Timeout (rn_cfg r)) (rn_control r @ ''/v1/authorize'')
                  [(''Cookie'', CookieName @ ''='' @ cookie), (''X-Bruiser-Edge-Secret'', ck_EdgeSecret (rn_cfg r))]
                  (Some (authorizeJSON (holdPath (rn_cfg r))));
            first \<leftarrow> authorize;
            again \<leftarrow> authorize;
            let p = judged \<lparr>ev_Exchanges = [first, again], ev_Sent = [''budget'', ''max_ops'']\<rparr>;
            answer (
              if ex_Status first \<noteq> StatusOK then p ''FAIL'' (''first authorize '' @ gotBody first)
              else if ex_Status again \<noteq> StatusConflict then
                p ''INCONCLUSIVE'' (''second authorize '' @ gotBody again @ ''; budget.max_ops may be unlimited '' @ em_dash @ '' not claiming enforcement'')
              else p ''PASS'' (''second authorize exhausted budget '' @ arrow @ '' 409'')) } })"

section \<open>Administration, outage, secrets\<close>

definition adminVerdict :: "runner \<Rightarrow> Exchange \<Rightarrow> Exchange option \<Rightarrow> Probe" where
  "adminVerdict r pub adminEx =
     (let p = judged \<lparr>ev_Exchanges = pub # (case adminEx of Some ex \<Rightarrow> if ex_URL ex \<noteq> '''' then [ex] else [] | None \<Rightarrow> []),
                      ev_Sent = ''/v1/admin/status'' # (case adminEx of Some _ \<Rightarrow> [rn_admin r @ ''/v1/admin/status''] | None \<Rightarrow> [])\<rparr> in
      if ex_Status pub \<noteq> StatusNotFound then
        p ''FAIL'' (''public listener served admin status '' @ codeAndBody (ex_Status pub) (ex_Response pub))
      else case adminEx of
        None \<Rightarrow> p ''INCONCLUSIVE'' (''public path 404'' @ [CHR 0x27] @ ''d but --admin was not a distinct listener, so the admin surface was not proven to exist elsewhere'')
      | Some ex \<Rightarrow>
          if ex_Status ex = StatusNotFound then p ''FAIL'' (''admin listener also 404'' @ [CHR 0x27] @ ''d /v1/admin/status'')
          else if ex_Status ex \<noteq> StatusOK \<and> ex_Status ex \<noteq> StatusUnauthorized then
            p ''FAIL'' (''admin listener status '' @ gotBody ex)
          else p ''PASS'' (''public 404; admin listener '' @ FormatInt (ex_Status ex)))"

definition adminNotOnPublic :: "'w net \<Rightarrow> runner \<Rightarrow> ('w, Probe) state" where
  "adminNotOnPublic N r =
     (if rn_control r = '''' then answer (fail ''--control is required'')
      else do {
        pub \<leftarrow> captureGET N (ck_Timeout (rn_cfg r)) (rn_control r @ ''/v1/admin/status'') [];
        if rn_admin r \<noteq> '''' \<and> rn_admin r \<noteq> rn_control r then do {
          ex \<leftarrow> captureGET N (ck_Timeout (rn_cfg r)) (rn_admin r @ ''/v1/admin/status'') (adminHeaders r);
          answer (adminVerdict r pub (Some ex)) }
        else answer (adminVerdict r pub None) })"

definition failClosedStoreOutage :: "'w net \<Rightarrow> runner \<Rightarrow> ('w, Probe) state" where
  "failClosedStoreOutage N r =
     (let cfg = rn_cfg r in
      if ck_StoreDownURL cfg = '''' then
        answer (noProbe\<lparr>pr_Status := ''INCONCLUSIVE'',
          pr_Detail := ''no --store-down URL; refusing to PASS fail-closed without taking the store down'',
          pr_Evidence := Some \<lparr>ev_Exchanges = [], ev_Sent = []\<rparr>\<rparr>)
      else do {
        let down = TrimRight (ck_StoreDownURL cfg) ''/'';
        let edgeSec = firstNonEmpty (ck_StoreDownEdgeSecret cfg) (ck_EdgeSecret cfg);
        let hmac = firstNonEmpty (ck_StoreDownHMAC cfg) (ck_HMACSecret cfg);
        cust \<leftarrow> numbered N ''down-'';
        cookie \<leftarrow> boxOfficeSession N hmac cust hour;
        case cookie of
          None \<Rightarrow> answer (fail (nt_SignError N))
        | Some cookie \<Rightarrow> do {
            ex \<leftarrow> capturePOST N (ck_Timeout cfg) (down @ ''/v1/authorize'')
              [(''Cookie'', CookieName @ ''='' @ cookie), (''X-Bruiser-Edge-Secret'', edgeSec)] (Some (authorizeJSON (holdPath cfg)));
            let p = judged \<lparr>ev_Exchanges = [ex], ev_Sent = [''store-down'', down]\<rparr>;
            answer (
              if ex_Status ex = StatusOK \<or> ex_Status ex = StatusCreated then
                p ''FAIL'' (''store-down authorize fail-opened '' @ codeAndBody (ex_Status ex) (ex_Response ex))
              else p ''PASS'' (''store-down authorize denied ('' @ FormatInt (ex_Status ex) @ '')'')) } })"

definition zeroConfig :: Config where
  "zeroConfig =
     \<lparr>cf_HTTPAddr = '''', cf_DatabaseURL = '''', cf_DevHMACSecret = '''', cf_MerchantID = '''', cf_MerchantName = '''',
      cf_LeaseTTL = 0, cf_HeartbeatInterval = 0, cf_MaxLifetime = 0, cf_MaxActive = 0, cf_SessionTTL = 0, cf_LogLevel = '''',
      cf_ReadyTimeout = 0, cf_SweepInterval = 0, cf_EdgeSecret = '''', cf_OriginSecret = '''', cf_ProfilePath = '''',
      cf_ProxyAddr = '''', cf_OriginURL = '''', cf_MaxInFlight = 0, cf_RatePerSec = 0, cf_AuditRetention = 0,
      cf_CheckEdgeURL = '''', cf_CheckOriginURL = '''', cf_AdminSecret = '''', cf_OperatorSecret = '''', cf_AdminAddr = '''',
      cf_Telemetry = False, cf_IntrospectURL = '''', cf_Burst = 0, cf_Mode = '''', cf_Enforcement = False,
      cf_QueueEnabled = False, cf_EnforcePercent = 0, cf_Environment = '''', cf_DevAssertions = False, cf_JWKSURL = '''',
      cf_Issuer = '''', cf_Audience = '''', cf_RateSessions = 0, cf_RateAcquire = 0, cf_RateRenew = 0, cf_RateRelease = 0,
      cf_RateAuthorize = 0, cf_RateMerchant = 0, cf_RateCustomer = 0, cf_RatePrincipal = 0, cf_RateIP = 0,
      cf_FailClosed = False, cf_AllowUnsafeModes = False\<rparr>"

definition probedSecrets :: "CheckConfig \<Rightarrow> Config" where
  "probedSecrets cfg =
     zeroConfig\<lparr>cf_Environment := ''production'', cf_AdminSecret := ck_AdminSecret cfg, cf_OperatorSecret := ck_OperatorSecret cfg,
       cf_EdgeSecret := ck_EdgeSecret cfg, cf_OriginSecret := ck_OriginSecret cfg, cf_DevHMACSecret := ck_HMACSecret cfg,
       cf_AdminAddr := ''127.0.0.1:8082''\<rparr>"

definition productionSecrets :: "runner \<Rightarrow> Probe" where
  "productionSecrets r =
     (let err = ValidateSecrets (probedSecrets (rn_cfg r));
          detail = (case err of None \<Rightarrow> ''ValidateSecrets on provided credentials'' | Some e \<Rightarrow> e);
          ex = \<lparr>ex_Method = ''LOCAL'', ex_URL = ''config.ValidateSecrets'', ex_Headers = [], ex_Body = ''production'',
                ex_Status = (if err = None then 200 else 400), ex_Response = detail\<rparr>;
          p = judged \<lparr>ev_Exchanges = [ex], ev_Sent = [''validate-secrets'']\<rparr> in
      if \<not> ck_detectedProduction (rn_cfg r) then
        p ''INCONCLUSIVE'' ''target is not production-configured; not claiming production secret validation''
      else if err \<noteq> None then p ''FAIL'' detail
      else p ''PASS'' ''provided secrets pass production ValidateSecrets'')"

definition detectProduction :: "'w net \<Rightarrow> runner \<Rightarrow> ('w, bool) state" where
  "detectProduction N r =
     (if ck_Production (rn_cfg r) then answer True
      else if rn_admin r = '''' then answer False
      else do {
        ex \<leftarrow> captureGET N (ck_Timeout (rn_cfg r)) (rn_admin r @ ''/v1/admin/status'') (adminHeaders r);
        answer (
          if ex_Status ex \<noteq> StatusOK then False
          else case objectOf (nt_Unmarshal N (ex_Response ex)) of
                 None \<Rightarrow> False
               | Some ms \<Rightarrow> (case map_member ms ''production'' of Some (JBool v) \<Rightarrow> v | _ \<Rightarrow> False)) })"

end
