(* ===== verification/Check_Run.thy ===== *)
theory Check_Run
  imports Check_Probes
begin

text \<open>
  \<open>Run\<close> of \<open>internal/check/check.go\<close>: the defaults of the configuration, the probes in their order and the
  report. The probes are in groups, as the code has them: at the front, at the origin, at the gateway.
\<close>

section \<open>Defaults\<close>

definition orEnv :: "(string \<Rightarrow> string) \<Rightarrow> string \<Rightarrow> string \<Rightarrow> string \<Rightarrow> string" where
  "orEnv getenv v name dflt = firstNonEmpty (firstNonEmpty v (getenv name)) dflt"

definition checkDefaults :: "(string \<Rightarrow> string) \<Rightarrow> CheckConfig \<Rightarrow> CheckConfig" where
  "checkDefaults getenv cfg =
     cfg\<lparr>ck_Membership := firstNonEmpty (ck_Membership cfg) ''1001234'',
         ck_EventID := firstNonEmpty (ck_EventID cfg) DefaultEvent,
         ck_Timeout := (if ck_Timeout cfg = 0 then 8 * second else ck_Timeout cfg),
         ck_EdgeSecret := orEnv getenv (ck_EdgeSecret cfg) ''BRUISER_EDGE_SECRET'' ''edge-secret-dev'',
         ck_OriginSecret := orEnv getenv (ck_OriginSecret cfg) ''BRUISER_ORIGIN_SECRET'' ''origin-lock-dev'',
         ck_AdminSecret := orEnv getenv (ck_AdminSecret cfg) ''BRUISER_ADMIN_SECRET'' ''admin-secret-dev'',
         ck_OperatorSecret := orEnv getenv (ck_OperatorSecret cfg) ''BRUISER_OPERATOR_SECRET'' ''operator-secret-dev'',
         ck_HMACSecret := orEnv getenv (ck_HMACSecret cfg) ''BRUISER_DEV_HMAC_SECRET'' ''dev-secret-change-me'',
         ck_StoreDownURL := firstNonEmpty (ck_StoreDownURL cfg) (getenv ''BRUISER_STORE_DOWN_URL''),
         ck_AdminURL := firstNonEmpty (ck_AdminURL cfg) (getenv ''BRUISER_ADMIN_URL'')\<rparr>"

section \<open>Probes at the front\<close>

text \<open>The verdict on an allocation that must not succeed.\<close>

definition refusedOr :: "string \<Rightarrow> string \<Rightarrow> int \<times> string \<Rightarrow> Probe" where
  "refusedOr bad good = (\<lambda>(code, body).
     if success code then fail (bad @ '' '' @ codeAndBody code body) else pass (good @ '' ('' @ FormatInt code @ '')''))"

definition mustRefuse :: "'w net \<Rightarrow> runner \<Rightarrow> string \<Rightarrow> (string \<times> string) list \<Rightarrow> string \<Rightarrow> string \<Rightarrow> ('w, Probe) state" where
  "mustRefuse N r url hdrs bad good = do {
     got \<leftarrow> postJSON N (ck_Timeout (rn_cfg r)) url hdrs (Some oneSeat);
     answer (refusedOr bad good got) }"

definition withSession :: "'w net \<Rightarrow> runner \<Rightarrow> string \<Rightarrow> duration \<Rightarrow> (string \<Rightarrow> ('w, Probe) state) \<Rightarrow> ('w, Probe) state" where
  "withSession N r membership ttl k = do {
     tok \<leftarrow> boxOfficeSession N (ck_HMACSecret (rn_cfg r)) membership ttl;
     case tok of None \<Rightarrow> answer (fail (nt_SignError N)) | Some tok \<Rightarrow> k tok }"

definition tampered :: "string \<Rightarrow> string" where
  "tampered tok = take (length tok - 4) tok @ ''XXXX''"

definition want401 :: "'w net \<Rightarrow> runner \<Rightarrow> string \<Rightarrow> string \<Rightarrow> string \<Rightarrow> ('w, Probe) state" where
  "want401 N r url tok what = do {
     (code, body) \<leftarrow> postJSON N (ck_Timeout (rn_cfg r)) url (cookieHeader tok) (Some oneSeat);
     answer (if code = StatusUnauthorized then pass (what @ '' boxoffice_session '' @ arrow @ '' 401'')
             else fail (''want 401 got '' @ FormatInt code @ '' '' @ body)) }"

definition seatsText :: string where
  "seatsText = ''{'' @ [CHR 0x22] @ ''seats'' @ [CHR 0x22] @ '':1}''"

definition mobileProbe :: "'w net \<Rightarrow> runner \<Rightarrow> string \<Rightarrow> ('w, Probe) state" where
  "mobileProbe N r url = do {
     out \<leftarrow> send N (ck_Timeout (rn_cfg r))
       (jsonPOST url [(''User-Agent'', ''ArsenalOfficial/4.0 (iPhone; WebView)'')] (Some seatsText));
     answer (case out of
       Inl err \<Rightarrow> fail err
     | Inr got \<Rightarrow> refusedOr ''mobile hold succeeded without session'' ''unauthenticated mobile hold rejected'' got) }"

definition getProbe :: "'w net \<Rightarrow> runner \<Rightarrow> string \<Rightarrow> ('w, Probe) state" where
  "getProbe N r url = do {
     out \<leftarrow> send N (ck_Timeout (rn_cfg r)) \<lparr>og_Method = ''GET'', og_URL = url, og_Host = '''', og_Header = [], og_Body = None\<rparr>;
     answer (case out of
       Inl err \<Rightarrow> fail err
     | Inr (code, _) \<Rightarrow>
         if success code then fail (''GET hold succeeded ('' @ FormatInt code @ '')'')
         else pass (''GET hold not allocated ('' @ FormatInt code @ '')'')) }"

definition frontProbes :: "'w net \<Rightarrow> runner \<Rightarrow> string \<Rightarrow> ('w, Probe) state list" where
  "frontProbes N r edge =
     (let cfg = rn_cfg r; m = ck_Membership cfg; url = edge @ holdPath cfg in
      [probed ''Browser allocation route protected''
         (mustRefuse N r url [] ''front allowed unauthenticated hold'' ''unauthenticated browser hold rejected''),
       probed ''Mobile API protected'' (mobileProbe N r url),
       probed ''Agent API protected''
         (mustRefuse N r url [(''X-Principal'', ''agent'')] ''agent hold succeeded without session'' ''unauthenticated agent hold rejected''),
       probed ''Spoofed identity headers rejected''
         (mustRefuse N r url [(''X-Customer-Id'', m), (''X-Bruiser-Customer'', m), (''X-Subject'', m)]
            ''spoofed identity allocated'' ''spoofed customer headers did not allocate''),
       probed ''Expired token rejected'' (withSession N r m (- hour) (\<lambda>tok. want401 N r url tok ''expired'')),
       probed ''Tampered token rejected''
         (withSession N r m hour (\<lambda>tok.
            if length tok < 8 then answer (fail ''token too short'') else want401 N r url (tampered tok) ''tampered'')),
       probed ''GET on allocation route does not grant'' (getProbe N r url),
       probed ''Stale execution rejected''
         (mustRefuse N r url [(''X-Bruiser-Execution'', ''stale.not.a.valid.execution'')]
            ''front allocated with a stale execution token'' ''stale execution not allocated'')])"

section \<open>Probes at the origin\<close>

definition withExecution :: "'w net \<Rightarrow> runner \<Rightarrow> string \<Rightarrow> string \<Rightarrow> (mintedExecution \<Rightarrow> ('w, Probe) state) \<Rightarrow> ('w, Probe) state" where
  "withExecution N r prefix path k = do {
     cust \<leftarrow> numbered N prefix;
     exe \<leftarrow> mintPathExecution N (ck_Timeout (rn_cfg r)) (rn_control r) (rn_cfg r) cust path;
     case exe of Inl err \<Rightarrow> answer (fail err) | Inr exe \<Rightarrow> k exe }"

definition executionHdr :: "mintedExecution \<Rightarrow> (string \<times> string) list" where
  "executionHdr exe = [(''X-Bruiser-Execution'', me_Token exe), (''X-Bruiser-Fence'', me_Fence exe)]"

definition noSecretProbe :: "'w net \<Rightarrow> runner \<Rightarrow> ('w, Probe) state" where
  "noSecretProbe N r =
     (if rn_control r = '''' then answer (fail ''--control is required to mint an execution'')
      else withExecution N r ''nosecret-'' (holdPath (rn_cfg r)) (\<lambda>exe. do {
        (code, body) \<leftarrow> postJSON N (ck_Timeout (rn_cfg r)) (rn_origin r @ holdPath (rn_cfg r)) (executionHdr exe) (Some oneSeat);
        answer (
          if success code then
            fail (''origin allocated with a valid execution but no origin secret '' @ codeAndBody code body @ ''; path trust is off'')
          else pass (''valid execution without origin secret rejected ('' @ FormatInt code @ '')'')) }))"

definition badSecretProbe :: "'w net \<Rightarrow> runner \<Rightarrow> ('w, Probe) state" where
  "badSecretProbe N r =
     (if rn_control r = '''' then answer (fail ''--control is required to mint an execution'')
      else withExecution N r ''badsecret-'' (holdPath (rn_cfg r)) (\<lambda>exe.
        mustRefuse N r (rn_origin r @ holdPath (rn_cfg r)) ((''X-Bruiser-Origin-Secret'', ''wrong-origin-secret'') # executionHdr exe)
          ''origin accepted a valid execution with a spoofed origin secret'' ''valid execution + spoofed origin secret rejected''))"

definition bypassProbe :: "'w net \<Rightarrow> runner \<Rightarrow> ('w, Probe) state" where
  "bypassProbe N r =
     withSession N r (ck_Membership (rn_cfg r)) hour (\<lambda>tok. do {
       (code, body) \<leftarrow> postJSON N (ck_Timeout (rn_cfg r)) (rn_origin r @ holdPath (rn_cfg r)) (cookieHeader tok) (Some oneSeat);
       answer (
         if success code then fail (''origin accepted a bypass hold ('' @ FormatInt code @ ''); missing execution authority'')
         else if code = StatusForbidden \<and> Contains body ''origin lockdown'' then pass ''direct origin hold rejected without Edge secret''
         else if code = StatusUnauthorized then
           pass (''direct origin hold rejected without execution authority ('' @ FormatInt code @ '')'')
         else fail (''unexpected origin bypass response '' @ FormatInt code @ '' '' @ body)) })"

definition originProbes :: "'w net \<Rightarrow> runner \<Rightarrow> ('w, Probe) state list" where
  "originProbes N r =
     (let cfg = rn_cfg r; m = ck_Membership cfg; url = rn_origin r @ holdPath cfg in
      if rn_origin r = '''' then
        [answer (failProbe ''Origin lockdown proven''
           (''FAIL '' @ em_dash @ '' --origin is required. Do not go live without proving the locked origin.''))]
      else
        [probed ''Removed proxy headers do not allocate''
           (withSession N r m hour (\<lambda>tok.
              mustRefuse N r url (cookieHeader tok @ [(''X-Bruiser-Execution'', ''not-a-token'')])
                ''origin allocated without Bruiser proxy headers'' ''origin rejected allocation without proxy headers'')),
         probed ''Spoofed origin secret rejected''
           (mustRefuse N r url [(''X-Bruiser-Origin-Secret'', ''wrong-origin-secret'')]
              ''origin accepted a spoofed origin secret'' ''spoofed origin secret rejected''),
         probed ''Origin secret required with a valid execution'' (noSecretProbe N r),
         probed ''Wrong origin secret rejected with a valid execution'' (badSecretProbe N r),
         probed ''Direct allocation bypass blocked'' (bypassProbe N r),
         probed ''Origin rejects missing Bruiser credentials''
           (mustRefuse N r url [] ''origin allocated with no Bruiser credentials'' ''origin rejected bare allocation''),
         probed ''Origin rejects spoofed identity''
           (mustRefuse N r url [(''X-Customer-Id'', m), (''X-Bruiser-Customer'', m)]
              ''origin allocated from spoofed identity'' ''origin rejected spoofed identity''),
         probed ''Origin rejects stale execution''
           (mustRefuse N r url [(''X-Bruiser-Execution'', ''stale.not.a.valid.execution'')]
              ''origin allocated from stale execution'' ''origin rejected stale execution''),
         probed ''Origin rejects tampered session''
           (withSession N r m hour (\<lambda>tok.
              if length tok < 8 then answer (fail ''token too short'')
              else mustRefuse N r url (cookieHeader (tampered tok))
                     ''origin allocated from tampered session'' ''origin rejected tampered session''))])"

section \<open>Probes of other routes\<close>

definition authorizeProbe :: "'w net \<Rightarrow> runner \<Rightarrow> ('w, Probe) state" where
  "authorizeProbe N r =
     (if rn_control r = '''' then
        answer (failProbe ''Authorize requires edge secret''
          (''FAIL '' @ em_dash @ '' --control is required to prove /v1/authorize rejects a missing edge secret.''))
      else probed ''Authorize requires edge secret'' (do {
        (code, body) \<leftarrow> postJSON N (ck_Timeout (rn_cfg r)) (rn_control r @ ''/v1/authorize'')
          [(''X-Original-Method'', ''POST''), (''X-Original-URI'', holdPath (rn_cfg r))] (Some oneSeat);
        answer (
          if success code then fail (''authorize succeeded without edge secret '' @ codeAndBody code body)
          else if code = StatusUnauthorized then pass (''authorize without edge secret '' @ arrow @ '' 401'')
          else pass (''authorize without edge secret rejected ('' @ FormatInt code @ '')'')) }))"

definition alternates :: "CheckConfig \<Rightarrow> string list" where
  "alternates cfg =
     [''/api/events/'' @ ck_EventID cfg @ ''/hold'', ''/api/events/'' @ ck_EventID cfg @ ''/holds/'', ToUpper (holdPath cfg)]
     @ CommonAllocationPaths"

fun tryPaths :: "'w net \<Rightarrow> runner \<Rightarrow> string \<Rightarrow> string \<Rightarrow> (string \<times> string) list \<Rightarrow> string list \<Rightarrow> ('w, string list) state" where
  "tryPaths N r base label hdr [] = answer []"
| "tryPaths N r base label hdr (p # ps) = do {
     (code, body) \<leftarrow> postJSON N (ck_Timeout (rn_cfg r)) (base @ p) hdr (Some oneSeat);
     rest \<leftarrow> tryPaths N r base label hdr ps;
     answer (if success code \<and> \<not> looksLikeSearch body then (label @ p @ '' '' @ arrow @ '' '' @ FormatInt code) # rest else rest) }"

definition unlistedProbe :: "'w net \<Rightarrow> runner \<Rightarrow> string \<Rightarrow> ('w, Probe) state" where
  "unlistedProbe N r edge =
     withSession N r (ck_Membership (rn_cfg r)) hour (\<lambda>tok. do {
       let alts = alternates (rn_cfg r);
       front \<leftarrow> tryPaths N r edge '''' (cookieHeader tok) alts;
       behind \<leftarrow> (if rn_origin r \<noteq> '''' then tryPaths N r (rn_origin r) ''origin '' (cookieHeader tok) alts else answer []);
       let allocated = front @ behind;
       let seen = (if rn_origin r \<noteq> '''' then 2 * length alts else length alts);
       answer (
         if length allocated > 0 then fail (''unlisted path allocated: '' @ JoinSemicolon allocated)
         else pass (FormatInt (int seen) @ '' alternate host/path combinations did not allocate'')) })"

definition smugglingProbe :: "'w net \<Rightarrow> runner \<Rightarrow> string \<Rightarrow> ('w, Probe) state" where
  "smugglingProbe N r edge =
     withSession N r (ck_Membership (rn_cfg r)) hour (\<lambda>tok. do {
       let hold = holdPath (rn_cfg r);
       out \<leftarrow> send N (ck_Timeout (rn_cfg r))
         ((jsonPOST (edge @ ''/api/events'')
            [(''Cookie'', CookieName @ ''='' @ tok), (''X-Forwarded-Host'', ''origin.internal''), (''X-Forwarded-Uri'', hold),
             (''X-Original-URL'', ''http://origin.internal'' @ hold), (''X-Original-URI'', hold), (''X-Original-Method'', ''POST'')]
            (Some seatsText))\<lparr>og_Host := ''origin.internal''\<rparr>);
       answer (case out of
         Inl err \<Rightarrow> fail err
       | Inr (code, body) \<Rightarrow>
           if success code \<and> Contains body ([CHR 0x22] @ ''hold_id'' @ [CHR 0x22]) then
             fail (''spoofed hop-by-hop headers allocated '' @ codeAndBody code body)
           else pass (''spoofed host/path headers did not allocate ('' @ FormatInt code @ '')'')) })"

section \<open>Executions at the origin\<close>

definition originHdr :: "runner \<Rightarrow> string \<Rightarrow> string \<Rightarrow> (string \<times> string) list" where
  "originHdr r tok fence =
     [(''X-Bruiser-Origin-Secret'', ck_OriginSecret (rn_cfg r)), (''X-Bruiser-Execution'', tok), (''X-Bruiser-Fence'', fence)]"

definition expiredProbe :: "'w net \<Rightarrow> runner \<Rightarrow> ('w, Probe) state" where
  "expiredProbe N r =
     (if rn_origin r = '''' then answer (fail ''--origin is required'')
      else mustRefuse N r (rn_origin r @ holdPath (rn_cfg r)) (originHdr r ''eyJhbGciOiJFZERTQSJ9.eyJleHAiOjF9.not-a-signature'' ''1'')
             ''origin accepted expired/garbage execution'' ''expired/invalid execution + valid origin secret rejected'')"

definition revokedProbe :: "'w net \<Rightarrow> runner \<Rightarrow> ('w, Probe) state" where
  "revokedProbe N r =
     (if rn_origin r = '''' \<or> rn_control r = '''' then answer (fail ''--origin and --control are required'')
      else if rn_admin r = '''' then
        answer (fail ''--admin (admin listener) is required; admin paths are not on the public control URL'')
      else withExecution N r ''revoked-'' (holdPath (rn_cfg r)) (\<lambda>exe. do {
        (code, body) \<leftarrow> postJSON N (ck_Timeout (rn_cfg r)) (rn_admin r @ ''/v1/admin/executions/'' @ me_ID exe @ ''/revoke'')
          [(''X-Bruiser-Admin-Secret'', ck_AdminSecret (rn_cfg r))] (Some (JObj [(''reason'', JStr ''authority-check'')]));
        if code \<noteq> StatusOK then answer (fail (''admin revoke '' @ FormatInt code @ '' '' @ body))
        else mustRefuse N r (rn_origin r @ holdPath (rn_cfg r)) (originHdr r (me_Token exe) (me_Fence exe))
               ''origin accepted revoked execution'' ''revoked execution + valid origin secret rejected'' }))"

definition wrongResourceProbe :: "'w net \<Rightarrow> runner \<Rightarrow> ('w, Probe) state" where
  "wrongResourceProbe N r =
     (if rn_origin r = '''' \<or> rn_control r = '''' then answer (fail ''--origin and --control are required'')
      else withExecution N r ''wrongres-'' ''/api/events/other-evt/holds'' (\<lambda>exe.
        mustRefuse N r (rn_origin r @ holdPath (rn_cfg r)) (originHdr r (me_Token exe) (me_Fence exe))
          ''origin accepted execution for the wrong resource'' ''wrong-resource execution + valid origin secret rejected''))"

definition wrongMerchantProbe :: "'w net \<Rightarrow> runner \<Rightarrow> ('w, Probe) state" where
  "wrongMerchantProbe N r =
     (if rn_origin r = '''' then answer (fail ''--origin is required'')
      else mustRefuse N r (rn_origin r @ holdPath (rn_cfg r)) (originHdr r ''forged.other-merchant'' ''1'')
             ''origin accepted a foreign-merchant token'' ''wrong-merchant token + valid origin secret rejected'')"

definition legitimateProbe :: "'w net \<Rightarrow> runner \<Rightarrow> string \<Rightarrow> ('w, Probe) state" where
  "legitimateProbe N r edge =
     (if edge = '''' then answer (fail ''front URL not set'')
      else do {
        cust \<leftarrow> numbered N ''auth-ok-'';
        withSession N r cust hour (\<lambda>tok. do {
          (code, body) \<leftarrow> postJSON N (ck_Timeout (rn_cfg r)) (edge @ holdPath (rn_cfg r)) (cookieHeader tok) (Some oneSeat);
          answer (if success code then pass (''front allocated through Bruiser ('' @ FormatInt code @ '')'')
                  else fail (''legitimate hold via Bruiser failed '' @ codeAndBody code body)) }) })"

section \<open>The run\<close>

definition laterProbes :: "'w net \<Rightarrow> runner \<Rightarrow> string \<Rightarrow> ('w, Probe) state list" where
  "laterProbes N r edge =
     [probed ''Unlisted allocation paths cannot grant'' (unlistedProbe N r edge),
      probed ''Host/path smuggling does not allocate'' (smugglingProbe N r edge),
      probed ''Resource variants share one domain'' (resourceVariants N r),
      probed ''Forged execution rejected at origin'' (forgedOrigin N r),
      probed ''Stale fence rejected at origin'' (staleFenceOrigin N r),
      probed ''Expired execution rejected at origin'' (expiredProbe N r),
      probed ''Revoked execution rejected at origin'' (revokedProbe N r),
      probed ''Wrong resource rejected at origin'' (wrongResourceProbe N r),
      probed ''Wrong merchant rejected at origin'' (wrongMerchantProbe N r),
      probed ''Unsigned identity rejected outside trusted edge''
        (mustRefuse N r (edge @ holdPath (rn_cfg r)) [(''X-Customer-Id'', ''spoofed-customer'')]
           ''unsigned identity allocated'' ''unsigned identity rejected''),
      probed ''Legitimate Bruiser-mediated allocation succeeds'' (legitimateProbe N r edge),
      probed ''Identity forgery rejected (dev assertions off)'' (identityForgeryDevAssertionsOff N r),
      probed ''Session revocation takes effect'' (sessionRevocation N r),
      probed ''Replay rejected'' (replayRejected N r),
      probed ''Budget enforced'' (budgetEnforced N r),
      probed ''Admin surface not on public listener'' (adminNotOnPublic N r),
      probed ''Fail-closed on store outage'' (failClosedStoreOutage N r),
      probed ''Production secret validation'' (answer (productionSecrets r))]"

definition coveredPaths :: "CheckConfig \<Rightarrow> string list" where
  "coveredPaths cfg =
     [''GET /api/events (search, uncontrolled)'',
      ''POST '' @ holdPath cfg @ '' (hold, enforcement front)'',
      ''POST /api/orders (purchase, enforcement front)'',
      ''direct origin POST '' @ holdPath cfg @ '' (bypass)'',
      ''spoofed identity headers'',
      ''unlisted / alternate allocation paths'',
      ''stale and tampered credentials'',
      ''nine-variant + Unicode resource corpus'',
      ''forged execution + origin secret'',
      ''stale-fence token + origin secret'']"

definition newRunner :: "CheckConfig \<Rightarrow> runner" where
  "newRunner cfg =
     \<lparr>rn_cfg = cfg, rn_origin = TrimRight (ck_OriginURL cfg) ''/'', rn_control = TrimRight (ck_ControlURL cfg) ''/'',
      rn_admin = TrimRight (ck_AdminURL cfg) ''/''\<rparr>"

definition Run :: "'w net \<Rightarrow> CheckConfig \<Rightarrow> ('w, Report) state" where
  "Run N cfg0 = do {
     let cfg = checkDefaults (nt_Getenv N) cfg0;
     let edge = TrimRight (ck_EdgeURL cfg) ''/'';
     detected \<leftarrow> detectProduction N (newRunner cfg);
     let r = newRunner (cfg\<lparr>ck_detectedProduction := detected\<rparr>);
     probes \<leftarrow> State_Monad.traverse_list (\<lambda>p. p)
       (frontProbes N r edge @ originProbes N r @ [authorizeProbe N r] @ laterProbes N r edge);
     now \<leftarrow> unixNano N;
     answer (finalize now
       \<lparr>rp_Probes = probes, rp_Overall = '''', rp_Covered = coveredPaths cfg,
        rp_CommitSHA = resolveCommitSHA (nt_Getenv N) (nt_Revision N) (ck_CommitSHA cfg), rp_CorpusVersion = CorpusVersion,
        rp_Production = detected, rp_Certificate = None\<rparr>) }"

end
