(* ===== verification/Check_Props.thy ===== *)
theory Check_Props
  imports Check_Run
begin

text \<open>
  What a report of the authority check is worth: when its certificate is issued, and that no probe with a
  contract passes without the evidence the contract asks for, whatever the deployment answers. The second
  rests on rules for the result of a state transformer, collected in \<open>results\<close>.
\<close>

named_theorems results \<open>rules for the results a state transformer can have\<close>

section \<open>Results of a state transformer\<close>

definition gives :: "('w, 'a) state \<Rightarrow> ('a \<Rightarrow> bool) \<Rightarrow> bool" where
  "gives m P \<longleftrightarrow> (\<forall>w. P (fst (run_state m w)))"

lemma givesD: "gives m P \<Longrightarrow> P (fst (run_state m w))"
  by (simp add: gives_def)

lemma gives_return [results]: "P a \<Longrightarrow> gives (answer a) P"
  by (simp add: gives_def)

lemma gives_bind: "gives m Q \<Longrightarrow> (\<And>a. Q a \<Longrightarrow> gives (f a) P) \<Longrightarrow> gives (m \<bind> f) P"
  by (auto simp: gives_def split: prod.splits) (metis fst_conv)

lemma gives_any: "gives m (\<lambda>_. True)"
  by (simp add: gives_def)

lemma gives_skip [results]: "(\<And>a. gives (f a) P) \<Longrightarrow> gives (m \<bind> f) P"
  by (rule gives_bind [OF gives_any])

lemma gives_if [results]: "(b \<Longrightarrow> gives m P) \<Longrightarrow> (\<not> b \<Longrightarrow> gives n P) \<Longrightarrow> gives (if b then m else n) P"
  by simp

lemma gives_option [results]:
  "(x = None \<Longrightarrow> gives m P) \<Longrightarrow> (\<And>a. x = Some a \<Longrightarrow> gives (f a) P) \<Longrightarrow> gives (case x of None \<Rightarrow> m | Some a \<Rightarrow> f a) P"
  by (cases x) simp_all

lemma gives_sum [results]:
  "(\<And>a. x = Inl a \<Longrightarrow> gives (f a) P) \<Longrightarrow> (\<And>b. x = Inr b \<Longrightarrow> gives (g b) P)
    \<Longrightarrow> gives (case x of Inl a \<Rightarrow> f a | Inr b \<Rightarrow> g b) P"
  by (cases x) simp_all

lemma gives_mono: "gives m Q \<Longrightarrow> (\<And>a. Q a \<Longrightarrow> P a) \<Longrightarrow> gives m P"
  by (simp add: gives_def)

lemma gives_traverse:
  "(\<And>m. m \<in> set ms \<Longrightarrow> gives m P) \<Longrightarrow> gives (State_Monad.traverse_list (\<lambda>m. m) ms) (list_all P)"
proof (induction ms)
  case (Cons m ms)
  then show ?case
    by (auto intro!: gives_bind [of m P] gives_bind [of _ "list_all P"] gives_return)
qed (simp add: gives_return)

section \<open>The certificate\<close>

lemma normalize_status: "pr_Status (normalizeProbe p) = (if pr_Status p = '''' then if pr_Pass p then ''PASS'' else ''FAIL'' else pr_Status p)"
  by (simp add: normalizeProbe_def Let_def)

lemma count_where_zero: "\<not> 0 < count_where P xs \<longleftrightarrow> list_all (\<lambda>x. \<not> P x) xs"
  by (auto simp: count_where_def list_all_iff filter_empty_conv)

lemma found: "find P xs = Some x \<Longrightarrow> x \<in> set xs \<and> P x"
  by (auto simp: find_Some_iff)

lemma issue_iff:
  "cc_Issued (issueCertificate t rep) \<longleftrightarrow>
     rp_CommitSHA rep \<notin> {'''', ''unknown''} \<and> rp_Production rep \<and> rp_Overall rep = ''PASS''
     \<and> list_all (\<lambda>p. pr_Status p = ''PASS'') (rp_Probes rep)"
  by (auto simp: issueCertificate_def Let_def find_None_iff list_all_iff dest: found split: option.splits)

lemma finalize_simps [simp]:
  "rp_CommitSHA (finalize t rep) = rp_CommitSHA rep" "rp_Production (finalize t rep) = rp_Production rep"
  "rp_Probes (finalize t rep) = map normalizeProbe (rp_Probes rep)"
  by (simp_all add: finalize_def Let_def)

lemma finalize_passed:
  "Passed (finalize t rep) \<longleftrightarrow>
     list_all (\<lambda>p. pr_Status p \<noteq> ''FAIL'' \<and> \<not> (pr_Status p = ''WARN'' \<and> pr_Blocking p)) (rp_Probes (finalize t rep))"
  by (auto simp: Passed_def finalize_def Let_def count_where_zero list_all_iff split: if_splits)
     (use count_where_zero in \<open>fastforce simp: list_all_iff\<close>)+

lemma finalize_certificate:
  "CertificateIssued (finalize t rep) \<longleftrightarrow>
     rp_CommitSHA rep \<notin> {'''', ''unknown''} \<and> rp_Production rep \<and> Passed (finalize t rep)
     \<and> list_all (\<lambda>p. pr_Status p = ''PASS'') (rp_Probes (finalize t rep))"
  by (simp add: CertificateIssued_def Passed_def finalize_def Let_def issue_iff)

section \<open>Contracts\<close>

text \<open>What a contract asks of the evidence of a probe that passed.\<close>

definition meets :: "Evidence \<Rightarrow> Contract \<Rightarrow> bool" where
  "meets ev c \<longleftrightarrow>
     ct_MinExchanges c \<le> int (length (ev_Exchanges ev)) \<and> list_all (headerPresent ev) (ct_RequireHeaderPresent c)
     \<and> list_all (\<lambda>s. list_ex (\<lambda>got. Contains got s) (ev_Sent ev)) (ct_RequireSentContains c)
     \<and> list_all (anyContains ev) (ct_RequireAnyContains c)
     \<and> (ct_RequireStatus c = [] \<or> list_ex (\<lambda>st. st \<in> set (ct_RequireStatus c)) (statuses ev))"

lemma status_allowed_iff: "allow \<noteq> [] \<Longrightarrow> statusAllowed got allow \<longleftrightarrow> got \<in> set allow"
  by (auto simp: statusAllowed_def list_ex_iff)

lemma first_complaint:
  "(\<And>x. f x \<noteq> '''') \<Longrightarrow> (case find P xs of None \<Rightarrow> e | Some x \<Rightarrow> f x) = '''' \<longleftrightarrow> list_all (\<lambda>x. \<not> P x) xs \<and> e = ''''"
  by (auto simp: find_None_iff list_all_iff dest: found split: option.splits)

lemma violation_iff:
  assumes "0 < ct_MinExchanges c"
  shows "ContractViolation quoted p c = '''' \<longleftrightarrow> (pr_Status p = ''PASS'' \<longrightarrow> (\<exists>ev. pr_Evidence p = Some ev \<and> meets ev c))"
proof (cases "pr_Status p = ''PASS'' \<and> pr_Evidence p \<noteq> None")
  case True
  then obtain ev where ev: "pr_Status p = ''PASS''" "pr_Evidence p = Some ev" by auto
  have "length (ct_RequireStatus c) > 0 \<and> \<not> list_ex (\<lambda>st. statusAllowed st (ct_RequireStatus c)) (statuses ev)
      \<longleftrightarrow> \<not> (ct_RequireStatus c = [] \<or> list_ex (\<lambda>st. st \<in> set (ct_RequireStatus c)) (statuses ev))"
    by (auto simp: status_allowed_iff)
  then show ?thesis using assms by (simp add: ContractViolation_def ev first_complaint meets_def not_less conj_assoc)
qed (auto simp: ContractViolation_def)

section \<open>Sound probes\<close>

definition sound :: "Contract \<Rightarrow> Probe \<Rightarrow> bool" where
  "sound c p \<longleftrightarrow> pr_Status p \<noteq> '''' \<and> (pr_Status p = ''PASS'' \<longrightarrow> (\<exists>ev. pr_Evidence p = Some ev \<and> meets ev c))"

lemma sound_verdicts [simp]: "sound c (fail d)" "sound c (inconclusive d)"
  by (simp_all add: sound_def fail_def inconclusive_def noProbe_def)

lemma sound_judged [simp]: "sound c (judged ev st d) \<longleftrightarrow> st \<noteq> '''' \<and> (st = ''PASS'' \<longrightarrow> meets ev c)"
  by (simp add: sound_def judged_def noProbe_def)

lemma gives_probed: "gives fn (sound c) \<Longrightarrow> gives (probed n fn) (\<lambda>p. pr_Name p = n \<and> sound c p)"
  unfolding probed_def
  by (rule gives_bind, assumption, rule gives_return) (auto simp: sound_def normalizeProbe_def Let_def)

lemma gives_probed_name: "gives (probed n fn) (\<lambda>p. pr_Name p = n)"
  by (simp add: gives_def probed_def normalizeProbe_def Let_def split: prod.splits)

lemma contains_prefix [simp]: "Contains (s @ t) s"
  unfolding Contains_iff by (rule exI [of _ "[]"]) simp

lemma contains_self [simp]: "Contains s s"
  using contains_prefix [of s "[]"] by simp

declare Contains.simps(2) [simp del]

lemma capture_headers: "gives (capturePOST N tmo url h b) (\<lambda>ex. ex_Headers ex = redactHeaders h)"
  by (simp add: gives_def capturePOST_def Let_def split: prod.splits sum.splits)

lemma redacted_secret: "TrimSpace v \<noteq> '''' \<Longrightarrow> redactHeader ''X-Bruiser-Origin-Secret'' v = ''<present>''"
proof -
  have "ascii ''X-Bruiser-Origin-Secret''" by code_simp
  then have "Contains (ToLower ''X-Bruiser-Origin-Secret'') ''secret''" by (simp only: ToLower_ascii) code_simp
  then show "TrimSpace v \<noteq> '''' \<Longrightarrow> ?thesis" by (simp add: redactHeader_def)
qed

lemma originSecretHdr_secret:
  "\<exists>rest. originSecretHdr r [(''X-Bruiser-Execution'', tok), (''X-Bruiser-Fence'', fence)]
     = (''X-Bruiser-Origin-Secret'', ck_OriginSecret (rn_cfg r)) # rest"
  by (simp add: originSecretHdr_def)

lemma originPOST_secret:
  "TrimSpace (ck_OriginSecret (rn_cfg r)) \<noteq> ''''
    \<Longrightarrow> gives (originPOST N r tok fence) (\<lambda>ex. (''X-Bruiser-Origin-Secret'', ''<present>'') \<in> set (ex_Headers ex))"
  unfolding originPOST_def
  by (rule gives_mono [OF capture_headers]) (use originSecretHdr_secret [of r tok fence] in \<open>auto simp: redactHeaders_def redacted_secret\<close>)

lemma present_header: "(k, ''<present>'') \<in> set (ex_Headers x) \<Longrightarrow> x \<in> set (ev_Exchanges ev) \<Longrightarrow> headerPresent ev k"
  unfolding headerPresent_def list_ex_iff by (rule bexI [of _ x], rule bexI [of _ "(k, ''<present>'')"]) simp_all


lemmas contract_simps = Contracts_def meets_def statuses_def anyContains_def

lemma forgedOrigin_sound: "gives (forgedOrigin N r) (sound (Contracts ! 0))"
  unfolding forgedOrigin_def Let_def
  by (intro gives_if gives_return gives_bind [OF originPOST_secret]) (auto simp: contract_simps intro: present_header)

lemma staleVerdict_sound:
  "(''X-Bruiser-Origin-Secret'', ''<present>'') \<in> set (ex_Headers stale)
    \<Longrightarrow> sound (Contracts ! 1) (staleVerdict first again firstHit secondHit stale)"
  by (auto simp: staleVerdict_def Let_def contract_simps intro: present_header)

lemma secondPresentation_sound:
  "TrimSpace (ck_OriginSecret (rn_cfg r)) \<noteq> '''' \<Longrightarrow> gives (secondPresentation N r sess res first firstHit) (sound (Contracts ! 1))"
  unfolding secondPresentation_def
  by (rule gives_skip, intro gives_sum gives_if gives_return gives_bind [OF originPOST_secret] staleVerdict_sound) simp_all

lemma staleFenceOrigin_sound: "gives (staleFenceOrigin N r) (sound (Contracts ! 1))"
  unfolding staleFenceOrigin_def Let_def
  by (intro gives_if gives_return gives_sum gives_option gives_skip secondPresentation_sound) simp_all

lemma tryVariants_length:
  "gives (tryVariants N r cust i vs exs ids n)
     (\<lambda>out. case out of Inl p \<Rightarrow> sound c p | Inr (exs', _, _) \<Rightarrow> length exs' = length exs + length vs)"
proof (induction vs arbitrary: i exs ids n)
  case (Cons v vs)
  have more: "gives (tryVariants N r cust (Suc i) vs (exs @ [ex]) ids' n')
     (\<lambda>out. case out of Inl p \<Rightarrow> sound c p | Inr (exs', _, _) \<Rightarrow> length exs' = length exs + length (v # vs))" for ex ids' n'
    by (rule gives_mono [OF Cons.IH]) (auto split: sum.splits prod.splits)
  show ?case unfolding tryVariants.simps Let_def
    by (intro gives_if gives_return gives_sum gives_skip more) simp_all
qed (simp add: gives_return)

lemma corpus_sent: "list_all (\<lambda>s. list_ex (\<lambda>got. Contains got s) (''max_active=1'' # CupfinalCorpus)) (ct_RequireSentContains (Contracts ! 2))"
  by (simp add: Contracts_def CupfinalCorpus_def CosmeticVariants_def)

lemma resourceVariants_sound: "gives (resourceVariants N r) (sound (Contracts ! 2))"
proof -
  have len: "length CupfinalCorpus = 9" by (simp add: CupfinalCorpus_def CosmeticVariants_def)
  have "meets \<lparr>ev_Exchanges = exs, ev_Sent = [''max_active=1''] @ CupfinalCorpus\<rparr> (Contracts ! 2)" if "length exs = 9" for exs
    using corpus_sent that by (simp add: meets_def) (simp add: Contracts_def)
  then show ?thesis unfolding resourceVariants_def Let_def
    by (intro gives_if gives_return gives_skip gives_bind [OF tryVariants_length [of _ _ _ _ _ _ _ _ "Contracts ! 2"]])
       (auto simp: len gives_return split: sum.splits prod.splits)
qed

lemma identityForgery_sound: "gives (identityForgeryDevAssertionsOff N r) (sound (Contracts ! 3))"
proof -
  have "sound (Contracts ! 3) (forgeryVerdict forged hmacEx)" for forged hmacEx
    by (auto simp: forgeryVerdict_def Let_def contract_simps split: option.splits)
  then show ?thesis unfolding identityForgeryDevAssertionsOff_def Let_def
    by (intro gives_if gives_return gives_skip gives_option) simp_all
qed

lemma sessionRevocation_sound: "gives (sessionRevocation N r) (sound (Contracts ! 4))"
  unfolding sessionRevocation_def Let_def
  by (intro gives_if gives_return gives_skip gives_sum) (simp_all add: contract_simps)

lemma replayRejected_sound: "gives (replayRejected N r) (sound (Contracts ! 5))"
  unfolding replayRejected_def Let_def
  by (intro gives_if gives_return gives_skip gives_sum) (simp_all add: contract_simps)

lemma budgetEnforced_sound: "gives (budgetEnforced N r) (sound (Contracts ! 6))"
  unfolding budgetEnforced_def Let_def
  by (intro gives_if gives_return gives_skip gives_option) (simp_all add: contract_simps)

lemma adminNotOnPublic_sound: "gives (adminNotOnPublic N r) (sound (Contracts ! 7))"
proof -
  have "sound (Contracts ! 7) (adminVerdict r pub ex)" for pub ex
    by (auto simp: adminVerdict_def Let_def contract_simps split: option.splits)
  then show ?thesis unfolding adminNotOnPublic_def Let_def
    by (intro gives_if gives_return gives_skip) simp_all
qed

lemma failClosedStoreOutage_sound: "gives (failClosedStoreOutage N r) (sound (Contracts ! 8))"
  unfolding failClosedStoreOutage_def Let_def
  by (intro gives_if gives_return gives_skip gives_option) (simp_all add: contract_simps, simp add: sound_def noProbe_def)

lemma productionSecrets_sound: "gives (answer (productionSecrets r)) (sound (Contracts ! 9))"
  by (rule gives_return) (simp add: productionSecrets_def Let_def contract_simps)


section \<open>Reports\<close>

definition honest :: "Probe \<Rightarrow> bool" where
  "honest p \<longleftrightarrow> list_all (\<lambda>c. ct_Name c \<noteq> pr_Name p \<or> sound c p) Contracts"

lemma contract_names:
  "map ct_Name Contracts =
     [''Forged execution rejected at origin'', ''Stale fence rejected at origin'', ''Resource variants share one domain'',
      ''Identity forgery rejected (dev assertions off)'', ''Session revocation takes effect'', ''Replay rejected'',
      ''Budget enforced'', ''Admin surface not on public listener'', ''Fail-closed on store outage'', ''Production secret validation'']"
  by (simp add: Contracts_def)

lemma contract_name_at:
  "ct_Name (Contracts ! 0) = ''Forged execution rejected at origin''" "ct_Name (Contracts ! 1) = ''Stale fence rejected at origin''"
  "ct_Name (Contracts ! 2) = ''Resource variants share one domain''"
  "ct_Name (Contracts ! 3) = ''Identity forgery rejected (dev assertions off)''"
  "ct_Name (Contracts ! 4) = ''Session revocation takes effect''" "ct_Name (Contracts ! 5) = ''Replay rejected''"
  "ct_Name (Contracts ! 6) = ''Budget enforced''" "ct_Name (Contracts ! 7) = ''Admin surface not on public listener''"
  "ct_Name (Contracts ! 8) = ''Fail-closed on store outage''" "ct_Name (Contracts ! 9) = ''Production secret validation''"
  "length Contracts = 10"
  by (simp_all add: Contracts_def)

lemma contract_minimum: "c \<in> set Contracts \<Longrightarrow> 0 < ct_MinExchanges c"
  by (auto simp: Contracts_def)

lemma other_probe: "n \<notin> set (map ct_Name Contracts) \<Longrightarrow> gives (probed n fn) honest"
  by (rule gives_mono [OF gives_probed_name]) (force simp: honest_def list_all_iff)

lemma contract_probe:
  assumes "gives fn (sound (Contracts ! k))" "k < length Contracts"
  shows "gives (probed (ct_Name (Contracts ! k)) fn) honest"
proof -
  have dist: "distinct (map ct_Name Contracts)" by (simp add: contract_names)
  have "c = Contracts ! k" if "c \<in> set Contracts" "ct_Name c = ct_Name (Contracts ! k)" for c
    using that assms(2) dist by (auto simp: distinct_map inj_on_def)
  then have "honest p" if "pr_Name p = ct_Name (Contracts ! k) \<and> sound (Contracts ! k) p" for p
    using that by (auto simp: honest_def list_all_iff)
  then show ?thesis by (rule gives_mono [OF gives_probed [OF assms(1)]])
qed

lemmas contracted =
  contract_probe [OF resourceVariants_sound] contract_probe [OF forgedOrigin_sound] contract_probe [OF staleFenceOrigin_sound]
  contract_probe [OF identityForgery_sound] contract_probe [OF sessionRevocation_sound] contract_probe [OF replayRejected_sound]
  contract_probe [OF budgetEnforced_sound] contract_probe [OF adminNotOnPublic_sound]
  contract_probe [OF failClosedStoreOutage_sound] contract_probe [OF productionSecrets_sound]

lemma honest_failProbe: "honest (failProbe n d)"
  by (simp add: honest_def list_all_iff sound_def failProbe_def normalizeProbe_def noProbe_def Let_def)

lemma front_honest: "list_all (\<lambda>m. gives m honest) (frontProbes N r edge)"
  by (simp add: frontProbes_def Let_def other_probe contract_names)

lemma origin_honest: "list_all (\<lambda>m. gives m honest) (originProbes N r)"
  by (simp add: originProbes_def Let_def other_probe contract_names gives_return honest_failProbe)

lemma authorize_honest: "gives (authorizeProbe N r) honest"
  by (simp add: authorizeProbe_def other_probe contract_names gives_return honest_failProbe)

lemma later_honest: "list_all (\<lambda>m. gives m honest) (laterProbes N r edge)"
  by (simp add: laterProbes_def other_probe contract_names contracted [simplified contract_name_at])

lemma honest_normalize: "honest p \<Longrightarrow> honest (normalizeProbe p)"
  by (auto simp: honest_def list_all_iff sound_def normalizeProbe_def Let_def)

lemma run_honest: "gives (Run N cfg) (\<lambda>rep. list_all honest (rp_Probes rep))"
proof -
  have "gives m honest" if "m \<in> set (frontProbes N r edge @ originProbes N r @ [authorizeProbe N r] @ laterProbes N r edge)" for m r edge
    using that front_honest [of N r edge] origin_honest [of N r] authorize_honest [of N r] later_honest [of N r edge]
    by (auto simp: list_all_iff)
  note probes = gives_traverse [OF this]
  show ?thesis unfolding Run_def Let_def
    by (rule gives_skip, rule gives_bind [OF probes], assumption, rule gives_skip, rule gives_return)
       (auto simp: list_all_iff honest_normalize)
qed

text \<open>The pairs of a probe and a contract of its name that the probe breaks.\<close>

definition dishonest :: "(string \<Rightarrow> string) \<Rightarrow> Report \<Rightarrow> (Probe \<times> Contract) list" where
  "dishonest quoted rep =
     concat (map (\<lambda>p. map (Pair p) (filter (\<lambda>c. ct_Name c = pr_Name p \<and> ContractViolation quoted p c \<noteq> '''') Contracts)) (rp_Probes rep))"

text \<open>C39. Whatever the deployment under check answers, no probe of a report breaks a contract of its name: a
  probe that passes has sent the input its contract names and has seen a status it allows.
\<close>

theorem passes_rest_on_evidence: "dishonest quoted (fst (run_state (Run N cfg) w)) = []"
proof -
  have "\<not> (ct_Name c = pr_Name p \<and> ContractViolation quoted p c \<noteq> '''')" if "honest p" "c \<in> set Contracts" for p c
    using that by (auto simp: honest_def list_all_iff violation_iff contract_minimum sound_def)
  then show ?thesis
    using givesD [OF run_honest, of N cfg w] by (auto simp: dishonest_def list_all_iff filter_empty_conv)
qed


section \<open>What a certificate certifies\<close>

definition certifiable :: "Probe \<Rightarrow> bool" where
  "certifiable p \<longleftrightarrow>
     pr_Status p = ''PASS''
     \<and> list_all (\<lambda>c. ct_Name c \<noteq> pr_Name p \<or> (case pr_Evidence p of None \<Rightarrow> False | Some ev \<Rightarrow> meets ev c)) Contracts"

lemma honest_certifiable: "honest p \<Longrightarrow> certifiable p \<longleftrightarrow> pr_Status p = ''PASS''"
  by (auto simp: certifiable_def honest_def sound_def list_all_iff split: option.splits)

lemma gives_traverse_member:
  "m \<in> set ms \<Longrightarrow> gives m P \<Longrightarrow> gives (State_Monad.traverse_list (\<lambda>m. m) ms) (list_ex P)"
proof (induction ms)
  case (Cons a ms)
  show ?case
  proof (cases "m = a")
    case True
    with Cons.prems have "gives a P" by simp
    then show ?thesis unfolding traverse_list.simps
      by (rule gives_bind) (auto intro!: gives_skip gives_return)
  next
    case False
    with Cons have "gives (State_Monad.traverse_list (\<lambda>m. m) ms) (list_ex P)" by simp
    then show ?thesis by (auto intro!: gives_skip [of _ _ a] gives_bind [of _ "list_ex P"] gives_return)
  qed
qed simp

lemma contracted_probe_runs:
  "n \<in> set (map ct_Name Contracts) \<Longrightarrow> \<exists>fn. probed n fn \<in> set (laterProbes N r edge)"
  unfolding contract_names laterProbes_def by auto

lemma run_covers_contracts:
  assumes "n \<in> set (map ct_Name Contracts)"
  shows "gives (Run N cfg) (\<lambda>rep. list_ex (\<lambda>p. pr_Name p = n) (rp_Probes rep))"
proof -
  have probes: "gives (State_Monad.traverse_list (\<lambda>p. p) (frontProbes N r edge @ originProbes N r @ [authorizeProbe N r] @ laterProbes N r edge))
      (list_ex (\<lambda>p. pr_Name p = n))" for r edge
  proof -
    obtain fn where "probed n fn \<in> set (laterProbes N r edge)"
      using contracted_probe_runs [OF assms] by blast
    then show ?thesis by (intro gives_traverse_member [OF _ gives_probed_name [of n fn]]) simp
  qed
  show ?thesis unfolding Run_def Let_def
    by (rule gives_skip, rule gives_bind [OF probes], rule gives_skip, rule gives_return)
       (auto simp: list_ex_iff normalizeProbe_def Let_def)
qed

lemma run_finalized: "gives (Run N cfg) (\<lambda>rep. \<exists>t rep0. rep = finalize t rep0)"
  unfolding Run_def Let_def by (rule gives_skip, rule gives_skip, rule gives_skip, rule gives_return) blast

text \<open>C38. A run issues its certificate exactly when the commit is known, the deployment is a production one and
  every probe passed with the evidence of its contracts; and every contract has a probe in the report.
\<close>

theorem certificate_iff:
  "let rep = fst (run_state (Run N cfg) w) in
   (CertificateIssued rep \<longleftrightarrow>
      rp_CommitSHA rep \<notin> {'''', ''unknown''} \<and> rp_Production rep \<and> list_all certifiable (rp_Probes rep))
   \<and> list_all (\<lambda>c. list_ex (\<lambda>p. pr_Name p = ct_Name c) (rp_Probes rep)) Contracts"
proof -
  obtain t rep0 where fin: "fst (run_state (Run N cfg) w) = finalize t rep0"
    using givesD [OF run_finalized, of N cfg w] by auto
  have honest: "list_all honest (rp_Probes (finalize t rep0))"
    using givesD [OF run_honest, of N cfg w] by (simp only: fin)
  have all: "list_all certifiable (rp_Probes (finalize t rep0)) \<longleftrightarrow> list_all (\<lambda>p. pr_Status p = ''PASS'') (rp_Probes (finalize t rep0))"
    using honest by (auto simp: list_all_iff honest_certifiable)
  have "list_all (\<lambda>p. pr_Status p = ''PASS'') (rp_Probes (finalize t rep0)) \<Longrightarrow> Passed (finalize t rep0)"
    unfolding finalize_passed by (auto simp: list_all_iff)
  then have "CertificateIssued (finalize t rep0) \<longleftrightarrow>
      rp_CommitSHA rep0 \<notin> {'''', ''unknown''} \<and> rp_Production rep0 \<and> list_all certifiable (rp_Probes (finalize t rep0))"
    unfolding finalize_certificate all by blast
  moreover have "list_all (\<lambda>c. list_ex (\<lambda>p. pr_Name p = ct_Name c) (rp_Probes (finalize t rep0))) Contracts"
    unfolding list_all_iff using givesD [OF run_covers_contracts, of _ N cfg w] by (auto simp: fin)
  ultimately show ?thesis unfolding Let_def fin by simp
qed

section \<open>Verdicts weaker than their names\<close>

text \<open>A store-down address at which nothing answers passes the probe of the closed failure.\<close>

lemma unreachable_store_down_passes:
  "nt_Do N = (\<lambda>_ _ w. (Inl ''connection refused'', w)) \<Longrightarrow> ck_StoreDownURL (rn_cfg r) \<noteq> ''''
   \<Longrightarrow> (\<And>secret p. jw_sign (nt_JWT N) HS256 secret None p = Some tok)
   \<Longrightarrow> pr_Status (fst (run_state (failClosedStoreOutage N r) w)) = ''PASS''"
  by (simp add: failClosedStoreOutage_def Let_def boxOfficeSession_def IssueBoxOfficeSession_def IssueDevAssertion_def
        capturePOST_def judged_def numbered_def split: prod.splits)

text \<open>A report whose probes are all inconclusive passes, although it is not certified.\<close>

lemma inconclusive_passes:
  "ps \<noteq> [] \<Longrightarrow> list_all (\<lambda>p. pr_Status p = ''INCONCLUSIVE'') ps \<Longrightarrow> rp_Probes rep = ps
   \<Longrightarrow> Passed (finalize t rep) \<and> \<not> CertificateIssued (finalize t rep)"
  unfolding finalize_certificate finalize_passed
  by (cases ps) (auto simp: list_all_iff normalize_status)

end
