(* ===== verification/Admin_Check.thy ===== *)
theory Admin_Check
  imports Admin_Api Check_Props
begin

text \<open>
  The administrator's authority check, \<open>adminRunCheck\<close> of \<open>internal/api/public/admin.go\<close>: it runs the checker,
  files the report in the audit log and answers with it.
\<close>

section \<open>Reports as JSON\<close>

definition omit_empty :: "string \<Rightarrow> string \<Rightarrow> (string \<times> json) list" where
  "omit_empty k s = (if s = '''' then [] else [(k, JStr s)])"

definition exchange_json :: "Exchange \<Rightarrow> json" where
  "exchange_json x =
     JObj (omit_empty ''method'' (ex_Method x) @ omit_empty ''url'' (ex_URL x)
       @ (if ex_Headers x = [] then [] else [(''headers'', JObj (map (map_prod id JStr) (ex_Headers x)))])
       @ omit_empty ''body'' (ex_Body x) @ [(''status'', JNum (ex_Status x))] @ omit_empty ''response'' (ex_Response x))"

definition evidence_json :: "Evidence \<Rightarrow> json" where
  "evidence_json e =
     JObj ((if ev_Exchanges e = [] then [] else [(''exchanges'', JArr (map exchange_json (ev_Exchanges e)))])
       @ (if ev_Sent e = [] then [] else [(''sent'', JArr (map JStr (ev_Sent e)))]))"

definition probe_json :: "Probe \<Rightarrow> json" where
  "probe_json p =
     JObj ([(''name'', JStr (pr_Name p)), (''pass'', JBool (pr_Pass p)), (''status'', JStr (pr_Status p)), (''detail'', JStr (pr_Detail p))]
       @ (if pr_Blocking p then [(''blocking'', JBool True)] else [])
       @ (case pr_Evidence p of None \<Rightarrow> [] | Some e \<Rightarrow> [(''evidence'', evidence_json e)]))"

definition certificate_json :: "Certificate \<Rightarrow> json" where
  "certificate_json c =
     JObj ([(''issued'', JBool (cc_Issued c))] @ omit_empty ''title'' (cc_Title c)
       @ [(''commit_sha'', JStr (cc_CommitSHA c)), (''corpus_version'', JStr (cc_CorpusVersion c))]
       @ omit_empty ''issued_at'' (cc_IssuedAt c) @ [(''production'', JBool (cc_Production c))] @ omit_empty ''reason'' (cc_Reason c)
       @ [(''probes'', JArr (map probe_json (cc_Probes c)))])"

definition report_json :: "Report \<Rightarrow> (string \<times> json) list" where
  "report_json r =
     [(''probes'', JArr (map probe_json (rp_Probes r))), (''overall'', JStr (rp_Overall r)), (''covered'', JArr (map JStr (rp_Covered r))),
      (''commit_sha'', JStr (rp_CommitSHA r)), (''corpus_version'', JStr (rp_CorpusVersion r)), (''production'', JBool (rp_Production r))]
     @ (case rp_Certificate r of None \<Rightarrow> [] | Some c \<Rightarrow> [(''certificate'', certificate_json c)])"

text \<open>The attributes of the audit row: the members of the report, the certificate null when there is none.\<close>

definition report_attrs :: "Report \<Rightarrow> (string \<times> json) list" where
  "report_attrs r =
     [(''overall'', JStr (rp_Overall r)), (''probes'', JArr (map probe_json (rp_Probes r))), (''covered'', JArr (map JStr (rp_Covered r))),
      (''commit_sha'', JStr (rp_CommitSHA r)), (''corpus_version'', JStr (rp_CorpusVersion r)), (''production'', JBool (rp_Production r)),
      (''certificate'', case rp_Certificate r of None \<Rightarrow> JNull | Some c \<Rightarrow> certificate_json c)]"

section \<open>The endpoint\<close>

definition runCheckConfig :: "gateway \<Rightarrow> request \<Rightarrow> CheckConfig" where
  "runCheckConfig E r =
     \<lparr>ck_EdgeURL = firstNonEmpty (lax_str (rq_Body r) ''edge_url'') (cf_CheckEdgeURL (gw_cfg E)),
      ck_OriginURL = firstNonEmpty (lax_str (rq_Body r) ''origin_url'') (cf_CheckOriginURL (gw_cfg E)), ck_ControlURL = '''',
      ck_AdminURL = '''', ck_HMACSecret = cf_DevHMACSecret (gw_cfg E), ck_EdgeSecret = '''', ck_OriginSecret = '''',
      ck_AdminSecret = '''', ck_OperatorSecret = '''', ck_Membership = '''', ck_EventID = '''', ck_Timeout = 0,
      ck_StoreDownURL = '''', ck_StoreDownEdgeSecret = '''', ck_StoreDownHMAC = '''', ck_CommitSHA = '''',
      ck_Production = False, ck_detectedProduction = False\<rparr>"

definition adminRunCheck :: "gateway \<Rightarrow> 'w net \<Rightarrow> 'w \<Rightarrow> call \<Rightarrow> request \<Rightarrow> response handler" where
  "adminRunCheck E N w C r =
     requireRole E C r RoleOperator (\<lambda>_.
     let rep = fst (run_state (Run N (runCheckConfig E r)) w) in
     ignoring (PersistAuthorityCheck E (now C 2) (draw C 0) (rp_Overall rep) (report_attrs rep) (requestID (draw C 1) r))
       (ret (writeJSON [] (if Passed rep then StatusOK else StatusConflict) (report_json rep))))"

section \<open>A check without a gateway to ask\<close>

lemma finalize_fail: "list_ex (\<lambda>p. pr_Status p = ''FAIL'') (rp_Probes rep) \<Longrightarrow> \<not> Passed (finalize t rep)"
  unfolding finalize_passed by (force simp: list_all_iff list_ex_iff normalize_status)

text \<open>
  Without the address of the gateway the probe of the authorize endpoint fails, so the check does: the
  administrator's check, which passes none, never passes.
\<close>

lemma check_needs_control:
  assumes "ck_ControlURL cfg = ''''"
  shows "gives (Run N cfg) (\<lambda>rep. \<not> Passed rep)"
proof -
  have fails: "gives (State_Monad.traverse_list (\<lambda>p. p) (ms @ ms' @ [authorizeProbe N r] @ ms'')) (list_ex (\<lambda>p. pr_Status p = ''FAIL''))"
    if "rn_control r = ''''" for ms ms' ms'' r
    by (rule gives_traverse_member [of "authorizeProbe N r"])
       (simp_all add: authorizeProbe_def that gives_return failProbe_def normalizeProbe_def noProbe_def Let_def)
  have control: "rn_control (newRunner ((checkDefaults getenv cfg)\<lparr>ck_detectedProduction := b\<rparr>)) = ''''" for getenv b
    by (simp add: newRunner_def checkDefaults_def assms TrimRight_def)
  show ?thesis unfolding Run_def Let_def
    by (rule gives_skip, rule gives_bind [OF fails [OF control]], rule gives_skip, rule gives_return)
       (rule finalize_fail, simp)
qed

lemma admin_check_conflicts: "runs (adminRunCheck E N w C r) s rsp s' \<Longrightarrow> rs_status rsp \<noteq> StatusOK"
  using givesD [OF check_needs_control, of "runCheckConfig E r" N w]
  by (auto simp: adminRunCheck_def requireRole_def Let_def ignoring_def writeErr_def writeJSON_def runCheckConfig_def
        elim!: runs_attemptE split: if_splits)

end
