(* ===== verification/Doctor.thy ===== *)
theory Doctor
  imports Check_Props Identity_Extract
begin

text \<open>
  \<open>internal/doctor/doctor.go\<close>: the diagnostic of a deployment. It makes twelve checks, each of which passes,
  warns or fails, and the worst is the result. The database is outside: \<open>sd_Keys\<close> and \<open>sd_Ping\<close> are what an
  open store answers (an error's text, or the number of active keys), and \<open>dx_Connect\<close> what connecting to an
  address gives. The other fields of \<open>outer_world\<close> are the identity provider and the texts of errors and numbers.
\<close>

section \<open>Reports\<close>

record DoctorCheck =
  dc_Name :: string
  dc_Status :: string
  dc_Detail :: string

record DoctorReport =
  dr_Checks :: "DoctorCheck list"
  dr_Overall :: string

definition doctorPassed :: "DoctorReport \<Rightarrow> bool" where
  "doctorPassed r \<longleftrightarrow> dr_Overall r \<noteq> ''FAIL''"

definition doctorString :: "DoctorReport \<Rightarrow> string" where
  "doctorString r =
     ''Bruiser doctor'' @ newline @ newline
     @ concat (map (\<lambda>c. ''  '' @ dc_Status c @ ''  '' @ dc_Name c @ newline
         @ (if dc_Detail c \<noteq> '''' then ''         '' @ dc_Detail c @ newline else '''')) (dr_Checks r))
     @ newline @ ''  Overall Result: '' @ dr_Overall r @ newline"

fun overall :: "string \<Rightarrow> DoctorCheck list \<Rightarrow> string" where
  "overall acc [] = acc"
| "overall acc (c # cs) =
     (if dc_Status c = ''FAIL'' then ''FAIL'' else overall (if dc_Status c = ''WARN'' then ''WARN'' else acc) cs)"

definition finish :: "DoctorCheck list \<Rightarrow> DoctorReport" where
  "finish cs = \<lparr>dr_Checks = cs, dr_Overall = overall ''PASS'' cs\<rparr>"

section \<open>Inputs\<close>

record storeDoor =
  sd_Keys :: "string \<Rightarrow> string + nat"
  sd_Ping :: "string option"

record DoctorInput =
  di_Config :: Config
  di_Profile :: Profile
  di_Store :: "storeDoor option"
  di_ProbeStore :: bool
  di_HTTPBase :: string
  di_FrontURL :: string
  di_OriginURL :: string

record outer_world =
  dx_Connect :: "string \<Rightarrow> string + storeDoor"
  dx_World :: world
  dx_JWKS :: jwksCache
  dx_nfkc :: "string \<Rightarrow> string"
  dx_durErr :: "string \<Rightarrow> string"
  dx_polErr :: "policy_error \<Rightarrow> string"
  dx_durText :: "duration \<Rightarrow> string"
  dx_oneDecimal :: "rat \<Rightarrow> string"

definition entry :: "string \<Rightarrow> string \<Rightarrow> string \<Rightarrow> DoctorCheck" where
  "entry name status detail = \<lparr>dc_Name = name, dc_Status = status, dc_Detail = detail\<rparr>"

section \<open>Checks of the configuration and the profile\<close>

definition checkConfig :: "outer_world \<Rightarrow> Config \<Rightarrow> DoctorCheck" where
  "checkConfig X cfg =
     (case ValidateConfig (dx_durText X) cfg of
        Some err \<Rightarrow> entry ''configuration'' ''FAIL'' err
      | None \<Rightarrow>
          (let detail = StartupBanner cfg; warns = SecretWarnings cfg @ UnsafeModeWarnings cfg in
           if length warns > 0 then entry ''configuration'' ''WARN'' (detail @ ''; '' @ JoinSemicolon warns)
           else entry ''configuration'' ''PASS'' detail))"

text \<open>\<open>identity.Extract\<close> with a cookie only.\<close>

definition extractCookie :: "world \<Rightarrow> jwksCache \<Rightarrow> time \<Rightarrow> Identity \<Rightarrow> string \<Rightarrow> string \<Rightarrow> Customer option" where
  "extractCookie W jc t i secret cookie =
     fst (ExtractInput W t
       \<lparr>in_Identity = i, in_Secret = secret, in_EdgeSecret = '''', in_Cookie = cookie, in_Bearer = '''', in_Header = '''',
        in_Principal = '''', in_Introspect = '''', in_MerchantID = '''', in_AllowDevAssertions = True, in_AllowUnsignedHeader = True,
        in_TrustedEdge = False, in_RequireIssuer = False, in_RequireAudience = False\<rparr> jc)"

definition checkIdentity :: "'w net \<Rightarrow> outer_world \<Rightarrow> DoctorInput \<Rightarrow> ('w, DoctorCheck) state" where
  "checkIdentity N X inp =
     (let issues = filter (\<lambda>i. HasPrefix (is_Field i) ''identity'')
            (ValidateIssues (dx_nfkc X) (nt_Getenv N) (dx_durErr X) (dx_polErr X) (nt_Quote N) (di_Profile inp));
          fails = map is_Message (filter (\<lambda>i. is_Level i = ''FAIL'') issues);
          warns = map is_Message (filter (\<lambda>i. is_Level i \<noteq> ''FAIL'') issues);
          secret = cf_DevHMACSecret (di_Config inp);
          ext = mi_Extractor (pf_Identity (di_Profile inp));
          plain = (if length warns > 0 then entry ''identity extraction'' ''WARN'' (JoinSemicolon warns)
                   else entry ''identity extraction'' ''PASS'' (''extractor='' @ ext)) in
      if length fails > 0 then answer (entry ''identity extraction'' ''FAIL'' (JoinSemicolon fails))
      else if secret = '''' then answer plain
      else do {
        tok \<leftarrow> boxOfficeSession N secret ''doctor-probe'' hour;
        t \<leftarrow> unixNano N;
        answer (case tok of
          None \<Rightarrow> plain
        | Some tok \<Rightarrow>
            if extractCookie (dx_World X) (dx_JWKS X) t (pf_Identity (di_Profile inp)) secret tok = None then plain
            else if length warns > 0 then plain
            else entry ''identity extraction'' ''PASS'' (''extractor='' @ ext @ '' minted session parsed'')) })"

definition checkRoutes :: "Profile \<Rightarrow> DoctorCheck" where
  "checkRoutes p =
     (let n = count_where Controlled (pf_Routes p) in
      if n = 0 then entry ''protected routes'' ''FAIL'' ''no allocation routes with resource / resource_from''
      else entry ''protected routes'' ''PASS'' (FormatInt n @ '' allocation route(s); unmatched='' @ pf_Unmatched p))"

definition checkUnmatched :: "DoctorInput \<Rightarrow> DoctorCheck" where
  "checkUnmatched inp =
     (let cfg = di_Config inp;
          issues = SafetyIssues (di_Profile inp)
            \<lparr>so_OriginSecret = cf_OriginSecret cfg, so_OriginURL = firstNonEmpty (di_OriginURL inp) (cf_OriginURL cfg),
             so_Proxy = (cf_ProxyAddr cfg \<noteq> ''''), so_Production = Production cfg, so_JWKSURL = cf_JWKSURL cfg,
             so_Issuer = cf_Issuer cfg, so_Audience = cf_Audience cfg\<rparr>;
          fails = map is_Message (filter (\<lambda>i. is_Level i = ''FAIL'') issues);
          warns = map is_Message (filter (\<lambda>i. is_Level i \<noteq> ''FAIL'') issues);
          safety = (if length fails > 0 then entry ''unmatched safety'' ''FAIL'' (JoinSemicolon fails)
                    else if length warns > 0 then entry ''unmatched safety'' ''WARN'' (JoinSemicolon warns)
                    else entry ''unmatched safety'' ''PASS'' (''unmatched='' @ pf_Unmatched (di_Profile inp))) in
      if Production cfg then
        (case ValidateProductionPolicy (di_Profile inp) (cf_AllowUnsafeModes cfg) of
           Some reasons \<Rightarrow> entry ''unmatched safety'' ''FAIL''
             (''production policy is fail-open ('' @ JoinComma reasons @ ''); set BRUISER_ALLOW_UNSAFE_MODES=1 to acknowledge'')
         | None \<Rightarrow> safety)
      else safety)"

definition checkQueue :: "Profile \<Rightarrow> DoctorCheck" where
  "checkQueue p =
     (let w = mp_Waiting (pf_Policy p) in
      if wt_Mode w = '''' \<and> wt_MaxWaiters w = 0 then
        entry ''queue configuration'' ''PASS'' ''queue off (BUSY after max_active); intra-customer only when enabled''
      else if EqualFold (wt_Mode w) ''bounded'' \<and> wt_MaxWaiters w < 1 then
        entry ''queue configuration'' ''FAIL'' ''bounded queue requires max_waiters >= 1''
      else if wt_Mode w \<noteq> '''' \<and> \<not> EqualFold (wt_Mode w) ''bounded'' \<and> \<not> EqualFold (wt_Mode w) ''off'' then
        entry ''queue configuration'' ''FAIL'' ''waiting.mode must be bounded or off''
      else entry ''queue configuration'' ''PASS''
             (''mode='' @ wt_Mode w @ '' max_waiters='' @ FormatInt (wt_MaxWaiters w) @ '' (intra-customer, not a waiting room)''))"

definition checkLimits :: "outer_world \<Rightarrow> Config \<Rightarrow> DoctorCheck" where
  "checkLimits X cfg =
     (if cf_MaxInFlight cfg < 1 then entry ''active-execution protection'' ''FAIL'' ''BRUISER_MAX_IN_FLIGHT must be >= 1''
      else if cf_RatePerSec cfg \<le> 0 then
        entry ''active-execution protection'' ''WARN'' ''BRUISER_RATE_PER_SEC is 0; a shared execution can be hammered''
      else entry ''active-execution protection'' ''PASS''
             (''in_flight='' @ FormatInt (cf_MaxInFlight cfg) @ '' rate='' @ dx_oneDecimal X (cf_RatePerSec cfg) @ ''/s burst=''
              @ FormatInt (cf_Burst cfg) @ '' deadline=8s''))"

definition checkAudit :: "outer_world \<Rightarrow> Config \<Rightarrow> DoctorCheck" where
  "checkAudit X cfg =
     (if cf_AuditRetention cfg \<le> 0 then entry ''audit configuration'' ''WARN'' ''BRUISER_AUDIT_RETENTION is 0 (purge disabled)''
      else entry ''audit configuration'' ''PASS'' (''retention='' @ dx_durText X (cf_AuditRetention cfg) @ '' (merchant Postgres, no vendor store)''))"

section \<open>Checks of the live system\<close>

definition plainGET :: "string \<Rightarrow> outgoing" where
  "plainGET url = \<lparr>og_Method = ''GET'', og_URL = url, og_Host = '''', og_Header = [], og_Body = None\<rparr>"

definition fetch :: "'w net \<Rightarrow> string \<Rightarrow> ('w, string + reply) state" where
  "fetch N url = State (nt_Do N (3 * second) (plainGET url))"

definition checkUpstream :: "'w net \<Rightarrow> DoctorInput \<Rightarrow> ('w, DoctorCheck) state" where
  "checkUpstream N inp =
     (let url = firstNonEmpty (di_OriginURL inp) (cf_OriginURL (di_Config inp)) in
      if url = '''' then
        answer (entry ''upstream connectivity'' ''WARN'' ''BRUISER_ORIGIN_URL not set; skip (Edge/Embedded may not need it)'')
      else do {
        out \<leftarrow> fetch N (TrimRight url ''/'' @ ''/healthz'');
        answer (case out of
          Inl err \<Rightarrow> entry ''upstream connectivity'' ''FAIL'' err
        | Inr rsp \<Rightarrow> entry ''upstream connectivity'' ''PASS'' (url @ '' '' @ arrow @ '' '' @ FormatInt (ry_Status rsp))) })"

definition openStore :: "outer_world \<Rightarrow> DoctorInput \<Rightarrow> string + storeDoor" where
  "openStore X inp = (case di_Store inp of Some st \<Rightarrow> Inr st | None \<Rightarrow> dx_Connect X (cf_DatabaseURL (di_Config inp)))"

definition checkSigning :: "outer_world \<Rightarrow> DoctorInput \<Rightarrow> DoctorCheck" where
  "checkSigning X inp =
     (if \<not> di_ProbeStore inp \<and> di_Store inp = None then entry ''signing keys'' ''WARN'' ''store not probed''
      else case openStore X inp of
        Inl err \<Rightarrow> entry ''signing keys'' ''FAIL'' err
      | Inr st \<Rightarrow>
          (case sd_Keys st (cf_MerchantID (di_Config inp)) of
             Inl err \<Rightarrow> entry ''signing keys'' ''FAIL'' err
           | Inr n \<Rightarrow>
               if n = 0 then entry ''signing keys'' ''WARN'' ''no active signing key yet (created on serve)''
               else entry ''signing keys'' ''PASS'' (FormatInt (int n) @ '' active Ed25519 key(s)'')))"

definition checkPersistence :: "outer_world \<Rightarrow> DoctorInput \<Rightarrow> DoctorCheck" where
  "checkPersistence X inp =
     (if \<not> di_ProbeStore inp \<and> di_Store inp = None then entry ''persistence'' ''WARN'' ''store not probed''
      else case openStore X inp of
        Inl err \<Rightarrow> entry ''persistence'' ''FAIL'' err
      | Inr st \<Rightarrow>
          (case sd_Ping st of
             Some err \<Rightarrow> entry ''persistence'' ''FAIL'' err
           | None \<Rightarrow> entry ''persistence'' ''PASS'' ''postgres reachable''))"

definition authorityConfig :: "DoctorInput \<Rightarrow> CheckConfig" where
  "authorityConfig inp =
     \<lparr>ck_EdgeURL = firstNonEmpty (di_FrontURL inp) (cf_CheckEdgeURL (di_Config inp)),
      ck_OriginURL = firstNonEmpty (di_OriginURL inp) (cf_CheckOriginURL (di_Config inp)), ck_ControlURL = di_HTTPBase inp,
      ck_AdminURL = '''', ck_HMACSecret = cf_DevHMACSecret (di_Config inp), ck_EdgeSecret = '''', ck_OriginSecret = '''',
      ck_AdminSecret = '''', ck_OperatorSecret = '''', ck_Membership = '''', ck_EventID = '''', ck_Timeout = 0,
      ck_StoreDownURL = '''', ck_StoreDownEdgeSecret = '''', ck_StoreDownHMAC = '''', ck_CommitSHA = '''',
      ck_Production = False, ck_detectedProduction = False\<rparr>"

definition checkAuthority :: "'w net \<Rightarrow> DoctorInput \<Rightarrow> ('w, DoctorCheck) state" where
  "checkAuthority N inp =
     (if di_FrontURL inp = '''' then
        answer (entry ''authority enforcement'' ''WARN'' ''pass --front and --origin to run bruiser authority-check (go-live gate)'')
      else if ck_OriginURL (authorityConfig inp) = '''' then
        answer (entry ''authority enforcement'' ''FAIL'' ''--origin is required with --front; do not go live without proving origin lockdown'')
      else do {
        rep \<leftarrow> Run N (authorityConfig inp);
        answer (if \<not> Passed rep then entry ''authority enforcement'' ''FAIL'' (''Overall Result '' @ rp_Overall rep)
                else entry ''authority enforcement'' ''PASS'' ''Overall Result PASS'') })"

definition checkMetrics :: "'w net \<Rightarrow> DoctorInput \<Rightarrow> ('w, DoctorCheck) state" where
  "checkMetrics N inp =
     (if di_HTTPBase inp = '''' then answer (entry ''metrics'' ''WARN'' ''pass --http to probe /metrics'')
      else do {
        out \<leftarrow> fetch N (TrimRight (di_HTTPBase inp) ''/'' @ ''/metrics'');
        answer (case out of
          Inl err \<Rightarrow> entry ''metrics'' ''FAIL'' err
        | Inr rsp \<Rightarrow>
            if ry_Status rsp \<noteq> 200 \<or> \<not> Contains (take 1048576 (ry_Body rsp)) ''bruiser_'' then
              entry ''metrics'' ''FAIL'' (''GET /metrics '' @ arrow @ '' '' @ FormatInt (ry_Status rsp) @ '' (expected bruiser_ series)'')
            else entry ''metrics'' ''PASS'' ''Prometheus bruiser_* series present'') })"

definition DoctorRun :: "'w net \<Rightarrow> outer_world \<Rightarrow> DoctorInput \<Rightarrow> ('w, DoctorReport) state" where
  "DoctorRun N X inp = do {
     checks \<leftarrow> State_Monad.traverse_list (\<lambda>c. c)
       [answer (checkConfig X (di_Config inp)),
        checkIdentity N X inp,
        answer (checkRoutes (di_Profile inp)),
        answer (checkUnmatched inp),
        checkUpstream N inp,
        answer (checkSigning X inp),
        answer (checkPersistence X inp),
        answer (checkQueue (di_Profile inp)),
        checkAuthority N inp,
        answer (checkLimits X (di_Config inp)),
        checkMetrics N inp,
        answer (checkAudit X (di_Config inp))];
     answer (finish checks) }"

section \<open>The verdict\<close>

lemma overall_iff:
  "overall acc cs =
     (if list_ex (\<lambda>c. dc_Status c = ''FAIL'') cs then ''FAIL''
      else if list_ex (\<lambda>c. dc_Status c = ''WARN'') cs then ''WARN'' else acc)"
  by (induction cs arbitrary: acc) auto

lemma doctor_checks:
  "gives (DoctorRun N X inp) (\<lambda>rep. \<exists>ident up auth met. dr_Overall rep = overall ''PASS'' (dr_Checks rep) \<and>
     dr_Checks rep = [checkConfig X (di_Config inp), ident, checkRoutes (di_Profile inp), checkUnmatched inp, up, checkSigning X inp,
       checkPersistence X inp, checkQueue (di_Profile inp), auth, checkLimits X (di_Config inp), met, checkAudit X (di_Config inp)])"
  unfolding DoctorRun_def traverse_list.simps
  by (simp, intro gives_skip gives_return) (simp add: finish_def)

text \<open>
  A diagnostic that does not fail: the configuration is valid, an allocation route is protected, a production
  policy does not fail open without the acknowledgement, a queue is well configured, and executions are limited.
\<close>

lemma doctor_passed_safe:
  assumes "doctorPassed (fst (run_state (DoctorRun N X inp) w))"
  shows "ValidateConfig (dx_durText X) (di_Config inp) = None"
    and "list_ex Controlled (pf_Routes (di_Profile inp))"
    and "Production (di_Config inp) \<Longrightarrow> ValidateProductionPolicy (di_Profile inp) (cf_AllowUnsafeModes (di_Config inp)) = None"
    and "dc_Status (checkQueue (di_Profile inp)) = ''PASS''"
    and "1 \<le> cf_MaxInFlight (di_Config inp)"
proof -
  have good: "dc_Status c \<noteq> ''FAIL''"
    if "c \<in> {checkConfig X (di_Config inp), checkRoutes (di_Profile inp), checkUnmatched inp, checkQueue (di_Profile inp),
        checkLimits X (di_Config inp)}" for c
    using givesD [OF doctor_checks, of N X inp w] assms that
    by (auto simp: doctorPassed_def overall_iff split: if_splits)
  show "ValidateConfig (dx_durText X) (di_Config inp) = None"
    using good [of "checkConfig X (di_Config inp)"] by (auto simp: checkConfig_def entry_def split: option.splits)
  show "list_ex Controlled (pf_Routes (di_Profile inp))"
    using good [of "checkRoutes (di_Profile inp)"]
    by (auto simp: checkRoutes_def entry_def Let_def count_where_def list_ex_iff filter_empty_conv split: if_splits)
  show "Production (di_Config inp) \<Longrightarrow> ValidateProductionPolicy (di_Profile inp) (cf_AllowUnsafeModes (di_Config inp)) = None"
    using good [of "checkUnmatched inp"] by (auto simp: checkUnmatched_def entry_def Let_def split: option.splits)
  show "dc_Status (checkQueue (di_Profile inp)) = ''PASS''"
    using good [of "checkQueue (di_Profile inp)"] by (auto simp: checkQueue_def entry_def Let_def split: if_splits)
  show "1 \<le> cf_MaxInFlight (di_Config inp)"
    using good [of "checkLimits X (di_Config inp)"] by (auto simp: checkLimits_def entry_def split: if_splits)
qed

text \<open>The front configured for the check is never used: without the flag the check is skipped.\<close>

lemma configured_front_is_ignored:
  "di_FrontURL inp = '''' \<Longrightarrow> fst (run_state (checkAuthority N inp) w) =
     entry ''authority enforcement'' ''WARN'' ''pass --front and --origin to run bruiser authority-check (go-live gate)''"
  by (simp add: checkAuthority_def)

end
