(* ===== verification/Demo_Store.thy ===== *)
theory Demo_Store
  imports Origin "HOL-Library.AList"
begin

text \<open>
  \<open>internal/demostore/store.go\<close>: the sandbox shop of the attack lab. A registry holds stores with a lifetime; a
  checkout appends an order. The map of stores is an association list. The text of the product page is left
  out: its answer has no decoded body. What a request reads from outside is the record \<open>outside\<close> of the box office.
\<close>

section \<open>State\<close>

record shopConfig =
  dm_HMACSecret :: string
  dm_OriginSecret :: string

record shop =
  sh_ID :: string
  sh_Name :: string
  sh_Product :: string
  sh_Price :: string
  sh_CreatedAt :: time
  sh_ExpiresAt :: time

record shopOrder =
  od_ID :: string
  od_StoreID :: string
  od_Customer :: string
  od_Wave :: string
  od_At :: time

record liveStore =
  lv_Store :: shop
  lv_orders :: "shopOrder list"
  lv_seq :: int

record registry =
  rg_cfg :: shopConfig
  rg_stores :: "(string \<times> liveStore) list"

definition NewRegistry :: "shopConfig \<Rightarrow> registry" where
  "NewRegistry cfg = \<lparr>rg_cfg = cfg, rg_stores = []\<rparr>"

section \<open>The registry\<close>

text \<open>\<open>newStoreID\<close> on the eight bytes that \<open>rand.Read\<close> produced.\<close>

definition newStoreID :: "string \<Rightarrow> string" where
  "newStoreID rnd = ''str-'' @ concat (map hex_byte rnd)"

definition CreateStore :: "time \<Rightarrow> string \<Rightarrow> string \<Rightarrow> string \<Rightarrow> string \<Rightarrow> duration \<Rightarrow> registry \<Rightarrow> shop \<times> registry" where
  "CreateStore t rnd name product price ttl0 g =
     (let ttl = (if ttl0 \<le> 0 then 20 * minute else ttl0);
          st = \<lparr>sh_ID = newStoreID rnd, sh_Name = name, sh_Product = product, sh_Price = price, sh_CreatedAt = t, sh_ExpiresAt = t + ttl\<rparr>
      in (st, g\<lparr>rg_stores := AList.update (sh_ID st) \<lparr>lv_Store = st, lv_orders = [], lv_seq = 0\<rparr> (rg_stores g)\<rparr>))"

definition GetStore :: "time \<Rightarrow> string \<Rightarrow> registry \<Rightarrow> shop option \<times> registry" where
  "GetStore t i g =
     (case map_of (rg_stores g) i of
        None \<Rightarrow> (None, g)
      | Some ls \<Rightarrow>
          if \<not> sh_ExpiresAt (lv_Store ls) > t then (None, g\<lparr>rg_stores := AList.delete i (rg_stores g)\<rparr>)
          else (Some (lv_Store ls), g))"

definition DeleteStore :: "string \<Rightarrow> registry \<Rightarrow> registry" where
  "DeleteStore i g = g\<lparr>rg_stores := AList.delete i (rg_stores g)\<rparr>"

definition live_at :: "time \<Rightarrow> string \<times> liveStore \<Rightarrow> bool" where
  "live_at t = (\<lambda>(_, ls). sh_ExpiresAt (lv_Store ls) > t)"

definition CountStores :: "time \<Rightarrow> registry \<Rightarrow> nat \<times> registry" where
  "CountStores t g =
     (let kept = filter (live_at t) (rg_stores g) in (length kept, g\<lparr>rg_stores := kept\<rparr>))"

definition ExpireStores :: "time \<Rightarrow> registry \<Rightarrow> nat \<times> registry" where
  "ExpireStores t g =
     (length (filter (Not \<circ> live_at t) (rg_stores g)), g\<lparr>rg_stores := filter (live_at t) (rg_stores g)\<rparr>)"

definition Orders :: "string \<Rightarrow> string \<Rightarrow> registry \<Rightarrow> nat" where
  "Orders i wave g =
     (case map_of (rg_stores g) i of
        None \<Rightarrow> 0
      | Some ls \<Rightarrow>
          if wave = '''' then length (lv_orders ls) else length (filter (\<lambda>od. od_Wave od = wave) (lv_orders ls)))"

definition Sanitize :: "string \<Rightarrow> string \<Rightarrow> nat \<Rightarrow> string" where
  "Sanitize s0 fallback maxLen =
     (let s = ReplaceAll (TrimSpace s0) [CHR 0x00] '''' in
      if s = '''' then fallback else if maxLen > 0 \<and> length s > maxLen then take maxLen s else s)"

section \<open>Handlers\<close>

definition shopOriginOK :: "request \<Rightarrow> registry \<Rightarrow> response option" where
  "shopOriginOK r g =
     (if dm_OriginSecret (rg_cfg g) = '''' then None
      else if \<not> subtleEqual (hdrGet (rq_Headers r) ''X-Bruiser-Origin-Secret'') (dm_OriginSecret (rg_cfg g)) then
        Some (writeJSON [] StatusForbidden
          [(''error'', JStr ''origin lockdown''), (''detail'', JStr ''sandbox checkout requires Bruiser admission'')])
      else None)"

definition fanCookie :: "outside \<Rightarrow> nat \<Rightarrow> string \<Rightarrow> string \<Rightarrow> request \<Rightarrow> registry \<Rightarrow> headers" where
  "fanCookie W i rnd rnd' r g =
     (if dm_HMACSecret (rg_cfg g) = '''' then []
      else if cookieValue r CookieName \<noteq> '''' then []
      else case IssueBoxOfficeSession (os_jwt W) (os_now W i) rnd' (dm_HMACSecret (rg_cfg g)) (''fan-'' @ drop 3 (id_New ''id'' rnd)) (60 * minute) of
        None \<Rightarrow> []
      | Some tok \<Rightarrow> [(''Set-Cookie'', CookieName @ ''='' @ tok @ ''; Path=/; HttpOnly; SameSite=Lax'')])"

definition productPage :: "outside \<Rightarrow> string \<Rightarrow> string \<Rightarrow> string \<Rightarrow> request \<Rightarrow> registry \<Rightarrow> response \<times> registry" where
  "productPage W rnd rnd' i r g =
     (case GetStore (os_now W 0) i g of
        (None, g) \<Rightarrow> (\<lparr>rs_status = StatusNotFound, rs_headers = [], rs_body = None\<rparr>, g)
      | (Some _, g) \<Rightarrow>
          (\<lparr>rs_status = StatusOK, rs_headers = hdrSet ''Content-Type'' ''text/html; charset=utf-8'' (fanCookie W 1 rnd rnd' r g), rs_body = None\<rparr>, g))"

definition productJSON :: "outside \<Rightarrow> string \<Rightarrow> registry \<Rightarrow> response \<times> registry" where
  "productJSON W i g =
     (case GetStore (os_now W 0) i g of
        (None, g) \<Rightarrow> (writeJSON [] StatusNotFound [(''error'', JStr ''not found'')], g)
      | (Some st, g) \<Rightarrow>
          (writeJSON [] StatusOK
             [(''id'', JStr (sh_ID st)), (''name'', JStr (sh_Name st)), (''product'', JStr (sh_Product st)), (''price'', JStr (sh_Price st)),
              (''created_at'', JStr (RFC3339Nano (sh_CreatedAt st))), (''expires_at'', JStr (RFC3339Nano (sh_ExpiresAt st)))], g))"

definition placeOrder :: "time \<Rightarrow> string \<Rightarrow> string \<Rightarrow> liveStore \<Rightarrow> shopOrder \<times> liveStore" where
  "placeOrder t wave customer ls =
     (let n = lv_seq ls + 1;
          od = \<lparr>od_ID = ''ord_'' @ FormatInt n, od_StoreID = sh_ID (lv_Store ls), od_Customer = customer, od_Wave = wave, od_At = t\<rparr>
      in (od, ls\<lparr>lv_seq := n, lv_orders := lv_orders ls @ [od]\<rparr>))"

definition checkout :: "outside \<Rightarrow> string \<Rightarrow> string \<Rightarrow> request \<Rightarrow> registry \<Rightarrow> response \<times> registry" where
  "checkout W i wave r g0 =
     (case shopOriginOK r g0 of
        Some rsp \<Rightarrow> (rsp, g0)
      | None \<Rightarrow>
          (case GetStore (os_now W 0) i g0 of
             (None, g) \<Rightarrow> (writeJSON [] StatusNotFound [(''error'', JStr ''store expired'')], g)
           | (Some st, g) \<Rightarrow>
               (let customer = membershipFrom W 1 r (dm_HMACSecret (rg_cfg g)) in
                case map_of (rg_stores g) i of
                  None \<Rightarrow> (writeJSON [] StatusNotFound [(''error'', JStr ''store expired'')], g)
                | Some ls \<Rightarrow>
                    (let (od, ls') = placeOrder (os_now W 2) wave customer ls in
                     (writeJSON [] StatusCreated
                        [(''order_id'', JStr (od_ID od)), (''store'', JStr (sh_Name st)), (''product'', JStr (sh_Product st)),
                         (''price'', JStr (sh_Price st)), (''customer'', JStr customer)],
                      g\<lparr>rg_stores := AList.update i ls' (rg_stores g)\<rparr>)))))"

datatype shopRequest = ProductPage string request | ProductJSON string | Checkout string string request

fun shopHandler :: "outside \<Rightarrow> string \<Rightarrow> string \<Rightarrow> shopRequest \<Rightarrow> registry \<Rightarrow> response \<times> registry" where
  "shopHandler W rnd rnd' (ProductPage i r) g = productPage W rnd rnd' i r g"
| "shopHandler W rnd rnd' (ProductJSON i) g = productJSON W i g"
| "shopHandler W rnd rnd' (Checkout i wave r) g = checkout W i wave r g"

section \<open>Books in order\<close>

text \<open>Every store is filed under its identifier, and its orders are numbered from one, without a gap.\<close>

definition books_ok :: "registry \<Rightarrow> bool" where
  "books_ok g \<longleftrightarrow>
     distinct (map fst (rg_stores g)) \<and>
     list_all (\<lambda>(i, ls). sh_ID (lv_Store ls) = i \<and> lv_seq ls = int (length (lv_orders ls))
        \<and> map od_ID (lv_orders ls) = map (\<lambda>n. ''ord_'' @ FormatInt (int n)) [1..<Suc (length (lv_orders ls))]
        \<and> list_all (\<lambda>od. od_StoreID od = i) (lv_orders ls)) (rg_stores g)"

lemma books_filter: "books_ok g \<Longrightarrow> books_ok (g\<lparr>rg_stores := filter P (rg_stores g)\<rparr>)"
  by (auto simp: books_ok_def list_all_iff distinct_map_filter)

lemma books_delete: "books_ok g \<Longrightarrow> books_ok (g\<lparr>rg_stores := AList.delete i (rg_stores g)\<rparr>)"
  unfolding AList.delete_eq by (rule books_filter)

lemma update_member: "x \<in> set (AList.update i v xs) \<Longrightarrow> x \<in> set xs \<or> x = (i, v)"
  by (induction xs) (auto split: if_splits)

lemma books_update:
  assumes "books_ok g" "sh_ID (lv_Store ls) = i" "lv_seq ls = int (length (lv_orders ls))"
    "map od_ID (lv_orders ls) = map (\<lambda>n. ''ord_'' @ FormatInt (int n)) [1..<Suc (length (lv_orders ls))]"
    "list_all (\<lambda>od. od_StoreID od = i) (lv_orders ls)"
  shows "books_ok (g\<lparr>rg_stores := AList.update i ls (rg_stores g)\<rparr>)"
proof -
  have dist: "distinct (map fst (AList.update i ls (rg_stores g)))"
    using assms(1) by (simp add: books_ok_def distinct_update)
  show ?thesis using assms dist by (auto simp: books_ok_def list_all_iff dest!: update_member)
qed

lemma books_get: "books_ok g \<Longrightarrow> books_ok (snd (GetStore t i g))"
  by (simp add: GetStore_def books_delete split: option.split)

lemma books_placed:
  assumes "books_ok g" "map_of (rg_stores g) i = Some ls"
  shows "books_ok (g\<lparr>rg_stores := AList.update i (snd (placeOrder t wave customer ls)) (rg_stores g)\<rparr>)"
proof -
  have "(i, ls) \<in> set (rg_stores g)" using assms(2) by (rule map_of_SomeD)
  then have ls: "sh_ID (lv_Store ls) = i" "lv_seq ls = int (length (lv_orders ls))" "list_all (\<lambda>od. od_StoreID od = i) (lv_orders ls)"
    "map od_ID (lv_orders ls) = map (\<lambda>n. ''ord_'' @ FormatInt (int n)) [1..<Suc (length (lv_orders ls))]"
    using assms(1) by (auto simp: books_ok_def list_all_iff)
  show ?thesis by (rule books_update [OF assms(1)]) (simp_all add: placeOrder_def Let_def ls add.commute)
qed

lemma checkout_keeps_books: "books_ok g \<Longrightarrow> books_ok (snd (checkout W i wave r g))"
  using books_get [of g "os_now W 0" i] books_placed [of "snd (GetStore (os_now W 0) i g)" i]
  by (cases "GetStore (os_now W 0) i g") (auto simp: checkout_def Let_def case_prod_beta split: option.split)

lemma shop_books_in_order: "books_ok g \<Longrightarrow> books_ok (snd (shopHandler W rnd rnd' q g))"
proof (cases q)
  case (ProductPage i r)
  then show "books_ok g \<Longrightarrow> ?thesis"
    using books_get [of g "os_now W 0" i] by (auto simp: productPage_def split: option.split prod.split)
next
  case (ProductJSON i)
  then show "books_ok g \<Longrightarrow> ?thesis"
    using books_get [of g "os_now W 0" i] by (auto simp: productJSON_def split: option.split prod.split)
qed (simp add: checkout_keeps_books)

lemma registry_books_in_order:
  "books_ok (NewRegistry cfg)"
  "books_ok g \<Longrightarrow> books_ok (snd (CreateStore t rnd name product price ttl g))"
  "books_ok g \<Longrightarrow> books_ok (DeleteStore i g)"
  "books_ok g \<Longrightarrow> books_ok (snd (CountStores t g))"
  "books_ok g \<Longrightarrow> books_ok (snd (ExpireStores t g))"
  by (simp_all add: NewRegistry_def CreateStore_def DeleteStore_def CountStores_def ExpireStores_def Let_def books_delete books_filter
        books_update) (simp add: books_ok_def)

text \<open>An order is placed only with the origin's secret and in a store that has not expired.\<close>

lemma order_needs_admission:
  assumes "rs_status (fst (checkout W i wave r g)) = StatusCreated"
  shows "dm_OriginSecret (rg_cfg g) = '''' \<or> subtleEqual (hdrGet (rq_Headers r) ''X-Bruiser-Origin-Secret'') (dm_OriginSecret (rg_cfg g))"
    and "\<exists>ls. map_of (rg_stores g) i = Some ls \<and> os_now W 0 < sh_ExpiresAt (lv_Store ls)"
  using assms
  by (auto simp: checkout_def shopOriginOK_def GetStore_def writeJSON_def Let_def split: option.splits if_splits prod.splits)

end
