(* ===== verification/Commerce.thy ===== *)
theory Commerce
  imports Check
begin

text \<open>
  The two HTTP clients of the repository, over the network of the deployment checker: the adapter to a
  merchant's commerce API (\<open>internal/adapter\<close>) and the client of the SDK (\<open>sdk/go/client.go\<close>).
\<close>

section \<open>The commerce adapter\<close>

record commerceHTTP =
  ha_Origin :: string
  ha_HoldPath :: string
  ha_ReleaseFmt :: string
  ha_OrderPath :: string
  ha_SearchPath :: string
  ha_Secret :: string
  ha_Client :: "duration option"

record HoldRequest =
  hr_CustomerID :: string
  hr_Resource :: string
  hr_Seats :: int

record PurchaseRequest =
  pu_CustomerID :: string
  pu_HoldID :: string
  pu_Resource :: string

text \<open>The identifier of a hold or an order, and whether the origin accepted it.\<close>

record commerceResult =
  cm_ID :: string
  cm_OK :: bool

definition adapterDo :: "'w net \<Rightarrow> commerceHTTP \<Rightarrow> string \<Rightarrow> string \<Rightarrow> json option \<Rightarrow> ('w, string + int \<times> string) state" where
  "adapterDo N h meth path payload = State (\<lambda>w.
     (let hdr = (if payload \<noteq> None then hdrSet ''Content-Type'' ''application/json'' [] else []);
          hdr = (if ha_Secret h \<noteq> '''' then hdrSet ''X-Bruiser-Origin-Secret'' (ha_Secret h) hdr else hdr);
          tmo = (case ha_Client h of Some t \<Rightarrow> t | None \<Rightarrow> 8 * second) in
      case nt_Do N tmo \<lparr>og_Method = meth, og_URL = TrimRight (ha_Origin h) ''/'' @ path, og_Host = '''', og_Header = hdr,
             og_Body = map_option (nt_Marshal N) payload\<rparr> w of
        (Inl err, w) \<Rightarrow> (Inl err, w)
      | (Inr r, w) \<Rightarrow> (Inr (ry_Status r, take 1048576 (ry_Body r)), w)))"

definition SearchItems :: "'w net \<Rightarrow> commerceHTTP \<Rightarrow> ('w, string + json list) state" where
  "SearchItems N h = do {
     out \<leftarrow> adapterDo N h ''GET'' (firstNonEmpty (ha_SearchPath h) ''/api/events'') None;
     answer (case out of
       Inl err \<Rightarrow> Inl err
     | Inr (code, body) \<Rightarrow>
         if code \<ge> 300 then Inl (''search '' @ FormatInt code)
         else Inr (case nt_Unmarshal N body of Some (JArr items) \<Rightarrow> items | _ \<Rightarrow> [])) }"

definition accepted :: "'w net \<Rightarrow> string \<Rightarrow> string \<Rightarrow> string + int \<times> string \<Rightarrow> string + commerceResult" where
  "accepted N what field out =
     (case out of
        Inl err \<Rightarrow> Inl err
      | Inr (code, body) \<Rightarrow>
          if code \<ge> 300 then Inl (what @ '' '' @ FormatInt code)
          else Inr \<lparr>cm_ID = lax_str (nt_Unmarshal N body) field, cm_OK = True\<rparr>)"

definition Hold :: "'w net \<Rightarrow> commerceHTTP \<Rightarrow> HoldRequest \<Rightarrow> ('w, string + commerceResult) state" where
  "Hold N h req = do {
     out \<leftarrow> adapterDo N h ''POST'' (firstNonEmpty (ha_HoldPath h) ''/api/holds'')
       (Some (JObj [(''customer_id'', JStr (hr_CustomerID req)), (''resource'', JStr (hr_Resource req)), (''seats'', JNum (hr_Seats req))]));
     answer (accepted N ''hold'' ''hold_id'' out) }"

definition Purchase :: "'w net \<Rightarrow> commerceHTTP \<Rightarrow> PurchaseRequest \<Rightarrow> ('w, string + commerceResult) state" where
  "Purchase N h req = do {
     out \<leftarrow> adapterDo N h ''POST'' (firstNonEmpty (ha_OrderPath h) ''/api/orders'')
       (Some (JObj [(''customer_id'', JStr (pu_CustomerID req)), (''hold_id'', JStr (pu_HoldID req)), (''resource'', JStr (pu_Resource req))]));
     answer (accepted N ''purchase'' ''order_id'' out) }"

definition reported :: "string + int \<times> string \<Rightarrow> string option" where
  "reported out = (case out of Inl err \<Rightarrow> Some err | Inr _ \<Rightarrow> None)"

definition ReleaseHold :: "'w net \<Rightarrow> commerceHTTP \<Rightarrow> string \<Rightarrow> ('w, string option) state" where
  "ReleaseHold N h holdID = do {
     out \<leftarrow> adapterDo N h ''DELETE''
       (if ha_ReleaseFmt h = '''' then ''/api/holds/'' @ holdID else ReplaceAll (ha_ReleaseFmt h) ''{id}'' holdID) None;
     answer (reported out) }"

definition CancelOrder :: "'w net \<Rightarrow> commerceHTTP \<Rightarrow> string \<Rightarrow> ('w, string option) state" where
  "CancelOrder N h orderID = do {
     out \<leftarrow> adapterDo N h ''POST'' (''/api/orders/'' @ orderID @ ''/cancel'') None;
     answer (reported out) }"

text \<open>A release the origin refuses is reported as done.\<close>

lemma refused_release_is_success:
  "nt_Do N = (\<lambda>_ _ w. (Inr \<lparr>ry_Status = StatusForbidden, ry_Header = [], ry_Body = ''''\<rparr>, w))
   \<Longrightarrow> fst (run_state (ReleaseHold N h i) w) = None"
  by (simp add: ReleaseHold_def adapterDo_def reported_def Let_def)

section \<open>The client of the SDK\<close>

record Client =
  cl_BaseURL :: string
  cl_HTTP :: "duration option"

record clientSession =
  cs_ID :: string
  cs_Token :: string
  cs_ExpiresAt :: string
  cs_Customer :: string

record clientExecution =
  cx_ID :: string
  cx_Status :: string
  cx_Domain :: string
  cx_Resource :: string
  cx_Action :: string
  cx_Fence :: int
  cx_Token :: string
  cx_ExpiresAt :: string
  cx_HeartbeatAfterMs :: int
  cx_Position :: int
  cx_Watch :: string
  cx_ActiveID :: string

text \<open>
  \<open>decode\<close> reads the answer into the destination, with \<open>None\<close> for an error of the decoder, whose text
  is \<open>badJSON\<close>; \<open>zero\<close> is the destination of an empty body. Expiry times are kept as the text sent.
\<close>

definition clientDo :: "'w net \<Rightarrow> string \<Rightarrow> (json option \<Rightarrow> 'a option) \<Rightarrow> 'a \<Rightarrow> Client \<Rightarrow> string \<Rightarrow> string \<Rightarrow> string \<Rightarrow> json option \<Rightarrow> int
    \<Rightarrow> ('w, string + 'a) state" where
  "clientDo N badJSON decode zero c meth path tok body want = State (\<lambda>w.
     (let hdr = (if tok \<noteq> '''' then hdrSet ''Authorization'' (''Bearer '' @ tok) [] else []);
          hdr = (if body \<noteq> None then hdrSet ''Content-Type'' ''application/json'' hdr else hdr);
          tmo = (case cl_HTTP c of Some t \<Rightarrow> t | None \<Rightarrow> 10 * second) in
      case nt_Do N tmo \<lparr>og_Method = meth, og_URL = TrimRight (cl_BaseURL c) ''/'' @ path, og_Host = '''', og_Header = hdr,
             og_Body = map_option (nt_Marshal N) body\<rparr> w of
        (Inl err, w) \<Rightarrow> (Inl err, w)
      | (Inr r, w) \<Rightarrow>
          (let raw = take 1048576 (ry_Body r);
               err = ''bruiser '' @ meth @ '' '' @ path @ '': '' @ FormatInt (ry_Status r) @ '' '' @ raw in
           (if want \<noteq> 0 \<and> ry_Status r \<noteq> want then Inl err
            else if want = 0 \<and> ry_Status r \<ge> 400 then Inl err
            else if raw = '''' then Inr zero
            else case decode (nt_Unmarshal N raw) of Some x \<Rightarrow> Inr x | None \<Rightarrow> Inl badJSON, w))))"

fun strFields :: "(string \<times> json) list \<Rightarrow> string list \<Rightarrow> string list option" where
  "strFields ms [] = Some []"
| "strFields ms (k # ks) =
     (case (str_field ms k, strFields ms ks) of (Some v, Some vs) \<Rightarrow> Some (v # vs) | _ \<Rightarrow> None)"

definition readSession :: "json option \<Rightarrow> clientSession option" where
  "readSession j =
     (case Option.bind (objectOf j) (\<lambda>ms. strFields ms [''session_id'', ''session_token'', ''expires_at'', ''customer_id'']) of
        Some [i, t, e, c] \<Rightarrow> Some \<lparr>cs_ID = i, cs_Token = t, cs_ExpiresAt = e, cs_Customer = c\<rparr>
      | _ \<Rightarrow> None)"

definition readExecution :: "json option \<Rightarrow> clientExecution option" where
  "readExecution j =
     (case objectOf j of
        None \<Rightarrow> None
      | Some ms \<Rightarrow>
          (case (strFields ms [''execution_id'', ''status'', ''domain'', ''resource'', ''action'', ''execution_token'', ''expires_at'',
                   ''watch'', ''active_execution_id''],
                 int_field ms ''fence'', int_field ms ''heartbeat_after_ms'', int_field ms ''position'') of
             (Some [i, st, d, rs, ac, t, e, wt, av], Some f, Some hb, Some ps) \<Rightarrow>
               Some \<lparr>cx_ID = i, cx_Status = st, cx_Domain = d, cx_Resource = rs, cx_Action = ac, cx_Fence = f, cx_Token = t,
                     cx_ExpiresAt = e, cx_HeartbeatAfterMs = hb, cx_Position = ps, cx_Watch = wt, cx_ActiveID = av\<rparr>
           | _ \<Rightarrow> None))"

definition noSession :: clientSession where
  "noSession = \<lparr>cs_ID = '''', cs_Token = '''', cs_ExpiresAt = '''', cs_Customer = ''''\<rparr>"

definition noExecution :: clientExecution where
  "noExecution = \<lparr>cx_ID = '''', cx_Status = '''', cx_Domain = '''', cx_Resource = '''', cx_Action = '''', cx_Fence = 0, cx_Token = '''',
     cx_ExpiresAt = '''', cx_HeartbeatAfterMs = 0, cx_Position = 0, cx_Watch = '''', cx_ActiveID = ''''\<rparr>"

definition clientCreateSession :: "'w net \<Rightarrow> string \<Rightarrow> Client \<Rightarrow> string \<Rightarrow> string \<Rightarrow> string \<Rightarrow> ('w, string + clientSession) state" where
  "clientCreateSession N badJSON c assertion ptype pid =
     clientDo N badJSON readSession noSession c ''POST'' ''/v1/sessions'' assertion
       (Some (JObj [(''principal'', JObj [(''id'', JStr pid), (''type'', JStr (firstNonEmpty ptype ''agent''))])])) StatusCreated"

definition clientAcquire :: "'w net \<Rightarrow> string \<Rightarrow> Client \<Rightarrow> string \<Rightarrow> string \<Rightarrow> string \<Rightarrow> ('w, string + clientExecution) state" where
  "clientAcquire N badJSON c tok res action =
     clientDo N badJSON readExecution noExecution c ''POST'' ''/v1/executions/acquire'' tok
       (Some (JObj [(''action'', JStr (firstNonEmpty action ''purchase'')), (''resource'', JStr res)])) 0"

definition clientRenew :: "'w net \<Rightarrow> string \<Rightarrow> Client \<Rightarrow> string \<Rightarrow> string \<Rightarrow> ('w, string + clientExecution) state" where
  "clientRenew N badJSON c tok i =
     clientDo N badJSON readExecution noExecution c ''POST'' (''/v1/executions/'' @ i @ ''/renew'') tok None StatusOK"

definition clientRelease :: "'w net \<Rightarrow> string \<Rightarrow> Client \<Rightarrow> string \<Rightarrow> string \<Rightarrow> ('w, string + (string \<times> json) list) state" where
  "clientRelease N badJSON c tok i =
     clientDo N badJSON objectOf [] c ''POST'' (''/v1/executions/'' @ i @ ''/release'') tok None StatusOK"

definition clientGet :: "'w net \<Rightarrow> string \<Rightarrow> Client \<Rightarrow> string \<Rightarrow> string \<Rightarrow> ('w, string + clientExecution) state" where
  "clientGet N badJSON c tok i =
     clientDo N badJSON readExecution noExecution c ''GET'' (''/v1/executions/'' @ i) tok None StatusOK"

text \<open>A call that wants one status and is reported as done was answered with it.\<close>

lemma client_answered:
  assumes "fst (run_state (clientDo N badJSON decode zero c meth path tok body want) w) = Inr x" "want \<noteq> 0"
  shows "\<exists>tmo req r w'. nt_Do N tmo req w = (Inr r, w') \<and> ry_Status r = want \<and> og_Method req = meth"
proof -
  define req where "req = \<lparr>og_Method = meth, og_URL = TrimRight (cl_BaseURL c) ''/'' @ path, og_Host = '''',
    og_Header = (let hdr = (if tok \<noteq> '''' then hdrSet ''Authorization'' (''Bearer '' @ tok) [] else []) in
                 if body \<noteq> None then hdrSet ''Content-Type'' ''application/json'' hdr else hdr),
    og_Body = map_option (nt_Marshal N) body\<rparr>"
  define tmo where "tmo = (case cl_HTTP c of Some t \<Rightarrow> t | None \<Rightarrow> 10 * second)"
  obtain out w' where out: "nt_Do N tmo req w = (out, w')" by fastforce
  have "\<exists>r. out = Inr r \<and> ry_Status r = want"
    using assms out unfolding clientDo_def Let_def tmo_def req_def
    by (cases out) (auto split: if_splits option.splits)
  moreover have "og_Method req = meth" by (simp add: req_def)
  ultimately show ?thesis using out by blast
qed

end
