(* ===== verification/Spec2Isabelle.thy ===== *)
theory Spec2Isabelle
  imports Acquire_Props Mutate_Props Findings Ops_Props Policy_Store_Props Limit_Props Cache_Props
    Token_Props Gateway_Props Config_Props Api_Props Fencing Origin_Props Edge_Props Gateway_Findings
    Admin_Check Doctor Demo_Store Commerce
begin

text \<open>
  Verification of the Bruiser gateway (\<open>src/\<close>), an execution-lease service: for every scarce resource a
  merchant sells, a customer may have at most a bounded number of executions (agents, browsers) acting
  at the same time. This theory imports the whole development.

  \<^bold>\<open>The program.\<close> A request reaches the public API (\<open>internal/api/public\<close>), which identifies the customer,
  canonicalises the resource (\<open>internal/resource\<close>), asks the policy (\<open>internal/policy\<close>) for a domain key
  and a capacity, applies the operator's controls and the ramp (\<open>internal/ops\<close>) and the rate limits
  (\<open>internal/limit\<close>), and then acquires a lease through a cache of busy domains
  (\<open>internal/lease/cache.go\<close>) from the Postgres store (\<open>internal/store/postgres\<close>). The store decides
  inside one transaction that locks the domain row: grant, resume, queue or refuse. Every grant takes
  the next fence of its domain. The execution token the client receives is signed (\<open>internal/auth\<close>); the
  merchant's origin checks it with the SDK (\<open>sdk/go\<close>) or like the demo box office (\<open>internal/simtix\<close>), and
  rejects an older fence. Clients that know nothing of leases come through the edge (\<open>internal/edge\<close>) or the
  gateway's reverse proxy, which ask for admission on their behalf.

  \<^bold>\<open>Prelude and vocabulary.\<close>
  \<^item> \<open>Prelude\<close>: time in nanoseconds, column ranges, SQL-style list operations, the errors of the store, and
    the statement monad \<open>dbop\<close>: an operation maps a database and a schedule of connection faults to a
    result, a database and the rest of the schedule. A statement may succeed, fail without effect, or
    take effect and lose its answer; \<open>transact\<close> commits or rolls back, and a commit may be lost as well.
    Every theorem about an operation therefore covers every fault schedule.
  \<^item> \<open>Lease\<close> (\<open>internal/lease/types.go\<close>, \<open>precedence.go\<close>, \<open>internal/id\<close>), \<open>GoStrings\<close> and \<open>GoTime\<close> (the parts
    of Go's \<open>strings\<close>, \<open>unicode/utf8\<close> and \<open>time.ParseDuration\<close> that are used), \<open>Schema\<close> (the tables of
    \<open>migrations/*.sql\<close> as the record \<open>db\<close>, and the shared statements with their constraints).

  \<^bold>\<open>The lease store.\<close>
  \<^item> \<open>Store\<close>: \<open>acquire.go\<close>, \<open>waiters.go\<close>, \<open>mutate.go\<close>, \<open>handoff.go\<close>, statement by statement; \<open>Store_Ops\<close>: \<open>seed.go\<close>,
    \<open>rc1.go\<close>, \<open>ops.go\<close>, \<open>audit.go\<close>; \<open>Store_Policy\<close>: \<open>policy.go\<close>.
  \<^item> \<open>Lease_Steps\<close>, \<open>Store_Inv\<close>, \<open>Store_Steps\<close>: every transaction is a sequence of small lease steps (grant,
    extend, end, queue, leave); the step relation \<open>store_step\<close> has a rule for every operation of the store
    that writes, and \<open>reachable cap t d\<close> are the databases reached from the empty one. The interface the
    rest of the gateway uses is the locale \<open>lease_store\<close>.
  \<^item> \<open>Lock_Spec\<close>, \<open>Store_Refine\<close>: an abstract lock service, and the proof that the store refines it.
  \<^item> \<open>Store_Props\<close>: capacity, mutual exclusion, refinement, monotone fences, immutable history, audit log.
    \<open>Acquire_Props\<close>, \<open>Mutate_Props\<close>: what each operation decides and does, its errors, and that it
    succeeds on a healthy connection. \<open>Ops_Props\<close>: budgets, replay keys, session revocation, controls.
    \<open>Policy_Store_Props\<close>: the version history of policies.

  \<^bold>\<open>In front of the store.\<close>
  \<^item> \<open>Cache\<close>, \<open>Cache_Props\<close>: the busy cache over any \<open>lease_store\<close>: it never causes a grant, answers only from
    valid entries, and asks the store again within a bounded number of calls.
  \<^item> \<open>Limit\<close>, \<open>Limit_Props\<close>: token buckets and in-flight limits, with their bounds.
  \<^item> \<open>Resource\<close>, \<open>Resource_Props\<close>: canonical resource identifiers; \<open>Policy\<close>, \<open>Policy_Props\<close>: compilation and
    evaluation of policies, production safety, separation of customers; \<open>Ops\<close>: controls and ramp.

  \<^bold>\<open>The gateway.\<close>
  \<^item> \<open>Web\<close>: headers, requests, responses, decoded JSON, times as text. \<open>Tokens\<close> (\<open>internal/auth/tokens.go\<close>) over a
    token library \<open>jwt\<close> that is a parameter, with its documented behaviour \<open>jwt_law\<close> (a token verifies exactly when
    the key signed it and it is in time); \<open>Token_Props\<close>: round trip and authenticity of execution tokens.
  \<^item> \<open>Merchant\<close> (\<open>internal/merchant\<close>): profiles, route matching, safety checks; \<open>Identity_Extract\<close>
    (\<open>internal/identity\<close>): who the customer is, from JWTs, headers, signed edge headers, introspection, OIDC;
    \<open>Config\<close> (\<open>internal/config\<close>), \<open>Config_Props\<close>: what a configuration accepted in production guarantees.
  \<^item> \<open>Gateway\<close>: the state of a gateway process (record \<open>server\<close>: database, cache, limiters, controls, compiled
    policy, metrics) and the helpers the handlers share; \<open>Public_Api\<close> (\<open>server.go\<close>), \<open>Authorize\<close> (\<open>authorize.go\<close>,
    \<open>introspect.go\<close>, \<open>proxy.go\<close>), \<open>Admin_Api\<close> (\<open>admin_auth.go\<close>, \<open>admin.go\<close>, \<open>policy.go\<close>): one definition per handler.
    The record \<open>gateway\<close> holds what does not change and the parameters for code outside the repository;
    the record \<open>call\<close> holds what one request draws from outside: clock readings, random bytes, whether the client left.
  \<^item> \<open>Gateway_Steps\<close>: the endpoints as one function \<open>serveHTTP\<close>, and the states \<open>gateway_reach\<close> of gateways that serve
    any requests over one database; every handler keeps the database a reachable state of the store.
    \<open>Gateway_Demo\<close>: a concrete gateway for the witnesses. \<open>Gateway_Props\<close>: capacity for the whole gateway, and that
    nothing is let through to the origin without a lease. \<open>Api_Props\<close>: a watch always answers.

  \<^bold>\<open>The origin's side.\<close>
  \<^item> \<open>Sdk\<close> (\<open>sdk/go/protect.go\<close>), \<open>Origin\<close> (\<open>internal/simtix\<close>), \<open>Edge\<close> (\<open>internal/edge\<close>).
  \<^item> \<open>Fencing\<close>: the locale \<open>fence_guard\<close>, what a memory of fences promises, interpreted on the SDK's cache and (in
    \<open>Origin_Props\<close>) on the box office; a superseded holder is shut out, from the store to the merchant.
    \<open>Origin_Props\<close>: seats are never oversold, and in production allocated only for an execution. \<open>Edge_Props\<close>: what
    an enforcing edge forwards.

  \<^bold>\<open>Around a deployment.\<close>
  \<^item> \<open>Evidence\<close>, \<open>Check\<close>, \<open>Check_Probes\<close>, \<open>Check_Run\<close> (\<open>internal/check\<close>): the authority check, a fixed list of probes against a
    live deployment, with contracts on the evidence of a pass, a report and a certificate. The deployment is a
    parameter (record \<open>net\<close>): a probe is a state transformer over an arbitrary world. \<open>Check_Props\<close>: for every
    deployment, when a certificate is issued, and that no probe passes without the evidence of its contract.
    \<open>Admin_Check\<close>: the endpoint that runs it (\<open>adminRunCheck\<close>).
  \<^item> \<open>Doctor\<close> (\<open>internal/doctor\<close>): the twelve checks of the diagnostic, and what a diagnostic that does not fail guarantees.
  \<^item> \<open>Demo_Store\<close> (\<open>internal/demostore\<close>): the sandbox shop, its books and who may order; \<open>Commerce\<close>: the HTTP clients of
    \<open>internal/adapter\<close> and \<open>sdk/go/client.go\<close>.

  \<open>Findings\<close> and \<open>Gateway_Findings\<close>: runs in which the code does something its documentation does not expect.

  \<^bold>\<open>Choices and bounds.\<close> A transaction runs as one step: it holds the lock of its domain row from its first
  statement on. The start times of the transactions (Postgres' \<open>now()\<close>) are assumed to be ordered like
  the transactions; \<open>stale_clock_two_holders\<close> shows what happens otherwise. Between the statements of
  operations that are not one transaction, other operations may run. The cache steps let its contents
  change arbitrarily, which covers every interleaving of a gateway's requests. \<open>float64\<close> tokens of the rate
  limiter and the fractions of \<open>ParseDuration\<close> are exact rationals. Unicode case mapping is defined on
  ASCII, Latin-1, Greek and Cyrillic. NFKC normalisation, the YAML decoder, the token library, HTTP calls to
  other services and the texts of JSON values are parameters; what is assumed of NFKC is
  \<open>nfkc_law\<close>, of the token library \<open>jwt_law\<close>. The only fuel is that of \<open>watchLoop\<close>: 126 rounds, which
  \<open>watch_answers\<close> shows to be enough because each round waits 200 milliseconds and the deadline is 25 seconds.
  A handler runs as one step of its process; its store operations are the transactions of the store.
  At the box office the check of a fence and its memory are two critical sections with the introspection
  in between; the model runs them without another request in between.

  \<^bold>\<open>Not modelled.\<close> The administrator's reports (status, stream, audit search and export, customer, dry-run
  report) only format what the modelled store operations return; the HTML pages are text. The migration runner,
  connection pool and LISTEN/NOTIFY are I/O, the load and attack generators are test drivers, and the command
  line parses flags and starts the modelled parts.
\<close>

end
